(* ===== verification/Prelude.thy ===== *)
theory Prelude
  imports Main "HOL-Library.Word"
begin

text \<open>
  The prelude of the development: the ways a run of simterpose can go wrong, the
  state-and-fault monad in which every stateful function of the program is written, its
  weakest preconditions, and the invariance calculus that the component theories use.

  A stateful C function of type \<open>T f(args)\<close> becomes a HOL function
  \<open>f args :: ('s, 't) M\<close>: it takes the state and returns either a fault or its result
  together with the state it leaves behind. Sequencing is \<open>bnd\<close> (the result is used)
  and \<open>sq\<close> or \<open>block\<close> (it is not).
\<close>

section \<open>Faults\<close>

text \<open>
  \<open>Null_deref\<close>, \<open>Dangling_ptr\<close>, \<open>Out_of_bounds\<close> and \<open>Uninitialised\<close> are
  the undefined behaviours of C that the code can reach: a dereferenced \<open>NULL\<close>, an
  access to a freed object, an access beyond the size an object was allocated with, and a
  read of a local variable that was never written. The others are the explicit exits of the
  code: \<open>xbt_die\<close>, \<open>xbt_assert\<close>, \<open>THROW_IMPOSSIBLE\<close>,
  \<open>THROW_UNIMPLEMENTED\<close>, an exception of a container operation that nobody catches,
  the macro \<open>SYSERROR\<close> of \<open>ptrace_utils.c\<close>, and \<open>exit\<close>.
  \<open>Diverges\<close> is the outcome of a call that never returns, \<open>Stack_overflow\<close> that of
  calls nested too deep.
\<close>

datatype fault =
    Null_deref | Dangling_ptr | Out_of_bounds | Uninitialised
  | Xbt_die | Xbt_assert | Throw_impossible | Throw_unimplemented | Xbt_exception
  | Syserror | Exit_program int | Diverges | Stack_overflow

section \<open>The monad\<close>

type_synonym ('s, 'a) M = "'s \<Rightarrow> fault + ('a \<times> 's)"

definition ret :: "'a \<Rightarrow> ('s, 'a) M" where
  "ret x = (\<lambda>s. Inr (x, s))"

definition fail :: "fault \<Rightarrow> ('s, 'a) M" where
  "fail e = (\<lambda>s. Inl e)"

definition bnd :: "('s, 'a) M \<Rightarrow> ('a \<Rightarrow> ('s, 'b) M) \<Rightarrow> ('s, 'b) M" where
  "bnd m f = (\<lambda>s. case m s of Inl e \<Rightarrow> Inl e | Inr (x, t) \<Rightarrow> f x t)"

definition sq :: "('s, 'a) M \<Rightarrow> ('s, 'b) M \<Rightarrow> ('s, 'b) M" where
  "sq m n = bnd m (\<lambda>_. n)"

definition gets :: "('s \<Rightarrow> 'a) \<Rightarrow> ('s, 'a) M" where
  "gets f = (\<lambda>s. Inr (f s, s))"

definition modify :: "('s \<Rightarrow> 's) \<Rightarrow> ('s, unit) M" where
  "modify f = (\<lambda>s. Inr ((), f s))"

text \<open>\<open>if (b) { m }\<close> without an else branch.\<close>

definition whenM :: "bool \<Rightarrow> ('s, unit) M \<Rightarrow> ('s, unit) M" where
  "whenM b m = (if b then m else ret ())"

text \<open>A sequence of statements.\<close>

fun block :: "('s, unit) M list \<Rightarrow> ('s, unit) M" where
  "block [] = ret ()"
| "block (m # ms) = sq m (block ms)"

text \<open>The same, followed by \<open>return x\<close>.\<close>

definition block_ret :: "'a \<Rightarrow> ('s, unit) M list \<Rightarrow> ('s, 'a) M" where
  "block_ret x ms = sq (block ms) (ret x)"

text \<open>Dereferencing a pointer that may be \<open>NULL\<close>.\<close>

definition nonnull :: "'p option \<Rightarrow> ('s, 'p) M" where
  "nonnull p = (case p of None \<Rightarrow> fail Null_deref | Some a \<Rightarrow> ret a)"

text \<open>The evaluation rules: a monadic term applied to a state computes by these.\<close>

named_theorems run

lemma run_ret [run]: "ret x s = Inr (x, s)"
  by (simp add: ret_def)

lemma run_fail [run]: "fail e s = Inl e"
  by (simp add: fail_def)

lemma run_bnd [run]: "bnd m f s = (case m s of Inl e \<Rightarrow> Inl e | Inr (x, t) \<Rightarrow> f x t)"
  by (simp add: bnd_def)

lemma run_sq [run]: "sq m n s = (case m s of Inl e \<Rightarrow> Inl e | Inr (x, t) \<Rightarrow> n t)"
  by (simp add: sq_def bnd_def)

lemma run_gets [run]: "gets f s = Inr (f s, s)"
  by (simp add: gets_def)

lemma run_modify [run]: "modify f s = Inr ((), f s)"
  by (simp add: modify_def)

lemma run_whenM [run]: "whenM b m s = (if b then m s else Inr ((), s))"
  by (simp add: whenM_def run_ret)

lemma run_nonnull [run]:
  "nonnull p s = (case p of None \<Rightarrow> Inl Null_deref | Some a \<Rightarrow> Inr (a, s))"
  by (simp add: nonnull_def run_ret run_fail split: option.split)

lemma run_block_ret [run]: "block_ret x ms s = (case block ms s of Inl e \<Rightarrow> Inl e | Inr (y, t) \<Rightarrow> Inr (x, t))"
  by (simp add: block_ret_def run split: sum.split prod.split)

section \<open>Weakest preconditions\<close>

text \<open>
  \<open>wp m Q s\<close>: from \<open>s\<close>, \<open>m\<close> returns without a fault and establishes
  \<open>Q\<close>. \<open>wlp m Q s\<close>: if it returns, then with \<open>Q\<close>.
\<close>

definition wp :: "('s, 'a) M \<Rightarrow> ('a \<Rightarrow> 's \<Rightarrow> bool) \<Rightarrow> 's \<Rightarrow> bool" where
  "wp m Q s = (case m s of Inl e \<Rightarrow> False | Inr (x, t) \<Rightarrow> Q x t)"

definition wlp :: "('s, 'a) M \<Rightarrow> ('a \<Rightarrow> 's \<Rightarrow> bool) \<Rightarrow> 's \<Rightarrow> bool" where
  "wlp m Q s = (case m s of Inl e \<Rightarrow> True | Inr (x, t) \<Rightarrow> Q x t)"

named_theorems wps

lemma wp_ret [wps]: "wp (ret x) Q s = Q x s"
  by (simp add: wp_def run)

lemma wp_fail [wps]: "wp (fail e) Q s = False"
  by (simp add: wp_def run)

lemma wp_bnd [wps]: "wp (bnd m f) Q s = wp m (\<lambda>x. wp (f x) Q) s"
  by (auto simp: wp_def run split: sum.split)

lemma wp_sq [wps]: "wp (sq m n) Q s = wp m (\<lambda>_. wp n Q) s"
  by (simp add: sq_def wp_bnd)

lemma wp_gets [wps]: "wp (gets f) Q s = Q (f s) s"
  by (simp add: wp_def run)

lemma wp_modify [wps]: "wp (modify f) Q s = Q () (f s)"
  by (simp add: wp_def run)

lemma wp_whenM [wps]: "wp (whenM b m) Q s = (if b then wp m Q s else Q () s)"
  by (simp add: wp_def run)

lemma wp_nonnull [wps]: "wp (nonnull p) Q s = (\<exists>a. p = Some a \<and> Q a s)"
  by (simp add: wp_def run split: option.split)

lemma wp_block_Nil [wps]: "wp (block []) Q s = Q () s"
  by (simp add: wps)

lemma wp_block_Cons [wps]: "wp (block (m # ms)) Q s = wp m (\<lambda>_. wp (block ms) Q) s"
  by (simp add: wps)

lemma wp_block_ret [wps]: "wp (block_ret x ms) Q s = wp (block ms) (\<lambda>_. Q x) s"
  by (simp add: block_ret_def wp_sq wp_def run split: sum.split prod.split)

lemma wp_if [wps]: "wp (if b then m else n) Q s = (if b then wp m Q s else wp n Q s)"
  by simp

lemma wpD: "wp m Q s \<Longrightarrow> \<exists>x t. m s = Inr (x, t) \<and> Q x t"
  by (auto simp: wp_def split: sum.splits)

lemma wpI: "m s = Inr (x, t) \<Longrightarrow> Q x t \<Longrightarrow> wp m Q s"
  by (simp add: wp_def)

lemma wp_mono: "wp m P s \<Longrightarrow> (\<And>x t. P x t \<Longrightarrow> Q x t) \<Longrightarrow> wp m Q s"
  by (auto simp: wp_def split: sum.splits)

lemma wlpI: "(\<And>x t. m s = Inr (x, t) \<Longrightarrow> Q x t) \<Longrightarrow> wlp m Q s"
  by (auto simp: wlp_def split: sum.split)

lemma wlpD: "wlp m Q s \<Longrightarrow> m s = Inr (x, t) \<Longrightarrow> Q x t"
  by (simp add: wlp_def)

section \<open>Preserved predicates\<close>

text \<open>
  \<open>keeps I m\<close>: whenever \<open>m\<close> starts in a state that satisfies \<open>I\<close> and returns, the
  state it leaves satisfies \<open>I\<close>. The rules in \<open>keeps\<close> follow the structure of a
  program, so that for a whole handler only its primitive operations are left to look at.
\<close>

definition keeps :: "('s \<Rightarrow> bool) \<Rightarrow> ('s, 'a) M \<Rightarrow> bool" where
  "keeps I m \<longleftrightarrow> (\<forall>s x t. I s \<longrightarrow> m s = Inr (x, t) \<longrightarrow> I t)"

named_theorems keep

lemma keepsI: "(\<And>s x t. I s \<Longrightarrow> m s = Inr (x, t) \<Longrightarrow> I t) \<Longrightarrow> keeps I m"
  by (auto simp: keeps_def)

lemma keepsD: "keeps I m \<Longrightarrow> I s \<Longrightarrow> m s = Inr (x, t) \<Longrightarrow> I t"
  by (auto simp: keeps_def)

lemma keeps_ret [keep]: "keeps I (ret x)"
  by (simp add: keeps_def run)

lemma keeps_fail [keep]: "keeps I (fail e)"
  by (simp add: keeps_def run)

lemma keeps_gets [keep]: "keeps I (gets f)"
  by (simp add: keeps_def run)

lemma keeps_nonnull [keep]: "keeps I (nonnull p)"
  by (simp add: keeps_def run split: option.split)

lemma keeps_bnd [keep]: "keeps I m \<Longrightarrow> (\<And>x. keeps I (f x)) \<Longrightarrow> keeps I (bnd m f)"
proof (rule keepsI)
  fix s y t
  assume m: "keeps I m" and f: "\<And>x. keeps I (f x)" and I: "I s" and eq: "bnd m f s = Inr (y, t)"
  from eq obtain x u where mx: "m s = Inr (x, u)" and fx: "f x u = Inr (y, t)"
    by (auto simp: run_bnd split: sum.splits)
  from keepsD [OF m I mx] have "I u" .
  from keepsD [OF f this fx] show "I t" .
qed

lemma keeps_sq [keep]: "keeps I m \<Longrightarrow> keeps I n \<Longrightarrow> keeps I (sq m n)"
  by (simp add: sq_def keeps_bnd)

lemma keeps_whenM [keep]: "(b \<Longrightarrow> keeps I m) \<Longrightarrow> keeps I (whenM b m)"
  by (simp add: whenM_def keeps_ret)

lemma keeps_if [keep]:
  "(b \<Longrightarrow> keeps I m) \<Longrightarrow> (\<not> b \<Longrightarrow> keeps I n) \<Longrightarrow> keeps I (if b then m else n)"
  by simp

lemma keeps_block_Nil [keep]: "keeps I (block [])"
  by (simp add: keeps_ret)

lemma keeps_block_Cons [keep]: "keeps I m \<Longrightarrow> keeps I (block ms) \<Longrightarrow> keeps I (block (m # ms))"
  by (simp add: keeps_sq)

lemma keeps_block_ret [keep]: "keeps I (block ms) \<Longrightarrow> keeps I (block_ret x ms)"
  by (simp add: block_ret_def keeps_sq keeps_ret)

lemma keeps_option [keep]:
  "(p = None \<Longrightarrow> keeps I m) \<Longrightarrow> (\<And>a. p = Some a \<Longrightarrow> keeps I (f a)) \<Longrightarrow>
     keeps I (case p of None \<Rightarrow> m | Some a \<Rightarrow> f a)"
  by (cases p) auto

lemma keeps_prod [keep]:
  "(\<And>a b. p = (a, b) \<Longrightarrow> keeps I (f a b)) \<Longrightarrow> keeps I (case p of (a, b) \<Rightarrow> f a b)"
  by (cases p) auto

lemma keeps_sum [keep]:
  "(\<And>a. p = Inl a \<Longrightarrow> keeps I (f a)) \<Longrightarrow> (\<And>b. p = Inr b \<Longrightarrow> keeps I (g b)) \<Longrightarrow>
     keeps I (case p of Inl a \<Rightarrow> f a | Inr b \<Rightarrow> g b)"
  by (cases p) auto

lemma keeps_list [keep]:
  "(xs = [] \<Longrightarrow> keeps I m) \<Longrightarrow> (\<And>y ys. xs = y # ys \<Longrightarrow> keeps I (f y ys)) \<Longrightarrow>
     keeps I (case xs of [] \<Rightarrow> m | y # ys \<Rightarrow> f y ys)"
  by (cases xs) auto

lemma keeps_let [keep]: "keeps I (f x) \<Longrightarrow> keeps I (let y = x in f y)"
  by simp

lemma keeps_modify: "(\<And>s. I s \<Longrightarrow> I (f s)) \<Longrightarrow> keeps I (modify f)"
  by (simp add: keeps_def run)

section \<open>Loops\<close>

text \<open>
  \<open>while (1) { body }\<close> with the local variables \<open>l\<close>: the body returns their new
  values (\<open>Inl\<close>) or leaves the loop with a result (\<open>Inr\<close>). A loop that is never
  left has the outcome \<open>Diverges\<close>.
\<close>

partial_function (option) iterate ::
    "('l \<Rightarrow> ('s, 'l + 'a) M) \<Rightarrow> 'l \<Rightarrow> 's \<Rightarrow> (fault + ('a \<times> 's)) option" where
  "iterate body l s = (case body l s of Inl e \<Rightarrow> Some (Inl e)
     | Inr (x, t) \<Rightarrow> (case x of Inr y \<Rightarrow> Some (Inr (y, t)) | Inl l' \<Rightarrow> iterate body l' t))"

definition loopM :: "('l \<Rightarrow> ('s, 'l + 'a) M) \<Rightarrow> 'l \<Rightarrow> ('s, 'a) M" where
  "loopM body l = (\<lambda>s. case iterate body l s of None \<Rightarrow> Inl Diverges | Some r \<Rightarrow> r)"

lemma loopM_unfold:
  "loopM body l s = (case body l s of Inl e \<Rightarrow> Inl e
     | Inr (x, t) \<Rightarrow> (case x of Inr y \<Rightarrow> Inr (y, t) | Inl l' \<Rightarrow> loopM body l' t))"
  unfolding loopM_def by (subst iterate.simps) (simp split: sum.split prod.split)

lemma keeps_loopM [keep]:
  assumes body: "\<And>l. keeps I (body l)"
  shows "keeps I (loopM body l)"
proof (rule keepsI)
  fix s y t
  assume "I s" and "loopM body l s = Inr (y, t)"
  then have "iterate body l s = Some (Inr (y, t))" by (auto simp: loopM_def split: option.splits)
  moreover have "I s \<longrightarrow> (\<forall>l. keeps I (body l)) \<longrightarrow> (case r of Inl e \<Rightarrow> True | Inr (z, u) \<Rightarrow> I u)"
    if "iterate body l s = Some r" for r
  proof (rule iterate.raw_induct
      [where P = "\<lambda>body l s r. I s \<longrightarrow> (\<forall>l. keeps I (body l)) \<longrightarrow> (case r of Inl e \<Rightarrow> True | Inr (z, u) \<Rightarrow> I u)",
        OF _ that])
    fix loop and body :: "'a \<Rightarrow> ('b, 'a + 'c) M" and l s r
    assume IH: "\<And>body l s r. loop body l s = Some r \<Longrightarrow>
        I s \<longrightarrow> (\<forall>l. keeps I (body l)) \<longrightarrow> (case r of Inl e \<Rightarrow> True | Inr (z, u) \<Rightarrow> I u)"
      and step: "(case body l s of Inl e \<Rightarrow> Some (Inl e)
        | Inr (x, t) \<Rightarrow> (case x of Inr y \<Rightarrow> Some (Inr (y, t)) | Inl l' \<Rightarrow> loop body l' t)) = Some r"
    show "I s \<longrightarrow> (\<forall>l. keeps I (body l)) \<longrightarrow> (case r of Inl e \<Rightarrow> True | Inr (z, u) \<Rightarrow> I u)"
    proof (intro impI)
      assume s: "I s" and k: "\<forall>l. keeps I (body l)"
      show "case r of Inl e \<Rightarrow> True | Inr (z, u) \<Rightarrow> I u"
      proof (cases "body l s")
        case (Inr xt)
        obtain x t where xt: "xt = (x, t)" by (cases xt)
        with Inr k keepsD [of I "body l", OF _ s] have "I t" by simp
        with step Inr xt IH k show ?thesis by (cases x) auto
      qed (use step in auto)
    qed
  qed
  ultimately show "I t" using \<open>I s\<close> body by fastforce
qed

end
