(* ===== verification/C_Library.thy ===== *)
theory C_Library
  imports Prelude
begin

unbundle bit_operations_syntax

text \<open>
  What the sources use of C and of its standard library, written out: conversions between
  register words and \<open>int\<close>, little-endian memory, \<open>sprintf\<close> of integers,
  \<open>atoi\<close>, and the address functions \<open>htons\<close>, \<open>ntohs\<close>, \<open>inet_addr\<close>
  and \<open>inet_ntoa\<close>. The machine is the AMD64 of the README: little-endian, 32-bit
  \<open>int\<close>, 64-bit \<open>long\<close> and pointers.
\<close>

section \<open>Integers\<close>

type_synonym u8 = "8 word"
type_synonym u16 = "16 word"
type_synonym u32 = "32 word"
type_synonym u64 = "64 word"

text \<open>The cast \<open>(int) reg\<close> of a register, and the cast back of an \<open>int\<close> to a register.\<close>

definition c_int :: "u64 \<Rightarrow> int" where
  "c_int r = sint (ucast r :: u32)"

definition c_uint :: "u64 \<Rightarrow> u32" where
  "c_uint r = ucast r"

definition of_c_int :: "int \<Rightarrow> u64" where
  "of_c_int i = word_of_int i"

text \<open>The cast of a register to a signed 64-bit type (\<open>long\<close>, \<open>off_t\<close>, \<open>ssize_t\<close>).\<close>

definition c_long :: "u64 \<Rightarrow> int" where
  "c_long r = sint r"

lemma c_int_range: "- (2 ^ 31) \<le> c_int r \<and> c_int r < 2 ^ 31"
  using sint_ge [of "ucast r :: u32"] sint_lt [of "ucast r :: u32"] by (simp add: c_int_def)

lemma c_int_of_c_int: "- (2 ^ 31) \<le> i \<Longrightarrow> i < 2 ^ 31 \<Longrightarrow> c_int (of_c_int i) = i"
  by (simp add: c_int_def of_c_int_def unsigned_of_int signed_of_int signed_take_bit_int_eq_self
      signed_take_bit_take_bit)

section \<open>Little-endian memory\<close>

fun le_bytes :: "nat \<Rightarrow> nat \<Rightarrow> u8 list" where
  "le_bytes 0 v = []"
| "le_bytes (Suc n) v = of_nat v # le_bytes n (v div 256)"

fun le_val :: "u8 list \<Rightarrow> nat" where
  "le_val [] = 0"
| "le_val (b # bs) = unat b + 256 * le_val bs"

lemma length_le_bytes [simp]: "length (le_bytes n v) = n"
  by (induction n arbitrary: v) auto

lemma le_val_bytes: "le_val (le_bytes n v) = v mod 256 ^ n"
proof (induction n arbitrary: v)
  case (Suc n)
  have "v mod 256 + 256 * (v div 256 mod 256 ^ n) = v mod (256 * 256 ^ n)"
    by (metis add.commute mod_mult2_eq)
  with Suc show ?case by (simp add: unat_of_nat)
qed simp

lemma le_bytes_val: "le_bytes (length bs) (le_val bs) = bs"
proof (induction bs)
  case (Cons b bs)
  have "unat b < 256" using unsigned_less [of b] by simp
  moreover have "of_nat (unat b + 256 * le_val bs) = b"
    using \<open>unat b < 256\<close> by (simp add: word_unat_eq_iff unat_of_nat del: of_nat_add of_nat_mult)
  ultimately show ?case using Cons by (simp del: of_nat_add of_nat_mult)
qed simp

lemma le_val_bound: "le_val bs < 256 ^ length bs"
proof (induction bs)
  case (Cons b bs)
  have "unat b < 256" using unsigned_less [of b] by simp
  with Cons show ?case by simp
qed simp

definition bytes64 :: "u64 \<Rightarrow> u8 list" where
  "bytes64 w = le_bytes 8 (unat w)"

definition word64 :: "u8 list \<Rightarrow> u64" where
  "word64 bs = of_nat (le_val bs)"

lemma length_bytes64 [simp]: "length (bytes64 w) = 8"
  by (simp add: bytes64_def)

lemma word64_bytes64 [simp]: "word64 (bytes64 w) = w"
proof -
  have "unat w < 256 ^ 8" using unsigned_less [of w] by simp
  then show ?thesis by (simp add: word64_def bytes64_def le_val_bytes)
qed

lemma bytes64_word64: "length bs = 8 \<Longrightarrow> bytes64 (word64 bs) = bs"
  using le_bytes_val [of bs] le_val_bound [of bs]
  by (simp add: word64_def bytes64_def unat_of_nat)

section \<open>Printing integers\<close>

definition digit_char :: "nat \<Rightarrow> char" where
  "digit_char d = (if d < 16 then ''0123456789abcdef'' ! d else CHR ''?'')"

function digits :: "nat \<Rightarrow> nat \<Rightarrow> string" where
  "digits b n = (if n < b \<or> b < 2 then [digit_char n]
                 else digits b (n div b) @ [digit_char (n mod b)])"
  by pat_completeness auto
termination
  by (relation "measure snd") (auto intro: div_less_dividend)

declare digits.simps [simp del]

text \<open>\<open>sprintf\<close> with \<open>%d\<close> (and \<open>%u\<close>, \<open>%ld\<close>, \<open>%zu\<close> on values already in range).\<close>

definition sprintf_d :: "int \<Rightarrow> string" where
  "sprintf_d i = (if i < 0 then CHR ''-'' # digits 10 (nat (- i)) else digits 10 (nat i))"

text \<open>\<open>%#x\<close> and \<open>%#lx\<close>: no prefix for zero.\<close>

definition sprintf_x :: "nat \<Rightarrow> string" where
  "sprintf_x n = (if n = 0 then ''0'' else ''0x'' @ digits 16 n)"

section \<open>Reading integers\<close>

definition isdigit :: "char \<Rightarrow> bool" where
  "isdigit c \<longleftrightarrow> 48 \<le> (of_char c :: nat) \<and> (of_char c :: nat) \<le> 57"

definition isoctal :: "char \<Rightarrow> bool" where
  "isoctal c \<longleftrightarrow> 48 \<le> (of_char c :: nat) \<and> (of_char c :: nat) \<le> 55"

definition isxdigit :: "char \<Rightarrow> bool" where
  "isxdigit c \<longleftrightarrow> isdigit c \<or> 97 \<le> (of_char c :: nat) \<and> (of_char c :: nat) \<le> 102
     \<or> 65 \<le> (of_char c :: nat) \<and> (of_char c :: nat) \<le> 70"

definition isspace :: "char \<Rightarrow> bool" where
  "isspace c \<longleftrightarrow> (of_char c :: nat) = 32 \<or> 9 \<le> (of_char c :: nat) \<and> (of_char c :: nat) \<le> 13"

definition dval :: "char \<Rightarrow> nat" where
  "dval c = (if isdigit c then of_char c - 48
             else if 97 \<le> (of_char c :: nat) then of_char c - 87 else of_char c - 55)"

definition num_val :: "nat \<Rightarrow> string \<Rightarrow> nat" where
  "num_val b ds = foldl (\<lambda>a c. b * a + dval c) 0 ds"

text \<open>\<open>strtoul\<close> in base 0 on text that starts with a digit: the value and what follows it.\<close>

definition strtoul0 :: "string \<Rightarrow> (nat \<times> string) option" where
  "strtoul0 s =
     (case s of [] \<Rightarrow> None
      | c # r \<Rightarrow>
          if \<not> isdigit c then None
          else if c = CHR ''0'' \<and> r \<noteq> [] \<and> (hd r = CHR ''x'' \<or> hd r = CHR ''X'')
                  \<and> tl r \<noteq> [] \<and> isxdigit (hd (tl r))
          then Some (num_val 16 (takeWhile isxdigit (tl r)), dropWhile isxdigit (tl r))
          else if c = CHR ''0''
          then Some (num_val 8 (takeWhile isoctal s), dropWhile isoctal s)
          else Some (num_val 10 (takeWhile isdigit s), dropWhile isdigit s))"

text \<open>\<open>atoi\<close>: the cast to \<open>int\<close> of \<open>strtol\<close> in base 10.\<close>

definition strtol10 :: "string \<Rightarrow> int" where
  "strtol10 s =
     (let t = dropWhile isspace s;
          neg = (t \<noteq> [] \<and> hd t = CHR ''-'');
          u = (if t \<noteq> [] \<and> (hd t = CHR ''-'' \<or> hd t = CHR ''+'') then tl t else t);
          v = int (num_val 10 (takeWhile isdigit u))
      in if neg then max (- (2 ^ 63)) (- v) else min (2 ^ 63 - 1) v)"

definition atoi :: "string \<Rightarrow> int" where
  "atoi s = sint (word_of_int (strtol10 s) :: u32)"

section \<open>Round trips of printing and reading\<close>

lemma of_char_digit_char: "d < 10 \<Longrightarrow> (of_char (digit_char d) :: nat) = 48 + d"
  by (auto simp: digit_char_def less_Suc_eq eval_nat_numeral)

lemma isdigit_digit_char: "d < 10 \<Longrightarrow> isdigit (digit_char d)"
  by (simp add: isdigit_def of_char_digit_char)

lemma dval_digit_char: "d < 10 \<Longrightarrow> dval (digit_char d) = d"
  by (simp add: dval_def isdigit_digit_char of_char_digit_char)

lemma digits_not_Nil: "digits b n \<noteq> []"
  by (subst digits.simps) simp

lemma digits10_isdigit: "c \<in> set (digits 10 n) \<Longrightarrow> isdigit c"
proof (induction n rule: less_induct)
  case (less n)
  show ?case
  proof (cases "n < 10")
    case True
    with less.prems show ?thesis by (simp add: digits.simps [of 10 n] isdigit_digit_char)
  next
    case False
    with less.prems have "c \<in> set (digits 10 (n div 10)) \<or> c = digit_char (n mod 10)"
      by (auto simp: digits.simps [of 10 n])
    with False less.IH [of "n div 10"] show ?thesis
      by (auto simp: isdigit_digit_char)
  qed
qed

lemma num_val_digits: "num_val 10 (digits 10 n) = n"
proof (induction n rule: less_induct)
  case (less n)
  show ?case
  proof (cases "n < 10")
    case True
    then show ?thesis by (simp add: digits.simps [of 10 n] num_val_def dval_digit_char)
  next
    case False
    with less.IH [of "n div 10"] show ?thesis
      by (simp add: digits.simps [of 10 n] num_val_def dval_digit_char)
  qed
qed

lemma hd_digits10: "0 < n \<Longrightarrow> hd (digits 10 n) \<noteq> CHR ''0''"
proof (induction n rule: less_induct)
  case (less n)
  show ?case
  proof (cases "n < 10")
    case True
    with less.prems have "(of_char (hd (digits 10 n)) :: nat) = 48 + n"
      by (simp add: digits.simps [of 10 n] of_char_digit_char)
    with less.prems show ?thesis by (auto simp del: of_char_eq_iff)
  next
    case False
    with less.IH [of "n div 10"] show ?thesis
      by (simp add: digits.simps [of 10 n] digits_not_Nil)
  qed
qed

lemma digits10_0: "digits 10 0 = ''0''"
  by (simp add: digits.simps [of 10 0] digit_char_def)

lemma hd_digits_isdigit: "isdigit (hd (digits 10 n))"
  by (rule digits10_isdigit [of _ n]) (simp add: digits_not_Nil)

text \<open>\<open>sprintf\<close> with \<open>%d\<close> is injective: two different ports never share a dictionary key.\<close>

lemma sprintf_d_inj: "sprintf_d i = sprintf_d j \<longleftrightarrow> i = j"
proof
  assume eq: "sprintf_d i = sprintf_d j"
  have minus: "CHR ''-'' # xs \<noteq> digits 10 n" for xs n
  proof
    assume "CHR ''-'' # xs = digits 10 n"
    then have "isdigit (CHR ''-'')" using hd_digits_isdigit [of n] by (metis list.sel(1))
    then show False by (simp add: isdigit_def)
  qed
  from eq minus minus [symmetric] have "(i < 0) = (j < 0)"
    by (auto simp: sprintf_d_def split: if_splits)
  with eq have "digits 10 (nat \<bar>i\<bar>) = digits 10 (nat \<bar>j\<bar>)"
    by (auto simp: sprintf_d_def split: if_splits)
  then have "nat \<bar>i\<bar> = nat \<bar>j\<bar>" by (metis num_val_digits)
  with \<open>(i < 0) = (j < 0)\<close> show "i = j" by linarith
qed simp

lemma length_digits10: "n < 10 ^ k \<Longrightarrow> 0 < k \<Longrightarrow> length (digits 10 n) \<le> k"
proof (induction k arbitrary: n)
  case (Suc k)
  show ?case
  proof (cases "n < 10")
    case True
    then show ?thesis by (simp add: digits.simps [of 10 n])
  next
    case False
    with Suc.prems have "n div 10 < 10 ^ k" "0 < k"
      by (auto intro: gr0I)
    with False Suc.IH [of "n div 10"] show ?thesis
      by (simp add: digits.simps [of 10 n])
  qed
qed simp

lemma takeWhile_all_append:
  "(\<And>c. c \<in> set xs \<Longrightarrow> P c) \<Longrightarrow> (ys = [] \<or> \<not> P (hd ys)) \<Longrightarrow>
     takeWhile P (xs @ ys) = xs \<and> dropWhile P (xs @ ys) = ys"
  by (induction xs) (auto simp: takeWhile_eq_Nil_iff dropWhile_eq_self_iff)

lemma isdigit_not_octal_x: "isdigit c \<Longrightarrow> c \<noteq> CHR ''x'' \<and> c \<noteq> CHR ''X'' \<and> c \<noteq> CHR ''-''"
  by (auto simp: isdigit_def)

lemma strtoul0_digits:
  assumes "rest = [] \<or> (of_char (hd rest) :: nat) < 48"
  shows "strtoul0 (digits 10 n @ rest) = Some (n, rest)"
proof (cases "n = 0")
  case True
  from assms have "rest = [] \<or> hd rest \<noteq> CHR ''x'' \<and> hd rest \<noteq> CHR ''X''" by auto
  moreover from assms have "takeWhile isoctal (CHR ''0'' # rest) = ''0''"
    "dropWhile isoctal (CHR ''0'' # rest) = rest"
    using takeWhile_all_append [of "''0''" isoctal rest] by (auto simp: isoctal_def)
  ultimately show ?thesis using True
    by (auto simp: strtoul0_def digits10_0 isdigit_def num_val_def dval_def)
next
  case False
  have tw: "takeWhile isdigit (digits 10 n @ rest) = digits 10 n"
    "dropWhile isdigit (digits 10 n @ rest) = rest"
    using assms takeWhile_all_append [of "digits 10 n" isdigit rest] digits10_isdigit
    by (auto simp: isdigit_def)
  obtain c r where c: "digits 10 n = c # r" by (meson digits_not_Nil neq_Nil_conv)
  with False hd_digits10 [of n] hd_digits_isdigit [of n] have "isdigit c" "c \<noteq> CHR ''0''" by auto
  with tw c num_val_digits [of n] show ?thesis by (auto simp: strtoul0_def)
qed

lemma atoi_sprintf_d: "0 \<le> i \<Longrightarrow> i < 2 ^ 31 \<Longrightarrow> atoi (sprintf_d i) = i"
proof -
  assume i: "0 \<le> i" "i < 2 ^ 31"
  obtain c r where c: "digits 10 (nat i) = c # r" by (meson digits_not_Nil neq_Nil_conv)
  with hd_digits_isdigit [of "nat i"] have d: "isdigit c" by simp
  then have ns: "\<not> isspace c" "c \<noteq> CHR ''-''" "c \<noteq> CHR ''+''"
    by (auto simp: isdigit_def isspace_def)
  have "takeWhile isdigit (c # r) = c # r"
    using c digits10_isdigit [of _ "nat i"] by (simp add: takeWhile_eq_all_conv)
  with c ns have "strtol10 (sprintf_d i) = min (2 ^ 63 - 1) i"
    using i num_val_digits [of "nat i"] by (simp add: strtol10_def sprintf_d_def Let_def)
  with i show ?thesis
    by (simp add: atoi_def signed_of_int signed_take_bit_int_eq_self)
qed

end
