(* ===== verification/Inet.thy ===== *)
theory Inet
  imports C_Library
begin

unbundle bit_operations_syntax

text \<open>
  Internet addresses as the C library handles them: byte order of ports, the textual form of
  an IPv4 address in both directions, and the layout of \<open>struct sockaddr_in\<close> and
  \<open>struct sockaddr_nl\<close> in memory. An address \<open>in_addr_t\<close> is the 32-bit number
  whose first byte in memory is the first number of the dotted form.
\<close>

section \<open>Byte order of ports\<close>

definition htons :: "u16 \<Rightarrow> u16" where
  "htons x = push_bit 8 x OR drop_bit 8 x"

definition ntohs :: "u16 \<Rightarrow> u16" where
  "ntohs x = push_bit 8 x OR drop_bit 8 x"

lemma ntohs_htons [simp]: "ntohs (htons x) = x"
  by (rule bit_word_eqI) (auto simp: htons_def ntohs_def bit_simps)

lemma htons_ntohs [simp]: "htons (ntohs x) = x"
  by (rule bit_word_eqI) (auto simp: htons_def ntohs_def bit_simps)

text \<open>\<open>ntohs(p)\<close> assigned to an \<open>int\<close>, and \<open>htons\<close> of an \<open>int\<close>.\<close>

definition port_of :: "u16 \<Rightarrow> int" where
  "port_of p = uint (ntohs p)"

definition of_port :: "int \<Rightarrow> u16" where
  "of_port i = htons (word_of_int i)"

lemma port_of_of_port: "0 \<le> i \<Longrightarrow> i < 65536 \<Longrightarrow> port_of (of_port i) = i"
  by (simp add: port_of_def of_port_def unsigned_of_int take_bit_int_eq_self)

lemma of_port_port_of [simp]: "of_port (port_of p) = p"
  by (simp add: port_of_def of_port_def)

lemma port_of_range: "0 \<le> port_of p \<and> port_of p < 65536"
  using uint_lt2p [of "ntohs p"] by (simp add: port_of_def)

section \<open>Textual addresses\<close>

definition inet_ntoa :: "u32 \<Rightarrow> string" where
  "inet_ntoa ip =
     (let b = map unat (le_bytes 4 (unat ip))
      in digits 10 (b ! 0) @ CHR ''.'' # digits 10 (b ! 1) @ CHR ''.'' #
         digits 10 (b ! 2) @ CHR ''.'' # digits 10 (b ! 3))"

definition INADDR_NONE :: u32 where
  "INADDR_NONE = 0xFFFFFFFF"

definition INADDR_ANY :: u32 where
  "INADDR_ANY = 0"

text \<open>
  \<open>inet_addr\<close> takes one to four numbers in the notation of C constants; the last number
  fills the bytes the others leave, and white space may follow it.
\<close>

fun inet_parts :: "nat \<Rightarrow> string \<Rightarrow> nat list option" where
  "inet_parts 0 s = None"
| "inet_parts (Suc k) s =
     (case strtoul0 s of
        None \<Rightarrow> None
      | Some (v, rest) \<Rightarrow>
          (case rest of
             [] \<Rightarrow> Some [v]
           | c # r \<Rightarrow>
               if c = CHR ''.'' then
                 (if 255 < v \<or> k = 0 then None
                  else map_option (\<lambda>ps. v # ps) (inet_parts k r))
               else if isspace c then Some [v] else None))"

definition inet_addr :: "string \<Rightarrow> u32" where
  "inet_addr s =
     (case inet_parts 4 s of
        None \<Rightarrow> INADDR_NONE
      | Some ps \<Rightarrow>
          (let n = length ps; v = last ps;
               high = foldl (\<lambda>a p. 256 * a + p) 0 (butlast ps);
               host = high * 256 ^ (5 - n) + v
           in if 256 ^ (5 - n) \<le> v then INADDR_NONE
              else of_nat (le_val (rev (le_bytes 4 host)))))"

text \<open>The address \<open>inet_addr("127.0.0.1")\<close> that the sources compare with.\<close>

definition loopback :: u32 where
  "loopback = 0x0100007F"

lemma inet_parts_dot:
  "k \<noteq> 0 \<Longrightarrow> v \<le> 255 \<Longrightarrow>
     inet_parts (Suc k) (digits 10 v @ CHR ''.'' # r) = map_option (\<lambda>ps. v # ps) (inet_parts k r)"
  using strtoul0_digits [of "CHR ''.'' # r" v] by simp

lemma inet_parts_last: "inet_parts (Suc k) (digits 10 v) = Some [v]"
  using strtoul0_digits [of "[]" v] by simp

lemma four: "(4::nat) = Suc (Suc (Suc (Suc 0)))"
  by simp

lemma le_bytes4:
  "le_bytes 4 v = [of_nat v, of_nat (v div 256), of_nat (v div 256 div 256),
     of_nat (v div 256 div 256 div 256)]"
  unfolding four by simp

lemma unat_lt2p8: "unat (x :: u8) < 256"
  using unsigned_less [of x] by simp

lemma unat_lt2p32: "unat (x :: u32) < 4294967296"
  using unsigned_less [of x] by simp

lemma le_bytes_step:
  assumes "y \<le> 255"
  shows "le_bytes (Suc n) (256 * x + y) = of_nat y # le_bytes n x"
proof -
  have "(of_nat (256 * x + y) :: u8) = of_nat y"
    using assms by (simp add: word_unat_eq_iff unat_of_nat del: of_nat_add of_nat_mult)
  with assms show ?thesis by (simp del: of_nat_add of_nat_mult)
qed

lemma unat_byte: "y \<le> 255 \<Longrightarrow> unat (of_nat y :: u8) = y"
  by (simp add: unat_of_nat)

lemma inet_addr_quad:
  assumes "a \<le> 255" "b \<le> 255" "c \<le> 255" "d \<le> 255"
  shows "inet_addr (digits 10 a @ CHR ''.'' # digits 10 b @ CHR ''.'' #
           digits 10 c @ CHR ''.'' # digits 10 d)
         = of_nat (a + 256 * (b + 256 * (c + 256 * d)))"
proof -
  have ps: "inet_parts 4 (digits 10 a @ CHR ''.'' # digits 10 b @ CHR ''.'' #
           digits 10 c @ CHR ''.'' # digits 10 d) = Some [a, b, c, d]"
    unfolding four using assms by (simp add: inet_parts_dot inet_parts_last del: inet_parts.simps)
  have "le_bytes 4 (256 * (256 * (256 * (256 * 0 + a) + b) + c) + d)
      = [of_nat d, of_nat c, of_nat b, of_nat a]"
    unfolding four by (simp only: le_bytes_step assms le_bytes.simps(1))
  then have "le_val (rev (le_bytes 4 (256 * (256 * (256 * a + b) + c) + d)))
      = a + 256 * (b + 256 * (c + 256 * d))"
    using assms by (simp add: unat_byte)
  moreover have "(a * 65536 + b * 256 + c) * 256 + d = 256 * (256 * (256 * a + b) + c) + d"
    by simp
  ultimately show ?thesis using ps assms
    by (simp add: inet_addr_def Let_def mult.commute [of c 256])
qed

text \<open>
  \<open>inet_addr(inet_ntoa(in))\<close> is the address itself. The sources rely on this in
  \<open>set_localaddr_port_socket\<close>, which takes the address as text.
\<close>

lemma inet_addr_inet_ntoa: "inet_addr (inet_ntoa ip) = ip"
proof -
  obtain p q r s where b: "le_bytes 4 (unat ip) = [p, q, r, s]"
    by (simp add: le_bytes4)
  have le: "unat x \<le> 255" for x :: u8
    using unat_lt2p8 [of x] by simp
  have "unat p + 256 * (unat q + 256 * (unat r + 256 * unat s)) = unat ip"
    using le_val_bytes [of 4 "unat ip"] unat_lt2p32 [of ip] b by simp
  then show ?thesis
    using inet_addr_quad [OF le le le le, of p q r s] b
    by (simp add: inet_ntoa_def)
qed

lemma inet_ntoa_inj: "inet_ntoa a = inet_ntoa b \<longleftrightarrow> a = b"
  by (metis inet_addr_inet_ntoa)

lemma loopback_text: "inet_addr ''127.0.0.1'' = loopback"
proof -
  have "inet_ntoa loopback = ''127.0.0.1''"
    by (simp add: inet_ntoa_def loopback_def le_bytes4 digits.simps digit_char_def)
  then show ?thesis using inet_addr_inet_ntoa [of loopback] by simp
qed

section \<open>Socket addresses in memory\<close>

definition AF_INET :: u16 where
  "AF_INET = 2"

record sockaddr_in =
  sin_family :: u16
  sin_port :: u16
  s_addr :: u32
  sin_zero :: "u8 list"

definition sizeof_sockaddr_in :: nat where
  "sizeof_sockaddr_in = 16"

definition decode_sockaddr_in :: "u8 list \<Rightarrow> sockaddr_in" where
  "decode_sockaddr_in bs =
     \<lparr>sin_family = of_nat (le_val (take 2 bs)), sin_port = of_nat (le_val (take 2 (drop 2 bs))),
      s_addr = of_nat (le_val (take 4 (drop 4 bs))), sin_zero = take 8 (drop 8 bs)\<rparr>"

definition encode_sockaddr_in :: "sockaddr_in \<Rightarrow> u8 list" where
  "encode_sockaddr_in a =
     le_bytes 2 (unat (sin_family a)) @ le_bytes 2 (unat (sin_port a)) @
     le_bytes 4 (unat (s_addr a)) @ sin_zero a"

lemma unat_lt2p16: "unat (x :: u16) < 65536"
  using unsigned_less [of x] by simp

lemma length_encode_sockaddr_in:
  "length (sin_zero a) = 8 \<Longrightarrow> length (encode_sockaddr_in a) = sizeof_sockaddr_in"
  by (simp add: encode_sockaddr_in_def sizeof_sockaddr_in_def)

lemma decode_encode_sockaddr_in:
  "length (sin_zero a) = 8 \<Longrightarrow> decode_sockaddr_in (encode_sockaddr_in a) = a"
  using unat_lt2p16 [of "sin_family a"] unat_lt2p16 [of "sin_port a"] unat_lt2p32 [of "s_addr a"]
  by (cases a) (simp add: decode_sockaddr_in_def encode_sockaddr_in_def le_val_bytes)

text \<open>\<open>memset\<close> to zero followed by the three assignments of \<open>comm_accept_connect\<close>.\<close>

definition inet_sockaddr :: "u32 \<Rightarrow> int \<Rightarrow> sockaddr_in" where
  "inet_sockaddr ip port =
     \<lparr>sin_family = AF_INET, sin_port = of_port port, s_addr = ip, sin_zero = replicate 8 0\<rparr>"

end
