(* ===== verification/State.thy ===== *)
theory State
  imports Inet
begin

text \<open>
  The state of simterpose: the structures of \<open>process_descriptor.h\<close>,
  \<open>sockets.h\<close>, \<open>communication.h\<close>, \<open>simterpose.h\<close> and the globals of
  \<open>data_utils.c\<close>, \<open>sockets.c\<close> and \<open>communication.c\<close>.

  Heap objects that the code shares through pointers live in maps from addresses; an
  address absent from its map is one that was never allocated or has been freed, and an
  access to it is the fault \<open>Dangling_ptr\<close>. A pointer that may be \<open>NULL\<close> is an
  \<open>option\<close>. Objects with a single owner (the two \<open>recv_information\<close> of a
  communication, the entries of a pipe end, a port descriptor in its dictionary) are
  values inside their owner.

  The containers of the xbt library are represented by their contents: a dynar and a fifo
  by a list, a dictionary by a map. The code of SimGrid and of the kernel is not part of
  the sources; its functions are the fields of the record \<open>env\<close>, an argument of every
  definition that calls them.
\<close>

section \<open>Handles\<close>

type_synonym proc_ptr = nat   \<comment> \<open>\<open>process_descriptor_t *\<close>\<close>
type_synonym fd_ptr = nat     \<comment> \<open>\<open>fd_descriptor_t *\<close> and \<open>struct infos_socket *\<close>\<close>
type_synonym comm_ptr = nat   \<comment> \<open>\<open>comm_t\<close>\<close>
type_synonym pipe_ptr = nat   \<comment> \<open>\<open>pipe_t *\<close>\<close>
type_synonym stream_ptr = nat \<comment> \<open>\<open>stream_t *\<close>\<close>
type_synonym timer_ptr = nat  \<comment> \<open>\<open>xbt_cpu_timer_t\<close>\<close>

type_synonym msg_host = nat
type_synonym msg_process = nat
type_synonym msg_sem = nat
type_synonym msg_task = nat
type_synonym msg_comm = nat

text \<open>A \<open>void *\<close> to message data: a buffer of the simulator, or an address of the traced process.\<close>

datatype cdata = Null_data | Buffer "u8 list" | Tracee_addr u64

section \<open>process\_descriptor.h\<close>

definition PROC_STATE_MASK :: u32 where "PROC_STATE_MASK = 0x00FFF0"

definition FD_STDIN :: int where "FD_STDIN = 0x00"
definition FD_STDOUT :: int where "FD_STDOUT = 0x01"
definition FD_STDERR :: int where "FD_STDERR = 0x02"
definition FD_CLASSIC :: int where "FD_CLASSIC = 0x04"
definition FD_SOCKET :: int where "FD_SOCKET = 0x08"
definition FD_PIPE :: int where "FD_PIPE = 0x10"

lemmas fd_types = FD_STDIN_def FD_STDOUT_def FD_STDERR_def FD_CLASSIC_def FD_SOCKET_def FD_PIPE_def

record stream_t =
  sem_client :: "msg_sem option"
  sem_server :: "msg_sem option"
  client :: "msg_process option"
  server :: "msg_process option"
  to_client :: "string option"
  to_server :: "string option"

record pipe_end_s =
  end_fd :: int
  end_proc :: proc_ptr

record pipe_t =
  read_end :: "pipe_end_s list"
  write_end :: "pipe_end_s list"

text \<open>
  \<open>struct infos_socket\<close> starts with an \<open>fd_descriptor_t\<close>, and the code casts
  between the two. One heap object is an \<open>fd_descriptor_t\<close> whose field
  \<open>as_socket\<close> holds the rest of the socket structure when the object was allocated as
  a socket, and nothing when it was allocated as a plain descriptor.
\<close>

record infos_socket =
  is_comm :: "comm_ptr option"
  is_host :: "msg_host option"
  is_domain :: int
  is_protocol :: int
  ip_local :: u32
  port_local :: int
  is_flags :: u32
  is_type :: int
  is_option :: u32
  is_binded :: int
  ref_nb :: int

record fd_descriptor_t =
  fd_type :: int
  fd_proc :: proc_ptr
  fd_fd :: int
  fd_stream :: "stream_ptr option"
  fd_pipe :: "pipe_ptr option"
  fd_flags :: u32
  fd_mode :: int
  fd_refcount :: int
  fd_offset :: int
  fd_lock :: int
  fd_ltype :: int
  fd_begin :: int
  fd_end :: int
  fd_proc_locker :: int
  fd_sig_id :: int
  as_socket :: "infos_socket option"

record process_descriptor =
  p_pid :: int
  p_name :: string
  p_host :: "msg_host option"
  fd_map :: "int \<rightharpoonup> fd_ptr"
  p_status :: u32
  in_syscall :: bool
  strace_out :: "string option"
  curcol :: int

section \<open>sockets.h and communication.h\<close>

definition SOCKET_READ_OK :: u32 where "SOCKET_READ_OK = 0x0001"
definition SOCKET_CLOSED :: u32 where "SOCKET_CLOSED = 0x0002"
definition SOCKET_WR_NBLK :: u32 where "SOCKET_WR_NBLK = 0x0004"
definition SOCKET_SHUT :: u32 where "SOCKET_SHUT = 0x0008"
definition SOCK_OPT_REUSEADDR :: u32 where "SOCK_OPT_REUSEADDR = 0x0001"

lemmas socket_bits = SOCKET_READ_OK_def SOCKET_CLOSED_def SOCKET_WR_NBLK_def SOCKET_SHUT_def

definition COMM_OPEN :: int where "COMM_OPEN = 0x001"
definition COMM_CLOSED :: int where "COMM_CLOSED = 0x002"
definition COMM_LISTEN :: int where "COMM_LISTEN = 0x004"
definition COMM_SHUT :: int where "COMM_SHUT = 0x008"

lemmas comm_states = COMM_OPEN_def COMM_CLOSED_def COMM_LISTEN_def COMM_SHUT_def

record task_comm_info =
  tci_task :: msg_task
  sender_host :: "msg_host option"

text \<open>
  What \<open>data_fifo\<close> holds: a \<open>data_send_s\<close> in the full-mediation build, an
  \<open>int *\<close> in the address-translation build.
\<close>

datatype fifo_data = Data_send cdata int | Data_sock int

record recv_information =
  data_fifo :: "fifo_data list"
  recv_task :: "task_comm_info list"
  quantity_recv :: int

record comm_info =
  ci_socket :: "fd_ptr option"
  ci_recv :: recv_information

record comm_s =
  remote_ip :: u32
  remote_port :: int
  info0 :: comm_info
  info1 :: comm_info
  comm_state :: int
  conn_wait :: "comm_ptr list"
  comm_ref_nb :: int

section \<open>simterpose.h and the globals of data\_utils.c\<close>

definition PORT_BIND :: u32 where "PORT_BIND = 0x1"
definition PORT_LOCAL :: u32 where "PORT_LOCAL = 0x2"
definition PORT_REMOTE :: u32 where "PORT_REMOTE = 0x4"

lemmas port_bits = PORT_BIND_def PORT_LOCAL_def PORT_REMOTE_def

record port_desc =
  port_num :: int
  real_port :: int
  port_option :: u32
  amount_socket :: int
  bind_socket :: "fd_ptr option"

record translate_desc =
  td_port_num :: int
  td_ip :: u32

record simterpose_host =
  host_ip :: u32
  host_port :: "string \<rightharpoonup> port_desc"

record simterpose_globals =
  list_host :: "string \<rightharpoonup> simterpose_host"
  list_ip :: "string \<rightharpoonup> string"
  list_translate :: "string \<rightharpoonup> translate_desc"
  nb_peek :: int
  nb_poke :: int
  nb_getregs :: int
  nb_setregs :: int
  nb_syscall :: int
  nb_setoptions :: int
  nb_detach :: int
  nb_geteventmsg :: int

section \<open>cputimer.c\<close>

text \<open>
  The request that the timer sends over netlink: \<open>struct nlmsghdr\<close> and
  \<open>struct genlmsghdr\<close> of the kernel headers, and a buffer of \<open>MAX_MSG_SIZE\<close> bytes.
\<close>

record nlmsghdr =
  nlmsg_len :: u32
  nlmsg_type :: u16
  nlmsg_flags :: u16
  nlmsg_seq :: u32
  nlmsg_pid :: u32

record genlmsghdr =
  genl_cmd :: u8
  genl_version :: u8
  genl_reserved :: u16

record msgtemplate =
  msg_n :: nlmsghdr
  msg_g :: genlmsghdr
  msg_buf :: "u8 list"

record s_xbt_cpu_timer =
  timer_pid :: int
  timer_msg :: msgtemplate
  nl_sd :: int
  timer_id :: u16

section \<open>The whole state\<close>

text \<open>
  \<open>'w\<close> is the state of what lies outside the program: the kernel with the traced
  processes, and the SimGrid engine.
\<close>

record 'w st =
  procs :: "proc_ptr \<rightharpoonup> process_descriptor"
  fds :: "fd_ptr \<rightharpoonup> fd_descriptor_t"
  comms :: "comm_ptr \<rightharpoonup> comm_s"
  pipes :: "pipe_ptr \<rightharpoonup> pipe_t"
  streams :: "stream_ptr \<rightharpoonup> stream_t"
  timers :: "timer_ptr \<rightharpoonup> s_xbt_cpu_timer"
  next_ptr :: nat
  comm_list :: "comm_ptr list"
  all_sockets :: "fd_ptr list"
  global_data :: simterpose_globals
  global_timer :: "timer_ptr option"
  strace_option :: bool
  clone_number :: int
  binding_port :: u16   \<comment> \<open>\<open>static unsigned short port\<close> of \<open>ptrace_find_free_binding_port\<close>\<close>
  world :: 'w

section \<open>Registers of a traced process\<close>

record reg_s =
  reg_orig :: u64
  reg_ret :: u64
  arg0 :: u64
  arg1 :: u64
  arg2 :: u64
  arg3 :: u64
  arg4 :: u64
  arg5 :: u64

text \<open>\<open>struct user_regs_struct\<close>: the registers the code names, and the others.\<close>

record user_regs =
  orig_rax :: u64
  rax :: u64
  rdi :: u64
  rsi :: u64
  rdx :: u64
  r10 :: u64
  r8 :: u64
  r9 :: u64
  rip :: u64
  other_regs :: "u64 list"

section \<open>The code outside the sources\<close>

text \<open>
  A \<open>None\<close> result of a ptrace request is the return value \<open>-1\<close> with \<open>errno\<close>
  set. A SimGrid call that can block the calling simulated process is a function of the
  whole state, because the other simulated processes run before it returns.
  \<open>address_translation\<close> is the preprocessor symbol that selects the build.
  \<open>stack_address\<close> is the address of a local variable of the simulator, for the code that
  uses one as an address in the traced process.
\<close>

datatype msg_error = MSG_OK | MSG_TIMEOUT | MSG_FAILURE

record 'w env =
  address_translation :: bool
  MSG_host_get_name :: "msg_host \<Rightarrow> string"
  MSG_get_host_by_name :: "string \<Rightarrow> msg_host option"
  MSG_hosts_as_dynar :: "msg_host list"
  MSG_host_get_property_ip :: "msg_host \<Rightarrow> string option"
  MSG_host_self :: "'w \<Rightarrow> msg_host"
  MSG_process_self :: "'w \<Rightarrow> msg_process"
  MSG_get_clock :: "'w \<Rightarrow> u64"
  MSG_sem_init :: "int \<Rightarrow> 'w \<Rightarrow> msg_sem \<times> 'w"
  MSG_sem_acquire :: "msg_sem \<Rightarrow> 'w st \<Rightarrow> 'w st"
  MSG_sem_release :: "msg_sem \<Rightarrow> 'w \<Rightarrow> 'w"
  MSG_task_create :: "string \<Rightarrow> int \<Rightarrow> cdata \<Rightarrow> 'w \<Rightarrow> msg_task \<times> 'w"
  MSG_parallel_task_create :: "string \<Rightarrow> msg_host option list \<Rightarrow> int \<Rightarrow> int \<Rightarrow> 'w \<Rightarrow> msg_task \<times> 'w"
  MSG_task_set_bytes_amount :: "msg_task \<Rightarrow> int \<Rightarrow> 'w \<Rightarrow> 'w"
  MSG_task_set_data :: "msg_task \<Rightarrow> cdata \<Rightarrow> 'w \<Rightarrow> 'w"
  MSG_task_get_bytes_amount :: "msg_task \<Rightarrow> 'w \<Rightarrow> int"
  MSG_task_get_data :: "msg_task \<Rightarrow> 'w \<Rightarrow> cdata"
  MSG_task_destroy :: "msg_task \<Rightarrow> 'w \<Rightarrow> 'w"
  MSG_task_send :: "msg_task \<Rightarrow> string \<Rightarrow> 'w st \<Rightarrow> 'w st"
  MSG_task_receive :: "string \<Rightarrow> 'w st \<Rightarrow> (msg_error \<times> msg_task option) \<times> 'w st"
  MSG_task_irecv :: "string \<Rightarrow> 'w st \<Rightarrow> msg_comm \<times> 'w st"
  MSG_comm_wait :: "msg_comm \<Rightarrow> int \<Rightarrow> 'w st \<Rightarrow> msg_error \<times> 'w st"
  MSG_process_create :: "string \<Rightarrow> proc_ptr \<Rightarrow> msg_host \<Rightarrow> 'w \<Rightarrow> 'w"
  MSG_process_self_name :: "'w \<Rightarrow> string"
  PTRACE_PEEKDATA :: "int \<Rightarrow> u64 \<Rightarrow> 'w \<Rightarrow> u64 option"
  PTRACE_POKEDATA :: "int \<Rightarrow> u64 \<Rightarrow> u64 \<Rightarrow> 'w \<Rightarrow> 'w option"
  PTRACE_GETREGS :: "int \<Rightarrow> 'w \<Rightarrow> user_regs option"
  PTRACE_SETREGS :: "int \<Rightarrow> user_regs \<Rightarrow> 'w \<Rightarrow> 'w option"
  PTRACE_SYSCALL :: "int \<Rightarrow> 'w \<Rightarrow> 'w option"
  PTRACE_DETACH :: "int \<Rightarrow> 'w \<Rightarrow> 'w option"
  PTRACE_GETEVENTMSG :: "int \<Rightarrow> 'w \<Rightarrow> u64 option"
  sys_waitpid :: "int \<Rightarrow> 'w \<Rightarrow> (int \<times> u32) \<times> 'w"
  PTRACE_SETOPTIONS :: "int \<Rightarrow> 'w \<Rightarrow> 'w option"
  sys_fork :: "'w \<Rightarrow> int \<times> 'w"
  proc_self_fd :: "'w \<Rightarrow> string list \<times> int"
  fopen_w :: "string \<Rightarrow> 'w \<Rightarrow> bool \<times> 'w"
  read_file :: "string \<Rightarrow> 'w \<Rightarrow> u8 list option"
  readlink :: "string \<Rightarrow> 'w \<Rightarrow> u8 list option"
  stack_address :: u64
  strerror :: "int \<Rightarrow> string"
  dict_order :: "(int \<rightharpoonup> fd_ptr) \<Rightarrow> int list"

end
