(* ===== verification/Heap.thy ===== *)
theory Heap
  imports State
begin

text \<open>
  Access to the heap objects: reading a structure behind a pointer, assigning to its fields,
  allocating and freeing. Every access through a pointer to freed memory is a fault. Each
  operation has its evaluation rule (\<open>run\<close>), its weakest precondition (\<open>wps\<close>) and
  the rule that reduces invariance to one state update.
\<close>

section \<open>Generic access\<close>

definition heap_get :: "('s \<Rightarrow> nat \<rightharpoonup> 'o) \<Rightarrow> nat \<Rightarrow> ('s, 'o) M" where
  "heap_get h a = (\<lambda>s. case h s a of None \<Rightarrow> Inl Dangling_ptr | Some v \<Rightarrow> Inr (v, s))"

definition heap_upd ::
  "('s \<Rightarrow> nat \<rightharpoonup> 'o) \<Rightarrow> ((nat \<rightharpoonup> 'o) \<Rightarrow> 's \<Rightarrow> 's) \<Rightarrow> nat \<Rightarrow> ('o \<Rightarrow> 'o) \<Rightarrow> ('s, unit) M" where
  "heap_upd h put a f = bnd (heap_get h a) (\<lambda>v. modify (\<lambda>s. put ((h s)(a \<mapsto> f v)) s))"

lemma run_heap_get [run]:
  "heap_get h a s = (case h s a of None \<Rightarrow> Inl Dangling_ptr | Some v \<Rightarrow> Inr (v, s))"
  by (simp add: heap_get_def)

lemma run_heap_upd [run]:
  "heap_upd h put a f s =
     (case h s a of None \<Rightarrow> Inl Dangling_ptr | Some v \<Rightarrow> Inr ((), put ((h s)(a \<mapsto> f v)) s))"
  by (simp add: heap_upd_def run split: option.split)

lemma wp_heap_get [wps]: "wp (heap_get h a) Q s = (\<exists>v. h s a = Some v \<and> Q v s)"
  by (simp add: wp_def run split: option.split)

lemma wp_heap_upd [wps]:
  "wp (heap_upd h put a f) Q s = (\<exists>v. h s a = Some v \<and> Q () (put ((h s)(a \<mapsto> f v)) s))"
  by (simp add: wp_def run split: option.split)

lemma keeps_heap_get [keep]: "keeps I (heap_get h a)"
  by (simp add: keeps_def run split: option.split)

lemma keeps_heap_upd:
  "(\<And>s v. I s \<Longrightarrow> h s a = Some v \<Longrightarrow> I (put ((h s)(a \<mapsto> f v)) s)) \<Longrightarrow> keeps I (heap_upd h put a f)"
  by (auto simp: keeps_def run split: option.splits)

section \<open>The heaps of simterpose\<close>

definition get_proc :: "proc_ptr \<Rightarrow> ('w st, process_descriptor) M" where
  "get_proc = heap_get procs"

definition upd_proc :: "proc_ptr \<Rightarrow> (process_descriptor \<Rightarrow> process_descriptor) \<Rightarrow> ('w st, unit) M" where
  "upd_proc = heap_upd procs (\<lambda>h s. s\<lparr>procs := h\<rparr>)"

definition get_desc :: "fd_ptr \<Rightarrow> ('w st, fd_descriptor_t) M" where
  "get_desc = heap_get fds"

definition upd_desc :: "fd_ptr \<Rightarrow> (fd_descriptor_t \<Rightarrow> fd_descriptor_t) \<Rightarrow> ('w st, unit) M" where
  "upd_desc = heap_upd fds (\<lambda>h s. s\<lparr>fds := h\<rparr>)"

definition get_comm :: "comm_ptr \<Rightarrow> ('w st, comm_s) M" where
  "get_comm = heap_get comms"

definition upd_comm :: "comm_ptr \<Rightarrow> (comm_s \<Rightarrow> comm_s) \<Rightarrow> ('w st, unit) M" where
  "upd_comm = heap_upd comms (\<lambda>h s. s\<lparr>comms := h\<rparr>)"

definition get_pipe :: "pipe_ptr \<Rightarrow> ('w st, pipe_t) M" where
  "get_pipe = heap_get pipes"

definition upd_pipe :: "pipe_ptr \<Rightarrow> (pipe_t \<Rightarrow> pipe_t) \<Rightarrow> ('w st, unit) M" where
  "upd_pipe = heap_upd pipes (\<lambda>h s. s\<lparr>pipes := h\<rparr>)"

definition get_stream :: "stream_ptr \<Rightarrow> ('w st, stream_t) M" where
  "get_stream = heap_get streams"

definition upd_stream :: "stream_ptr \<Rightarrow> (stream_t \<Rightarrow> stream_t) \<Rightarrow> ('w st, unit) M" where
  "upd_stream = heap_upd streams (\<lambda>h s. s\<lparr>streams := h\<rparr>)"

definition get_timer :: "timer_ptr \<Rightarrow> ('w st, s_xbt_cpu_timer) M" where
  "get_timer = heap_get timers"

definition upd_timer :: "timer_ptr \<Rightarrow> (s_xbt_cpu_timer \<Rightarrow> s_xbt_cpu_timer) \<Rightarrow> ('w st, unit) M" where
  "upd_timer = heap_upd timers (\<lambda>h s. s\<lparr>timers := h\<rparr>)"

text \<open>
  The socket part of a descriptor: reading it from an object that was allocated with
  \<open>sizeof(fd_descriptor_t)\<close> reads beyond the object.
\<close>

definition sock_of :: "fd_descriptor_t \<Rightarrow> ('w st, infos_socket) M" where
  "sock_of d = (case as_socket d of None \<Rightarrow> fail Out_of_bounds | Some i \<Rightarrow> ret i)"

definition get_sock :: "fd_ptr \<Rightarrow> ('w st, infos_socket) M" where
  "get_sock a = bnd (get_desc a) sock_of"

definition upd_sock :: "fd_ptr \<Rightarrow> (infos_socket \<Rightarrow> infos_socket) \<Rightarrow> ('w st, unit) M" where
  "upd_sock a f = bnd (get_sock a) (\<lambda>i. upd_desc a (\<lambda>d. d\<lparr>as_socket := Some (f i)\<rparr>))"

lemma run_sock_of [run]:
  "sock_of d s = (case as_socket d of None \<Rightarrow> Inl Out_of_bounds | Some i \<Rightarrow> Inr (i, s))"
  by (simp add: sock_of_def run split: option.split)

lemma run_get_sock [run]:
  "get_sock a s = (case fds s a of None \<Rightarrow> Inl Dangling_ptr | Some d \<Rightarrow>
     (case as_socket d of None \<Rightarrow> Inl Out_of_bounds | Some i \<Rightarrow> Inr (i, s)))"
  by (simp add: get_sock_def get_desc_def run split: option.split)

lemma run_upd_sock [run]:
  "upd_sock a f s = (case fds s a of None \<Rightarrow> Inl Dangling_ptr | Some d \<Rightarrow>
     (case as_socket d of None \<Rightarrow> Inl Out_of_bounds
      | Some i \<Rightarrow> Inr ((), s\<lparr>fds := (fds s)(a \<mapsto> d\<lparr>as_socket := Some (f i)\<rparr>)\<rparr>)))"
  by (simp add: upd_sock_def upd_desc_def run split: option.split)

lemma wp_get_sock [wps]:
  "wp (get_sock a) Q s = (\<exists>d i. fds s a = Some d \<and> as_socket d = Some i \<and> Q i s)"
  by (simp add: wp_def run split: option.split)

lemma wp_upd_sock [wps]:
  "wp (upd_sock a f) Q s = (\<exists>d i. fds s a = Some d \<and> as_socket d = Some i \<and>
     Q () (s\<lparr>fds := (fds s)(a \<mapsto> d\<lparr>as_socket := Some (f i)\<rparr>)\<rparr>))"
  by (simp add: wp_def run split: option.split)

lemmas heap_defs = get_proc_def upd_proc_def get_desc_def upd_desc_def get_comm_def upd_comm_def
  get_pipe_def upd_pipe_def get_stream_def upd_stream_def get_timer_def upd_timer_def

declare heap_defs [run, wps]

section \<open>Allocation and release\<close>

definition new_desc :: "fd_descriptor_t \<Rightarrow> ('w st, fd_ptr) M" where
  "new_desc d = (\<lambda>s. Inr (next_ptr s, s\<lparr>fds := (fds s)(next_ptr s \<mapsto> d), next_ptr := Suc (next_ptr s)\<rparr>))"

definition new_comm :: "comm_s \<Rightarrow> ('w st, comm_ptr) M" where
  "new_comm c = (\<lambda>s. Inr (next_ptr s, s\<lparr>comms := (comms s)(next_ptr s \<mapsto> c), next_ptr := Suc (next_ptr s)\<rparr>))"

definition new_pipe :: "pipe_t \<Rightarrow> ('w st, pipe_ptr) M" where
  "new_pipe p = (\<lambda>s. Inr (next_ptr s, s\<lparr>pipes := (pipes s)(next_ptr s \<mapsto> p), next_ptr := Suc (next_ptr s)\<rparr>))"

definition new_stream :: "stream_t \<Rightarrow> ('w st, stream_ptr) M" where
  "new_stream p = (\<lambda>s. Inr (next_ptr s, s\<lparr>streams := (streams s)(next_ptr s \<mapsto> p), next_ptr := Suc (next_ptr s)\<rparr>))"

definition new_proc :: "process_descriptor \<Rightarrow> ('w st, proc_ptr) M" where
  "new_proc p = (\<lambda>s. Inr (next_ptr s, s\<lparr>procs := (procs s)(next_ptr s \<mapsto> p), next_ptr := Suc (next_ptr s)\<rparr>))"

definition new_timer :: "s_xbt_cpu_timer \<Rightarrow> ('w st, timer_ptr) M" where
  "new_timer t = (\<lambda>s. Inr (next_ptr s, s\<lparr>timers := (timers s)(next_ptr s \<mapsto> t), next_ptr := Suc (next_ptr s)\<rparr>))"

lemmas new_defs = new_desc_def new_comm_def new_pipe_def new_stream_def new_proc_def new_timer_def

declare new_defs [run]

lemma wp_new [wps]:
  "wp (new_desc d) Q s = Q (next_ptr s) (s\<lparr>fds := (fds s)(next_ptr s \<mapsto> d), next_ptr := Suc (next_ptr s)\<rparr>)"
  "wp (new_comm c) Q s = Q (next_ptr s) (s\<lparr>comms := (comms s)(next_ptr s \<mapsto> c), next_ptr := Suc (next_ptr s)\<rparr>)"
  "wp (new_pipe p) Q s = Q (next_ptr s) (s\<lparr>pipes := (pipes s)(next_ptr s \<mapsto> p), next_ptr := Suc (next_ptr s)\<rparr>)"
  "wp (new_stream t) Q s = Q (next_ptr s) (s\<lparr>streams := (streams s)(next_ptr s \<mapsto> t), next_ptr := Suc (next_ptr s)\<rparr>)"
  "wp (new_proc q) Q s = Q (next_ptr s) (s\<lparr>procs := (procs s)(next_ptr s \<mapsto> q), next_ptr := Suc (next_ptr s)\<rparr>)"
  by (simp_all add: wp_def run)

text \<open>\<open>free\<close>: releasing memory twice is a fault as well.\<close>

definition free_desc :: "fd_ptr \<Rightarrow> ('w st, unit) M" where
  "free_desc a = sq (get_desc a) (modify (\<lambda>s. s\<lparr>fds := (fds s)(a := None)\<rparr>))"

definition free_comm :: "comm_ptr \<Rightarrow> ('w st, unit) M" where
  "free_comm a = sq (get_comm a) (modify (\<lambda>s. s\<lparr>comms := (comms s)(a := None)\<rparr>))"

definition free_pipe :: "pipe_ptr \<Rightarrow> ('w st, unit) M" where
  "free_pipe a = sq (get_pipe a) (modify (\<lambda>s. s\<lparr>pipes := (pipes s)(a := None)\<rparr>))"

definition free_proc :: "proc_ptr \<Rightarrow> ('w st, unit) M" where
  "free_proc a = sq (get_proc a) (modify (\<lambda>s. s\<lparr>procs := (procs s)(a := None)\<rparr>))"

definition free_timer :: "timer_ptr \<Rightarrow> ('w st, unit) M" where
  "free_timer a = sq (get_timer a) (modify (\<lambda>s. s\<lparr>timers := (timers s)(a := None)\<rparr>))"

lemmas free_defs = free_desc_def free_comm_def free_pipe_def free_proc_def free_timer_def

declare free_defs [run, wps]

section \<open>Objects fresh from the allocator\<close>

text \<open>\<open>xbt_malloc0\<close>, \<open>xbt_new0\<close>: all fields zero.\<close>

definition zero_desc :: "proc_ptr \<Rightarrow> fd_descriptor_t" where
  "zero_desc p = \<lparr>fd_type = 0, fd_proc = p, fd_fd = 0, fd_stream = None, fd_pipe = None,
     fd_flags = 0, fd_mode = 0, fd_refcount = 0, fd_offset = 0, fd_lock = 0, fd_ltype = 0,
     fd_begin = 0, fd_end = 0, fd_proc_locker = 0, fd_sig_id = 0, as_socket = None\<rparr>"

definition recv_information_new :: recv_information where
  "recv_information_new = \<lparr>data_fifo = [], recv_task = [], quantity_recv = 0\<rparr>"

definition zero_comm :: comm_s where
  "zero_comm = \<lparr>remote_ip = 0, remote_port = 0,
     info0 = \<lparr>ci_socket = None, ci_recv = recv_information_new\<rparr>,
     info1 = \<lparr>ci_socket = None, ci_recv = recv_information_new\<rparr>,
     comm_state = 0, conn_wait = [], comm_ref_nb = 0\<rparr>"

section \<open>The world outside\<close>

definition get_world :: "('w \<Rightarrow> 'a) \<Rightarrow> ('w st, 'a) M" where
  "get_world f = gets (\<lambda>s. f (world s))"

definition upd_world :: "('w \<Rightarrow> 'w) \<Rightarrow> ('w st, unit) M" where
  "upd_world f = modify (\<lambda>s. s\<lparr>world := f (world s)\<rparr>)"

text \<open>A call that returns a value and changes the world.\<close>

definition call_world :: "('w \<Rightarrow> 'a \<times> 'w) \<Rightarrow> ('w st, 'a) M" where
  "call_world f = (\<lambda>s. case f (world s) of (x, w) \<Rightarrow> Inr (x, s\<lparr>world := w\<rparr>))"

lemma run_call_world [run]:
  "call_world f s = (case f (world s) of (x, w) \<Rightarrow> Inr (x, s\<lparr>world := w\<rparr>))"
  by (simp add: call_world_def)

lemma wp_call_world [wps]:
  "wp (call_world f) Q s = (case f (world s) of (x, w) \<Rightarrow> Q x (s\<lparr>world := w\<rparr>))"
  by (simp add: wp_def run split: prod.split)

declare get_world_def [run, wps] upd_world_def [run, wps]

text \<open>A call that blocks the simulated process.\<close>

definition call_block :: "('w st \<Rightarrow> 'a \<times> 'w st) \<Rightarrow> ('w st, 'a) M" where
  "call_block f = (\<lambda>s. Inr (f s))"

lemma run_call_block [run]: "call_block f s = Inr (f s)"
  by (simp add: call_block_def)

end
