(* ===== verification/Tables.thy ===== *)
theory Tables
  imports Main
begin

text \<open>
  The contract of a mutable table inside a larger state. Three tables of the program promise
  it: the descriptors of a process, the ports of a host and the translation list. The clients of a table use the lemmas proved here once.
\<close>

locale lookup_table =
  fixes look :: "'s \<Rightarrow> 'k \<Rightarrow> 'v option"
    and store :: "'k \<Rightarrow> 'v option \<Rightarrow> 's \<Rightarrow> 's"
    and live :: "'s \<Rightarrow> bool"
  assumes look_store: "live s \<Longrightarrow> look (store k v s) = (look s)(k := v)"
    and live_store: "live s \<Longrightarrow> live (store k v s)"
begin

lemma look_same: "live s \<Longrightarrow> look (store k v s) k = v"
  by (simp add: look_store)

lemma look_other: "live s \<Longrightarrow> j \<noteq> k \<Longrightarrow> look (store k v s) j = look s j"
  by (simp add: look_store)

lemma store_overwrites: "live s \<Longrightarrow> look (store k w (store k v s)) = look (store k w s)"
  by (simp add: look_store live_store)

lemma store_commutes:
  "live s \<Longrightarrow> j \<noteq> k \<Longrightarrow> look (store j w (store k v s)) = look (store k v (store j w s))"
  by (simp add: look_store live_store fun_upd_twist)

lemma store_back: "live s \<Longrightarrow> look (store k (look s k) (store k v s)) = look s"
  by (simp add: look_store live_store)

lemma dom_store:
  "live s \<Longrightarrow> dom (look (store k v s)) = (if v = None then dom (look s) - {k} else insert k (dom (look s)))"
  by (auto simp: look_store)

text \<open>A sequence of assignments: the last one to a key decides.\<close>

lemma look_fold:
  "live s \<Longrightarrow> live (fold (\<lambda>(k, v). store k v) kvs s) \<and>
     look (fold (\<lambda>(k, v). store k v) kvs s) =
       (\<lambda>j. case map_of (rev kvs) j of None \<Rightarrow> look s j | Some v \<Rightarrow> v)"
proof (induction kvs arbitrary: s)
  case (Cons kv kvs)
  obtain k v where kv: "kv = (k, v)" by (cases kv)
  from Cons.prems have "live (store k v s)" by (rule live_store)
  from Cons.IH [OF this] Cons.prems show ?case
    by (auto simp: kv fun_eq_iff look_store map_add_def split: option.splits)
qed (simp add: fun_eq_iff)

end

end
