(* ===== verification/Data_Utils.thy ===== *)
theory Data_Utils
  imports Heap Tables
begin

unbundle bit_operations_syntax

text \<open>
  \<open>data_utils.c\<close>: the global data of the simulation. Hosts by name and by address, the
  ports in use on every host with the sockets bound to them, the translation between real
  and simulated ports, and the counters of ptrace requests.
\<close>

section \<open>Global data\<close>

definition upd_globals :: "(simterpose_globals \<Rightarrow> simterpose_globals) \<Rightarrow> ('w st, unit) M" where
  "upd_globals f = modify (\<lambda>s. s\<lparr>global_data := f (global_data s)\<rparr>)"

declare upd_globals_def [run, wps]

definition simterpose_globals_init :: "('w st, unit) M" where
  "simterpose_globals_init = modify (\<lambda>s. s\<lparr>global_data :=
     \<lparr>list_host = Map.empty, list_ip = Map.empty, list_translate = Map.empty,
      nb_peek = 0, nb_poke = 0, nb_getregs = 0, nb_setregs = 0, nb_syscall = 0,
      nb_setoptions = 0, nb_detach = 0, nb_geteventmsg = 0\<rparr>\<rparr>)"

text \<open>
  \<open>simterpose_globals_exit\<close> empties the dictionaries. Nothing of the program reads the
  globals after they are freed.
\<close>

definition simterpose_globals_exit :: "('w st, unit) M" where
  "simterpose_globals_exit = modify (\<lambda>s. s\<lparr>global_data := (global_data s)\<lparr>
     list_host := Map.empty, list_ip := Map.empty, list_translate := Map.empty\<rparr>\<rparr>)"

definition get_nb_peek :: "('w st, int) M" where
  "get_nb_peek = gets (\<lambda>s. nb_peek (global_data s))"
definition get_nb_poke :: "('w st, int) M" where
  "get_nb_poke = gets (\<lambda>s. nb_poke (global_data s))"
definition get_nb_getregs :: "('w st, int) M" where
  "get_nb_getregs = gets (\<lambda>s. nb_getregs (global_data s))"
definition get_nb_setregs :: "('w st, int) M" where
  "get_nb_setregs = gets (\<lambda>s. nb_setregs (global_data s))"
definition get_nb_syscall :: "('w st, int) M" where
  "get_nb_syscall = gets (\<lambda>s. nb_syscall (global_data s))"
definition get_nb_setoptions :: "('w st, int) M" where
  "get_nb_setoptions = gets (\<lambda>s. nb_setoptions (global_data s))"
definition get_nb_detach :: "('w st, int) M" where
  "get_nb_detach = gets (\<lambda>s. nb_detach (global_data s))"
definition get_nb_geteventmsg :: "('w st, int) M" where
  "get_nb_geteventmsg = gets (\<lambda>s. nb_geteventmsg (global_data s))"

definition increment_nb_peek :: "('w st, unit) M" where
  "increment_nb_peek = upd_globals (\<lambda>g. g\<lparr>nb_peek := nb_peek g + 1\<rparr>)"
definition increment_nb_poke :: "('w st, unit) M" where
  "increment_nb_poke = upd_globals (\<lambda>g. g\<lparr>nb_poke := nb_poke g + 1\<rparr>)"
definition increment_nb_getregs :: "('w st, unit) M" where
  "increment_nb_getregs = upd_globals (\<lambda>g. g\<lparr>nb_getregs := nb_getregs g + 1\<rparr>)"
definition increment_nb_setregs :: "('w st, unit) M" where
  "increment_nb_setregs = upd_globals (\<lambda>g. g\<lparr>nb_setregs := nb_setregs g + 1\<rparr>)"
definition increment_nb_syscall :: "('w st, unit) M" where
  "increment_nb_syscall = upd_globals (\<lambda>g. g\<lparr>nb_syscall := nb_syscall g + 1\<rparr>)"
definition increment_nb_setoptions :: "('w st, unit) M" where
  "increment_nb_setoptions = upd_globals (\<lambda>g. g\<lparr>nb_setoptions := nb_setoptions g + 1\<rparr>)"
definition increment_nb_detach :: "('w st, unit) M" where
  "increment_nb_detach = upd_globals (\<lambda>g. g\<lparr>nb_detach := nb_detach g + 1\<rparr>)"
definition increment_nb_geteventmsg :: "('w st, unit) M" where
  "increment_nb_geteventmsg = upd_globals (\<lambda>g. g\<lparr>nb_geteventmsg := nb_geteventmsg g + 1\<rparr>)"

lemmas increment_defs = increment_nb_peek_def increment_nb_poke_def increment_nb_getregs_def
  increment_nb_setregs_def increment_nb_syscall_def increment_nb_setoptions_def
  increment_nb_detach_def increment_nb_geteventmsg_def

section \<open>Ports of a host\<close>

text \<open>
  \<open>char buff[6]; sprintf(buff, "%d", port);\<close>: the key of a port. A number that takes
  more than five characters does not fit the buffer.
\<close>

definition port_key :: "int \<Rightarrow> ('w st, string) M" where
  "port_key port = (if length (sprintf_d port) < 6 then ret (sprintf_d port) else fail Out_of_bounds)"

text \<open>\<open>xbt_dict_get(global_data->list_host, MSG_host_get_name(host))\<close>\<close>

definition get_host_desc :: "'w env \<Rightarrow> msg_host \<Rightarrow> ('w st, simterpose_host) M" where
  "get_host_desc E host =
     bnd (gets (\<lambda>s. list_host (global_data s) (MSG_host_get_name E host))) (\<lambda>h.
     case h of None \<Rightarrow> fail Xbt_exception | Some d \<Rightarrow> ret d)"

text \<open>Assignment to the descriptor of a port of a host; \<open>None\<close> removes it.\<close>

definition set_port_desc :: "'w env \<Rightarrow> msg_host \<Rightarrow> string \<Rightarrow> port_desc option \<Rightarrow> ('w st, unit) M" where
  "set_port_desc E host buff v =
     bnd (get_host_desc E host) (\<lambda>h.
     upd_globals (\<lambda>g. g\<lparr>list_host :=
       (list_host g)(MSG_host_get_name E host \<mapsto> h\<lparr>host_port := (host_port h)(buff := v)\<rparr>)\<rparr>))"

definition is_port_in_use :: "'w env \<Rightarrow> msg_host \<Rightarrow> int \<Rightarrow> ('w st, bool) M" where
  "is_port_in_use E host port =
     bnd (get_host_desc E host) (\<lambda>temp.
     bnd (port_key port) (\<lambda>buff.
     ret (host_port temp buff \<noteq> None)))"

definition register_port :: "'w env \<Rightarrow> msg_host \<Rightarrow> int \<Rightarrow> ('w st, unit) M" where
  "register_port E host port =
     bnd (get_host_desc E host) (\<lambda>host_desc.
     bnd (port_key port) (\<lambda>buff.
     case host_port host_desc buff of
       Some temp \<Rightarrow> set_port_desc E host buff (Some (temp\<lparr>amount_socket := amount_socket temp + 1\<rparr>))
     | None \<Rightarrow> set_port_desc E host buff
         (Some \<lparr>port_num = port, real_port = 0, port_option = 0, amount_socket = 1, bind_socket = None\<rparr>)))"

definition set_port_on_binding :: "'w env \<Rightarrow> msg_host \<Rightarrow> int \<Rightarrow> fd_ptr \<Rightarrow> u32 \<Rightarrow> ('w st, unit) M" where
  "set_port_on_binding E host port is device =
     bnd (get_host_desc E host) (\<lambda>temp.
     bnd (port_key port) (\<lambda>buff.
     case host_port temp buff of
       None \<Rightarrow> ret ()
     | Some desc \<Rightarrow>
         sq (set_port_desc E host buff
               (Some (desc\<lparr>port_option := port_option desc OR PORT_BIND OR device, bind_socket := Some is\<rparr>)))
            (upd_sock is (\<lambda>i. i\<lparr>ref_nb := ref_nb i + 1\<rparr>))))"

definition get_binding_socket_host :: "'w env \<Rightarrow> msg_host \<Rightarrow> int \<Rightarrow> u32 \<Rightarrow> ('w st, fd_ptr option) M" where
  "get_binding_socket_host E host port device =
     bnd (get_host_desc E host) (\<lambda>temp.
     bnd (port_key port) (\<lambda>buff.
     case host_port temp buff of
       None \<Rightarrow> ret None
     | Some desc \<Rightarrow>
         if port_option desc AND PORT_BIND = 0 then ret None
         else if device AND port_option desc = 0 then ret None
         else ret (bind_socket desc)))"

definition set_real_port :: "'w env \<Rightarrow> msg_host \<Rightarrow> int \<Rightarrow> int \<Rightarrow> ('w st, unit) M" where
  "set_real_port E host port real =
     bnd (get_host_desc E host) (\<lambda>temp.
     bnd (port_key port) (\<lambda>buff.
     case host_port temp buff of
       None \<Rightarrow> ret ()
     | Some desc \<Rightarrow> set_port_desc E host buff (Some (desc\<lparr>real_port := real\<rparr>))))"

definition get_ip_of_host :: "'w env \<Rightarrow> msg_host \<Rightarrow> ('w st, u32) M" where
  "get_ip_of_host E host = bnd (get_host_desc E host) (\<lambda>temp. ret (host_ip temp))"

definition get_host_by_ip :: "'w env \<Rightarrow> u32 \<Rightarrow> ('w st, msg_host option) M" where
  "get_host_by_ip E ip =
     bnd (gets (\<lambda>s. list_ip (global_data s) (inet_ntoa ip))) (\<lambda>name.
     case name of None \<Rightarrow> ret None | Some n \<Rightarrow> ret (MSG_get_host_by_name E n))"

text \<open>
  The loop of \<open>get_random_port\<close>: it counts down from 65535 on an \<open>unsigned short\<close>
  until it meets a number that is not a key of the dictionary.
\<close>

partial_function (option) random_port_loop :: "(string \<rightharpoonup> port_desc) \<Rightarrow> u16 \<Rightarrow> u16 option" where
  "random_port_loop tbl port =
     (if tbl (sprintf_d (uint port)) \<noteq> None then random_port_loop tbl (port - 1) else Some port)"

definition get_random_port :: "'w env \<Rightarrow> msg_host \<Rightarrow> ('w st, int) M" where
  "get_random_port E host =
     bnd (get_host_desc E host) (\<lambda>temp.
     case random_port_loop (host_port temp) (0 - 1) of
       None \<Rightarrow> fail Diverges
     | Some port \<Rightarrow> ret (uint port))"

definition unset_socket :: "'w env \<Rightarrow> int \<Rightarrow> fd_ptr \<Rightarrow> ('w st, unit) M" where
  "unset_socket E pid is =
     bnd (get_sock is) (\<lambda>i.
     bnd (nonnull (is_host i)) (\<lambda>host.
     bnd (get_host_desc E host) (\<lambda>temp.
     bnd (port_key (port_local i)) (\<lambda>buff.
     case host_port temp buff of
       None \<Rightarrow> ret ()
     | Some desc \<Rightarrow>
         bnd (if bind_socket desc = Some is
              then sq (upd_sock is (\<lambda>i. i\<lparr>ref_nb := ref_nb i - 1\<rparr>)) (ret (desc\<lparr>bind_socket := None\<rparr>))
              else ret desc) (\<lambda>desc.
         let desc = desc\<lparr>amount_socket := amount_socket desc - 1\<rparr> in
         if amount_socket desc \<noteq> 0 then set_port_desc E host buff (Some desc)
         else set_port_desc E host buff None)))))"

section \<open>Translation of ports\<close>

definition add_new_translation :: "int \<Rightarrow> int \<Rightarrow> u32 \<Rightarrow> ('w st, unit) M" where
  "add_new_translation real translated_port translated_ip =
     bnd (port_key real) (\<lambda>buff.
     upd_globals (\<lambda>g. g\<lparr>list_translate :=
       (list_translate g)(buff \<mapsto> \<lparr>td_port_num = translated_port, td_ip = translated_ip\<rparr>)\<rparr>))"

definition get_translation :: "int \<Rightarrow> ('w st, translate_desc option) M" where
  "get_translation real =
     bnd (port_key real) (\<lambda>buff. gets (\<lambda>s. list_translate (global_data s) buff))"

definition get_real_port :: "'w env \<Rightarrow> proc_ptr \<Rightarrow> u32 \<Rightarrow> int \<Rightarrow> ('w st, int) M" where
  "get_real_port E proc ip port =
     bnd (if ip = loopback then bnd (get_proc proc) (\<lambda>p. nonnull (p_host p))
          else bnd (get_host_by_ip E ip) nonnull) (\<lambda>host.
     bnd (get_host_desc E host) (\<lambda>temp.
     bnd (port_key port) (\<lambda>buff.
     case host_port temp buff of None \<Rightarrow> ret (- 1) | Some desc \<Rightarrow> ret (real_port desc))))"

section \<open>The list of hosts\<close>

text \<open>The hosts that have an address in the platform file, in the order of the platform.\<close>

fun hosts_with_ip :: "'w env \<Rightarrow> msg_host list \<Rightarrow> u32 list \<Rightarrow> msg_host list \<Rightarrow>
    ('w st, u32 list \<times> msg_host list) M" where
  "hosts_with_ip E [] ip_list no_ip_list = ret (ip_list, no_ip_list)"
| "hosts_with_ip E (host # work_list) ip_list no_ip_list =
     (case MSG_host_get_property_ip E host of
        None \<Rightarrow> hosts_with_ip E work_list ip_list (no_ip_list @ [host])
      | Some prop \<Rightarrow>
          sq (upd_globals (\<lambda>g. g\<lparr>
                list_host := (list_host g)(MSG_host_get_name E host \<mapsto>
                  \<lparr>host_ip = inet_addr prop, host_port = Map.empty\<rparr>),
                list_ip := (list_ip g)(prop \<mapsto> MSG_host_get_name E host)\<rparr>))
             (hosts_with_ip E work_list (ip_list @ [inet_addr prop]) no_ip_list))"

text \<open>\<open>while (found)\<close>: the first address from \<open>temp_ip\<close> on that is not in the list.\<close>

partial_function (option) next_free_ip :: "u32 list \<Rightarrow> u32 \<Rightarrow> u32 option" where
  "next_free_ip ip_list temp_ip =
     (if temp_ip \<in> set ip_list then next_free_ip ip_list (temp_ip + 1) else Some temp_ip)"

fun hosts_without_ip :: "'w env \<Rightarrow> msg_host list \<Rightarrow> u32 list \<Rightarrow> u32 \<Rightarrow> ('w st, unit) M" where
  "hosts_without_ip E [] ip_list temp_ip = ret ()"
| "hosts_without_ip E (host # no_ip_list) ip_list temp_ip =
     (case next_free_ip ip_list temp_ip of
        None \<Rightarrow> fail Diverges
      | Some ip \<Rightarrow>
          sq (upd_globals (\<lambda>g. g\<lparr>
                list_host := (list_host g)(MSG_host_get_name E host \<mapsto>
                  \<lparr>host_ip = ip, host_port = Map.empty\<rparr>),
                list_ip := (list_ip g)(inet_ntoa ip \<mapsto> MSG_host_get_name E host)\<rparr>))
             (hosts_without_ip E no_ip_list (ip_list @ [ip]) ip))"

definition init_host_list :: "'w env \<Rightarrow> ('w st, unit) M" where
  "init_host_list E =
     bnd (hosts_with_ip E (MSG_hosts_as_dynar E) [] []) (\<lambda>(ip_list, no_ip_list).
     hosts_without_ip E no_ip_list ip_list 1)"

section \<open>The ports of a host as a table\<close>

definition valid_port :: "int \<Rightarrow> bool" where
  "valid_port port \<longleftrightarrow> 0 \<le> port \<and> port < 65536"

definition host_known :: "'w env \<Rightarrow> msg_host \<Rightarrow> 'w st \<Rightarrow> bool" where
  "host_known E host s \<longleftrightarrow> list_host (global_data s) (MSG_host_get_name E host) \<noteq> None"

definition port_entry :: "'w env \<Rightarrow> msg_host \<Rightarrow> 'w st \<Rightarrow> int \<Rightarrow> port_desc option" where
  "port_entry E host s port =
     (case list_host (global_data s) (MSG_host_get_name E host) of
        None \<Rightarrow> None | Some h \<Rightarrow> host_port h (sprintf_d port))"

definition port_store :: "'w env \<Rightarrow> msg_host \<Rightarrow> int \<Rightarrow> port_desc option \<Rightarrow> 'w st \<Rightarrow> 'w st" where
  "port_store E host port v s =
     (case set_port_desc E host (sprintf_d port) v s of Inl e \<Rightarrow> s | Inr (_, t) \<Rightarrow> t)"

lemma run_get_host_desc [run]:
  "get_host_desc E host s =
     (case list_host (global_data s) (MSG_host_get_name E host) of
        None \<Rightarrow> Inl Xbt_exception | Some h \<Rightarrow> Inr (h, s))"
  by (simp add: get_host_desc_def run split: option.split)

lemma run_set_port_desc [run]:
  "set_port_desc E host k v s =
     (case list_host (global_data s) (MSG_host_get_name E host) of
        None \<Rightarrow> Inl Xbt_exception
      | Some h \<Rightarrow> Inr ((), s\<lparr>global_data := (global_data s)\<lparr>list_host := (list_host (global_data s))
          (MSG_host_get_name E host \<mapsto> h\<lparr>host_port := (host_port h)(k := v)\<rparr>)\<rparr>\<rparr>))"
  by (simp add: set_port_desc_def run split: option.split)

interpretation port_table: lookup_table "port_entry E host" "port_store E host" "host_known E host"
  for E host
  by unfold_locales
    (auto simp: port_entry_def port_store_def host_known_def run fun_eq_iff sprintf_d_inj
      split: option.splits)

lemma set_port_desc_store:
  "host_known E host s \<Longrightarrow>
     set_port_desc E host (sprintf_d port) v s = Inr ((), port_store E host port v s)"
  by (auto simp: port_store_def host_known_def run split: option.split)

lemma port_store_frame [simp]:
  "fds (port_store E host port v s) = fds s" "procs (port_store E host port v s) = procs s"
  "comms (port_store E host port v s) = comms s" "pipes (port_store E host port v s) = pipes s"
  "streams (port_store E host port v s) = streams s"
  "all_sockets (port_store E host port v s) = all_sockets s"
  "comm_list (port_store E host port v s) = comm_list s"
  "list_ip (global_data (port_store E host port v s)) = list_ip (global_data s)"
  "list_translate (global_data (port_store E host port v s)) = list_translate (global_data s)"
  "world (port_store E host port v s) = world s"
  "strace_option (port_store E host port v s) = strace_option s"
  by (auto simp: port_store_def run split: option.split)

lemma port_entry_other_host:
  "MSG_host_get_name E h' \<noteq> MSG_host_get_name E h \<Longrightarrow>
     port_entry E h' (port_store E h port v s) = port_entry E h' s"
  by (auto simp: port_store_def port_entry_def run fun_eq_iff split: option.split)

lemma port_entry_fds [simp]:
  "port_entry E h (s\<lparr>fds := f\<rparr>) = port_entry E h s"
  by (simp add: port_entry_def fun_eq_iff)

lemma host_known_fds [simp]: "host_known E h (s\<lparr>fds := f\<rparr>) = host_known E h s"
  by (simp add: host_known_def)

lemma host_known_store [simp]: "host_known E h' (port_store E h port v s) = host_known E h' s"
  by (auto simp: port_store_def host_known_def run split: option.split)

text \<open>A number that \<open>buff[6]\<close> can hold, as every valid port is.\<close>

definition fits :: "int \<Rightarrow> bool" where
  "fits port \<longleftrightarrow> length (sprintf_d port) < 6"

lemma valid_port_fits: "valid_port port \<Longrightarrow> fits port"
  using length_digits10 [of "nat port" 5] nat_less_iff [of port 100000]
  by (auto simp: valid_port_def fits_def sprintf_d_def)

lemma run_port_key [run]:
  "port_key port s = (if fits port then Inr (sprintf_d port, s) else Inl Out_of_bounds)"
  by (simp add: port_key_def fits_def run)

text \<open>The operations over the table, on every branch.\<close>

lemma is_port_in_use_eq:
  "is_port_in_use E host port s =
     (if \<not> host_known E host s then Inl Xbt_exception else if \<not> fits port then Inl Out_of_bounds
      else Inr (port_entry E host s port \<noteq> None, s))"
  by (auto simp: is_port_in_use_def host_known_def port_entry_def run split: option.split)

definition fresh_port :: "int \<Rightarrow> port_desc" where
  "fresh_port port = \<lparr>port_num = port, real_port = 0, port_option = 0, amount_socket = 1, bind_socket = None\<rparr>"

definition registered :: "int \<Rightarrow> port_desc option \<Rightarrow> port_desc" where
  "registered port v = (case v of None \<Rightarrow> fresh_port port
     | Some d \<Rightarrow> d\<lparr>amount_socket := amount_socket d + 1\<rparr>)"

lemma register_port_eq:
  "register_port E host port s =
     (if \<not> host_known E host s then Inl Xbt_exception else if \<not> fits port then Inl Out_of_bounds
      else Inr ((), port_store E host port (Some (registered port (port_entry E host s port))) s))"
  by (auto simp: register_port_def host_known_def port_entry_def port_store_def registered_def
      fresh_port_def run split: option.split)

lemma set_real_port_eq:
  "set_real_port E host port r s =
     (if \<not> host_known E host s then Inl Xbt_exception else if \<not> fits port then Inl Out_of_bounds
      else Inr ((), case port_entry E host s port of None \<Rightarrow> s
                    | Some d \<Rightarrow> port_store E host port (Some (d\<lparr>real_port := r\<rparr>)) s))"
  by (auto simp: set_real_port_def host_known_def port_entry_def port_store_def run split: option.split)

lemma get_binding_eq:
  "get_binding_socket_host E host port device s =
     (if \<not> host_known E host s then Inl Xbt_exception else if \<not> fits port then Inl Out_of_bounds
      else Inr (case port_entry E host s port of None \<Rightarrow> None
                | Some d \<Rightarrow> if port_option d AND PORT_BIND = 0 \<or> device AND port_option d = 0 then None
                           else bind_socket d, s))"
  by (auto simp: get_binding_socket_host_def host_known_def port_entry_def run split: option.split)

definition bound :: "port_desc \<Rightarrow> fd_ptr \<Rightarrow> u32 \<Rightarrow> port_desc" where
  "bound d is device = d\<lparr>port_option := port_option d OR PORT_BIND OR device, bind_socket := Some is\<rparr>"

lemma set_port_on_binding_eq:
  "set_port_on_binding E host port is device s =
     (if \<not> host_known E host s then Inl Xbt_exception else if \<not> fits port then Inl Out_of_bounds
      else case port_entry E host s port of None \<Rightarrow> Inr ((), s)
           | Some d \<Rightarrow> upd_sock is (\<lambda>i. i\<lparr>ref_nb := ref_nb i + 1\<rparr>)
               (port_store E host port (Some (bound d is device)) s))"
  by (auto simp: set_port_on_binding_def bound_def host_known_def port_entry_def port_store_def run
      split: option.split)

text \<open>\<open>unset_socket\<close>: one user less; the last user takes the entry with it.\<close>

definition released :: "port_desc \<Rightarrow> fd_ptr \<Rightarrow> port_desc option" where
  "released d is =
     (if amount_socket d = 1 then None
      else Some ((if bind_socket d = Some is then d\<lparr>bind_socket := None\<rparr> else d)
             \<lparr>amount_socket := amount_socket d - 1\<rparr>))"

lemma unset_socket_eq:
  assumes "fds s is = Some f" "as_socket f = Some i" "is_host i = Some host"
  shows "unset_socket E pid is s =
    (if \<not> host_known E host s then Inl Xbt_exception
     else if \<not> fits (port_local i) then Inl Out_of_bounds
     else case port_entry E host s (port_local i) of None \<Rightarrow> Inr ((), s)
          | Some d \<Rightarrow> Inr ((), port_store E host (port_local i) (released d is)
              (if bind_socket d = Some is
               then s\<lparr>fds := (fds s)(is \<mapsto> f\<lparr>as_socket := Some (i\<lparr>ref_nb := ref_nb i - 1\<rparr>)\<rparr>)\<rparr> else s)))"
  using assms
  by (auto simp: unset_socket_def released_def host_known_def port_entry_def port_store_def run Let_def
      split: option.split)

lemma unset_socket_faults:
  "fds s is = None \<Longrightarrow> unset_socket E pid is s = Inl Dangling_ptr"
  "fds s is = Some f \<Longrightarrow> as_socket f = None \<Longrightarrow> unset_socket E pid is s = Inl Out_of_bounds"
  "fds s is = Some f \<Longrightarrow> as_socket f = Some i \<Longrightarrow> is_host i = None \<Longrightarrow>
     unset_socket E pid is s = Inl Null_deref"
  by (simp_all add: unset_socket_def run)

section \<open>The translation list as a table\<close>

definition translation_entry :: "'w st \<Rightarrow> int \<Rightarrow> translate_desc option" where
  "translation_entry s port = list_translate (global_data s) (sprintf_d port)"

definition translation_store :: "int \<Rightarrow> translate_desc option \<Rightarrow> 'w st \<Rightarrow> 'w st" where
  "translation_store port v s = s\<lparr>global_data := (global_data s)
     \<lparr>list_translate := (list_translate (global_data s))(sprintf_d port := v)\<rparr>\<rparr>"

interpretation translation_table: lookup_table translation_entry translation_store "\<lambda>s. True"
  by unfold_locales (auto simp: translation_entry_def translation_store_def fun_eq_iff sprintf_d_inj)

lemma add_new_translation_eq:
  "add_new_translation real port ip s =
     (if fits real then Inr ((), translation_store real (Some \<lparr>td_port_num = port, td_ip = ip\<rparr>) s)
      else Inl Out_of_bounds)"
  by (simp add: add_new_translation_def translation_store_def run)

lemma get_translation_eq:
  "get_translation real s = (if fits real then Inr (translation_entry s real, s) else Inl Out_of_bounds)"
  by (simp add: get_translation_def translation_entry_def run)

end
