(* ===== verification/Memory.thy ===== *)
theory Memory
  imports C_Library
begin

text \<open>
  The memory of a traced process as the ptrace requests see it: bytes at 64-bit addresses,
  read and written a word at a time, with the laws of reading after writing.
\<close>

type_synonym mem = "u64 \<Rightarrow> u8"

definition read_bytes :: "mem \<Rightarrow> u64 \<Rightarrow> nat \<Rightarrow> u8 list" where
  "read_bytes m a n = map (\<lambda>i. m (a + of_nat i)) [0..<n]"

definition write_bytes :: "u64 \<Rightarrow> u8 list \<Rightarrow> mem \<Rightarrow> mem" where
  "write_bytes a bs m = (\<lambda>x. if unat (x - a) < length bs then bs ! unat (x - a) else m x)"

definition peek_mem :: "mem \<Rightarrow> u64 \<Rightarrow> u64" where
  "peek_mem m a = word64 (read_bytes m a 8)"

definition poke_mem :: "u64 \<Rightarrow> u64 \<Rightarrow> mem \<Rightarrow> mem" where
  "poke_mem a v = write_bytes a (bytes64 v)"

lemma length_read_bytes [simp]: "length (read_bytes m a n) = n"
  by (simp add: read_bytes_def)

lemma read_bytes_0 [simp]: "read_bytes m a 0 = []"
  by (simp add: read_bytes_def)

lemma read_bytes_add: "read_bytes m a (k + n) = read_bytes m a k @ read_bytes m (a + of_nat k) n"
  by (induction n) (simp_all add: read_bytes_def add.assoc)

lemma bytes64_peek [simp]: "bytes64 (peek_mem m a) = read_bytes m a 8"
  by (simp add: peek_mem_def bytes64_word64)

lemma write_bytes_Nil [simp]: "write_bytes a [] m = m"
  by (simp add: write_bytes_def)

lemma read_write_bytes:
  assumes "length bs \<le> 2 ^ 64"
  shows "read_bytes (write_bytes a bs m) a (length bs) = bs"
proof (rule nth_equalityI)
  fix i assume "i < length (read_bytes (write_bytes a bs m) a (length bs))"
  then have i: "i < length bs" by simp
  then have "unat (of_nat i :: u64) = i" using assms by (simp add: unat_of_nat)
  with i show "read_bytes (write_bytes a bs m) a (length bs) ! i = bs ! i"
    by (simp add: read_bytes_def write_bytes_def)
qed simp

lemma write_bytes_append:
  assumes "length bs + length cs \<le> 2 ^ 64"
  shows "write_bytes (a + of_nat (length bs)) cs (write_bytes a bs m) = write_bytes a (bs @ cs) m"
proof
  fix x :: u64
  define d where "d = x - a"
  have diff: "x - (a + of_nat (length bs)) = d - of_nat (length bs)" by (simp add: d_def)
  have dlt: "unat d < 2 ^ 64" using unsigned_less [of d] by simp
  show "write_bytes (a + of_nat (length bs)) cs (write_bytes a bs m) x = write_bytes a (bs @ cs) m x"
  proof (cases "unat d < length bs")
    case True
    have "\<not> unat (d - of_nat (length bs)) < length cs"
    proof (cases "cs = []")
      case False
      then have lt: "length bs < 2 ^ 64" using assms by (cases cs) auto
      then have ub: "unat (of_nat (length bs) :: u64) = length bs" by (simp add: unat_of_nat)
      then have "unat (d - of_nat (length bs)) = 2 ^ 64 + unat d - length bs"
        using True unat_sub_if_size [of d "of_nat (length bs)"] by (simp add: word_size ub)
      then show ?thesis using assms by simp
    qed simp
    with True show ?thesis by (simp add: write_bytes_def diff d_def [symmetric] nth_append)
  next
    case False
    then have lt: "length bs < 2 ^ 64" using dlt by simp
    then have ub: "unat (of_nat (length bs) :: u64) = length bs" by (simp add: unat_of_nat)
    have "unat (d - of_nat (length bs)) = unat d - length bs"
      using False unat_sub [of "of_nat (length bs)" d] by (simp add: word_le_nat_alt ub)
    with False show ?thesis
      by (auto simp: write_bytes_def diff d_def [symmetric] nth_append)
  qed
qed

lemma write_bytes_outside: "length bs \<le> unat (x - a) \<Longrightarrow> write_bytes a bs m x = m x"
  by (simp add: write_bytes_def)

end
