(* ===== verification/Sample_Platform.thy ===== *)
theory Sample_Platform
  imports Heap Memory
begin

text \<open>
  A platform to run the model on: two hosts, a kernel that keeps the memory and the registers
  of the traced processes and knows no call but those that fail, and an engine in which no other simulated process runs while one
  is blocked. The witnesses of the development evaluate the definitions here.
\<close>

record kernel =
  k_mem :: mem
  k_regs :: user_regs
  k_wait :: "(int \<times> u32) list"
  k_ids :: nat
  k_sent :: "(msg_task \<times> string) list"
  k_running :: "int list"
  k_netlink :: "u8 list"
  k_data :: "msg_task \<Rightarrow> cdata"
  k_amount :: "msg_task \<Rightarrow> int"

definition sample_regs :: user_regs where
  "sample_regs = \<lparr>orig_rax = 0, rax = 0, rdi = 0, rsi = 0, rdx = 0, r10 = 0, r8 = 0, r9 = 0,
     rip = 0x400000, other_regs = []\<rparr>"

definition sample_reg :: reg_s where
  "sample_reg = \<lparr>reg_orig = 0, reg_ret = 0, arg0 = 0, arg1 = 0, arg2 = 0, arg3 = 0, arg4 = 0, arg5 = 0\<rparr>"

definition sample_kernel :: kernel where
  "sample_kernel = \<lparr>k_mem = (\<lambda>_. 0), k_regs = sample_regs, k_wait = [], k_ids = 0, k_sent = [],
     k_running = [], k_netlink = [], k_data = (\<lambda>_. Null_data), k_amount = (\<lambda>_. 0)\<rparr>"

definition sample_env :: "kernel env" where
  "sample_env = \<lparr>
     address_translation = False,
     MSG_host_get_name = (\<lambda>h. if h = 0 then ''alice'' else ''bob''),
     MSG_get_host_by_name = (\<lambda>n. if n = ''alice'' then Some 0 else if n = ''bob'' then Some 1 else None),
     MSG_hosts_as_dynar = [0, 1],
     MSG_host_get_property_ip = (\<lambda>h. if h = 0 then Some ''1.0.0.0'' else None),
     MSG_host_self = (\<lambda>_. 0),
     MSG_process_self = (\<lambda>_. 0),
     MSG_get_clock = (\<lambda>_. 0),
     MSG_sem_init = (\<lambda>n w. (k_ids w, w\<lparr>k_ids := Suc (k_ids w)\<rparr>)),
     MSG_sem_acquire = (\<lambda>_ s. s),
     MSG_sem_release = (\<lambda>_ w. w),
     MSG_task_create = (\<lambda>_ _ _ w. (k_ids w, w\<lparr>k_ids := Suc (k_ids w)\<rparr>)),
     MSG_parallel_task_create = (\<lambda>_ _ _ _ w. (k_ids w, w\<lparr>k_ids := Suc (k_ids w)\<rparr>)),
     MSG_task_set_bytes_amount = (\<lambda>t n w. w\<lparr>k_amount := (k_amount w)(t := n)\<rparr>),
     MSG_task_set_data = (\<lambda>t d w. w\<lparr>k_data := (k_data w)(t := d)\<rparr>),
     MSG_task_get_bytes_amount = (\<lambda>t w. k_amount w t),
     MSG_task_get_data = (\<lambda>t w. k_data w t),
     MSG_task_destroy = (\<lambda>_ w. w),
     MSG_task_send = (\<lambda>t m s. s\<lparr>world := (world s)\<lparr>k_sent := k_sent (world s) @ [(t, m)]\<rparr>\<rparr>),
     MSG_task_receive = (\<lambda>m s. ((MSG_OK, Some 0), s)),
     MSG_task_irecv = (\<lambda>_ s. (0, s)),
     MSG_comm_wait = (\<lambda>_ _ s. (MSG_TIMEOUT, s)),
     MSG_process_create = (\<lambda>_ _ _ w. w),
     MSG_process_self_name = (\<lambda>_. ''alice''),
     PTRACE_PEEKDATA = (\<lambda>_ a w. Some (peek_mem (k_mem w) a)),
     PTRACE_POKEDATA = (\<lambda>_ a v w. Some (w\<lparr>k_mem := poke_mem a v (k_mem w)\<rparr>)),
     PTRACE_GETREGS = (\<lambda>_ w. Some (k_regs w)),
     PTRACE_SETREGS = (\<lambda>_ r w. Some (w\<lparr>k_regs := r\<rparr>)),
     PTRACE_SYSCALL = (\<lambda>p w. Some (w\<lparr>k_running := k_running w @ [p],
       k_regs := if orig_rax (k_regs w) = 184 then (k_regs w)\<lparr>rax := - 38\<rparr> else k_regs w\<rparr>)),
     PTRACE_DETACH = (\<lambda>_ w. Some w),
     PTRACE_GETEVENTMSG = (\<lambda>_ _. Some 101),
     sys_waitpid = (\<lambda>_ w. case k_wait w of [] \<Rightarrow> ((- 1, 0), w) | r # rs \<Rightarrow> (r, w\<lparr>k_wait := rs\<rparr>)),
     PTRACE_SETOPTIONS = (\<lambda>_ w. Some w),
     sys_fork = (\<lambda>w. (100, w)),
     proc_self_fd = (\<lambda>_. ([''.'', ''..'', ''0'', ''1'', ''2'', ''3''], 3)),
     fopen_w = (\<lambda>_ w. (True, w)),
     read_file = (\<lambda>_ _. None),
     readlink = (\<lambda>_ _. None),
     stack_address = 0,
     strerror = (\<lambda>_. ''error''),
     dict_order = (\<lambda>m. filter (\<lambda>k. m k \<noteq> None) (map int [0..<16]))\<rparr>"

text \<open>The state in which the port 80 of \<open>alice\<close> is in use, and a socket has just been made.\<close>

definition sample_socket :: infos_socket where
  "sample_socket = \<lparr>is_comm = None, is_host = Some 0, is_domain = 2, is_protocol = 0, ip_local = - 1,
     port_local = 80, is_flags = 2, is_type = 1, is_option = 0, is_binded = 0, ref_nb = 1\<rparr>"

definition sample_port :: port_desc where
  "sample_port = \<lparr>port_num = 80, real_port = 0, port_option = 0, amount_socket = 1, bind_socket = None\<rparr>"

definition sample_globals :: simterpose_globals where
  "sample_globals = \<lparr>list_host = [''alice'' \<mapsto> \<lparr>host_ip = 1, host_port = [''80'' \<mapsto> sample_port]\<rparr>,
        ''bob'' \<mapsto> \<lparr>host_ip = 2, host_port = Map.empty\<rparr>],
     list_ip = [''1.0.0.0'' \<mapsto> ''alice'', ''2.0.0.0'' \<mapsto> ''bob''], list_translate = Map.empty,
     nb_peek = 0, nb_poke = 0, nb_getregs = 0, nb_setregs = 0, nb_syscall = 0,
     nb_setoptions = 0, nb_detach = 0, nb_geteventmsg = 0\<rparr>"

definition sample_proc :: process_descriptor where
  "sample_proc = \<lparr>p_pid = 100, p_name = ''alice'', p_host = Some 0, fd_map = [3 \<mapsto> 1], p_status = 0,
     in_syscall = False, strace_out = None, curcol = 0\<rparr>"

definition sample_fd :: fd_descriptor_t where
  "sample_fd = (zero_desc 0)\<lparr>fd_type := FD_SOCKET, fd_fd := 3, as_socket := Some sample_socket\<rparr>"

definition sample_st :: "kernel st" where
  "sample_st = \<lparr>procs = [0 \<mapsto> sample_proc],
     fds = [1 \<mapsto> sample_fd],
     comms = Map.empty, pipes = Map.empty, streams = Map.empty, timers = Map.empty, next_ptr = 2, comm_list = [],
     all_sockets = [1], global_data = sample_globals, global_timer = None, strace_option = False, clone_number = 0, binding_port = 0,
     world = sample_kernel\<rparr>"

lemmas sample_simps = sample_env_def sample_st_def sample_socket_def sample_port_def sample_globals_def
  sample_proc_def sample_kernel_def sample_fd_def

lemma sample_sock:
  "fds sample_st 1 = Some sample_fd" "as_socket sample_fd = Some sample_socket"
  "is_host sample_socket = Some 0" "port_local sample_socket = 80"
  by (simp_all add: sample_st_def sample_fd_def sample_socket_def)

end
