(* ===== verification/Hosts_And_Ports.thy ===== *)
theory Hosts_And_Ports
  imports Data_Utils Sample_Platform
begin

unbundle bit_operations_syntax

text \<open>
  What \<open>data_utils.c\<close> guarantees: the choice of an unused port, the counting of the
  sockets that use a port, the lookup of bound sockets by device, the translation list, and
  the addresses that \<open>init_host_list\<close> gives to the hosts of the platform.
\<close>

section \<open>Looking for an unused port\<close>

lemma random_port_loop_finds:
  assumes "tbl (sprintf_d (uint q)) = None" "q \<le> p"
    and "\<And>r. q < r \<Longrightarrow> r \<le> p \<Longrightarrow> tbl (sprintf_d (uint r)) \<noteq> None"
  shows "random_port_loop tbl p = Some q"
  using assms(2,3)
proof (induction "unat p - unat q" arbitrary: p)
  case 0
  then have "p = q" by (simp add: word_le_nat_alt word_unat_eq_iff)
  then show ?case using assms(1) by (simp add: random_port_loop.simps [of tbl q])
next
  case (Suc n)
  then have lt: "q < p" by (simp add: word_less_nat_alt)
  then have pos: "unat (p - 1) = unat p - 1"
    by (metis gr_zeroI less_nat_zero_code unat_minus_one unsigned_0 word_less_nat_alt)
  have "n = unat (p - 1) - unat q" using Suc.hyps(2) pos by simp
  moreover have "q \<le> p - 1" using lt pos by (simp add: word_le_nat_alt word_less_nat_alt)
  moreover have "\<And>r. q < r \<Longrightarrow> r \<le> p - 1 \<Longrightarrow> tbl (sprintf_d (uint r)) \<noteq> None"
    using Suc.prems(2) pos by (simp add: word_le_nat_alt word_less_nat_alt)
  ultimately have "random_port_loop tbl (p - 1) = Some q" by (rule Suc.hyps(1))
  with lt Suc.prems(2) [of p] show ?case by (simp add: random_port_loop.simps [of tbl p])
qed

lemma random_port_loop_free:
  assumes ret: "random_port_loop tbl p = Some q"
  shows "tbl (sprintf_d (uint q)) = None"
proof (rule random_port_loop.raw_induct [where P = "\<lambda>tbl p q. tbl (sprintf_d (uint q)) = None", OF _ ret])
  fix loop and tbl :: "string \<rightharpoonup> port_desc" and port q :: u16
  assume "\<And>tbl port q. loop tbl port = Some q \<Longrightarrow> tbl (sprintf_d (uint q)) = None"
    and "(if tbl (sprintf_d (uint port)) \<noteq> None then loop tbl (port - 1) else Some port) = Some q"
  then show "tbl (sprintf_d (uint q)) = None" by (auto split: if_splits)
qed

definition free_ports :: "'w env \<Rightarrow> msg_host \<Rightarrow> 'w st \<Rightarrow> int set" where
  "free_ports E host s = {port. valid_port port \<and> port_entry E host s port = None}"

lemma finite_free_ports: "finite (free_ports E host s)"
  by (rule finite_subset [of _ "{0..<65536}"]) (auto simp: free_ports_def valid_port_def)

text \<open>
  C17. \<open>get_random_port\<close> returns the greatest port number of the host that no socket uses,
  and leaves the state as it was; it never returns exactly when all 65536 ports of the host
  are in use.
\<close>

theorem get_random_port_spec:
  assumes known: "host_known E host s"
  shows "get_random_port E host s =
    (if free_ports E host s = {} then Inl Diverges else Inr (Max (free_ports E host s), s))"
proof -
  from known obtain h where h: "list_host (global_data s) (MSG_host_get_name E host) = Some h"
    by (auto simp: host_known_def)
  have used: "host_port h (sprintf_d (uint r)) \<noteq> None \<longleftrightarrow> uint r \<notin> free_ports E host s" for r :: u16
    using uint_lt2p [of r] by (auto simp: free_ports_def valid_port_def port_entry_def h)
  show ?thesis
  proof (cases "free_ports E host s = {}")
    case True
    have "random_port_loop (host_port h) (0 - 1) = None"
    proof (rule ccontr)
      assume "random_port_loop (host_port h) (0 - 1) \<noteq> None"
      then obtain q where "random_port_loop (host_port h) (0 - 1) = Some q" by blast
      then have "host_port h (sprintf_d (uint q)) = None" by (rule random_port_loop_free)
      with used [of q] True show False by simp
    qed
    with h True show ?thesis by (simp add: get_random_port_def run)
  next
    case False
    define m where "m = Max (free_ports E host s)"
    have m: "m \<in> free_ports E host s" and top: "\<And>q. q \<in> free_ports E host s \<Longrightarrow> q \<le> m"
      using False finite_free_ports [of E host s] by (auto simp: m_def)
    from m have range: "0 \<le> m" "m < 65536" by (auto simp: free_ports_def valid_port_def)
    define q :: u16 where "q = word_of_int m"
    have uq: "uint q = m" using range by (simp add: q_def unsigned_of_int take_bit_int_eq_self)
    have "random_port_loop (host_port h) (- 1) = Some q"
    proof (rule random_port_loop_finds)
      show "host_port h (sprintf_d (uint q)) = None" using used [of q] m uq by simp
      show "q \<le> - 1" by simp
      show "host_port h (sprintf_d (uint r)) \<noteq> None" if "q < r" for r
        using that top [of "uint r"] used [of r] uq by (auto simp: word_less_def)
    qed
    with h False uq show ?thesis by (simp add: get_random_port_def run m_def)
  qed
qed

section \<open>Counting the users of a port\<close>

definition port_users :: "'w env \<Rightarrow> msg_host \<Rightarrow> 'w st \<Rightarrow> int \<Rightarrow> int" where
  "port_users E host s port = (case port_entry E host s port of None \<Rightarrow> 0 | Some d \<Rightarrow> amount_socket d)"

text \<open>
  The tables of ports are well-formed: a registered port has at least one user and is stored
  under its own number.
\<close>

definition ports_wf :: "'w st \<Rightarrow> bool" where
  "ports_wf s \<longleftrightarrow> (\<forall>n h k d. list_host (global_data s) n = Some h \<longrightarrow> host_port h k = Some d \<longrightarrow>
     1 \<le> amount_socket d \<and> k = sprintf_d (port_num d))"

lemma ports_wf_entry:
  "ports_wf s \<Longrightarrow> port_entry E host s port = Some d \<Longrightarrow> 1 \<le> amount_socket d \<and> port_num d = port"
proof -
  assume wf: "ports_wf s" and "port_entry E host s port = Some d"
  then obtain h where "list_host (global_data s) (MSG_host_get_name E host) = Some h"
    "host_port h (sprintf_d port) = Some d"
    by (auto simp: port_entry_def split: option.splits)
  with wf have "1 \<le> amount_socket d \<and> sprintf_d port = sprintf_d (port_num d)"
    by (auto simp: ports_wf_def)
  then show ?thesis by (simp add: sprintf_d_inj)
qed

lemma ports_wf_fds [simp]: "ports_wf (s\<lparr>fds := f\<rparr>) = ports_wf s"
  by (simp add: ports_wf_def)

lemma ports_wf_globals:
  "list_host (global_data t) = list_host (global_data s) \<Longrightarrow> ports_wf t = ports_wf s"
  by (simp add: ports_wf_def)

lemma ports_wf_store:
  "ports_wf s \<Longrightarrow> (\<And>d. v = Some d \<Longrightarrow> 1 \<le> amount_socket d \<and> port_num d = port) \<Longrightarrow>
     ports_wf (port_store E host port v s)"
  by (auto simp: ports_wf_def port_store_def run split: option.splits if_splits)

lemma keeps_register_port [keep]: "keeps ports_wf (register_port E host port)"
proof (rule keepsI)
  fix s x t
  assume wf: "ports_wf s" and "register_port E host port s = Inr (x, t)"
  then have "t = port_store E host port (Some (registered port (port_entry E host s port))) s"
    by (simp add: register_port_eq split: if_splits)
  with wf show "ports_wf t"
    by (auto intro!: ports_wf_store simp: registered_def fresh_port_def split: option.split
        dest: ports_wf_entry)
qed

lemma keeps_set_real_port [keep]: "keeps ports_wf (set_real_port E host port r)"
  by (rule keepsI)
    (auto simp: set_real_port_eq split: if_splits option.splits intro!: ports_wf_store dest: ports_wf_entry)

lemma keeps_set_port_on_binding [keep]: "keeps ports_wf (set_port_on_binding E host port is device)"
proof (rule keepsI)
  fix s x t
  assume wf: "ports_wf s" and eq: "set_port_on_binding E host port is device s = Inr (x, t)"
  show "ports_wf t"
  proof (cases "port_entry E host s port")
    case (Some d)
    have "ports_wf (port_store E host port (Some (bound d is device)) s)"
      using wf ports_wf_entry [OF wf Some] by (auto intro!: ports_wf_store simp: bound_def)
    with eq Some show ?thesis
      by (auto simp: set_port_on_binding_eq run_upd_sock split: if_splits option.splits)
  qed (use wf eq in \<open>auto simp: set_port_on_binding_eq split: if_splits\<close>)
qed

lemma keeps_unset_socket [keep]: "keeps ports_wf (unset_socket E pid is)"
proof (rule keepsI)
  fix s x t
  assume wf: "ports_wf s" and eq: "unset_socket E pid is s = Inr (x, t)"
  obtain f i host where f: "fds s is = Some f" "as_socket f = Some i" "is_host i = Some host"
    using eq unset_socket_faults [of s "is"] by (metis Inl_Inr_False not_Some_eq)
  have "ports_wf (port_store E host (port_local i) (released d is) u)"
    if "port_entry E host s (port_local i) = Some d" "ports_wf u" for d and u :: "'a st"
    using that ports_wf_entry [OF wf that(1)] by (auto intro!: ports_wf_store simp: released_def)
  with eq wf show "ports_wf t"
    by (auto simp: unset_socket_eq [OF f] split: if_splits option.splits)
qed

lemma port_store_back:
  "host_known E host s \<Longrightarrow> port_store E host port (port_entry E host s port) (port_store E host port v s) = s"
  by (auto simp: port_store_def port_entry_def host_known_def run fun_upd_idem split: option.split)

text \<open>
  C19. Releasing undoes registering: when a socket registers a port and gives it up again,
  without having been bound to it in between, the whole state is back to what it was,
  whether other sockets used the port or not.
\<close>

theorem unset_undoes_register:
  assumes wf: "ports_wf s" and known: "host_known E host s" and fits: "fits (port_local i)"
    and sock: "fds s is = Some f" "as_socket f = Some i" "is_host i = Some host"
    and unbound: "\<And>d. port_entry E host s (port_local i) = Some d \<Longrightarrow> bind_socket d \<noteq> Some is"
  shows "sq (register_port E host (port_local i)) (unset_socket E pid is) s = Inr ((), s)"
proof -
  let ?d = "registered (port_local i) (port_entry E host s (port_local i))"
  have "bind_socket ?d \<noteq> Some is \<and> released ?d is = port_entry E host s (port_local i)"
    using unbound ports_wf_entry [OF wf, of E host "port_local i"]
    by (auto simp: registered_def fresh_port_def released_def split: option.split)
  with known fits sock show ?thesis
    by (simp add: run_sq register_port_eq unset_socket_eq port_table.look_same port_store_back)
qed

text \<open>
  A socket bound to a port of a host is found again by every later lookup whose device
  (loopback, network interface) meets the devices of the port, and by no other lookup.
\<close>

lemma binding_is_found:
  assumes known: "host_known E host s" and fits: "fits port"
    and sock: "fds s is = Some f" "as_socket f = Some i"
    and entry: "port_entry E host s port = Some d"
  shows "bnd (set_port_on_binding E host port is device)
           (\<lambda>_. get_binding_socket_host E host port device') s =
     (let t = (port_store E host port (Some (bound d is device)) s)
              \<lparr>fds := (fds s)(is \<mapsto> f\<lparr>as_socket := Some (i\<lparr>ref_nb := ref_nb i + 1\<rparr>)\<rparr>)\<rparr>
      in Inr (if device' AND (port_option d OR PORT_BIND OR device) = 0 then None else Some is, t))"
proof -
  have "x AND PORT_BIND \<noteq> 0" if "x = y OR PORT_BIND OR z" for x y z :: u32
  proof -
    have "bit (x AND PORT_BIND) 0" using that by (simp add: PORT_BIND_def bit_simps)
    then show ?thesis by auto
  qed
  with assms show ?thesis
    by (simp add: run_bnd set_port_on_binding_eq run_upd_sock get_binding_eq port_table.look_same
        bound_def Let_def)
qed

section \<open>The addresses of the hosts\<close>

lemma next_free_ip_finds:
  assumes free: "w \<notin> set ip_list"
  shows "\<exists>ip. next_free_ip ip_list temp_ip = Some ip \<and> ip \<notin> set ip_list"
proof (induction "unat (w - temp_ip)" arbitrary: temp_ip)
  case 0
  then have "temp_ip = w" by (simp add: unat_eq_0)
  with free show ?case by (simp add: next_free_ip.simps)
next
  case (Suc n)
  have "n = unat (w - (temp_ip + 1))"
    using Suc.hyps(2) by (metis diff_Suc_1 diff_diff_eq unat_minus_one unsigned_0 nat.simps(3))
  from Suc.hyps(1) [OF this] show ?case
    by (cases "temp_ip \<in> set ip_list") (simp_all add: next_free_ip.simps [of ip_list temp_ip])
qed

lemma next_free_ip_exists:
  assumes "length ip_list < 2 ^ 32"
  shows "\<exists>ip. next_free_ip ip_list temp_ip = Some ip \<and> ip \<notin> set ip_list"
proof -
  have "card (set ip_list) < card (UNIV :: u32 set)"
    using assms card_length [of ip_list] by (simp add: card_word)
  then have "set ip_list \<noteq> UNIV" by auto
  then show ?thesis using next_free_ip_finds by blast
qed

text \<open>\<open>A\<close> lists the hosts registered so far with the address that each was given.\<close>

definition addressed :: "'w env \<Rightarrow> (msg_host \<times> u32) list \<Rightarrow> 'w st \<Rightarrow> bool" where
  "addressed E A s \<longleftrightarrow> distinct (map snd A) \<and> (\<forall>(h, ip) \<in> set A.
     list_host (global_data s) (MSG_host_get_name E h) = Some \<lparr>host_ip = ip, host_port = Map.empty\<rparr> \<and>
     list_ip (global_data s) (inet_ntoa ip) = Some (MSG_host_get_name E h))"

lemma addressed_add:
  assumes "addressed E A s" "ip \<notin> snd ` set A" "MSG_host_get_name E h \<notin> MSG_host_get_name E ` fst ` set A"
  shows "addressed E (A @ [(h, ip)]) (s\<lparr>global_data := (global_data s)\<lparr>
     list_host := (list_host (global_data s))(MSG_host_get_name E h \<mapsto> \<lparr>host_ip = ip, host_port = Map.empty\<rparr>),
     list_ip := (list_ip (global_data s))(inet_ntoa ip \<mapsto> MSG_host_get_name E h)\<rparr>\<rparr>)"
  using assms by (fastforce simp: addressed_def inet_ntoa_inj image_iff)

lemma addressed_unique:
  assumes A: "addressed E A s" and "(h, ip) \<in> set A" "(h, ip') \<in> set A"
  shows "ip = ip'"
proof -
  have "list_host (global_data s) (MSG_host_get_name E h) = Some \<lparr>host_ip = q, host_port = Map.empty\<rparr>"
    if "(h, q) \<in> set A" for q
    using A that by (auto simp: addressed_def)
  from this [OF assms(2)] this [OF assms(3)] show ?thesis by simp
qed

lemma hosts_with_ip_spec:
  assumes "addressed E A s" "distinct (map (MSG_host_get_name E) (map fst A @ hosts))"
    and "\<And>h p. h \<in> set hosts \<Longrightarrow> MSG_host_get_property_ip E h = Some p \<Longrightarrow> p = inet_ntoa (inet_addr p)"
    and "distinct (map snd A @ map inet_addr (List.map_filter (MSG_host_get_property_ip E) hosts))"
  shows "\<exists>B t. hosts_with_ip E hosts (map snd A) no s =
      Inr ((map snd B, no @ filter (\<lambda>h. MSG_host_get_property_ip E h = None) hosts), t) \<and>
    addressed E B t \<and> map fst B = map fst A @ filter (\<lambda>h. MSG_host_get_property_ip E h \<noteq> None) hosts \<and>
    (\<forall>(h, ip) \<in> set B - set A. MSG_host_get_property_ip E h = Some (inet_ntoa ip))"
  using assms
proof (induction hosts arbitrary: A no s)
  case Nil
  then show ?case by (intro exI [of _ A] exI [of _ s]) (simp add: run)
next
  case (Cons h hosts)
  show ?case
  proof (cases "MSG_host_get_property_ip E h")
    case None
    with Cons.prems Cons.IH [of A s "no @ [h]"] show ?thesis by (auto simp: List.map_filter_simps)
  next
    case (Some p)
    let ?B = "A @ [(h, inet_addr p)]"
    have p: "inet_ntoa (inet_addr p) = p" using Cons.prems(3) [of h p] Some by simp
    define u where "u = s\<lparr>global_data := (global_data s)\<lparr>
      list_host := (list_host (global_data s))(MSG_host_get_name E h \<mapsto> \<lparr>host_ip = inet_addr p, host_port = Map.empty\<rparr>),
      list_ip := (list_ip (global_data s))(p \<mapsto> MSG_host_get_name E h)\<rparr>\<rparr>"
    have "inet_addr p \<notin> snd ` set A" "MSG_host_get_name E h \<notin> MSG_host_get_name E ` fst ` set A"
      using Cons.prems(2,4) Some by (auto simp: List.map_filter_simps)
    then have "addressed E ?B u"
      using addressed_add [OF Cons.prems(1), of "inet_addr p" h] by (simp add: u_def p)
    with Cons.prems Cons.IH [of ?B u no] Some
    obtain B t where "hosts_with_ip E hosts (map snd ?B) no u =
        Inr ((map snd B, no @ filter (\<lambda>h. MSG_host_get_property_ip E h = None) hosts), t)"
      "addressed E B t" "map fst B = map fst ?B @ filter (\<lambda>h. MSG_host_get_property_ip E h \<noteq> None) hosts"
      "\<forall>(h, ip) \<in> set B - set ?B. MSG_host_get_property_ip E h = Some (inet_ntoa ip)"
      by (auto simp: List.map_filter_simps)
    with Some p show ?thesis
      by (intro exI [of _ B] exI [of _ t]) (auto simp: run u_def [symmetric])
  qed
qed

lemma hosts_without_ip_spec:
  assumes "addressed E A s" "distinct (map (MSG_host_get_name E) (map fst A @ hosts))"
    and "length A + length hosts < 2 ^ 32"
  shows "\<exists>B t. hosts_without_ip E hosts (map snd A) temp_ip s = Inr ((), t) \<and>
    addressed E B t \<and> map fst B = map fst A @ hosts \<and> set A \<subseteq> set B"
  using assms
proof (induction hosts arbitrary: A temp_ip s)
  case Nil
  then show ?case by (intro exI [of _ A] exI [of _ s]) (simp add: run)
next
  case (Cons h hosts)
  obtain ip where ip: "next_free_ip (map snd A) temp_ip = Some ip" "ip \<notin> snd ` set A"
    using next_free_ip_exists [of "map snd A" temp_ip] Cons.prems(3) by auto
  let ?B = "A @ [(h, ip)]"
  define u where "u = s\<lparr>global_data := (global_data s)\<lparr>
    list_host := (list_host (global_data s))(MSG_host_get_name E h \<mapsto> \<lparr>host_ip = ip, host_port = Map.empty\<rparr>),
    list_ip := (list_ip (global_data s))(inet_ntoa ip \<mapsto> MSG_host_get_name E h)\<rparr>\<rparr>"
  have "addressed E ?B u"
    using addressed_add [OF Cons.prems(1) ip(2), of h] Cons.prems(2) by (auto simp: u_def)
  with Cons.prems Cons.IH [of ?B u ip]
  obtain B t where "hosts_without_ip E hosts (map snd ?B) ip u = Inr ((), t)"
    "addressed E B t" "map fst B = map fst ?B @ hosts" "set ?B \<subseteq> set B" by auto
  with ip show ?case
    by (intro exI [of _ B] exI [of _ t]) (auto simp: run u_def [symmetric])
qed

lemma init_host_list_addressed:
  assumes few: "length (MSG_hosts_as_dynar E) < 2 ^ 32"
    and names: "distinct (map (MSG_host_get_name E) (MSG_hosts_as_dynar E))"
    and canonical: "\<And>h p. h \<in> set (MSG_hosts_as_dynar E) \<Longrightarrow> MSG_host_get_property_ip E h = Some p \<Longrightarrow>
      p = inet_ntoa (inet_addr p)"
    and different: "distinct (map inet_addr (List.map_filter (MSG_host_get_property_ip E) (MSG_hosts_as_dynar E)))"
  obtains A t where "init_host_list E s = Inr ((), t)" "addressed E A t"
    "fst ` set A = set (MSG_hosts_as_dynar E)"
    "\<And>h ip p. (h, ip) \<in> set A \<Longrightarrow> MSG_host_get_property_ip E h = Some p \<Longrightarrow> ip = inet_addr p"
proof -
  let ?hosts = "MSG_hosts_as_dynar E" and ?given = "\<lambda>h. MSG_host_get_property_ip E h \<noteq> None"
  let ?without = "filter (\<lambda>h. MSG_host_get_property_ip E h = None) ?hosts"
  have "addressed E [] s" by (simp add: addressed_def)
  from hosts_with_ip_spec [OF this, of ?hosts "[]"] names canonical different
  obtain B u where B: "hosts_with_ip E ?hosts [] [] s = Inr ((map snd B, ?without), u)" "addressed E B u"
    "map fst B = filter ?given ?hosts"
    "\<forall>(h, ip) \<in> set B. MSG_host_get_property_ip E h = Some (inet_ntoa ip)" by auto
  have len: "length B + length ?without < 2 ^ 32"
    using few arg_cong [OF B(3), of length] sum_length_filter_compl [of ?given ?hosts] by simp
  have "distinct (filter P xs @ filter (\<lambda>x. \<not> P x) xs)" if "distinct xs" for xs :: "msg_host list" and P
    using that by auto
  from this [of ?hosts ?given] names
  have "distinct (map (MSG_host_get_name E) (map fst B @ ?without))"
    unfolding B(3) distinct_map by (auto intro: inj_on_subset)
  from hosts_without_ip_spec [OF B(2) this len, of 1]
  obtain C t where C: "hosts_without_ip E ?without (map snd B) 1 u = Inr ((), t)" "addressed E C t"
    "map fst C = map fst B @ ?without" "set B \<subseteq> set C" by blast
  have given: "fst ` set B = {h \<in> set ?hosts. ?given h}" using arg_cong [OF B(3), of set] by simp
  have all: "fst ` set C = fst ` set B \<union> set ?without" using arg_cong [OF C(3), of set] by simp
  show ?thesis
  proof (rule that)
    show "init_host_list E s = Inr ((), t)" by (simp add: init_host_list_def run B C)
    show "fst ` set C = set ?hosts" using all given by auto
    fix h ip p assume ip: "(h, ip) \<in> set C" and p: "MSG_host_get_property_ip E h = Some p"
    have "h \<in> fst ` set B" using image_eqI [OF _ ip, of h fst] p all by auto
    then obtain ip' where ip': "(h, ip') \<in> set B" by auto
    then have "p = inet_ntoa ip'" using B(4) p by auto
    moreover have "ip = ip'" using addressed_unique [OF C(2) ip] ip' C(4) by blast
    ultimately show "ip = inet_addr p" by (simp add: inet_addr_inet_ntoa)
  qed (rule C(2))
qed

text \<open>
  C18. \<open>init_host_list\<close> returns, and afterwards every host of the platform has an address
  of its own: the address given in the platform file where there is one, and the host is
  found again by its address. It needs fewer than \<open>2 ^ 32\<close> hosts with different names
  that SimGrid resolves, and addresses in the platform file that are different and written
  in the form that \<open>inet_ntoa\<close> produces.
\<close>

theorem init_host_list_spec:
  assumes few: "length (MSG_hosts_as_dynar E) < 2 ^ 32"
    and names: "distinct (map (MSG_host_get_name E) (MSG_hosts_as_dynar E))"
    and by_name: "\<And>h. h \<in> set (MSG_hosts_as_dynar E) \<Longrightarrow> MSG_get_host_by_name E (MSG_host_get_name E h) = Some h"
    and canonical: "\<And>h p. h \<in> set (MSG_hosts_as_dynar E) \<Longrightarrow> MSG_host_get_property_ip E h = Some p \<Longrightarrow>
      p = inet_ntoa (inet_addr p)"
    and different: "distinct (map inet_addr (List.map_filter (MSG_host_get_property_ip E) (MSG_hosts_as_dynar E)))"
  shows "\<exists>t. init_host_list E s = Inr ((), t) \<and>
    (\<forall>h \<in> set (MSG_hosts_as_dynar E). \<exists>ip.
       get_ip_of_host E h t = Inr (ip, t) \<and> get_host_by_ip E ip t = Inr (Some h, t) \<and>
       port_entry E h t = Map.empty \<and>
       (\<forall>p. MSG_host_get_property_ip E h = Some p \<longrightarrow> ip = inet_addr p))"
proof -
  obtain A t where A: "init_host_list E s = Inr ((), t)" "addressed E A t"
    "fst ` set A = set (MSG_hosts_as_dynar E)"
    "\<And>h ip p. (h, ip) \<in> set A \<Longrightarrow> MSG_host_get_property_ip E h = Some p \<Longrightarrow> ip = inet_addr p"
    by (rule init_host_list_addressed [OF few names canonical different, where s = s]) (assumption | rule that)+
  have "\<exists>ip. get_ip_of_host E h t = Inr (ip, t) \<and> get_host_by_ip E ip t = Inr (Some h, t) \<and>
       port_entry E h t = Map.empty \<and> (\<forall>p. MSG_host_get_property_ip E h = Some p \<longrightarrow> ip = inet_addr p)"
    if h: "h \<in> set (MSG_hosts_as_dynar E)" for h
  proof -
    from h have "h \<in> fst ` set A" by (simp only: A(3))
    then obtain ip where "(h, ip) \<in> set A" by auto
    with A(2,4) by_name [OF h] show ?thesis
      by (intro exI [of _ ip])
        (auto simp: addressed_def get_ip_of_host_def get_host_by_ip_def port_entry_def run fun_eq_iff)
  qed
  with A(1) show ?thesis by blast
qed

section \<open>Witnesses\<close>

lemma sample_known: "host_known sample_env 0 sample_st"
  by (simp add: host_known_def sample_simps)

lemma sample_key: "sprintf_d 80 = ''80''"
  by code_simp

lemma sample_fits: "fits 80"
  by (simp add: fits_def sample_key)

lemma sample_entry: "port_entry sample_env 0 sample_st 80 = Some sample_port"
  by (simp add: port_entry_def sample_simps sample_key)

lemma sample_ports_wf: "ports_wf sample_st"
  by (auto simp: ports_wf_def sample_simps sample_key split: if_splits)

theorem get_random_port_spec_witness:
  "host_known sample_env 0 sample_st \<and> free_ports sample_env 0 sample_st \<noteq> {} \<and>
   get_random_port sample_env 0 sample_st = Inr (Max (free_ports sample_env 0 sample_st), sample_st)"
proof -
  have "sprintf_d 81 = ''81''" by code_simp
  then have "81 \<in> free_ports sample_env 0 sample_st"
    by (simp add: free_ports_def valid_port_def port_entry_def sample_simps)
  with get_random_port_spec [OF sample_known] sample_known show ?thesis by auto
qed

theorem unset_undoes_register_witness:
  "sq (register_port sample_env 0 80) (unset_socket sample_env 100 1) sample_st = Inr ((), sample_st)"
proof -
  have "bind_socket d \<noteq> Some 1" if "port_entry sample_env 0 sample_st 80 = Some d" for d
    using that sample_entry by (auto simp: sample_port_def)
  with unset_undoes_register [OF sample_ports_wf sample_known _ sample_sock(1-3), of 100]
  show ?thesis by (simp add: sample_sock sample_fits)
qed

theorem init_host_list_spec_witness:
  "\<exists>t. init_host_list sample_env sample_st = Inr ((), t) \<and>
    (\<forall>h \<in> {0, 1}. \<exists>ip. get_ip_of_host sample_env h t = Inr (ip, t) \<and> get_host_by_ip sample_env ip t = Inr (Some h, t))"
proof -
  have "inet_ntoa 1 = ''1.0.0.0''"
    by (simp add: inet_ntoa_def le_bytes4 digits.simps digit_char_def)
  then have "inet_ntoa (inet_addr ''1.0.0.0'') = ''1.0.0.0''" using inet_addr_inet_ntoa [of 1] by simp
  then have "\<exists>t. init_host_list sample_env sample_st = Inr ((), t) \<and>
    (\<forall>h \<in> set (MSG_hosts_as_dynar sample_env). \<exists>ip.
       get_ip_of_host sample_env h t = Inr (ip, t) \<and> get_host_by_ip sample_env ip t = Inr (Some h, t) \<and>
       port_entry sample_env h t = Map.empty \<and>
       (\<forall>p. MSG_host_get_property_ip sample_env h = Some p \<longrightarrow> ip = inet_addr p))"
    by (intro init_host_list_spec)
      (auto simp: sample_env_def List.map_filter_simps split: if_splits)
  then show ?thesis by (auto simp: sample_env_def)
qed

end
