(* ===== verification/Process_Descriptor.thy ===== *)
theory Process_Descriptor
  imports Heap Tables
begin

unbundle bit_operations_syntax

text \<open>
  \<open>process_descriptor.h\<close> and \<open>process_descriptor.c\<close>: the table of file
  descriptors of a process, the decoding of wait statuses, the in/out-of-syscall flag, and
  the creation and destruction of descriptors.
\<close>

section \<open>The table of file descriptors\<close>

definition process_descriptor_get_fd :: "proc_ptr \<Rightarrow> int \<Rightarrow> ('w st, fd_ptr option) M" where
  "process_descriptor_get_fd proc fd = bnd (get_proc proc) (\<lambda>d. ret (fd_map d fd))"

definition process_descriptor_set_fd :: "proc_ptr \<Rightarrow> int \<Rightarrow> fd_ptr option \<Rightarrow> ('w st, unit) M" where
  "process_descriptor_set_fd proc fd file_desc =
     (case file_desc of
        Some a \<Rightarrow> upd_proc proc (\<lambda>d. d\<lparr>fd_map := (fd_map d)(fd \<mapsto> a)\<rparr>)
      | None \<Rightarrow> bnd (process_descriptor_get_fd proc fd) (\<lambda>old.
          whenM (old \<noteq> None) (upd_proc proc (\<lambda>d. d\<lparr>fd_map := (fd_map d)(fd := None)\<rparr>))))"

lemma run_get_fd [run]:
  "process_descriptor_get_fd p fd s =
     (case procs s p of None \<Rightarrow> Inl Dangling_ptr | Some d \<Rightarrow> Inr (fd_map d fd, s))"
  by (simp add: process_descriptor_get_fd_def run split: option.split)

lemma wp_get_fd [wps]:
  "wp (process_descriptor_get_fd p fd) Q s = (\<exists>d. procs s p = Some d \<and> Q (fd_map d fd) s)"
  by (simp add: process_descriptor_get_fd_def wps)

lemma st_procs_same: "procs s p = Some d \<Longrightarrow> s\<lparr>procs := (procs s)(p \<mapsto> d)\<rparr> = s"
  by (simp add: map_upd_triv)

lemma fd_map_None_same: "fd_map d fd = None \<Longrightarrow> d\<lparr>fd_map := (fd_map d)(fd := None)\<rparr> = d"
  by (simp add: fun_upd_idem)

lemma run_set_fd [run]:
  "process_descriptor_set_fd p fd v s =
     (case procs s p of None \<Rightarrow> Inl Dangling_ptr
      | Some d \<Rightarrow> Inr ((), s\<lparr>procs := (procs s)(p \<mapsto> d\<lparr>fd_map := (fd_map d)(fd := v)\<rparr>)\<rparr>))"
  by (auto simp: process_descriptor_set_fd_def run fd_map_None_same st_procs_same split: option.split)

lemma wp_set_fd [wps]:
  "wp (process_descriptor_set_fd p fd v) Q s =
     (\<exists>d. procs s p = Some d \<and>
        Q () (s\<lparr>procs := (procs s)(p \<mapsto> d\<lparr>fd_map := (fd_map d)(fd := v)\<rparr>)\<rparr>))"
  by (auto simp: wp_def run split: option.split)

text \<open>What the table of a process holds, and the state after an assignment to it.\<close>

definition fd_lookup :: "proc_ptr \<Rightarrow> 'w st \<Rightarrow> int \<Rightarrow> fd_ptr option" where
  "fd_lookup p s fd = (case procs s p of None \<Rightarrow> None | Some d \<Rightarrow> fd_map d fd)"

definition fd_store :: "proc_ptr \<Rightarrow> int \<Rightarrow> fd_ptr option \<Rightarrow> 'w st \<Rightarrow> 'w st" where
  "fd_store p fd v s = (case process_descriptor_set_fd p fd v s of Inl e \<Rightarrow> s | Inr (_, t) \<Rightarrow> t)"

definition live_proc :: "proc_ptr \<Rightarrow> 'w st \<Rightarrow> bool" where
  "live_proc p s \<longleftrightarrow> procs s p \<noteq> None"

interpretation fd_table: lookup_table "fd_lookup p" "fd_store p" "live_proc p" for p
  by unfold_locales (auto simp: fd_lookup_def fd_store_def live_proc_def run fun_eq_iff split: option.splits)

section \<open>Wait statuses\<close>

definition WIFSTOPPED :: "u32 \<Rightarrow> bool" where
  "WIFSTOPPED status \<longleftrightarrow> status AND 0xff = 0x7f"

definition WSTOPSIG :: "u32 \<Rightarrow> u32" where
  "WSTOPSIG status = drop_bit 8 (status AND 0xff00)"

definition getevent :: "u32 \<Rightarrow> u32" where
  "getevent status = drop_bit 16 status AND 0xffff"

definition SIGTRAP :: u32 where "SIGTRAP = 5"
definition PTRACE_EVENT_EXEC :: u32 where "PTRACE_EVENT_EXEC = 4"

definition proc_event_exec :: "process_descriptor \<Rightarrow> bool" where
  "proc_event_exec proc \<longleftrightarrow> WIFSTOPPED (p_status proc) \<and> getevent (p_status proc) = PTRACE_EVENT_EXEC"

definition proc_event_syscall :: "process_descriptor \<Rightarrow> bool" where
  "proc_event_syscall proc \<longleftrightarrow>
     WIFSTOPPED (p_status proc) \<and> WSTOPSIG (p_status proc) AND (SIGTRAP OR 0x80) \<noteq> 0"

section \<open>Inside and outside of a system call\<close>

text \<open>
  \<open>proc_entering\<close> also reports an unexpected stop on standard error; the value it
  returns does not depend on that.
\<close>

definition proc_entering :: "proc_ptr \<Rightarrow> ('w st, bool) M" where
  "proc_entering proc = bnd (get_proc proc) (\<lambda>d. ret (\<not> in_syscall d))"

definition proc_inside :: "proc_ptr \<Rightarrow> ('w st, unit) M" where
  "proc_inside proc = upd_proc proc (\<lambda>d. d\<lparr>in_syscall := True\<rparr>)"

definition proc_outside :: "proc_ptr \<Rightarrow> ('w st, unit) M" where
  "proc_outside proc = upd_proc proc (\<lambda>d. d\<lparr>in_syscall := False\<rparr>)"

lemma run_proc_entering [run]:
  "proc_entering p s =
     (case procs s p of None \<Rightarrow> Inl Dangling_ptr | Some d \<Rightarrow> Inr (\<not> in_syscall d, s))"
  by (simp add: proc_entering_def run split: option.split)

lemma wp_proc_entering [wps]:
  "wp (proc_entering p) Q s = (\<exists>d. procs s p = Some d \<and> Q (\<not> in_syscall d) s)"
  by (simp add: proc_entering_def wps)

declare proc_inside_def [run, wps] proc_outside_def [run, wps]

section \<open>Creation\<close>

definition register_file_descriptor :: "proc_ptr \<Rightarrow> int \<Rightarrow> int \<Rightarrow> ('w st, unit) M" where
  "register_file_descriptor process fd type =
     bnd (new_desc ((zero_desc process)\<lparr>fd_refcount := 0, fd_type := type, fd_proc := process,
            fd_fd := fd, fd_flags := 0\<rparr>)) (\<lambda>file_desc.
     sq (process_descriptor_set_fd process fd (Some file_desc))
        (upd_desc file_desc (\<lambda>d. d\<lparr>fd_refcount := fd_refcount d + 1\<rparr>)))"

definition initial_fd_type :: "int \<Rightarrow> int" where
  "initial_fd_type fd = (if fd = 0 then FD_STDIN else if fd = 1 then FD_STDOUT
     else if fd = 2 then FD_STDERR else FD_CLASSIC)"

text \<open>The loop over the entries of \<open>/proc/self/fd\<close>.\<close>

fun register_entries :: "proc_ptr \<Rightarrow> int \<Rightarrow> string list \<Rightarrow> ('w st, unit) M" where
  "register_entries result dir_fd [] = ret ()"
| "register_entries result dir_fd (d_name # entries) =
     (if d_name = [] \<or> \<not> isdigit (hd d_name) then register_entries result dir_fd entries
      else let fd = atoi d_name in
        if fd = dir_fd then register_entries result dir_fd entries
        else sq (register_file_descriptor result fd (initial_fd_type fd))
                (register_entries result dir_fd entries))"

text \<open>
  The name of the log file: \<open>bprintf("simterpose-%s.log", argv0)\<close>, from which
  everything between the prefix and the last slash is removed.
\<close>

definition strace_filename :: "string \<Rightarrow> string" where
  "strace_filename argv0 =
     (let filename = ''simterpose-'' @ argv0 @ ''.log''
      in if CHR ''/'' \<in> set filename
         then ''simterpose-'' @ rev (takeWhile (\<lambda>c. c \<noteq> CHR ''/'') (rev filename))
         else filename)"

definition process_descriptor_new :: "'w env \<Rightarrow> string \<Rightarrow> string \<Rightarrow> int \<Rightarrow> ('w st, proc_ptr) M" where
  "process_descriptor_new E name argv0 pid =
     bnd (new_proc \<lparr>p_pid = pid, p_name = name, p_host = None, fd_map = Map.empty, p_status = 0,
            in_syscall = False, strace_out = None, curcol = 0\<rparr>) (\<lambda>result.
     bnd (get_world (proc_self_fd E)) (\<lambda>(entries, dir_fd).
     sq (register_entries result dir_fd entries) (
     sq (upd_proc result (\<lambda>d. d\<lparr>p_host := MSG_get_host_by_name E (p_name d)\<rparr>)) (
     bnd (gets strace_option) (\<lambda>strace.
     sq (if strace then
           bnd (call_world (fopen_w E (strace_filename argv0))) (\<lambda>opened.
           if opened then upd_proc result (\<lambda>d. d\<lparr>strace_out := Some [], curcol := 0\<rparr>)
           else fail Xbt_assert)
         else upd_proc result (\<lambda>d. d\<lparr>strace_out := None\<rparr>))
     (ret result))))))"

section \<open>Destruction\<close>

text \<open>\<open>xbt_dict_foreach\<close> over the table visits its keys in the order of the dictionary.\<close>

fun release_fds :: "proc_ptr \<Rightarrow> int list \<Rightarrow> ('w st, unit) M" where
  "release_fds proc [] = ret ()"
| "release_fds proc (key # keys) =
     bnd (process_descriptor_get_fd proc key) (\<lambda>v.
     bnd (nonnull v) (\<lambda>file_dsc.
     block [upd_desc file_dsc (\<lambda>d. d\<lparr>fd_refcount := fd_refcount d - 1\<rparr>),
            free_desc file_dsc,
            release_fds proc keys]))"

definition process_descriptor_destroy :: "'w env \<Rightarrow> proc_ptr \<Rightarrow> ('w st, unit) M" where
  "process_descriptor_destroy E proc =
     bnd (get_proc proc) (\<lambda>d.
     sq (release_fds proc (dict_order E (fd_map d)))
        (free_proc proc))"

end
