(* ===== verification/Ptrace_Utils.thy ===== *)
theory Ptrace_Utils
  imports Data_Utils Process_Descriptor Memory Sample_Platform
begin

unbundle bit_operations_syntax

text \<open>
  \<open>ptrace_utils.c\<close>: the requests to the kernel about a traced process. Copies between
  the memory of the traced process and the simulator, resuming, and the rewriting of system
  calls: a call is neutralised by turning it into \<open>tuxcall\<close>, and restored with the
  result that the simulation decided on.
\<close>

section \<open>System calls\<close>

definition syscall_list :: "string list" where
  "syscall_list = [
    ''read'', ''write'', ''open'', ''close'', ''stat'', ''fstat'', ''lstat'', ''poll'',
    ''lseek'', ''mmap'', ''mprotect'', ''munmap'', ''brk'', ''rt_sigaction'', ''rt_sigprocmask'',
    ''rt_sigreturn'', ''ioctl'', ''pread64'', ''pwrite64'', ''readv'', ''writev'', ''access'',
    ''pipe'', ''select'', ''sched_yield'', ''mremap'', ''msync'', ''mincore'', ''madvise'',
    ''shmget'', ''shmat'', ''shmctl'', ''dup'', ''dup2'', ''pause'', ''nanosleep'',
    ''getitimer'', ''alarm'', ''setitimer'', ''getpid'', ''sendfile'', ''socket'', ''connect'',
    ''accept'', ''sendto'', ''recvfrom'', ''sendmsg'', ''recvmsg'', ''shutdown'', ''bind'',
    ''listen'', ''getsockname'', ''getpeername'', ''socketpair'', ''setsockopt'', ''getsockopt'',
    ''clone'', ''fork'', ''vfork'', ''execve'', ''exit'', ''wait4'', ''kill'', ''uname'',
    ''semget'', ''semop'', ''semctl'', ''shmdt'', ''msgget'', ''msgsnd'', ''msgrcv'', ''msgctl'',
    ''fcntl'', ''flock'', ''fsync'', ''fdatasync'', ''truncate'', ''ftruncate'', ''getdents'',
    ''getcwd'', ''chdir'', ''fchdir'', ''rename'', ''mkdir'', ''rmdir'', ''creat'', ''link'',
    ''unlink'', ''symlink'', ''readlink'', ''chmod'', ''fchmod'', ''chown'', ''fchown'',
    ''lchown'', ''umask'', ''gettimeofday'', ''getrlimit'', ''getrusage'', ''sysinfo'',
    ''times'', ''ptrace'', ''getuid'', ''syslog'', ''getgid'', ''setuid'', ''setgid'',
    ''geteuid'', ''getegid'', ''setpgid'', ''getppid'', ''getpgrp'', ''setsid'', ''setreuid'',
    ''setregid'', ''getgroups'', ''setgroups'', ''setresuid'', ''getresuid'', ''setresgid'',
    ''getresgid'', ''getpgid'', ''setfsuid'', ''setfsgid'', ''getsid'', ''capget'', ''capset'',
    ''rt_sigpending'', ''rt_sigtimedwait'', ''rt_sigqueueinfo'', ''rt_sigsuspend'',
    ''sigaltstack'', ''utime'', ''mknod'', ''uselib'', ''personality'', ''ustat'', ''statfs'',
    ''fstatfs'', ''sysfs'', ''getpriority'', ''setpriority'', ''sched_setparam'',
    ''sched_getparam'', ''sched_setscheduler'', ''sched_getscheduler'',
    ''sched_get_priority_max'', ''sched_get_priority_min'', ''sched_rr_get_interval'', ''mlock'',
    ''munlock'', ''mlockall'', ''munlockall'', ''vhangup'', ''modify_ldt'', ''pivot_root'',
    ''_sysctl'', ''prctl'', ''arch_prctl'', ''adjtimex'', ''setrlimit'', ''chroot'', ''sync'',
    ''acct'', ''settimeofday'', ''mount'', ''umount2'', ''swapon'', ''swapoff'', ''reboot'',
    ''sethostname'', ''setdomainname'', ''iopl'', ''ioperm'', ''create_module'', ''init_module'',
    ''delete_module'', ''get_kernel_syms'', ''query_module'', ''quotactl'', ''nfsservctl'',
    ''getpmsg'', ''putpmsg'', ''afs_syscall'', ''tuxcall'', ''security'', ''gettid'',
    ''readahead'', ''setxattr'', ''lsetxattr'', ''fsetxattr'', ''getxattr'', ''lgetxattr'',
    ''fgetxattr'', ''listxattr'', ''llistxattr'', ''flistxattr'', ''removexattr'',
    ''lremovexattr'', ''fremovexattr'', ''tkill'', ''time'', ''futex'', ''sched_setaffinity'',
    ''sched_getaffinity'', ''set_thread_area'', ''io_setup'', ''io_destroy'', ''io_getevents'',
    ''io_submit'', ''io_cancel'', ''get_thread_area'', ''lookup_dcookie'', ''epoll_create'',
    ''epoll_ctl_old'', ''epoll_wait_old'', ''remap_file_pages'', ''getdents64'',
    ''set_tid_address'', ''restart_syscall'', ''semtimedop'', ''fadvise64'', ''timer_create'',
    ''timer_settime'', ''timer_gettime'', ''timer_getoverrun'', ''timer_delete'',
    ''clock_settime'', ''clock_gettime'', ''clock_getres'', ''clock_nanosleep'', ''exit_group'',
    ''epoll_wait'', ''epoll_ctl'', ''tgkill'', ''utimes'', ''vserver'', ''mbind'',
    ''set_mempolicy'', ''get_mempolicy'', ''mq_open'', ''mq_unlink'', ''mq_timedsend'',
    ''mq_timedreceive'', ''mq_notify'', ''mq_getsetattr'', ''kexec_load'', ''waitid'',
    ''add_key'', ''request_key'', ''keyctl'', ''ioprio_set'', ''ioprio_get'', ''inotify_init'',
    ''inotify_add_watch'', ''inotify_rm_watch'', ''migrate_pages'', ''openat'', ''mkdirat'',
    ''mknodat'', ''fchownat'', ''futimesat'', ''newfstatat'', ''unlinkat'', ''renameat'',
    ''linkat'', ''symlinkat'', ''readlinkat'', ''fchmodat'', ''faccessat'', ''pselect6'',
    ''ppoll'', ''unshare'', ''set_robust_list'', ''get_robust_list'', ''splice'', ''tee'',
    ''sync_file_range'', ''vmsplice'', ''move_pages'', ''utimensat'', ''epoll_pwait'',
    ''signalfd'', ''timerfd_create'', ''eventfd'', ''fallocate'', ''timerfd_settime'',
    ''timerfd_gettime'', ''accept4'', ''signalfd4'', ''eventfd2'', ''epoll_create1'', ''dup3'',
    ''pipe2'', ''inotify_init1'', ''preadv'', ''pwritev'']"

definition SYS_read :: u64 where "SYS_read = 0"
definition SYS_write :: u64 where "SYS_write = 1"
definition SYS_open :: u64 where "SYS_open = 2"
definition SYS_close :: u64 where "SYS_close = 3"
definition SYS_poll :: u64 where "SYS_poll = 7"
definition SYS_lseek :: u64 where "SYS_lseek = 8"
definition SYS_brk :: u64 where "SYS_brk = 12"
definition SYS_pipe :: u64 where "SYS_pipe = 22"
definition SYS_select :: u64 where "SYS_select = 23"
definition SYS_dup :: u64 where "SYS_dup = 32"
definition SYS_dup2 :: u64 where "SYS_dup2 = 33"
definition SYS_getpid :: u64 where "SYS_getpid = 39"
definition SYS_socket :: u64 where "SYS_socket = 41"
definition SYS_connect :: u64 where "SYS_connect = 42"
definition SYS_accept :: u64 where "SYS_accept = 43"
definition SYS_sendto :: u64 where "SYS_sendto = 44"
definition SYS_recvfrom :: u64 where "SYS_recvfrom = 45"
definition SYS_sendmsg :: u64 where "SYS_sendmsg = 46"
definition SYS_recvmsg :: u64 where "SYS_recvmsg = 47"
definition SYS_shutdown :: u64 where "SYS_shutdown = 48"
definition SYS_bind :: u64 where "SYS_bind = 49"
definition SYS_listen :: u64 where "SYS_listen = 50"
definition SYS_getpeername :: u64 where "SYS_getpeername = 52"
definition SYS_setsockopt :: u64 where "SYS_setsockopt = 54"
definition SYS_getsockopt :: u64 where "SYS_getsockopt = 55"
definition SYS_clone :: u64 where "SYS_clone = 56"
definition SYS_execve :: u64 where "SYS_execve = 59"
definition SYS_exit :: u64 where "SYS_exit = 60"
definition SYS_fcntl :: u64 where "SYS_fcntl = 72"
definition SYS_creat :: u64 where "SYS_creat = 85"
definition SYS_tuxcall :: u64 where "SYS_tuxcall = 184"
definition SYS_exit_group :: u64 where "SYS_exit_group = 231"

lemmas syscall_numbers = SYS_read_def SYS_write_def SYS_open_def SYS_close_def SYS_poll_def SYS_lseek_def
  SYS_brk_def SYS_pipe_def SYS_select_def SYS_dup_def SYS_dup2_def SYS_getpid_def SYS_socket_def
  SYS_connect_def SYS_accept_def SYS_sendto_def SYS_recvfrom_def SYS_sendmsg_def SYS_recvmsg_def
  SYS_shutdown_def SYS_bind_def SYS_listen_def SYS_getpeername_def SYS_setsockopt_def
  SYS_getsockopt_def SYS_clone_def SYS_execve_def SYS_exit_def SYS_fcntl_def SYS_creat_def
  SYS_tuxcall_def SYS_exit_group_def

section \<open>Copies from and to the memory of the process\<close>

text \<open>\<open>ptrace(PTRACE_PEEKDATA, ...)\<close>, the counter, and the test of the result.\<close>

definition ptrace_peek :: "'w env \<Rightarrow> int \<Rightarrow> u64 \<Rightarrow> ('w st, u64) M" where
  "ptrace_peek E child addr =
     bnd (get_world (PTRACE_PEEKDATA E child addr)) (\<lambda>r.
     sq increment_nb_peek (case r of None \<Rightarrow> fail Syserror | Some v \<Rightarrow> ret v))"

text \<open>
  \<open>*temp_dest = ret; ++temp_dest\<close>: eight more bytes of a destination of the given size.
  What has been written so far is the list \<open>dst\<close>.
\<close>

definition store_long :: "nat \<Rightarrow> u8 list \<Rightarrow> u64 \<Rightarrow> ('w st, u8 list) M" where
  "store_long sz dst v = (if length dst + 8 \<le> sz then ret (dst @ bytes64 v) else fail Out_of_bounds)"

function ptrace_cpy_loop :: "'w env \<Rightarrow> int \<Rightarrow> nat \<Rightarrow> u64 \<Rightarrow> nat \<Rightarrow> nat \<Rightarrow> nat \<Rightarrow> u8 list \<Rightarrow>
    ('w st, nat \<times> u8 list) M" where
  "ptrace_cpy_loop E child sz src i size_copy len dst =
     (if size_copy < len then
        bnd (ptrace_peek E child (src + of_nat i * 8)) (\<lambda>r.
        bnd (store_long sz dst r) (\<lambda>dst.
        ptrace_cpy_loop E child sz src (Suc i) (size_copy + 8) len dst))
      else ret (i, dst))"
  by pat_completeness auto
termination
  by (relation "measure (\<lambda>(E, child, sz, src, i, size_copy, len, dst). len - size_copy)") auto

declare ptrace_cpy_loop.simps [simp del]

text \<open>
  \<open>ptrace_cpy\<close>: \<open>sz\<close> is the size of the object behind \<open>dst\<close>; the result is
  what the copy has written to it.
\<close>

definition ptrace_cpy :: "'w env \<Rightarrow> int \<Rightarrow> nat \<Rightarrow> u64 \<Rightarrow> u64 \<Rightarrow> ('w st, u8 list) M" where
  "ptrace_cpy E child sz src len0 =
     (let len = len0 AND NOT 8; rest = len0 AND 8 in
      bnd (ptrace_cpy_loop E child sz src 0 0 (unat len) []) (\<lambda>(i, dst).
      if rest \<noteq> 0 then
        bnd (ptrace_peek E child (src + of_nat i * 8)) (\<lambda>r. store_long sz dst r)
      else ret dst))"

text \<open>
  \<open>ptrace_poke\<close>: every word is read from the source object in one piece, so a source
  that ends inside a word is read beyond its end.
\<close>

function ptrace_poke_loop :: "'w env \<Rightarrow> int \<Rightarrow> u64 \<Rightarrow> u8 list \<Rightarrow> nat \<Rightarrow> nat \<Rightarrow> ('w st, unit) M" where
  "ptrace_poke_loop E pid dst src size_copy len =
     (if size_copy < len then
        if size_copy + 8 \<le> length src then
          bnd (get_world (PTRACE_POKEDATA E pid (dst + of_nat size_copy) (word64 (take 8 (drop size_copy src))))) (\<lambda>r.
          sq increment_nb_poke
             (case r of None \<Rightarrow> fail Syserror
              | Some w \<Rightarrow> sq (upd_world (\<lambda>_. w)) (ptrace_poke_loop E pid dst src (size_copy + 8) len)))
        else fail Out_of_bounds
      else ret ())"
  by pat_completeness auto
termination
  by (relation "measure (\<lambda>(E, pid, dst, src, size_copy, len). len - size_copy)") auto

declare ptrace_poke_loop.simps [simp del]

definition ptrace_poke :: "'w env \<Rightarrow> int \<Rightarrow> u64 \<Rightarrow> u8 list \<Rightarrow> u64 \<Rightarrow> ('w st, unit) M" where
  "ptrace_poke E pid dst src len = ptrace_poke_loop E pid dst src 0 (unat len)"

section \<open>Control of the process\<close>

definition ptrace_resume_process :: "'w env \<Rightarrow> int \<Rightarrow> ('w st, unit) M" where
  "ptrace_resume_process E pid =
     sq increment_nb_syscall
     (bnd (get_world (PTRACE_SYSCALL E pid)) (\<lambda>r.
      case r of None \<Rightarrow> fail Syserror | Some w \<Rightarrow> upd_world (\<lambda>_. w)))"

definition ptrace_detach_process :: "'w env \<Rightarrow> int \<Rightarrow> ('w st, unit) M" where
  "ptrace_detach_process E pid =
     sq increment_nb_detach
     (bnd (get_world (PTRACE_DETACH E pid)) (\<lambda>r.
      case r of None \<Rightarrow> fail Syserror | Some w \<Rightarrow> upd_world (\<lambda>_. w)))"

text \<open>\<open>waitpid(pid, &status, __WALL)\<close>: the status.\<close>

definition waitpid :: "'w env \<Rightarrow> int \<Rightarrow> ('w st, u32) M" where
  "waitpid E pid = bnd (call_world (sys_waitpid E pid)) (\<lambda>(r, status). ret status)"

definition ptrace_getregs :: "'w env \<Rightarrow> int \<Rightarrow> ('w st, user_regs) M" where
  "ptrace_getregs E pid =
     sq increment_nb_getregs
     (bnd (get_world (PTRACE_GETREGS E pid)) (\<lambda>r.
      case r of None \<Rightarrow> fail Syserror | Some regs \<Rightarrow> ret regs))"

definition ptrace_setregs :: "'w env \<Rightarrow> int \<Rightarrow> user_regs \<Rightarrow> ('w st, unit) M" where
  "ptrace_setregs E pid regs =
     sq increment_nb_setregs
     (bnd (get_world (PTRACE_SETREGS E pid regs)) (\<lambda>r.
      case r of None \<Rightarrow> fail Syserror | Some w \<Rightarrow> upd_world (\<lambda>_. w)))"

section \<open>Rewriting of system calls\<close>

definition ptrace_rewind_syscalls :: "'w env \<Rightarrow> int \<Rightarrow> ('w st, unit) M" where
  "ptrace_rewind_syscalls E pid =
     bnd (ptrace_getregs E pid) (\<lambda>regs.
     ptrace_setregs E pid (regs\<lparr>rax := orig_rax regs, rip := rip regs - 2\<rparr>))"

definition ptrace_record_socket :: "'w env \<Rightarrow> int \<Rightarrow> ('w st, int) M" where
  "ptrace_record_socket E pid =
     bnd (ptrace_getregs E pid) (\<lambda>save_reg.
     bnd (ptrace_getregs E pid) (\<lambda>reg.
     sq (ptrace_setregs E pid (reg\<lparr>orig_rax := SYS_socket, rdi := 2, rsi := 1, rdx := 0\<rparr>))
     (sq (ptrace_resume_process E pid)
     (sq (waitpid E pid)
     (bnd (ptrace_getregs E pid) (\<lambda>reg.
      let res = c_int (rax reg) in
      sq (ptrace_setregs E pid save_reg)
      (sq (ptrace_rewind_syscalls E pid)
      (sq (ptrace_resume_process E pid)
      (sq (waitpid E pid) (ret res))))))))))"

definition ptrace_get_register :: "'w env \<Rightarrow> int \<Rightarrow> ('w st, reg_s) M" where
  "ptrace_get_register E pid =
     bnd (ptrace_getregs E pid) (\<lambda>regs.
     ret \<lparr>reg_orig = orig_rax regs, reg_ret = rax regs, arg0 = rdi regs, arg1 = rsi regs,
          arg2 = rdx regs, arg3 = r10 regs, arg4 = r8 regs, arg5 = r9 regs\<rparr>)"

definition ptrace_neutralize_syscall :: "'w env \<Rightarrow> int \<Rightarrow> ('w st, unit) M" where
  "ptrace_neutralize_syscall E pid =
     bnd (ptrace_getregs E pid) (\<lambda>regs.
     sq (ptrace_setregs E pid (regs\<lparr>orig_rax := SYS_tuxcall\<rparr>))
     (sq (ptrace_resume_process E pid)
     (sq (waitpid E pid) (ret ()))))"

definition ptrace_restore_syscall :: "'w env \<Rightarrow> int \<Rightarrow> u64 \<Rightarrow> u64 \<Rightarrow> ('w st, unit) M" where
  "ptrace_restore_syscall E pid syscall result =
     bnd (ptrace_getregs E pid) (\<lambda>regs.
     ptrace_setregs E pid (regs\<lparr>orig_rax := syscall, rax := result\<rparr>))"

definition ptrace_get_pid_clone :: "'w env \<Rightarrow> int \<Rightarrow> ('w st, int) M" where
  "ptrace_get_pid_clone E pid =
     sq increment_nb_geteventmsg
     (bnd (get_world (PTRACE_GETEVENTMSG E pid)) (\<lambda>r.
      case r of None \<Rightarrow> fail Syserror | Some new_pid \<Rightarrow> ret (c_int new_pid)))"

text \<open>
  The search for a real port: \<open>temp\<close> is \<open>in\<close> with its port and address replaced.
  Only the bytes that the first copy has written are ever written back.
\<close>

definition with_port :: "u8 list \<Rightarrow> u16 \<Rightarrow> u8 list" where
  "with_port bs port = take 2 bs @ le_bytes 2 (unat (htons port)) @ le_bytes 4 (unat loopback) @ drop 8 bs"

definition decrement_binding_port :: "('w st, unit) M" where
  "decrement_binding_port = modify (\<lambda>s. s\<lparr>binding_port := binding_port s - 1\<rparr>)"

text \<open>One round of the \<open>while (1)\<close>; the registers are its local variable.\<close>

definition find_port_step :: "'w env \<Rightarrow> int \<Rightarrow> u8 list \<Rightarrow> user_regs \<Rightarrow> ('w st, user_regs + user_regs) M" where
  "find_port_step E pid inb reg =
     bnd (gets binding_port) (\<lambda>port.
     sq (ptrace_poke E pid (rsi reg) (with_port inb port) (rdx reg))
     (sq (ptrace_resume_process E pid)
     (sq (waitpid E pid)
     (bnd (ptrace_getregs E pid) (\<lambda>reg.
      if rax reg = 0 then ret (Inr reg)
      else sq decrement_binding_port
           (sq (ptrace_rewind_syscalls E pid)
           (sq (ptrace_resume_process E pid)
           (sq (waitpid E pid) (ret (Inl reg))))))))))"

definition ptrace_find_free_binding_port :: "'w env \<Rightarrow> int \<Rightarrow> ('w st, int) M" where
  "ptrace_find_free_binding_port E pid =
     bnd (ptrace_getregs E pid) (\<lambda>save_reg.
     bnd (ptrace_getregs E pid) (\<lambda>reg.
     bnd (ptrace_cpy E pid sizeof_sockaddr_in (rsi reg) (rdx reg)) (\<lambda>inb.
     sq decrement_binding_port
     (bnd (loopM (find_port_step E pid inb) reg) (\<lambda>reg.
      sq (ptrace_poke E pid (rsi reg) inb (rdx reg))
      (gets (\<lambda>s. uint (binding_port s))))))))"

section \<open>What the copies do\<close>

text \<open>
  The documented behaviour of the two memory requests, for a process whose memory \<open>mem\<close>
  is mapped: a peek reads the eight bytes at the address, a poke replaces them and nothing
  else.
\<close>

definition tracee_memory :: "'w env \<Rightarrow> int \<Rightarrow> ('w \<Rightarrow> mem) \<Rightarrow> bool" where
  "tracee_memory E pid mem \<longleftrightarrow>
     (\<forall>a w. PTRACE_PEEKDATA E pid a w = Some (peek_mem (mem w) a)) \<and>
     (\<forall>a v w. \<exists>w'. PTRACE_POKEDATA E pid a v w = Some w' \<and> mem w' = poke_mem a v (mem w))"

text \<open>The number of words that a copy of \<open>n\<close> bytes moves.\<close>

definition words :: "nat \<Rightarrow> nat" where
  "words n = (n + 7) div 8"

lemma words_0 [simp]: "words 0 = 0"
  by (simp add: words_def)

lemma words_step: "0 < n \<Longrightarrow> words n = Suc (words (n - 8))"
  by (cases "n \<le> 8") (auto simp: words_def le_div_geq)

lemma words_le: "n \<le> 8 * words n"
  by (simp add: words_def)

lemma words_exact: "8 dvd n \<Longrightarrow> 8 * words n = n"
  by (auto simp: words_def)

lemma and_not_minus: "n AND NOT k = n - (n AND k)" for n k :: "'a::len word"
proof -
  have "(n AND NOT k) + (n AND k) = (n AND NOT k) OR (n AND k)"
    by (rule disjunctive_add_eq_or) (auto intro!: bit_word_eqI simp: bit_simps)
  also have "\<dots> = n" by (rule bit_word_eqI) (auto simp: bit_simps)
  finally show ?thesis by (simp add: eq_diff_eq)
qed
lemma and_8: "n AND 8 = (if bit n 3 then 8 else (0 :: u64))"
proof (rule bit_word_eqI)
  fix i assume "i < LENGTH(64)"
  then have "bit (8 :: u64) i \<longleftrightarrow> i = 3"
    using bit_exp_iff [where 'a = u64, of 3 i] by auto
  then show "bit (n AND 8) i \<longleftrightarrow> bit (if bit n 3 then 8 else (0 :: u64)) i"
    by (auto simp: bit_and_iff)
qed

lemma split_8: "words (unat (n AND NOT 8)) + (if n AND 8 \<noteq> 0 then 1 else 0) = words (unat (n :: u64))"
proof (cases "bit n 3")
  case True
  then have eq: "n AND 8 = 8" by (simp add: and_8)
  then have "8 \<le> n" using word_and_le2 [of n 8] by simp
  then have "unat (n - 8) = unat n - 8" "8 \<le> unat n"
    by (simp_all add: unat_sub word_le_nat_alt)
  then show ?thesis unfolding and_not_minus eq by (simp add: words_def)
next
  case False
  then show ?thesis unfolding and_not_minus by (simp add: and_8)
qed

definition peeked :: "nat \<Rightarrow> 'w st \<Rightarrow> 'w st" where
  "peeked k s = s\<lparr>global_data := (global_data s)\<lparr>nb_peek := nb_peek (global_data s) + int k\<rparr>\<rparr>"

lemma peeked_0 [simp]: "peeked 0 s = s"
  by (simp add: peeked_def)

lemma peeked_peeked [simp]: "peeked k (peeked j s) = peeked (j + k) s"
  by (simp add: peeked_def)

lemma world_peeked [simp]: "world (peeked k s) = world s"
  by (simp add: peeked_def)

lemma ptrace_peek_spec:
  "tracee_memory E child mem \<Longrightarrow> ptrace_peek E child a s = Inr (peek_mem (mem (world s)) a, peeked 1 s)"
  by (simp add: ptrace_peek_def tracee_memory_def increment_nb_peek_def peeked_def run)

lemma ptrace_cpy_loop_spec:
  assumes mem: "tracee_memory E child mem" and sz: "length dst \<le> sz"
  shows "ptrace_cpy_loop E child sz src i size_copy len dst s =
    (let k = words (len - size_copy) in
     if length dst + 8 * k \<le> sz
     then Inr ((i + k, dst @ read_bytes (mem (world s)) (src + of_nat i * 8) (8 * k)), peeked k s)
     else Inl Out_of_bounds)"
  using sz
proof (induction "words (len - size_copy)" arbitrary: i size_copy dst s)
  case 0
  then have "\<not> size_copy < len" by (auto simp: words_def)
  with 0 show ?case by (simp add: ptrace_cpy_loop.simps run words_def)
next
  case (Suc k)
  then have lt: "size_copy < len" by (cases "len - size_copy") (auto simp: words_def)
  from Suc.hyps(2) words_step [of "len - size_copy"] lt have k: "k = words (len - (size_copy + 8))" by simp
  show ?case
    using lt Suc.hyps(1) [OF k, of "dst @ read_bytes (mem (world s)) (src + of_nat i * 8) 8" "Suc i" "peeked 1 s"]
    by (subst ptrace_cpy_loop.simps)
      (auto simp: run ptrace_peek_spec [OF mem] store_long_def Let_def Suc.hyps(2) [symmetric] k [symmetric]
        read_bytes_add algebra_simps)
qed

lemma ptrace_cpy_eq:
  assumes mem: "tracee_memory E child mem"
  shows "ptrace_cpy E child sz src n s =
    (let k = words (unat n) in
     if 8 * k \<le> sz then Inr (read_bytes (mem (world s)) src (8 * k), peeked k s) else Inl Out_of_bounds)"
proof -
  let ?j = "words (unat (n AND NOT 8))"
  have k: "words (unat n) = ?j + (if n AND 8 \<noteq> 0 then 1 else 0)" by (rule split_8 [symmetric])
  show ?thesis
    unfolding ptrace_cpy_def Let_def run_bnd
    by (simp add: ptrace_cpy_loop_spec [OF mem] k Let_def run ptrace_peek_spec [OF mem] store_long_def
        read_bytes_add algebra_simps)
qed

text \<open>
  C34. \<open>ptrace_cpy\<close> reads the memory of the process from \<open>src\<close> on, whatever the
  length, rounded up to whole words, with one peek for every word. It leaves the destination
  exactly when the rounded length is larger than the object it copies to.
\<close>

theorem ptrace_cpy_spec:
  assumes "tracee_memory E child mem"
  shows "ptrace_cpy E child sz src n s =
    (if (unat n + 7) div 8 * 8 \<le> sz
     then Inr (read_bytes (mem (world s)) src ((unat n + 7) div 8 * 8), peeked ((unat n + 7) div 8) s)
     else Inl Out_of_bounds)"
  using ptrace_cpy_eq [OF assms, of sz src n s] by (simp add: words_def Let_def mult.commute)

definition poked :: "nat \<Rightarrow> 'w \<Rightarrow> 'w st \<Rightarrow> 'w st" where
  "poked k w s = s\<lparr>global_data := (global_data s)\<lparr>nb_poke := nb_poke (global_data s) + int k\<rparr>, world := w\<rparr>"

lemma ptrace_poke_loop_spec:
  assumes mem: "tracee_memory E pid mem"
    and "8 * words (len - c) + c \<le> length src" "8 dvd c" "length src - c \<le> 2 ^ 64"
  shows "\<exists>w. ptrace_poke_loop E pid dst src c len s = Inr ((), poked (words (len - c)) w s) \<and>
    mem w = write_bytes (dst + of_nat c) (take (8 * words (len - c)) (drop c src)) (mem (world s))"
  using assms(2-)
proof (induction "words (len - c)" arbitrary: c s)
  case 0
  then have "\<not> c < len" by (auto simp: words_def)
  then show ?case
    by (intro exI [of _ "world s"]) (simp add: ptrace_poke_loop.simps run poked_def words_def)
next
  case (Suc k)
  then have lt: "c < len" by (cases "len - c") (auto simp: words_def)
  from Suc.hyps(2) words_step [of "len - c"] lt have k: "k = words (len - (c + 8))" by simp
  let ?v = "word64 (take 8 (drop c src))"
  have len: "c + 8 + 8 * k \<le> length src" using Suc.prems(1) Suc.hyps(2) by simp
  obtain w where w: "PTRACE_POKEDATA E pid (dst + of_nat c) ?v (world s) = Some w"
    "mem w = poke_mem (dst + of_nat c) ?v (mem (world s))"
    using mem unfolding tracee_memory_def by blast
  have "8 * words (len - (c + 8)) + (c + 8) \<le> length src" "8 dvd c + 8" "length src - (c + 8) \<le> 2 ^ 64"
    using len Suc.prems(2,3) by (auto simp: k)
  from Suc.hyps(1) [OF k this, of "poked 1 w s"]
  obtain w' where w': "ptrace_poke_loop E pid dst src (c + 8) len (poked 1 w s) = Inr ((), poked k w' (poked 1 w s))"
    "mem w' = write_bytes (dst + of_nat (c + 8)) (take (8 * k) (drop (c + 8) src)) (mem w)"
    by (auto simp: k poked_def)
  have "take (8 * Suc k) (drop c src) = take 8 (drop c src) @ take (8 * k) (drop (c + 8) src)"
    using take_add [of 8 "8 * k" "drop c src"] by (simp add: add.commute)
  moreover have "length (take 8 (drop c src)) = 8" using len by simp
  ultimately have "mem w' = write_bytes (dst + of_nat c) (take (8 * Suc k) (drop c src)) (mem (world s))"
    using w(2) w'(2) write_bytes_append [of "take 8 (drop c src)" "take (8 * k) (drop (c + 8) src)" "dst + of_nat c"]
      Suc.prems(3) by (simp add: poke_mem_def bytes64_word64 add.assoc)
  with w w' lt len show ?case
    by (intro exI [of _ w'], subst ptrace_poke_loop.simps)
      (simp add: run increment_nb_poke_def Suc.hyps(2) [symmetric] poked_def)
qed

lemma ptrace_poke_spec:
  assumes mem: "tracee_memory E pid mem" and src: "8 * words (unat n) \<le> length src" "length src \<le> 2 ^ 64"
  obtains w where "ptrace_poke E pid dst src n s = Inr ((), poked (words (unat n)) w s)"
    "mem w = write_bytes dst (take (8 * words (unat n)) src) (mem (world s))"
  using ptrace_poke_loop_spec [OF mem, of "unat n" 0 src dst s] src that
  by (auto simp: ptrace_poke_def)


section \<open>What the rewriting of a call does\<close>

text \<open>
  The documented behaviour of the register requests, and of a stop-to-stop run of a call that
  does not exist: it only sets the result register, to \<open>-ENOSYS\<close>.
\<close>

definition tracee_registers :: "'w env \<Rightarrow> int \<Rightarrow> ('w \<Rightarrow> user_regs) \<Rightarrow> bool" where
  "tracee_registers E pid regs \<longleftrightarrow>
     (\<forall>w. PTRACE_GETREGS E pid w = Some (regs w)) \<and>
     (\<forall>r w. \<exists>w'. PTRACE_SETREGS E pid r w = Some w' \<and> regs w' = r)"

definition tuxcall_fails :: "'w env \<Rightarrow> int \<Rightarrow> ('w \<Rightarrow> user_regs) \<Rightarrow> bool" where
  "tuxcall_fails E pid regs \<longleftrightarrow>
     (\<forall>w. orig_rax (regs w) = SYS_tuxcall \<longrightarrow>
        (\<exists>w'. PTRACE_SYSCALL E pid w = Some w' \<and>
           regs (snd (sys_waitpid E pid w')) = (regs w)\<lparr>rax := - 38\<rparr>))"

definition counted :: "int \<Rightarrow> int \<Rightarrow> int \<Rightarrow> 'w \<Rightarrow> 'w st \<Rightarrow> 'w st" where
  "counted g r c w s = s\<lparr>global_data := (global_data s)\<lparr>nb_getregs := nb_getregs (global_data s) + g,
     nb_setregs := nb_setregs (global_data s) + r, nb_syscall := nb_syscall (global_data s) + c\<rparr>, world := w\<rparr>"

lemma counted_counted [simp]: "counted g r c w (counted g' r' c' w' s) = counted (g' + g) (r' + r) (c' + c) w s"
  by (simp add: counted_def add.assoc)

lemma world_counted [simp]: "world (counted g r c w s) = w"
  by (simp add: counted_def)

lemma getregs_spec:
  "tracee_registers E pid regs \<Longrightarrow>
     ptrace_getregs E pid s = Inr (regs (world s), counted 1 0 0 (world s) s)"
  by (simp add: ptrace_getregs_def tracee_registers_def increment_nb_getregs_def counted_def run)

lemma setregs_spec:
  assumes "tracee_registers E pid regs"
  obtains w where "ptrace_setregs E pid r s = Inr ((), counted 0 1 0 w s)" "regs w = r"
proof -
  obtain w where "PTRACE_SETREGS E pid r (world s) = Some w" "regs w = r"
    using assms unfolding tracee_registers_def by blast
  with that show ?thesis
    by (simp add: ptrace_setregs_def increment_nb_setregs_def counted_def run)
qed

lemma neutralize_spec:
  assumes regs: "tracee_registers E pid regs" and tux: "tuxcall_fails E pid regs"
  obtains w where "ptrace_neutralize_syscall E pid s = Inr ((), counted 1 1 1 w s)"
    "regs w = (regs (world s))\<lparr>orig_rax := SYS_tuxcall, rax := - 38\<rparr>"
proof -
  obtain w1 where w1: "ptrace_setregs E pid ((regs (world s))\<lparr>orig_rax := SYS_tuxcall\<rparr>) (counted 1 0 0 (world s) s) =
      Inr ((), counted 0 1 0 w1 (counted 1 0 0 (world s) s))" "regs w1 = (regs (world s))\<lparr>orig_rax := SYS_tuxcall\<rparr>"
    by (rule setregs_spec [OF regs])
  then have "orig_rax (regs w1) = SYS_tuxcall" by simp
  then obtain w2 where w2: "PTRACE_SYSCALL E pid w1 = Some w2"
    "regs (snd (sys_waitpid E pid w2)) = (regs w1)\<lparr>rax := - 38\<rparr>"
    using tux unfolding tuxcall_fails_def by blast
  have "ptrace_neutralize_syscall E pid s = Inr ((), counted 1 1 1 (snd (sys_waitpid E pid w2)) s)"
    using w1(1) w2(1)
    by (simp add: ptrace_neutralize_syscall_def run getregs_spec [OF regs] ptrace_resume_process_def waitpid_def
        increment_nb_syscall_def counted_def split: prod.split)
  moreover have "regs (snd (sys_waitpid E pid w2)) = (regs (world s))\<lparr>orig_rax := SYS_tuxcall, rax := - 38\<rparr>"
    using w2(2) w1(2) by simp
  ultimately show thesis by (rule that)
qed

lemma restore_spec:
  assumes regs: "tracee_registers E pid regs"
  obtains w where "ptrace_restore_syscall E pid syscall result s = Inr ((), counted 1 1 0 w s)"
    "regs w = (regs (world s))\<lparr>orig_rax := syscall, rax := result\<rparr>"
proof -
  obtain w where w: "ptrace_setregs E pid ((regs (world s))\<lparr>orig_rax := syscall, rax := result\<rparr>) (counted 1 0 0 (world s) s) =
      Inr ((), counted 0 1 0 w (counted 1 0 0 (world s) s))" "regs w = (regs (world s))\<lparr>orig_rax := syscall, rax := result\<rparr>"
    by (rule setregs_spec [OF regs])
  from w(1) have "ptrace_restore_syscall E pid syscall result s = Inr ((), counted 1 1 0 w s)"
    by (simp add: ptrace_restore_syscall_def run getregs_spec [OF regs])
  from that [OF this w(2)] show thesis .
qed

lemma neutralize_restore_run:
  assumes regs: "tracee_registers E pid regs" and tux: "tuxcall_fails E pid regs"
  shows "\<exists>w. sq (ptrace_neutralize_syscall E pid) (ptrace_restore_syscall E pid syscall result) s =
      Inr ((), counted 2 2 1 w s) \<and>
    regs w = (regs (world s))\<lparr>orig_rax := syscall, rax := result\<rparr>"
proof -
  obtain w where w: "ptrace_neutralize_syscall E pid s = Inr ((), counted 1 1 1 w s)"
    "regs w = (regs (world s))\<lparr>orig_rax := SYS_tuxcall, rax := - 38\<rparr>"
    by (rule neutralize_spec [OF regs tux])
  obtain w' where "ptrace_restore_syscall E pid syscall result (counted 1 1 1 w s) =
      Inr ((), counted 1 1 0 w' (counted 1 1 1 w s))" "regs w' = (regs w)\<lparr>orig_rax := syscall, rax := result\<rparr>"
    using restore_spec [OF regs, of syscall result "counted 1 1 1 w s"] by auto
  with w show ?thesis by (intro exI [of _ w']) (simp add: run_sq)
qed

text \<open>
  C14. A call that is neutralised and then restored with a result looks to the traced process
  as if the kernel had carried it out with that result: its result register holds the
  result, the number of the call is the one given, and every other register is as before the
  call. Registers are read twice, written twice, and the process is resumed once.
\<close>

theorem neutralize_then_restore:
  assumes regs: "tracee_registers E pid regs" and tux: "tuxcall_fails E pid regs"
  shows "\<exists>w. sq (ptrace_neutralize_syscall E pid) (ptrace_restore_syscall E pid syscall result) s =
      Inr ((), counted 2 2 1 w s) \<and>
    regs w = (regs (world s))\<lparr>orig_rax := syscall, rax := result\<rparr>"
  using assms by (rule neutralize_restore_run)

section \<open>Witnesses\<close>

lemma sample_memory: "tracee_memory sample_env 100 k_mem"
  by (simp add: tracee_memory_def sample_env_def)

theorem ptrace_cpy_spec_witness:
  "ptrace_cpy sample_env 100 16 4096 12 sample_st = Inr (replicate 16 0, peeked 2 sample_st) \<and>
   ptrace_cpy sample_env 100 12 4096 12 sample_st = Inl Out_of_bounds"
proof -
  have "read_bytes (k_mem (world sample_st)) 4096 16 = replicate 16 0"
    by (simp add: read_bytes_def sample_st_def sample_kernel_def map_replicate_const)
  then show ?thesis by (simp add: ptrace_cpy_spec [OF sample_memory])
qed


lemma sample_registers: "tracee_registers sample_env 100 k_regs"
  by (simp add: tracee_registers_def sample_env_def)

lemma sample_tuxcall: "tuxcall_fails sample_env 100 k_regs"
  by (auto simp: tuxcall_fails_def sample_env_def SYS_tuxcall_def split: list.split)

theorem neutralize_then_restore_witness:
  "\<exists>w. sq (ptrace_neutralize_syscall sample_env 100) (ptrace_restore_syscall sample_env 100 SYS_bind 0) sample_st =
      Inr ((), counted 2 2 1 w sample_st) \<and> rax (k_regs w) = 0 \<and> rip (k_regs w) = rip (k_regs (world sample_st))"
proof -
  from neutralize_then_restore [OF sample_registers sample_tuxcall, of SYS_bind 0 sample_st]
  obtain w where "sq (ptrace_neutralize_syscall sample_env 100) (ptrace_restore_syscall sample_env 100 SYS_bind 0) sample_st =
      Inr ((), counted 2 2 1 w sample_st)" "k_regs w = (k_regs (world sample_st))\<lparr>orig_rax := SYS_bind, rax := 0\<rparr>"
    by blast
  then show ?thesis by (intro exI [of _ w]) simp
qed

end
