(* ===== verification/Sockets.thy ===== *)
theory Sockets
  imports Data_Utils Process_Descriptor
begin

unbundle bit_operations_syntax

text \<open>
  The part of \<open>sockets.c\<close> that only looks at the sockets themselves: creation and
  registration, lookup by descriptor, attributes, flags and options, and the removal from
  the list of all sockets. Closing a socket involves its communication and comes later.
\<close>

section \<open>The list of all sockets\<close>

definition init_socket_gestion :: "('w st, unit) M" where
  "init_socket_gestion = modify (\<lambda>s. s\<lparr>all_sockets := []\<rparr>)"

definition socket_exit :: "('w st, unit) M" where
  "socket_exit = modify (\<lambda>s. s\<lparr>all_sockets := []\<rparr>)"

section \<open>Lookup\<close>

definition get_infos_socket :: "proc_ptr \<Rightarrow> int \<Rightarrow> ('w st, fd_ptr option) M" where
  "get_infos_socket proc fd =
     bnd (process_descriptor_get_fd proc fd) (\<lambda>file_desc.
     case file_desc of
       None \<Rightarrow> ret None
     | Some a \<Rightarrow> bnd (get_desc a) (\<lambda>d. if fd_type d \<noteq> FD_SOCKET then ret None else ret (Some a)))"

text \<open>The functions that read one attribute of a socket, or return a default for \<open>NULL\<close>.\<close>

definition socket_attribute :: "(infos_socket \<Rightarrow> 'a) \<Rightarrow> 'a \<Rightarrow> proc_ptr \<Rightarrow> int \<Rightarrow> ('w st, 'a) M" where
  "socket_attribute f dflt proc fd =
     bnd (get_infos_socket proc fd) (\<lambda>is.
     case is of None \<Rightarrow> ret dflt | Some a \<Rightarrow> bnd (get_sock a) (\<lambda>i. ret (f i)))"

definition get_domain_socket :: "proc_ptr \<Rightarrow> int \<Rightarrow> ('w st, int) M" where
  "get_domain_socket = socket_attribute is_domain (- 1)"

definition get_protocol_socket :: "proc_ptr \<Rightarrow> int \<Rightarrow> ('w st, int) M" where
  "get_protocol_socket = socket_attribute is_protocol (- 1)"

definition get_type_socket :: "proc_ptr \<Rightarrow> int \<Rightarrow> ('w st, int) M" where
  "get_type_socket = socket_attribute is_type (- 1)"

definition socket_registered :: "proc_ptr \<Rightarrow> int \<Rightarrow> ('w st, int) M" where
  "socket_registered proc fd =
     bnd (get_infos_socket proc fd) (\<lambda>is. ret (if is \<noteq> None then 1 else - 1))"

definition socket_netlink :: "proc_ptr \<Rightarrow> int \<Rightarrow> ('w st, bool) M" where
  "socket_netlink = socket_attribute (\<lambda>i. is_domain i = 16) False"

definition socket_network :: "proc_ptr \<Rightarrow> int \<Rightarrow> ('w st, bool) M" where
  "socket_network = socket_attribute (\<lambda>i. is_domain i \<noteq> 16 \<and> is_domain i \<noteq> 0 \<and> is_domain i \<noteq> 1) False"

section \<open>Flags and options\<close>

definition socket_get_flags :: "proc_ptr \<Rightarrow> int \<Rightarrow> ('w st, u32) M" where
  "socket_get_flags = socket_attribute is_flags 0"

definition socket_set_flags :: "proc_ptr \<Rightarrow> int \<Rightarrow> u32 \<Rightarrow> ('w st, unit) M" where
  "socket_set_flags proc fd flags =
     bnd (get_infos_socket proc fd) (\<lambda>is.
     case is of None \<Rightarrow> ret () | Some a \<Rightarrow> upd_sock a (\<lambda>i. i\<lparr>is_flags := flags\<rparr>))"

definition socket_get_option :: "proc_ptr \<Rightarrow> int \<Rightarrow> u32 \<Rightarrow> ('w st, u32) M" where
  "socket_get_option proc fd option = socket_attribute (\<lambda>i. is_option i AND option) 0 proc fd"

definition socket_set_option :: "proc_ptr \<Rightarrow> int \<Rightarrow> u32 \<Rightarrow> int \<Rightarrow> ('w st, unit) M" where
  "socket_set_option proc fd option val =
     bnd (get_infos_socket proc fd) (\<lambda>is.
     case is of
       None \<Rightarrow> ret ()
     | Some a \<Rightarrow> if val \<noteq> 0 then upd_sock a (\<lambda>i. i\<lparr>is_option := is_option i OR option\<rparr>)
                else upd_sock a (\<lambda>i. i\<lparr>is_option := is_option i AND NOT option\<rparr>))"

section \<open>Registration\<close>

definition O_RDWR :: u32 where "O_RDWR = 2"

definition confirm_register_socket :: "proc_ptr \<Rightarrow> int \<Rightarrow> int \<Rightarrow> int \<Rightarrow> int \<Rightarrow> ('w st, fd_ptr) M" where
  "confirm_register_socket proc sockfd domain type protocol =
     bnd (get_proc proc) (\<lambda>p.
     bnd (new_desc ((zero_desc proc)\<lparr>fd_type := FD_SOCKET, fd_fd := sockfd, as_socket := Some
            \<lparr>is_comm = None, is_host = p_host p, is_domain = domain, is_protocol = protocol, ip_local = - 1,
             port_local = 0, is_flags = O_RDWR, is_type = type, is_option = 0, is_binded = 0, ref_nb = 0\<rparr>\<rparr>)) (\<lambda>is.
     sq (process_descriptor_set_fd proc sockfd (Some is))
     (sq (modify (\<lambda>s. s\<lparr>all_sockets := all_sockets s @ [is]\<rparr>))
     (sq (upd_sock is (\<lambda>i. i\<lparr>ref_nb := ref_nb i + 1\<rparr>))
     (ret is)))))"

definition register_socket :: "proc_ptr \<Rightarrow> int \<Rightarrow> int \<Rightarrow> int \<Rightarrow> int \<Rightarrow> ('w st, fd_ptr) M" where
  "register_socket proc sockfd domain type protocol =
     bnd (process_descriptor_get_fd proc sockfd) (\<lambda>old.
     if old \<noteq> None then fail Xbt_die
     else confirm_register_socket proc sockfd domain type protocol)"

text \<open>A socket that is not in the list is reported and left alone.\<close>

definition delete_socket :: "fd_ptr \<Rightarrow> ('w st, unit) M" where
  "delete_socket is =
     bnd (gets all_sockets) (\<lambda>l.
     whenM (is \<in> set l)
       (sq (upd_sock is (\<lambda>i. i\<lparr>ref_nb := ref_nb i - 1\<rparr>))
           (modify (\<lambda>s. s\<lparr>all_sockets := remove1 is (all_sockets s)\<rparr>))))"

definition set_localaddr_port_socket :: "proc_ptr \<Rightarrow> int \<Rightarrow> string \<Rightarrow> int \<Rightarrow> ('w st, unit) M" where
  "set_localaddr_port_socket proc fd ip port =
     bnd (get_infos_socket proc fd) (\<lambda>is.
     bnd (nonnull is) (\<lambda>a. upd_sock a (\<lambda>i. i\<lparr>ip_local := inet_addr ip, port_local := port\<rparr>)))"

section \<open>The socket behind a descriptor\<close>

text \<open>\<open>sock_at p fd s\<close>: the socket that the descriptor \<open>fd\<close> of \<open>p\<close> refers to.\<close>

definition sock_at :: "proc_ptr \<Rightarrow> int \<Rightarrow> 'w st \<Rightarrow> fd_ptr option" where
  "sock_at p fd s =
     (case fd_lookup p s fd of None \<Rightarrow> None
      | Some a \<Rightarrow> (case fds s a of None \<Rightarrow> None | Some d \<Rightarrow> if fd_type d = FD_SOCKET then Some a else None))"

text \<open>
  No descriptor of a process points to freed memory, and every descriptor of type
  \<open>FD_SOCKET\<close> was allocated as a socket.
\<close>

definition fds_wf :: "'w st \<Rightarrow> bool" where
  "fds_wf s \<longleftrightarrow>
     (\<forall>p d fd a. procs s p = Some d \<longrightarrow> fd_map d fd = Some a \<longrightarrow>
        (\<exists>f. fds s a = Some f \<and> (fd_type f = FD_SOCKET \<longrightarrow> as_socket f \<noteq> None)))"

lemma fds_wf_lookup:
  assumes "fds_wf s" "fd_lookup p s fd = Some a"
  obtains f where "fds s a = Some f" "fd_type f = FD_SOCKET \<Longrightarrow> as_socket f \<noteq> None"
  using assms by (force simp: fds_wf_def fd_lookup_def split: option.splits)

lemma get_infos_socket_run:
  "fds_wf s \<Longrightarrow> live_proc p s \<Longrightarrow> get_infos_socket p fd s = Inr (sock_at p fd s, s)"
  by (auto simp: get_infos_socket_def sock_at_def fd_lookup_def live_proc_def fds_wf_def run split: option.split)
    (metis option.distinct(1))

lemma sock_at_as_socket:
  assumes "fds_wf s" "sock_at p fd s = Some a"
  obtains f i where "fds s a = Some f" "fd_type f = FD_SOCKET" "as_socket f = Some i"
  using assms by (force simp: sock_at_def fds_wf_def fd_lookup_def split: option.splits if_splits)

end
