(* ===== verification/Strace_Output.thy ===== *)
theory Strace_Output
  imports Ptrace_Utils Sockets
begin

unbundle bit_operations_syntax

text \<open>
  The tools of \<open>print_syscall.c\<close>: writing to the log of a process, C strings in
  buffers, strings in the memory of the traced process, and the printing of flags. The log is
  the text written to \<open>strace_out\<close> so far.
\<close>

section \<open>The log\<close>

definition fprintf :: "proc_ptr \<Rightarrow> string \<Rightarrow> ('w st, unit) M" where
  "fprintf proc txt =
     bnd (get_proc proc) (\<lambda>p.
     case strace_out p of
       None \<Rightarrow> fail Null_deref
     | Some out \<Rightarrow> upd_proc proc (\<lambda>p. p\<lparr>strace_out := Some (out @ txt)\<rparr>))"

text \<open>
  \<open>stprintf\<close> keeps the column; \<open>stprintf_tabto\<close> fills up to column 40.
\<close>

definition stprintf :: "proc_ptr \<Rightarrow> string \<Rightarrow> ('w st, unit) M" where
  "stprintf proc txt =
     bnd (get_proc proc) (\<lambda>p.
     case strace_out p of
       None \<Rightarrow> ret ()
     | Some out \<Rightarrow> upd_proc proc (\<lambda>p. p\<lparr>strace_out := Some (out @ txt), curcol := curcol p + int (length txt)\<rparr>))"

definition acolumn :: int where "acolumn = 40"

definition acolumn_spaces :: string where "acolumn_spaces = replicate 40 CHR '' ''"

definition stprintf_tabto :: "proc_ptr \<Rightarrow> ('w st, unit) M" where
  "stprintf_tabto proc =
     bnd (get_proc proc) (\<lambda>p.
     if curcol p < acolumn then
       if 0 \<le> curcol p then stprintf proc (drop (nat (curcol p)) acolumn_spaces) else fail Out_of_bounds
     else ret ())"

definition stprintf_eol :: "proc_ptr \<Rightarrow> ('w st, unit) M" where
  "stprintf_eol proc =
     bnd (get_proc proc) (\<lambda>p.
     case strace_out p of
       None \<Rightarrow> ret ()
     | Some out \<Rightarrow> upd_proc proc (\<lambda>p. p\<lparr>strace_out := Some (out @ [CHR 0x0A]), curcol := 0\<rparr>))"

section \<open>C strings\<close>

definition chars :: "u8 list \<Rightarrow> string" where
  "chars bs = map (\<lambda>b. char_of (unat b)) bs"

text \<open>
  The text that \<open>%s\<close> prints of a buffer: the bytes up to the first zero. A cell of the
  buffer that was never written is \<open>None\<close>.
\<close>

fun c_str :: "u8 option list \<Rightarrow> ('w st, string) M" where
  "c_str [] = fail Out_of_bounds"
| "c_str (None # bs) = fail Uninitialised"
| "c_str (Some b # bs) = (if b = 0 then ret [] else bnd (c_str bs) (\<lambda>t. ret (char_of (unat b) # t)))"

definition buffer_text :: "u8 list \<Rightarrow> ('w st, string) M" where
  "buffer_text bs = c_str (map Some bs)"

text \<open>
  The bytes behind a data pointer: reading \<open>n\<close> bytes (\<open>memcpy\<close>), and printing it as a
  string. An address of the traced process means nothing in the simulator.
\<close>

definition data_bytes :: "cdata \<Rightarrow> nat \<Rightarrow> ('w st, u8 list) M" where
  "data_bytes data n =
     (if n = 0 then ret []
      else case data of
        Null_data \<Rightarrow> fail Null_deref
      | Tracee_addr a \<Rightarrow> fail Dangling_ptr
      | Buffer bs \<Rightarrow> if n \<le> length bs then ret (take n bs) else fail Out_of_bounds)"

definition data_text :: "cdata \<Rightarrow> ('w st, string) M" where
  "data_text data =
     (case data of Null_data \<Rightarrow> fail Null_deref | Tracee_addr a \<Rightarrow> fail Dangling_ptr | Buffer bs \<Rightarrow> buffer_text bs)"

text \<open>
  \<open>char buff[size]; memcpy(buff, data, n); buff[k] = 0;\<close> and then \<open>%s\<close> of it.
\<close>

definition local_buffer :: "nat \<Rightarrow> cdata \<Rightarrow> nat \<Rightarrow> int \<Rightarrow> ('w st, string) M" where
  "local_buffer sz data n k =
     (if n \<le> sz then
        bnd (data_bytes data n) (\<lambda>bs.
        if 0 \<le> k \<and> k < int sz
        then c_str ((map Some bs @ replicate (sz - n) None)[nat k := Some 0])
        else fail Out_of_bounds)
      else fail Out_of_bounds)"

text \<open>\<open>xbt_malloc0(n)\<close>: no object is larger than half of the address space.\<close>

definition xbt_malloc0 :: "u64 \<Rightarrow> ('w st, nat) M" where
  "xbt_malloc0 n = (if unat n < 2 ^ 63 then ret (unat n) else fail Xbt_die)"

section \<open>Strings of the traced process\<close>

text \<open>
  \<open>get_string\<close> reads word by word until a zero byte or a zero word, or until the buffer
  is full. It does not look at \<open>errno\<close>: a failed request counts as the word of ones. When
  the buffer is full, the terminating zero goes beyond its end.
\<close>

function get_string_from :: "(u64 \<Rightarrow> u64) \<Rightarrow> u64 \<Rightarrow> u8 list \<Rightarrow> nat \<Rightarrow> u8 list option" where
  "get_string_from peek ptr buf sz =
     (let data = peek ptr; p = take (sz - length buf) (bytes64 data) in
      if data \<noteq> 0 \<and> length buf < sz then
        if 0 \<in> set p then Some (buf @ takeWhile (\<lambda>b. b \<noteq> 0) p)
        else get_string_from peek (ptr + 8) (buf @ p) sz
      else if length buf < sz then Some buf else None)"
  by pat_completeness auto
termination
  by (relation "measure (\<lambda>(peek, ptr, buf, sz). sz - length buf)") (auto simp: min_def)

declare get_string_from.simps [simp del]

definition peek_text :: "'w env \<Rightarrow> int \<Rightarrow> 'w \<Rightarrow> u64 \<Rightarrow> u64" where
  "peek_text E pid w a = (case PTRACE_PEEKDATA E pid a w of None \<Rightarrow> - 1 | Some v \<Rightarrow> v)"

definition get_string :: "'w env \<Rightarrow> int \<Rightarrow> u64 \<Rightarrow> nat \<Rightarrow> ('w st, string) M" where
  "get_string E pid ptr sz =
     bnd (get_world (\<lambda>w. get_string_from (peek_text E pid w) ptr [] sz)) (\<lambda>r.
     case r of None \<Rightarrow> fail Out_of_bounds | Some bs \<Rightarrow> ret (chars bs))"

section \<open>Flags\<close>

type_synonym flag_names = "(u32 \<times> string) list"

definition flags_open :: flag_names where
  "flags_open = [
    (2, ''O_RDWR''), (0, ''O_RDONLY''), (1, ''O_WRONLY''), (2048, ''O_NONBLOCK''),
    (1024, ''O_APPEND''), (64, ''O_CREAT''), (512, ''O_TRUNC''), (128, ''O_EXCL''),
    (256, ''O_NOCTTY''), (1052672, ''O_SYNC''), (4096, ''O_DSYNC''), (1052672, ''O_RSYNC''),
    (2048, ''O_NDELAY''), (524288, ''O_CLOEXEC'')]"

definition errno_values :: flag_names where
  "errno_values = [
    (1, ''EPERM''), (2, ''ENOENT''), (3, ''ESRCH''), (4, ''EINTR''), (5, ''EIO''),
    (6, ''ENXIO''), (7, ''E2BIG''), (8, ''ENOEXEC''), (9, ''EBADF''), (10, ''ECHILD''),
    (11, ''EAGAIN''), (12, ''ENOMEM''), (13, ''EACCES''), (14, ''EFAULT''), (15, ''ENOTBLK''),
    (16, ''EBUSY''), (17, ''EEXIST''), (18, ''EXDEV''), (19, ''ENODEV''), (20, ''ENOTDIR''),
    (21, ''EISDIR''), (22, ''EINVAL''), (23, ''ENFILE''), (24, ''EMFILE''), (25, ''ENOTTY''),
    (26, ''ETXTBSY''), (27, ''EFBIG''), (28, ''ENOSPC''), (29, ''ESPIPE''), (30, ''EROFS''),
    (31, ''EMLINK''), (32, ''EPIPE''), (35, ''EDEADLK''), (36, ''ENAMETOOLONG''),
    (37, ''ENOLCK''), (38, ''ENOSYS''), (39, ''ENOTEMPTY''), (40, ''ELOOP''), (42, ''ENOMSG''),
    (43, ''EIDRM''), (44, ''ECHRNG''), (45, ''EL2NSYNC''), (46, ''EL3HLT''), (47, ''EL3RST''),
    (48, ''ELNRNG''), (49, ''EUNATCH''), (50, ''ENOCSI''), (51, ''EL2HLT''), (52, ''EBADE''),
    (53, ''EBADR''), (54, ''EXFULL''), (55, ''ENOANO''), (56, ''EBADRQC''), (57, ''EBADSLT''),
    (59, ''EBFONT''), (60, ''ENOSTR''), (61, ''ENODATA''), (62, ''ETIME''), (63, ''ENOSR''),
    (64, ''ENONET''), (65, ''ENOPKG''), (66, ''EREMOTE''), (67, ''ENOLINK''), (68, ''EADV''),
    (69, ''ESRMNT''), (70, ''ECOMM''), (71, ''EPROTO''), (72, ''EMULTIHOP''), (73, ''EDOTDOT''),
    (74, ''EBADMSG''), (75, ''EOVERFLOW''), (76, ''ENOTUNIQ''), (77, ''EBADFD''),
    (78, ''EREMCHG''), (79, ''ELIBACC''), (80, ''ELIBBAD''), (81, ''ELIBSCN''),
    (82, ''ELIBMAX''), (83, ''ELIBEXEC''), (84, ''EILSEQ''), (85, ''ERESTART''),
    (86, ''ESTRPIPE''), (87, ''EUSERS''), (88, ''ENOTSOCK''), (89, ''EDESTADDRREQ''),
    (90, ''EMSGSIZE''), (91, ''EPROTOTYPE''), (92, ''ENOPROTOOPT''), (93, ''EPROTONOSUPPORT''),
    (94, ''ESOCKTNOSUPPORT''), (95, ''EOPNOTSUPP''), (96, ''EPFNOSUPPORT''),
    (97, ''EAFNOSUPPORT''), (98, ''EADDRINUSE''), (99, ''EADDRNOTAVAIL''), (100, ''ENETDOWN''),
    (101, ''ENETUNREACH''), (102, ''ENETRESET''), (103, ''ECONNABORTED''), (104, ''ECONNRESET''),
    (105, ''ENOBUFS''), (106, ''EISCONN''), (107, ''ENOTCONN''), (108, ''ESHUTDOWN''),
    (109, ''ETOOMANYREFS''), (110, ''ETIMEDOUT''), (111, ''ECONNREFUSED''), (112, ''EHOSTDOWN''),
    (113, ''EHOSTUNREACH''), (114, ''EALREADY''), (115, ''EINPROGRESS''), (116, ''ESTALE''),
    (117, ''EUCLEAN''), (118, ''ENOTNAM''), (119, ''ENAVAIL''), (120, ''EISNAM''),
    (121, ''EREMOTEIO''), (122, ''EDQUOT''), (123, ''ENOMEDIUM''), (124, ''EMEDIUMTYPE''),
    (125, ''ECANCELED''), (126, ''ENOKEY''), (127, ''EKEYEXPIRED''), (128, ''EKEYREVOKED''),
    (129, ''EKEYREJECTED''), (130, ''EOWNERDEAD''), (131, ''ENOTRECOVERABLE''),
    (132, ''ERFKILL''), (133, ''EHWPOISON'')]"

text \<open>The loop of \<open>print_flags\<close>: the names that are printed, and the flags that are left.\<close>

fun select_flags :: "u32 \<Rightarrow> flag_names \<Rightarrow> (u32 \<times> string) list \<times> u32" where
  "select_flags flags [] = ([], flags)"
| "select_flags flags ((val, name) # names) =
     (if val AND flags = val
      then let (sel, rest) = select_flags (flags AND NOT val) names in ((val, name) # sel, rest)
      else select_flags flags names)"

fun join_bar :: "string list \<Rightarrow> string" where
  "join_bar [] = []"
| "join_bar [t] = t"
| "join_bar (t # ts) = t @ CHR ''|'' # join_bar ts"

definition print_flags :: "proc_ptr \<Rightarrow> u32 \<Rightarrow> flag_names \<Rightarrow> ('w st, unit) M" where
  "print_flags proc flags names =
     (let (sel, rest) = select_flags flags names;
          texts = map snd sel @ (if rest \<noteq> 0 then [sprintf_x (unat rest)] else [])
      in whenM (texts \<noteq> []) (fprintf proc (join_bar texts)))"

text \<open>The printing of single bits, each followed by a bar.\<close>

fun print_bits :: "proc_ptr \<Rightarrow> u32 \<Rightarrow> (u32 \<times> string) list \<Rightarrow> ('w st, unit) M" where
  "print_bits proc flags [] = ret ()"
| "print_bits proc flags ((msk, txt) # rest) =
     sq (whenM (flags AND msk \<noteq> 0) (fprintf proc txt)) (print_bits proc flags rest)"

end
