(* ===== verification/Print_Syscall.thy ===== *)
theory Print_Syscall
  imports Strace_Output
begin

unbundle bit_operations_syntax

text \<open>
  \<open>print_syscall.c\<close>: the strace-like log of every system call. The functions read the
  memory of the traced process for what they print, so they can fail like every copy, and
  they count as ptrace requests. What is printed on standard error is left out; the copies
  made for it are not.
\<close>

section \<open>Structures read from memory\<close>

definition le_short :: "u8 list \<Rightarrow> int" where
  "le_short bs = sint (of_nat (le_val (take 2 bs)) :: u16)"

definition le_int :: "u8 list \<Rightarrow> int" where
  "le_int bs = sint (of_nat (le_val (take 4 bs)) :: u32)"

definition le_uint :: "u8 list \<Rightarrow> u32" where
  "le_uint bs = of_nat (le_val (take 4 bs))"

definition le_ulong :: "u8 list \<Rightarrow> u64" where
  "le_ulong bs = word64 (take 8 bs)"

text \<open>\<open>struct flock\<close>\<close>

record flock =
  l_type :: int
  l_whence :: int
  l_start :: int
  l_len :: int
  l_pid :: int

definition sizeof_flock :: nat where "sizeof_flock = 32"

definition decode_flock :: "u8 list \<Rightarrow> flock" where
  "decode_flock bs = \<lparr>l_type = le_short bs, l_whence = le_short (drop 2 bs), l_start = c_long (le_ulong (drop 8 bs)),
     l_len = c_long (le_ulong (drop 16 bs)), l_pid = le_int (drop 24 bs)\<rparr>"

text \<open>\<open>struct msghdr\<close>: the fields that are used.\<close>

record msghdr =
  msg_namelen :: u32
  msg_iov :: u64
  msg_iovlen :: u64
  msg_controllen :: u64
  msg_flags :: int

definition sizeof_msghdr :: nat where "sizeof_msghdr = 56"

definition decode_msghdr :: "u8 list \<Rightarrow> msghdr" where
  "decode_msghdr bs = \<lparr>msg_namelen = le_uint (drop 8 bs), msg_iov = le_ulong (drop 16 bs),
     msg_iovlen = le_ulong (drop 24 bs), msg_controllen = le_ulong (drop 40 bs), msg_flags = le_int (drop 48 bs)\<rparr>"

text \<open>\<open>struct pollfd\<close>\<close>

record pollfd =
  pfd_fd :: int
  pfd_events :: u16
  pfd_revents :: u16

definition decode_pollfd :: "u8 list \<Rightarrow> pollfd" where
  "decode_pollfd bs = \<lparr>pfd_fd = le_int bs, pfd_events = of_nat (le_val (take 2 (drop 4 bs))),
     pfd_revents = of_nat (le_val (take 2 (drop 6 bs)))\<rparr>"

definition encode_pollfd :: "pollfd \<Rightarrow> u8 list" where
  "encode_pollfd p = le_bytes 4 (unat (word_of_int (pfd_fd p) :: u32)) @
     le_bytes 2 (unat (pfd_events p)) @ le_bytes 2 (unat (pfd_revents p))"

fun decode_pollfds :: "nat \<Rightarrow> u8 list \<Rightarrow> pollfd list" where
  "decode_pollfds 0 bs = []"
| "decode_pollfds (Suc n) bs = decode_pollfd (take 8 bs) # decode_pollfds n (drop 8 bs)"

definition sizeof_sockaddr_un :: nat where "sizeof_sockaddr_un = 110"
definition sizeof_sockaddr_nl :: nat where "sizeof_sockaddr_nl = 12"
definition sizeof_fd_set :: nat where "sizeof_fd_set = 128"

text \<open>\<open>FD_ISSET(i, fd)\<close>\<close>

definition FD_ISSET :: "nat \<Rightarrow> u8 list \<Rightarrow> bool" where
  "FD_ISSET i fdset = bit (fdset ! (i div 8)) (i mod 8)"

section \<open>Numbers in the log\<close>

definition fmt_u64 :: "u64 \<Rightarrow> string" where
  "fmt_u64 r = sprintf_d (uint r)"

definition fmt_i64 :: "u64 \<Rightarrow> string" where
  "fmt_i64 r = sprintf_d (sint r)"

definition fmt_int :: "u64 \<Rightarrow> string" where
  "fmt_int r = sprintf_d (c_int r)"

definition fmt_u32 :: "u32 \<Rightarrow> string" where
  "fmt_u32 r = sprintf_d (uint r)"

definition newline :: string where "newline = [CHR 0x0A]"

section \<open>Socket addresses\<close>

definition inet_text :: "sockaddr_in \<Rightarrow> string" where
  "inet_text sai = ''{sa_family=AF_INET, sin_port=htons('' @ sprintf_d (port_of (sin_port sai)) @
     ''), sin_addr=inet_addr('' @ [CHR 0x22] @ inet_ntoa (s_addr sai) @ [CHR 0x22] @ '')}, ''"

definition unix_text :: "string \<Rightarrow> string" where
  "unix_text path = ''{sa_family=AF_UNIX, sun_path='' @ [CHR 0x22] @ path @ [CHR 0x22] @ ''}, ''"

definition netlink_text :: "u8 list \<Rightarrow> string" where
  "netlink_text snl = ''{sa_family=AF_NETLINK, pid='' @ sprintf_d (le_int (drop 4 snl)) @ '', groups='' @
     fmt_u32 (le_uint (drop 8 snl)) @ ''}, ''"

text \<open>
  The address argument of \<open>accept\<close>, \<open>connect\<close> and \<open>bind\<close>, read from memory
  according to the domain of the socket.
\<close>

definition print_sockaddr_arg :: "'w env \<Rightarrow> proc_ptr \<Rightarrow> int \<Rightarrow> int \<Rightarrow> u64 \<Rightarrow> ('w st, unit) M" where
  "print_sockaddr_arg E proc pid domain addr =
     (if domain = 2 then
        bnd (ptrace_cpy E pid sizeof_sockaddr_in addr (of_nat sizeof_sockaddr_in)) (\<lambda>bs.
        fprintf proc (inet_text (decode_sockaddr_in bs)))
      else if domain = 1 then
        bnd (ptrace_cpy E pid sizeof_sockaddr_un addr (of_nat sizeof_sockaddr_un)) (\<lambda>bs.
        bnd (buffer_text (drop 2 (take sizeof_sockaddr_un bs))) (\<lambda>path. fprintf proc (unix_text path)))
      else if domain = 16 then
        bnd (ptrace_cpy E pid sizeof_sockaddr_nl addr (of_nat sizeof_sockaddr_nl)) (\<lambda>bs.
        fprintf proc (netlink_text bs))
      else fprintf proc ''{sockaddr unknown}, '')"

text \<open>The common shape of the three: name, descriptor, address, length and result.\<close>

definition print_addr_syscall :: "string \<Rightarrow> 'w env \<Rightarrow> reg_s \<Rightarrow> proc_ptr \<Rightarrow> ('w st, unit) M" where
  "print_addr_syscall name E reg proc =
     bnd (get_proc proc) (\<lambda>p.
     bnd (get_domain_socket proc (c_int (arg0 reg))) (\<lambda>domain. block [
       fprintf proc (CHR ''['' # sprintf_d (p_pid p) @ ''] '' @ name @ ''(''),
       fprintf proc (fmt_int (arg0 reg) @ '', ''),
       print_sockaddr_arg E proc (p_pid p) domain (arg1 reg),
       fprintf proc (fmt_int (arg2 reg)),
       fprintf proc ('') = '' @ fmt_int (reg_ret reg) @ newline)]))"

definition print_accept_syscall :: "'w env \<Rightarrow> reg_s \<Rightarrow> proc_ptr \<Rightarrow> ('w st, unit) M" where
  "print_accept_syscall = print_addr_syscall ''accept''"

definition print_connect_syscall :: "'w env \<Rightarrow> reg_s \<Rightarrow> proc_ptr \<Rightarrow> ('w st, unit) M" where
  "print_connect_syscall = print_addr_syscall ''connect''"

definition print_bind_syscall :: "'w env \<Rightarrow> reg_s \<Rightarrow> proc_ptr \<Rightarrow> ('w st, unit) M" where
  "print_bind_syscall = print_addr_syscall ''bind''"

section \<open>socket, getsockopt, setsockopt, listen\<close>

fun named :: "int \<Rightarrow> (int \<times> string) list \<Rightarrow> string \<Rightarrow> string" where
  "named v [] dflt = dflt"
| "named v ((w, name) # names) dflt = (if v = w then name else named v names dflt)"

definition socket_type_text :: "int \<Rightarrow> string" where
  "socket_type_text t = named t [(1, ''SOCK_STREAM, ''), (2, ''SOCK_DGRAM, ''), (3, ''SOCK_RAW, ''),
     (4, ''SOCK_RDM, ''), (5, ''SOCK_SEQPACKET, ''), (6, ''SOCK_DCCP, ''), (10, ''SOCK_PACKET, '')]
     (''TYPE UNKNOWN ('' @ sprintf_d t @ ''), '')"

definition inet_protocol_text :: "int \<Rightarrow> string" where
  "inet_protocol_text t = named t [(0, ''IPPROTO_IP''), (1, ''IPPROTO_ICMP''), (2, ''IPPROTO_IGMP''),
     (3, ''IPPROTO_GGP''), (6, ''IPPROTO_TCP''), (17, ''IPPROTO_UDP''), (132, ''IPPROTO_STCP''),
     (255, ''IPPROTO_RAW'')] (''PROTOCOL UNKNOWN ('' @ sprintf_d t @ '')'')"

definition netlink_protocol_text :: "int \<Rightarrow> string" where
  "netlink_protocol_text t = named t [(0, ''NETLINK_ROUTE''), (1, ''NETLINK_UNUSED''), (2, ''NETLINK_USERSOCK''),
     (3, ''NETLINK_FIREWALL''), (4, ''NETLINK_INET_DIAG'')] (''PROTOCOL UNKNOWN ('' @ sprintf_d t @ '')'')"

definition print_socket_syscall :: "reg_s \<Rightarrow> proc_ptr \<Rightarrow> ('w st, unit) M" where
  "print_socket_syscall reg proc =
     bnd (get_proc proc) (\<lambda>p. block [
       fprintf proc (CHR ''['' # sprintf_d (p_pid p) @ ''] socket(''),
       (let domain = c_int (arg0 reg); t = c_int (arg1 reg); protocol = c_int (arg2 reg) in
        if domain = 0 then fprintf proc ''PF_UNSPEC, ''
        else if domain = 1 then fprintf proc ''PF_UNIX, ''
        else if domain = 2 then
          block [fprintf proc ''PF_INET, '', fprintf proc (socket_type_text t), fprintf proc (inet_protocol_text protocol)]
        else if domain = 16 then
          block [fprintf proc ''PF_NETLINK, '', fprintf proc (socket_type_text t), fprintf proc (netlink_protocol_text protocol)]
        else fprintf proc (''DOMAIN UNKNOWN ('' @ sprintf_d domain @ ''), '')),
       fprintf proc ('') = '' @ fmt_int (reg_ret reg) @ newline)])"

definition ip_option_text :: "int \<Rightarrow> string" where
  "ip_option_text t = named t [(1, ''IP_TOS, ''), (2, ''IP_TTL, ''), (3, ''IP_HDRINCL, ''), (4, ''IP_OPTIONS, ''),
     (6, ''IP_RECVOPTS, '')] (''OPTION UNKNOWN ('' @ sprintf_d t @ ''), '')"

definition socket_option_text :: "int \<Rightarrow> string" where
  "socket_option_text t = named t [(1, ''SO_DEBUG, ''), (2, ''SO_REUSEADDR, ''), (3, ''SO_TYPE, ''), (4, ''SO_ERROR, ''),
     (5, ''SO_DONTROUTE, ''), (6, ''SO_BROADCAST, ''), (7, ''SO_SNDBUF, ''), (8, ''SO_RCVBUF, ''),
     (9, ''SO_SNDBUFFORCE, ''), (10, ''SO_RCVBUFFORCE, ''), (11, ''SO_NO_CHECK, ''), (12, ''SO_PRIORITY, ''),
     (13, ''SO_LINGER, ''), (14, ''SO_BSDCOMPAT, ''), (15, ''SO_REUSEPORT, '')]
     (''OPTION UNKNOWN ('' @ sprintf_d t @ ''), '')"

definition print_sockopt_syscall :: "string \<Rightarrow> reg_s \<Rightarrow> proc_ptr \<Rightarrow> ('w st, unit) M" where
  "print_sockopt_syscall name reg proc =
     bnd (get_proc proc) (\<lambda>p. block [
       fprintf proc (CHR ''['' # sprintf_d (p_pid p) @ ''] '' @ name @ ''(''),
       fprintf proc (fmt_int (arg0 reg) @ '', ''),
       (let level = c_int (arg1 reg); opt = c_int (arg2 reg) in
        if level = 0 then sq (fprintf proc ''SOL_IP, '') (fprintf proc (ip_option_text opt))
        else if level = 1 then sq (fprintf proc ''SOL_SOCKET, '') (fprintf proc (socket_option_text opt))
        else if level = 41 then fprintf proc ''SOL_IPV6, ''
        else if level = 58 then fprintf proc ''SOL_ICMPV6, ''
        else fprintf proc (''PROTOCOL UNKNOWN ('' @ sprintf_d level @ ''), '')),
       fprintf proc (fmt_int (arg4 reg) @ '' ) = ''),
       fprintf proc (fmt_int (reg_ret reg) @ newline)])"

definition print_getsockopt_syscall :: "reg_s \<Rightarrow> proc_ptr \<Rightarrow> ('w st, unit) M" where
  "print_getsockopt_syscall = print_sockopt_syscall ''getsockopt''"

definition print_setsockopt_syscall :: "reg_s \<Rightarrow> proc_ptr \<Rightarrow> ('w st, unit) M" where
  "print_setsockopt_syscall = print_sockopt_syscall ''setsockopt''"

definition print_listen_syscall :: "reg_s \<Rightarrow> proc_ptr \<Rightarrow> ('w st, unit) M" where
  "print_listen_syscall reg proc =
     bnd (get_proc proc) (\<lambda>p. block [
       fprintf proc (CHR ''['' # sprintf_d (p_pid p) @ ''] listen(''),
       fprintf proc (fmt_int (arg0 reg) @ '', ''),
       fprintf proc (fmt_int (arg1 reg) @ '' ''),
       fprintf proc ('') = '' @ fmt_int (reg_ret reg) @ newline)])"

section \<open>send, recv and their variants\<close>

definition print_flags_send :: "proc_ptr \<Rightarrow> u32 \<Rightarrow> ('w st, unit) M" where
  "print_flags_send proc flags =
     sq (print_bits proc flags [(0x800, '' MSG_CONFIRM |''), (4, '' MSG_DONTROUTE |''), (0x40, '' MSG_DONTWAIT |''),
           (0x80, '' MSG_EOR |''), (0x8000, '' MSG_MORE |''), (0x4000, '' MSG_NOSIGNAL |''), (1, '' MSG_OOB |'')])
        (fprintf proc '', '')"

definition print_flags_recv :: "proc_ptr \<Rightarrow> u32 \<Rightarrow> ('w st, unit) M" where
  "print_flags_recv proc flags =
     sq (print_bits proc flags [(0x40, '' MSG_DONTWAIT |''), (0x2000, '' MSG_ERRQUEUE |''), (2, '' MSG_PEEK |''),
           (1, '' MSG_OOB |''), (0x20, '' MSG_TRUNC |''), (0x100, '' MSG_WAITALL |'')])
        (fprintf proc '', '')"

definition quoted :: "string \<Rightarrow> string" where
  "quoted txt = [CHR 0x22] @ txt @ [CHR 0x22]"

text \<open>The data of a send: \<open>"%d, \"%s\" , %zu, "\<close>, cut after 199 characters.\<close>

definition print_sent_data :: "'w env \<Rightarrow> reg_s \<Rightarrow> proc_ptr \<Rightarrow> cdata \<Rightarrow> ('w st, unit) M" where
  "print_sent_data E reg proc data =
     (if address_translation E then
        bnd (data_text data) (\<lambda>txt.
        fprintf proc (fmt_int (arg0 reg) @ '', '' @ quoted txt @ '' , '' @ fmt_u64 (arg2 reg) @ '', ''))
      else if arg2 reg < 200 then
        bnd (local_buffer 200 data (unat (arg2 reg)) (sint (reg_ret reg))) (\<lambda>txt.
        fprintf proc (fmt_int (arg0 reg) @ '', '' @ quoted txt @ '' , '' @ fmt_u64 (arg2 reg) @ '', ''))
      else
        bnd (local_buffer 200 data 200 199) (\<lambda>txt.
        fprintf proc (fmt_int (arg0 reg) @ '', '' @ quoted (txt @ ''...'') @ '' , '' @ fmt_u64 (arg2 reg) @ '', '')))"

text \<open>The data of a receive, cut after 499 characters, and the flags.\<close>

definition print_flags_arg3 :: "reg_s \<Rightarrow> proc_ptr \<Rightarrow> ('w st, unit) M" where
  "print_flags_arg3 reg proc =
     (if c_int (arg3 reg) > 0 then print_flags_send proc (c_uint (arg3 reg)) else fprintf proc ''0, '')"

definition print_received_data :: "'w env \<Rightarrow> reg_s \<Rightarrow> proc_ptr \<Rightarrow> cdata \<Rightarrow> ('w st, unit) M" where
  "print_received_data E reg proc data =
     (let len = arg2 reg; r = sint (reg_ret reg) in
      if address_translation E then
        bnd (data_text data) (\<lambda>txt.
        sq (fprintf proc (fmt_int (arg0 reg) @ '', '' @ quoted txt @ '' , '' @ fmt_u64 len @ '', ''))
           (print_flags_arg3 reg proc))
      else if r \<noteq> 0 then
        if r \<le> 500 then
          if c_int (reg_ret reg) < 0 then fail Out_of_bounds
          else bnd (local_buffer 500 data (nat (c_int (reg_ret reg))) r) (\<lambda>txt.
          sq (fprintf proc (fmt_int (arg0 reg) @ '', '' @ quoted txt @ '' , '' @ fmt_u64 len @ '', ''))
             (print_flags_arg3 reg proc))
        else
          bnd (local_buffer 500 data 500 499) (\<lambda>txt.
          sq (fprintf proc (fmt_int (arg0 reg) @ '', '' @ quoted (txt @ ''...'') @ '' , '' @ fmt_u64 len @ '', ''))
             (print_flags_arg3 reg proc))
      else fprintf proc (fmt_int (arg0 reg) @ '', '' @ quoted [] @ '' , '' @ fmt_u64 len @ '', ''))"

definition print_send_syscall :: "'w env \<Rightarrow> reg_s \<Rightarrow> proc_ptr \<Rightarrow> cdata \<Rightarrow> ('w st, unit) M" where
  "print_send_syscall E reg proc data =
     bnd (get_proc proc) (\<lambda>p. block [
       fprintf proc (CHR ''['' # sprintf_d (p_pid p) @ ''] sendto(''),
       print_sent_data E reg proc data,
       (if c_int (arg3 reg) > 0 then print_flags_send proc (c_uint (arg0 reg)) else fprintf proc ''0, ''),
       fprintf proc ('') = '' @ fmt_i64 (reg_ret reg) @ newline)])"

definition print_recv_syscall :: "'w env \<Rightarrow> reg_s \<Rightarrow> proc_ptr \<Rightarrow> cdata \<Rightarrow> ('w st, unit) M" where
  "print_recv_syscall E reg proc data =
     bnd (get_proc proc) (\<lambda>p. block [
       fprintf proc (CHR ''['' # sprintf_d (p_pid p) @ ''] recvfrom(''),
       print_received_data E reg proc data,
       fprintf proc ('') = '' @ fmt_i64 (reg_ret reg) @ newline)])"

text \<open>
  The address that \<open>sendto\<close> and \<open>recvfrom\<close> pass as pointers to local structures;
  \<open>None\<close> is a structure that was never filled.
\<close>

definition print_sockaddr_local :: "proc_ptr \<Rightarrow> int \<Rightarrow> bool \<Rightarrow> u8 list option \<Rightarrow> u8 list option \<Rightarrow> u8 list option \<Rightarrow>
    ('w st, unit) M" where
  "print_sockaddr_local proc domain is_addr sai sau snl =
     (if domain = 2 then
        if is_addr then
          (case sai of None \<Rightarrow> fail Uninitialised | Some bs \<Rightarrow> fprintf proc (inet_text (decode_sockaddr_in bs)))
        else fprintf proc ''NULL, ''
      else if domain = 1 then
        if is_addr then
          (case sau of None \<Rightarrow> fail Uninitialised
           | Some bs \<Rightarrow> bnd (buffer_text (drop 2 bs)) (\<lambda>path. fprintf proc (unix_text path)))
        else fprintf proc ''NULL, ''
      else if domain = 16 then
        if is_addr then
          (case snl of None \<Rightarrow> fail Uninitialised | Some bs \<Rightarrow> fprintf proc (netlink_text bs))
        else fprintf proc ''NULL, ''
      else fprintf proc ''{sockaddr unknown}, '')"

definition print_sendto_syscall :: "'w env \<Rightarrow> reg_s \<Rightarrow> proc_ptr \<Rightarrow> cdata \<Rightarrow> bool \<Rightarrow> u32 \<Rightarrow>
    u8 list option \<Rightarrow> u8 list option \<Rightarrow> u8 list option \<Rightarrow> ('w st, unit) M" where
  "print_sendto_syscall E reg proc data is_addr addrlen sai sau snl =
     bnd (get_domain_socket proc (c_int (arg0 reg))) (\<lambda>domain.
     bnd (get_proc proc) (\<lambda>p. block [
       fprintf proc (CHR ''['' # sprintf_d (p_pid p) @ ''] sendto(''),
       print_sent_data E reg proc data,
       (if c_int (arg3 reg) > 0 then print_flags_send proc (c_uint (arg0 reg)) else fprintf proc ''0, ''),
       print_sockaddr_local proc domain is_addr sai sau snl,
       fprintf proc (fmt_u32 addrlen),
       fprintf proc ('') = '' @ fmt_i64 (reg_ret reg) @ newline)]))"

definition print_recvfrom_syscall :: "'w env \<Rightarrow> reg_s \<Rightarrow> proc_ptr \<Rightarrow> cdata \<Rightarrow>
    u8 list option \<Rightarrow> u8 list option \<Rightarrow> u8 list option \<Rightarrow> bool \<Rightarrow> u32 \<Rightarrow> ('w st, unit) M" where
  "print_recvfrom_syscall E reg proc data sai sau snl is_addr addrlen =
     bnd (get_domain_socket proc (c_int (arg0 reg))) (\<lambda>domain.
     bnd (get_proc proc) (\<lambda>p. block [
       fprintf proc (CHR ''['' # sprintf_d (p_pid p) @ ''] recvfrom(''),
       print_received_data E reg proc data,
       print_sockaddr_local proc domain is_addr sai sau snl,
       fprintf proc (fmt_u32 addrlen),
       fprintf proc ('') = '' @ fmt_i64 (reg_ret reg) @ newline)]))"

definition msghdr_text :: "msghdr \<Rightarrow> string \<Rightarrow> string" where
  "msghdr_text msg txt = '', {msg_namelen='' @ sprintf_d (sint (msg_namelen msg)) @ '', msg_iovlen='' @
     fmt_int (msg_iovlen msg) @ txt @ '', msg_controllen='' @ fmt_int (msg_controllen msg) @ '', msg_flags='' @
     sprintf_d (msg_flags msg) @ ''}, ''"

text \<open>
  In the short case \<open>print_sendmsg_syscall\<close> does not terminate its buffer.
\<close>

definition print_sendmsg_syscall :: "'w env \<Rightarrow> reg_s \<Rightarrow> proc_ptr \<Rightarrow> int \<Rightarrow> cdata \<Rightarrow> msghdr \<Rightarrow> ('w st, unit) M" where
  "print_sendmsg_syscall E reg proc len data msg =
     bnd (get_proc proc) (\<lambda>p. block [
       fprintf proc (CHR ''['' # sprintf_d (p_pid p) @ ''] sendmsg(''),
       fprintf proc (fmt_int (arg0 reg) @ '', ''),
       (if address_translation E then
          bnd (data_text data) (\<lambda>txt. fprintf proc (msghdr_text msg ('', '' @ quoted txt)))
        else if len < 20 then
          if len < 0 then fail Out_of_bounds
          else bnd (data_bytes data (nat len)) (\<lambda>bs.
               bnd (c_str (map Some bs @ replicate (20 - nat len) None)) (\<lambda>txt.
               fprintf proc (msghdr_text msg ('', '' @ quoted txt))))
        else
          bnd (local_buffer 20 data 20 19) (\<lambda>txt. fprintf proc (msghdr_text msg ('', '' @ quoted (txt @ ''...''))))),
       (if c_int (arg2 reg) > 0 then print_flags_recv proc (c_uint (arg2 reg)) else fprintf proc ''0 ''),
       fprintf proc ('') = '' @ fmt_i64 (reg_ret reg) @ newline)])"

definition print_recvmsg_syscall :: "reg_s \<Rightarrow> proc_ptr \<Rightarrow> msghdr \<Rightarrow> ('w st, unit) M" where
  "print_recvmsg_syscall reg proc msg =
     bnd (get_proc proc) (\<lambda>p. block [
       fprintf proc (CHR ''['' # sprintf_d (p_pid p) @ ''] recvmsg(''),
       fprintf proc (fmt_int (arg0 reg) @ '', ''),
       fprintf proc (msghdr_text msg []),
       (if c_int (arg2 reg) > 0 then print_flags_recv proc (c_uint (arg2 reg)) else fprintf proc ''0 ''),
       fprintf proc ('') = '' @ fmt_i64 (reg_ret reg) @ newline)])"

section \<open>poll and select\<close>

definition poll_bits :: "(u32 \<times> string) list" where
  "poll_bits = [(1, ''POLLIN |''), (2, ''POLLPRI |''), (4, ''POLLOUT |''), (8, ''POLLERR |''), (16, ''POLLHUP |''),
     (32, ''POLLNVAL |'')]"

definition get_events_poll :: "proc_ptr \<Rightarrow> u16 \<Rightarrow> ('w st, unit) M" where
  "get_events_poll proc events = sq (fprintf proc ''events='') (print_bits proc (ucast events) poll_bits)"

definition get_revents_poll :: "proc_ptr \<Rightarrow> u16 \<Rightarrow> ('w st, unit) M" where
  "get_revents_poll proc revents =
     block [fprintf proc '', revents='', print_bits proc (ucast revents) poll_bits, fprintf proc ''} '']"

definition print_pollfd :: "proc_ptr \<Rightarrow> pollfd list \<Rightarrow> nat \<Rightarrow> ('w st, unit) M" where
  "print_pollfd proc pfds i =
     (if i < length pfds then
        block [fprintf proc (''{fd='' @ sprintf_d (pfd_fd (pfds ! i)) @ '', ''),
          get_events_poll proc (pfd_events (pfds ! i)), get_revents_poll proc (pfd_revents (pfds ! i))]
      else fail Out_of_bounds)"

text \<open>The loop prints at most five entries; its bound \<open>nfds - 1\<close> wraps around for \<open>0\<close>.\<close>

function disp_pollfd_loop :: "proc_ptr \<Rightarrow> pollfd list \<Rightarrow> u64 \<Rightarrow> nat \<Rightarrow> ('w st, unit) M" where
  "disp_pollfd_loop proc pfds nfds i =
     (if of_nat i < nfds - 1 then
        sq (print_pollfd proc pfds i)
           (if i > 3 then fprintf proc '' ... }'' else disp_pollfd_loop proc pfds nfds (i + 1))
      else ret ())"
  by pat_completeness auto
termination
  by (relation "measure (\<lambda>(proc, pfds, nfds, i). 5 - i)") auto

declare disp_pollfd_loop.simps [simp del]

definition disp_pollfd :: "proc_ptr \<Rightarrow> pollfd list \<Rightarrow> u64 \<Rightarrow> ('w st, unit) M" where
  "disp_pollfd proc pfds nfds =
     sq (disp_pollfd_loop proc pfds nfds 0)
        (whenM (nfds < 3) (print_pollfd proc pfds (unat (nfds - 1))))"

definition print_poll_syscall :: "reg_s \<Rightarrow> proc_ptr \<Rightarrow> pollfd list option \<Rightarrow> int \<Rightarrow> ('w st, unit) M" where
  "print_poll_syscall reg proc fd_list timeout = block [
     fprintf proc ''poll(['',
     (case fd_list of Some pfds \<Rightarrow> disp_pollfd proc pfds (arg1 reg) | None \<Rightarrow> fprintf proc ''NULL''),
     fprintf proc '' ]'',
     fprintf proc (sprintf_d timeout @ '') = '' @ fmt_int (reg_ret reg) @ newline)]"

definition disp_selectfd :: "proc_ptr \<Rightarrow> u8 list \<Rightarrow> ('w st, unit) M" where
  "disp_selectfd proc fdset = block [
     fprintf proc ''[ '',
     block (map (\<lambda>i. fprintf proc (sprintf_d (int i) @ '' '')) (filter (\<lambda>i. FD_ISSET i fdset) [0..<1024])),
     fprintf proc '']'']"

definition SELECT_FDRD_SET :: u32 where "SELECT_FDRD_SET = 1"
definition SELECT_FDWR_SET :: u32 where "SELECT_FDWR_SET = 2"
definition SELECT_FDEX_SET :: u32 where "SELECT_FDEX_SET = 4"

text \<open>
  The time argument is an address of the traced process, which the simulator dereferences.
\<close>

definition print_select_syscall :: "'w env \<Rightarrow> reg_s \<Rightarrow> proc_ptr \<Rightarrow> u32 \<Rightarrow> ('w st, unit) M" where
  "print_select_syscall E reg proc fd_state =
     bnd (get_proc proc) (\<lambda>p.
     sq (fprintf proc (CHR ''['' # sprintf_d (p_pid p) @ ''] select('' @ fmt_int (arg0 reg) @ '',''))
     (bnd (ptrace_cpy E (p_pid p) sizeof_fd_set (arg1 reg) (of_nat sizeof_fd_set)) (\<lambda>fd_read.
     bnd (ptrace_cpy E (p_pid p) sizeof_fd_set (arg2 reg) (of_nat sizeof_fd_set)) (\<lambda>fd_write.
     bnd (ptrace_cpy E (p_pid p) sizeof_fd_set (arg3 reg) (of_nat sizeof_fd_set)) (\<lambda>fd_exec. block [
       (if fd_state AND SELECT_FDRD_SET \<noteq> 0 then disp_selectfd proc fd_read else fprintf proc ''NULL''),
       fprintf proc '', '',
       (if fd_state AND SELECT_FDWR_SET \<noteq> 0 then disp_selectfd proc fd_write else fprintf proc ''NULL''),
       fprintf proc '', '',
       (if fd_state AND SELECT_FDEX_SET \<noteq> 0 then disp_selectfd proc fd_exec else fprintf proc ''NULL''),
       fprintf proc '', '',
       (if arg4 reg = 0 then fail Null_deref else fail Dangling_ptr)])))))"

section \<open>fcntl, lseek, read, write, shutdown, getpeername\<close>

definition F_DUPFD :: int where "F_DUPFD = 0"
definition F_GETFD :: int where "F_GETFD = 1"
definition F_SETFD :: int where "F_SETFD = 2"
definition F_GETFL :: int where "F_GETFL = 3"
definition F_SETFL :: int where "F_SETFL = 4"
definition F_GETLK :: int where "F_GETLK = 5"
definition F_SETLK :: int where "F_SETLK = 6"
definition F_SETLKW :: int where "F_SETLKW = 7"
definition F_SETOWN :: int where "F_SETOWN = 8"
definition F_GETOWN :: int where "F_GETOWN = 9"
definition F_DUPFD_CLOEXEC :: int where "F_DUPFD_CLOEXEC = 1030"

lemmas fcntl_commands = F_DUPFD_def F_GETFD_def F_SETFD_def F_GETFL_def F_SETFL_def F_GETLK_def F_SETLK_def
  F_SETLKW_def F_SETOWN_def F_GETOWN_def F_DUPFD_CLOEXEC_def

definition print_flock :: "'w env \<Rightarrow> reg_s \<Rightarrow> proc_ptr \<Rightarrow> int \<Rightarrow> string \<Rightarrow> ('w st, unit) M" where
  "print_flock E reg proc pid name =
     sq (fprintf proc name)
     (bnd (ptrace_cpy E pid sizeof_flock (arg2 reg) (of_nat sizeof_flock)) (\<lambda>bs.
      let lock = decode_flock bs in block [
        fprintf proc ('', '' @ sprintf_d (l_type lock)), fprintf proc ('', '' @ sprintf_d (l_whence lock)),
        fprintf proc ('', '' @ sprintf_d (l_start lock)), fprintf proc ('', '' @ sprintf_d (l_len lock))]))"

definition print_fcntl_syscall :: "'w env \<Rightarrow> reg_s \<Rightarrow> proc_ptr \<Rightarrow> ('w st, unit) M" where
  "print_fcntl_syscall E reg proc =
     bnd (get_proc proc) (\<lambda>p. block [
       fprintf proc (CHR ''['' # sprintf_d (p_pid p) @ ''] fcntl( '' @ fmt_int (arg0 reg) @ '', ''),
       (let cmd = c_int (arg1 reg) in
        if cmd = F_DUPFD then fprintf proc ''F_DUPFD''
        else if cmd = F_DUPFD_CLOEXEC then fprintf proc ''F_DUPFD_CLOEXEC''
        else if cmd = F_GETFD then fprintf proc ''F_GETFD''
        else if cmd = F_SETFD then
          sq (fprintf proc ''F_SETFD'')
             (if arg2 reg \<noteq> 0 then fprintf proc '', FD_CLOEXEC'' else fprintf proc ('', '' @ fmt_i64 (arg2 reg)))
        else if cmd = F_GETFL then fprintf proc ''F_GETFL''
        else if cmd = F_SETFL then sq (fprintf proc ''F_SETFL'') (fprintf proc ('', '' @ fmt_i64 (arg2 reg)))
        else if cmd = F_SETLK then print_flock E reg proc (p_pid p) ''F_SETLK''
        else if cmd = F_SETLKW then print_flock E reg proc (p_pid p) ''F_SETLKW''
        else if cmd = F_GETLK then print_flock E reg proc (p_pid p) ''F_GETLK''
        else if cmd = F_GETOWN then fprintf proc ''F_GETOWN''
        else if cmd = F_SETOWN then fprintf proc ''F_SETOWN''
        else fprintf proc ''Unknown command''),
       fprintf proc ('') = '' @ fmt_int (reg_ret reg) @ newline)])"

definition print_lseek_syscall :: "reg_s \<Rightarrow> proc_ptr \<Rightarrow> ('w st, unit) M" where
  "print_lseek_syscall reg proc = block [
     fprintf proc (''lseek('' @ fmt_int (arg0 reg) @ '', ''),
     fprintf proc (fmt_int (arg1 reg) @ '', '' @ fmt_int (arg2 reg) @ '')''),
     fprintf proc ('') = '' @ fmt_int (reg_ret reg) @ newline)]"

text \<open>The buffer has exactly the size of the result, with no room for a terminating zero.\<close>

definition print_rw_syscall :: "string \<Rightarrow> 'w env \<Rightarrow> reg_s \<Rightarrow> proc_ptr \<Rightarrow> ('w st, unit) M" where
  "print_rw_syscall name E reg proc =
     bnd (xbt_malloc0 (reg_ret reg)) (\<lambda>sz.
     bnd (get_proc proc) (\<lambda>p.
     bnd (ptrace_cpy E (p_pid p) sz (arg1 reg) (reg_ret reg)) (\<lambda>bs.
     bnd (buffer_text bs) (\<lambda>txt.
     fprintf proc (CHR ''['' # sprintf_d (p_pid p) @ ''] '' @ name @ ''('' @ fmt_int (arg0 reg) @ '', '' @ quoted txt @
       '', '' @ fmt_u64 (arg2 reg) @ '') = '' @ fmt_i64 (reg_ret reg) @ newline)))))"

definition print_read_syscall :: "'w env \<Rightarrow> reg_s \<Rightarrow> proc_ptr \<Rightarrow> ('w st, unit) M" where
  "print_read_syscall = print_rw_syscall ''read''"

definition print_write_syscall :: "'w env \<Rightarrow> reg_s \<Rightarrow> proc_ptr \<Rightarrow> ('w st, unit) M" where
  "print_write_syscall = print_rw_syscall ''write''"

definition print_shutdown_option :: "proc_ptr \<Rightarrow> int \<Rightarrow> ('w st, unit) M" where
  "print_shutdown_option proc how =
     (if how = 0 then fprintf proc ''SHUT_RD'' else if how = 1 then fprintf proc ''SHUT_WR''
      else if how = 2 then fprintf proc ''SHUT_RDWR'' else ret ())"

definition print_shutdown_syscall :: "reg_s \<Rightarrow> proc_ptr \<Rightarrow> ('w st, unit) M" where
  "print_shutdown_syscall reg proc =
     bnd (get_proc proc) (\<lambda>p. block [
       fprintf proc (CHR ''['' # sprintf_d (p_pid p) @ ''] shutdown ('' @ fmt_int (arg0 reg) @ '', ''),
       print_shutdown_option proc (c_int (arg1 reg)),
       fprintf proc ('') = '' @ fmt_int (reg_ret reg) @ newline)])"

text \<open>The length argument is an address of the traced process, which the simulator dereferences.\<close>

definition print_getpeername_syscall :: "'w env \<Rightarrow> reg_s \<Rightarrow> proc_ptr \<Rightarrow> ('w st, unit) M" where
  "print_getpeername_syscall E reg proc =
     bnd (get_proc proc) (\<lambda>p.
     sq (fprintf proc (CHR ''['' # sprintf_d (p_pid p) @ ''] getpeername ('' @ fmt_int (arg0 reg) @ '', ''))
     (bnd (ptrace_cpy E (p_pid p) sizeof_sockaddr_in (arg1 reg) (of_nat sizeof_sockaddr_in)) (\<lambda>bs.
      let sock = decode_sockaddr_in bs in
      sq (fprintf proc (''{sa_family=AF_INET, sin_port=htons('' @ sprintf_d (uint (sin_port sock)) @
            ''), sin_addr=inet_addr('' @ quoted (inet_ntoa (s_addr sock)) @ '')}, ''))
         (if arg2 reg = 0 then fail Null_deref else fail Dangling_ptr))))"

section \<open>clone, execve, open, creat, close, tuxcall\<close>

definition print_flags_clone :: "proc_ptr \<Rightarrow> u32 \<Rightarrow> ('w st, unit) M" where
  "print_flags_clone proc flags =
     sq (print_bits proc flags [(0xff, '' CSIGNAL |''), (0x100, '' CLONE_VM |''), (0x200, '' CLONE_FS |''),
           (0x400, '' CLONE_FILES |''), (0x800, '' CLONE_SIGHAND |''), (0x2000, '' CLONE_PTRACE |''),
           (0x4000, '' CLONE_VFORK |''), (0x8000, '' CLONE_PARENT |''), (0x10000, '' CLONE_THREAD |''),
           (0x20000, '' CLONE_NEWNS |''), (0x40000, '' CLONE_SYSVSEM |''), (0x80000, '' CLONE_SETTLS |''),
           (0x100000, '' CLONE_PARENT_SETTID |''), (0x200000, '' CLONE_CHILD_CLEARTID |''),
           (0x400000, '' CLONE_DETACHED |''), (0x800000, '' CLONE_UNTRACED |''), (0x1000000, '' CLONE_CHILD_SETTID |''),
           (0x4000000, '' CLONE_NEWUTS |''), (0x8000000, '' CLONE_NEWIPC |''), (0x10000000, '' CLONE_NEWUSER |''),
           (0x20000000, '' CLONE_NEWPID |''), (0x40000000, '' CLONE_NEWNET |''), (0x80000000, '' CLONE_IO |'')])
        (fprintf proc '', '')"

definition print_clone_syscall :: "reg_s \<Rightarrow> proc_ptr \<Rightarrow> ('w st, unit) M" where
  "print_clone_syscall reg proc =
     bnd (get_proc proc) (\<lambda>p. block [
       fprintf proc (CHR ''['' # sprintf_d (p_pid p) @ ''] clone(child_stack='' @ fmt_i64 (arg1 reg) @ '', flags=''),
       print_flags_clone proc (c_uint (arg0 reg)),
       fprintf proc (''child_tidptr = '' @ fmt_int (arg3 reg) @ '') = '' @ fmt_i64 (reg_ret reg) @ '' '' @ newline)])"

text \<open>The loop over the arguments of \<open>execve\<close>, with the local variables \<open>argv\<close> and \<open>first\<close>.\<close>

definition print_argv_step :: "'w env \<Rightarrow> proc_ptr \<Rightarrow> int \<Rightarrow> u64 \<times> bool \<Rightarrow> ('w st, (u64 \<times> bool) + unit) M" where
  "print_argv_step E proc pid = (\<lambda>(argv, first).
     if argv = 0 then ret (Inr ())
     else bnd (get_world (\<lambda>w. peek_text E pid w argv)) (\<lambda>filename.
       if filename = 0 then sq (fprintf proc '']'') (ret (Inr ()))
       else bnd (get_string E pid filename 4096) (\<lambda>bufstr.
         sq (if first then fprintf proc (quoted bufstr) else fprintf proc ('', '' @ quoted bufstr))
            (ret (Inl (argv + 8, False))))))"

definition print_execve_syscall_pre :: "'w env \<Rightarrow> reg_s \<Rightarrow> proc_ptr \<Rightarrow> ('w st, unit) M" where
  "print_execve_syscall_pre E reg proc =
     bnd (get_proc proc) (\<lambda>p. block [
       fprintf proc (CHR ''['' # sprintf_d (p_pid p) @ ''] execve(''),
       whenM (arg0 reg \<noteq> 0)
         (bnd (get_string E (p_pid p) (arg0 reg) 4096) (\<lambda>bufstr. fprintf proc (quoted bufstr @ '', [''))),
       loopM (print_argv_step E proc (p_pid p)) (arg1 reg, True),
       fprintf proc '')''])"

definition print_execve_syscall_post :: "reg_s \<Rightarrow> proc_ptr \<Rightarrow> ('w st, unit) M" where
  "print_execve_syscall_post reg proc = fprintf proc ('' = '' @ fmt_int (reg_ret reg) @ newline)"

definition print_open_syscall :: "'w env \<Rightarrow> reg_s \<Rightarrow> proc_ptr \<Rightarrow> ('w st, unit) M" where
  "print_open_syscall E reg proc =
     bnd (get_proc proc) (\<lambda>p. block [
       fprintf proc (CHR ''['' # sprintf_d (p_pid p) @ ''] open(''),
       whenM (arg0 reg \<noteq> 0)
         (bnd (get_string E (p_pid p) (arg0 reg) 4096) (\<lambda>bufstr. fprintf proc (quoted bufstr))),
       whenM (c_int (arg1 reg) \<noteq> 0)
         (sq (fprintf proc '', '') (print_flags proc (c_uint (arg1 reg)) flags_open)),
       (if c_int (reg_ret reg) \<noteq> 0 then
          block [fprintf proc '') = -1 '',
            print_flags proc (- c_uint (reg_ret reg)) errno_values,
            fprintf proc ('' ('' @ strerror E (- c_int (reg_ret reg)) @ '')'' @ newline)]
        else fprintf proc ('') = '' @ fmt_int (reg_ret reg) @ newline))])"

definition print_creat_syscall :: "'w env \<Rightarrow> reg_s \<Rightarrow> proc_ptr \<Rightarrow> ('w st, unit) M" where
  "print_creat_syscall E reg proc =
     bnd (get_proc proc) (\<lambda>p.
     bnd (ptrace_cpy E (p_pid p) 200 (arg0 reg) 200) (\<lambda>bs.
     bnd (buffer_text bs) (\<lambda>pathname. ret ())))"

definition print_close_syscall :: "reg_s \<Rightarrow> proc_ptr \<Rightarrow> ('w st, unit) M" where
  "print_close_syscall reg proc = sq (get_proc proc) (ret ())"

definition print_tuxcall_syscall :: "'w env \<Rightarrow> reg_s \<Rightarrow> proc_ptr \<Rightarrow> ('w st, unit) M" where
  "print_tuxcall_syscall E reg proc =
     bnd (get_proc proc) (\<lambda>p.
     bnd (ptrace_cpy E (p_pid p) 8 (arg1 reg) 8) (\<lambda>clock. ret ()))"

end
