(* ===== verification/Communication.thy ===== *)
theory Communication
  imports Sockets
begin

unbundle bit_operations_syntax

text \<open>
  \<open>communication.c\<close>: a communication joins two sockets. It is created by \<open>listen\<close> for
  the listening socket, or by \<open>connect\<close> for the connecting one; in the second case it
  waits in the queue \<open>conn_wait\<close> of the listening communication until \<open>accept\<close>
  takes it from there.
\<close>

section \<open>Creation and destruction\<close>

definition comm_init :: "('w st, unit) M" where
  "comm_init = modify (\<lambda>s. s\<lparr>comm_list := []\<rparr>)"

text \<open>The list is released, the communications in it are not.\<close>

definition comm_exit :: "('w st, unit) M" where
  "comm_exit = modify (\<lambda>s. s\<lparr>comm_list := []\<rparr>)"

definition comm_new :: "fd_ptr \<Rightarrow> ('w st, comm_ptr) M" where
  "comm_new socket =
     bnd (new_comm zero_comm) (\<lambda>res.
     block_ret res [
       upd_sock socket (\<lambda>i. i\<lparr>is_comm := Some res\<rparr>),
       upd_comm res (\<lambda>c. c\<lparr>info0 := (info0 c)\<lparr>ci_socket := Some socket\<rparr>\<rparr>),
       upd_sock socket (\<lambda>i. i\<lparr>ref_nb := ref_nb i + 1\<rparr>),
       upd_comm res (\<lambda>c. c\<lparr>info0 := (info0 c)\<lparr>ci_recv := recv_information_new\<rparr>,
         info1 := \<lparr>ci_socket = None, ci_recv = recv_information_new\<rparr>,
         comm_state := COMM_OPEN, conn_wait := []\<rparr>),
       modify (\<lambda>s. s\<lparr>comm_list := comm_list s @ [res]\<rparr>),
       upd_comm res (\<lambda>c. c\<lparr>comm_ref_nb := comm_ref_nb c + 1\<rparr>)])"

text \<open>\<open>p->ref_nb--\<close> for a pointer that is tested first.\<close>

definition unref_socket :: "fd_ptr option \<Rightarrow> ('w st, unit) M" where
  "unref_socket p = (case p of None \<Rightarrow> ret () | Some a \<Rightarrow> upd_sock a (\<lambda>i. i\<lparr>ref_nb := ref_nb i - 1\<rparr>))"

definition comm_destroy :: "comm_ptr \<Rightarrow> ('w st, unit) M" where
  "comm_destroy comm =
     bnd (get_comm comm) (\<lambda>c. block [
       unref_socket (ci_socket (info0 c)),
       unref_socket (ci_socket (info1 c)),
       bnd (gets comm_list) (\<lambda>l. whenM (comm \<in> set l)
         (sq (upd_comm comm (\<lambda>c. c\<lparr>comm_ref_nb := comm_ref_nb c - 1\<rparr>))
             (modify (\<lambda>s. s\<lparr>comm_list := remove1 comm (comm_list s)\<rparr>)))),
       free_comm comm])"

section \<open>The two ends\<close>

text \<open>\<open>is->comm\<close>, dereferenced.\<close>

definition comm_of :: "fd_ptr \<Rightarrow> ('w st, comm_ptr) M" where
  "comm_of is = bnd (get_sock is) (\<lambda>i. nonnull (is_comm i))"

definition comm_get_peer :: "fd_ptr \<Rightarrow> ('w st, fd_ptr option) M" where
  "comm_get_peer is =
     bnd (comm_of is) (\<lambda>comm.
     bnd (get_comm comm) (\<lambda>c.
     ret (if ci_socket (info0 c) = Some is then ci_socket (info1 c) else ci_socket (info0 c))))"

text \<open>
  A pointer to one of the two \<open>recv_information\<close> of a communication: the communication
  and the index.
\<close>

datatype recv_ptr = Recv comm_ptr bool

definition recv_at :: "comm_s \<Rightarrow> bool \<Rightarrow> recv_information" where
  "recv_at c second = ci_recv (if second then info1 c else info0 c)"

definition set_recv_at :: "bool \<Rightarrow> (recv_information \<Rightarrow> recv_information) \<Rightarrow> comm_s \<Rightarrow> comm_s" where
  "set_recv_at second f c =
     (if second then c\<lparr>info1 := (info1 c)\<lparr>ci_recv := f (ci_recv (info1 c))\<rparr>\<rparr>
      else c\<lparr>info0 := (info0 c)\<lparr>ci_recv := f (ci_recv (info0 c))\<rparr>\<rparr>)"

fun get_recv :: "recv_ptr \<Rightarrow> ('w st, recv_information) M" where
  "get_recv (Recv comm second) = bnd (get_comm comm) (\<lambda>c. ret (recv_at c second))"

fun upd_recv :: "recv_ptr \<Rightarrow> (recv_information \<Rightarrow> recv_information) \<Rightarrow> ('w st, unit) M" where
  "upd_recv (Recv comm second) f = upd_comm comm (set_recv_at second f)"

definition comm_get_own_recv :: "fd_ptr \<Rightarrow> ('w st, recv_ptr option) M" where
  "comm_get_own_recv is =
     bnd (get_sock is) (\<lambda>i.
     case is_comm i of
       None \<Rightarrow> ret None
     | Some comm \<Rightarrow> bnd (get_comm comm) (\<lambda>c.
         ret (Some (Recv comm (ci_socket (info0 c) \<noteq> Some is)))))"

definition comm_get_peer_recv :: "fd_ptr \<Rightarrow> ('w st, recv_ptr) M" where
  "comm_get_peer_recv is =
     bnd (comm_of is) (\<lambda>comm.
     bnd (get_comm comm) (\<lambda>c.
     ret (Recv comm (ci_socket (info0 c) = Some is))))"

section \<open>Closing\<close>

text \<open>
  \<open>unset_socket(is->fd.proc->pid, is); delete_socket(is); if (!is->ref_nb) free(is);\<close>
\<close>

definition drop_socket :: "'w env \<Rightarrow> fd_ptr option \<Rightarrow> ('w st, unit) M" where
  "drop_socket E sock =
     bnd (nonnull sock) (\<lambda>is.
     bnd (get_desc is) (\<lambda>d.
     bnd (get_proc (fd_proc d)) (\<lambda>p. block [
       unset_socket E (p_pid p) is,
       delete_socket is,
       bnd (get_sock is) (\<lambda>i. whenM (ref_nb i = 0) (free_desc is))])))"

definition comm_close :: "'w env \<Rightarrow> fd_ptr \<Rightarrow> ('w st, unit) M" where
  "comm_close E is =
     bnd (get_sock is) (\<lambda>i.
     case is_comm i of
       None \<Rightarrow> ret ()
     | Some comm \<Rightarrow> bnd (get_comm comm) (\<lambda>c.
         if comm_state c = COMM_LISTEN then
           sq (drop_socket E (ci_socket (info0 c))) (comm_destroy comm)
         else if comm_state c = COMM_CLOSED then
           block [drop_socket E (ci_socket (info0 c)),
             bnd (get_comm comm) (\<lambda>c. drop_socket E (ci_socket (info1 c))),
             comm_destroy comm]
         else upd_comm comm (\<lambda>c. c\<lparr>comm_state := COMM_CLOSED\<rparr>)))"

definition comm_shutdown :: "fd_ptr \<Rightarrow> ('w st, unit) M" where
  "comm_shutdown is =
     bnd (get_sock is) (\<lambda>i.
     case is_comm i of None \<Rightarrow> ret () | Some comm \<Rightarrow> upd_comm comm (\<lambda>c. c\<lparr>comm_state := COMM_SHUT\<rparr>))"

section \<open>Connecting\<close>

definition comm_set_listen :: "comm_ptr \<Rightarrow> ('w st, unit) M" where
  "comm_set_listen comm = upd_comm comm (\<lambda>c. c\<lparr>comm_state := COMM_LISTEN\<rparr>)"

definition comm_ask_connect :: "'w env \<Rightarrow> msg_host \<Rightarrow> int \<Rightarrow> proc_ptr \<Rightarrow> int \<Rightarrow> u32 \<Rightarrow> ('w st, proc_ptr option) M" where
  "comm_ask_connect E host port proc fd device =
     bnd (get_binding_socket_host E host port device) (\<lambda>conn.
     case conn of
       None \<Rightarrow> ret None
     | Some conn \<Rightarrow>
         bnd (bnd (get_infos_socket proc fd) nonnull) (\<lambda>sock.
         bnd (comm_new sock) (\<lambda>comm.
         bnd (comm_of conn) (\<lambda>lcomm.
         sq (upd_comm lcomm (\<lambda>c. c\<lparr>conn_wait := conn_wait c @ [comm]\<rparr>))
         (sq (upd_comm comm (\<lambda>c. c\<lparr>comm_ref_nb := comm_ref_nb c + 1\<rparr>))
         (bnd (bnd (get_infos_socket proc fd) nonnull) (\<lambda>is.
         bnd (get_desc conn) (\<lambda>dconn.
         bnd (sock_of dconn) (\<lambda>iconn.
         bnd (get_desc is) (\<lambda>dis.
         bnd (if ip_local iconn = 0 then
                if fd_proc dconn = fd_proc dis then ret (inet_addr ''127.0.0.1'')
                else bnd (get_proc (fd_proc dconn)) (\<lambda>p.
                     bnd (nonnull (p_host p)) (\<lambda>h. get_ip_of_host E h))
              else ret (ip_local iconn)) (\<lambda>rip.
         sq (upd_comm comm (\<lambda>c. c\<lparr>remote_ip := rip, remote_port := port_local iconn\<rparr>))
         (sq (upd_comm comm (\<lambda>c.
                if ci_socket (info0 c) = Some is then c\<lparr>info1 := (info1 c)\<lparr>ci_socket := Some conn\<rparr>\<rparr>
                else c\<lparr>info0 := (info0 c)\<lparr>ci_socket := Some conn\<rparr>\<rparr>))
         (sq (upd_sock conn (\<lambda>i. i\<lparr>ref_nb := ref_nb i + 1\<rparr>))
         (ret (Some (fd_proc dconn))))))))))))))))"

definition comm_join_on_accept :: "fd_ptr \<Rightarrow> proc_ptr \<Rightarrow> int \<Rightarrow> ('w st, unit) M" where
  "comm_join_on_accept is proc fd_listen =
     bnd (bnd (get_infos_socket proc fd_listen) nonnull) (\<lambda>sock_listen.
     bnd (get_sock sock_listen) (\<lambda>i.
     case is_comm i of
       None \<Rightarrow> fail Throw_impossible
     | Some comm \<Rightarrow> bnd (get_comm comm) (\<lambda>c.
         case conn_wait c of
           [] \<Rightarrow> fail Xbt_exception
         | comm_conn # rest \<Rightarrow> block [
             upd_comm comm (\<lambda>c. c\<lparr>conn_wait := rest\<rparr>),
             upd_comm comm_conn (\<lambda>c. c\<lparr>comm_ref_nb := comm_ref_nb c - 1\<rparr>),
             upd_comm comm_conn (\<lambda>c. c\<lparr>info1 := (info1 c)\<lparr>ci_socket := Some is\<rparr>\<rparr>),
             upd_sock is (\<lambda>i. i\<lparr>ref_nb := ref_nb i + 1\<rparr>),
             upd_sock is (\<lambda>i. i\<lparr>is_comm := Some comm_conn\<rparr>),
             upd_comm comm_conn (\<lambda>c. c\<lparr>comm_ref_nb := comm_ref_nb c + 1\<rparr>)])))"

text \<open>
  The first communication in the queue and the address of the socket that waits there; no
  result when the queue is empty.
\<close>

definition first_waiting :: "fd_ptr \<Rightarrow> ('w st, (fd_ptr \<times> sockaddr_in) option) M" where
  "first_waiting is =
     bnd (get_sock is) (\<lambda>i.
     case is_comm i of
       None \<Rightarrow> fail Throw_impossible
     | Some comm \<Rightarrow> bnd (get_comm comm) (\<lambda>c.
         case conn_wait c of
           [] \<Rightarrow> ret None
         | comm_conn # _ \<Rightarrow>
             bnd (get_comm comm_conn) (\<lambda>cc.
             bnd (nonnull (ci_socket (info0 cc))) (\<lambda>s.
             bnd (get_sock s) (\<lambda>is'. ret (Some (s, inet_sockaddr (ip_local is') (port_local is'))))))))"

definition comm_get_ip_port_accept :: "fd_ptr \<Rightarrow> sockaddr_in \<Rightarrow> ('w st, sockaddr_in) M" where
  "comm_get_ip_port_accept is inp =
     bnd (first_waiting is) (\<lambda>w. ret (case w of None \<Rightarrow> inp | Some (_, a) \<Rightarrow> a))"

definition comm_accept_connect :: "fd_ptr \<Rightarrow> ('w st, (proc_ptr \<times> sockaddr_in) option) M" where
  "comm_accept_connect is =
     bnd (first_waiting is) (\<lambda>w.
     case w of None \<Rightarrow> ret None
     | Some (s, a) \<Rightarrow> bnd (get_desc s) (\<lambda>d. ret (Some (fd_proc d, a))))"

definition comm_has_connect_waiting :: "fd_ptr option \<Rightarrow> ('w st, bool) M" where
  "comm_has_connect_waiting sock =
     (case sock of
        None \<Rightarrow> fail Xbt_die
      | Some is \<Rightarrow> bnd (get_sock is) (\<lambda>i.
          case is_comm i of
            None \<Rightarrow> fail Xbt_die
          | Some comm \<Rightarrow> bnd (get_comm comm) (\<lambda>c. ret (conn_wait c \<noteq> []))))"

text \<open>
  \<open>comm_getpeername(is, in, sock)\<close>: the result, and what is stored through the two
  pointers, the family and the size. \<open>in_null\<close> says whether \<open>in\<close> is
  \<open>NULL\<close>.
\<close>

definition comm_getpeername :: "fd_ptr \<Rightarrow> bool \<Rightarrow> ('w st, int \<times> (u16 \<times> nat) option) M" where
  "comm_getpeername is in_null =
     bnd (get_sock is) (\<lambda>i.
     case is_comm i of
       None \<Rightarrow> ret (- 1, None)
     | Some comm \<Rightarrow>
         sq (comm_get_peer is)
            (if in_null then fail Null_deref else ret (0, Some (AF_INET, sizeof_sockaddr_in))))"

section \<open>State of a socket\<close>

definition comm_get_socket_state :: "fd_ptr \<Rightarrow> ('w st, u32) M" where
  "comm_get_socket_state is =
     bnd (get_sock is) (\<lambda>i.
     case is_comm i of
       None \<Rightarrow> ret 0
     | Some comm \<Rightarrow>
         bnd (bnd (comm_get_own_recv is) nonnull) (\<lambda>recv.
         bnd (comm_get_peer is) (\<lambda>peer.
         bnd (get_recv recv) (\<lambda>r.
         bnd (get_comm comm) (\<lambda>c.
         let res = 0;
             res = (if data_fifo r \<noteq> [] then res OR SOCKET_READ_OK else res);
             res = (if conn_wait c \<noteq> [] then res OR SOCKET_READ_OK else res);
             res = (if comm_state c = COMM_CLOSED then res OR SOCKET_CLOSED else res);
             res = (if peer \<noteq> None then res OR SOCKET_WR_NBLK else res);
             res = (if comm_state c = COMM_SHUT then res OR SOCKET_SHUT else res)
         in ret res)))))"

section \<open>Sending\<close>

definition comm_send_data :: "fd_ptr \<Rightarrow> task_comm_info \<Rightarrow> ('w st, unit) M" where
  "comm_send_data is tci =
     bnd (comm_get_peer_recv is) (\<lambda>recv.
     upd_recv recv (\<lambda>r. r\<lparr>recv_task := recv_task r @ [tci]\<rparr>))"

definition comm_get_send :: "fd_ptr \<Rightarrow> ('w st, task_comm_info option) M" where
  "comm_get_send is =
     bnd (bnd (comm_get_own_recv is) nonnull) (\<lambda>recv.
     bnd (get_recv recv) (\<lambda>r.
     case recv_task r of
       [] \<Rightarrow> ret None
     | tci # rest \<Rightarrow> sq (upd_recv recv (\<lambda>r. r\<lparr>recv_task := rest\<rparr>)) (ret (Some tci))))"

text \<open>\<open>char buff[256]\<close> holds the name of the sender followed by \<open>send\<close>.\<close>

definition create_send_communication_task ::
    "'w env \<Rightarrow> proc_ptr \<Rightarrow> fd_ptr \<Rightarrow> int \<Rightarrow> msg_host option \<Rightarrow> msg_host option \<Rightarrow> ('w st, msg_task) M" where
  "create_send_communication_task E proc_sender is amount sender receiver =
     bnd (get_proc proc_sender) (\<lambda>p.
     let buff = p_name p @ '' send'' in
     if length buff \<ge> 256 then fail Out_of_bounds
     else
       bnd (call_world (MSG_parallel_task_create E buff [sender, receiver] amount (p_pid p))) (\<lambda>task.
       sq (comm_send_data is \<lparr>tci_task = task, sender_host = p_host p\<rparr>)
          (ret task)))"

definition send_task :: "'w env \<Rightarrow> msg_host option \<Rightarrow> msg_task \<Rightarrow> ('w st, unit) M" where
  "send_task E receiver task =
     bnd (nonnull receiver) (\<lambda>h. call_block (\<lambda>s. ((), MSG_task_send E task (MSG_host_get_name E h) s)))"

end
