(* ===== verification/Socket_Operations.thy ===== *)
theory Socket_Operations
  imports Communication
begin

text \<open>
  The rest of \<open>sockets.c\<close>, which works on sockets together with their communications:
  closing, queueing sent data, the state of a socket, and the cleaning up when a process
  dies (\<open>process_die\<close> of \<open>process_descriptor.c\<close>).
\<close>

definition socket_close :: "'w env \<Rightarrow> proc_ptr \<Rightarrow> int \<Rightarrow> ('w st, unit) M" where
  "socket_close E proc fd =
     bnd (get_infos_socket proc fd) (\<lambda>sock.
     case sock of
       None \<Rightarrow> ret ()
     | Some is \<Rightarrow> block [
         bnd (bnd (process_descriptor_get_fd proc fd) nonnull) (\<lambda>a.
           upd_desc a (\<lambda>d. d\<lparr>fd_refcount := fd_refcount d - 1\<rparr>)),
         upd_sock is (\<lambda>i. i\<lparr>ref_nb := ref_nb i - 1\<rparr>),
         bnd (socket_network proc fd) (\<lambda>network.
           if network then comm_close E is else free_desc is),
         process_descriptor_set_fd proc fd None])"

text \<open>\<open>handle_new_send\<close> returns the registers with the result that it sets.\<close>

definition handle_new_send :: "'w env \<Rightarrow> reg_s \<Rightarrow> fd_ptr \<Rightarrow> cdata \<Rightarrow> ('w st, reg_s) M" where
  "handle_new_send E reg is data =
     bnd (comm_get_peer_recv is) (\<lambda>recv.
     if address_translation E then
       sq (upd_recv recv (\<lambda>r. r\<lparr>data_fifo := data_fifo r @ [Data_sock (c_int (reg_ret reg))]\<rparr>))
          (ret reg)
     else
       sq (upd_recv recv (\<lambda>r. r\<lparr>data_fifo := data_fifo r @ [Data_send data (c_int (arg2 reg))]\<rparr>))
          (ret (reg\<lparr>reg_ret := arg2 reg\<rparr>)))"

definition socket_get_state :: "fd_ptr \<Rightarrow> ('w st, u32) M" where
  "socket_get_state = comm_get_socket_state"

text \<open>\<open>while (xbt_fifo_size(tl))\<close>: the tasks are destroyed in the order of the queue.\<close>

fun destroy_tasks :: "'w env \<Rightarrow> task_comm_info list \<Rightarrow> ('w st, unit) M" where
  "destroy_tasks E [] = ret ()"
| "destroy_tasks E (tci # tasks) = sq (upd_world (MSG_task_destroy E (tci_task tci))) (destroy_tasks E tasks)"

text \<open>
  One round of the loop over the descriptors. \<open>free\<close> of message data that is not a heap
  buffer of the simulator is undefined.
\<close>

definition freeable :: "fifo_data \<Rightarrow> bool" where
  "freeable ds = (case ds of Data_send (Tracee_addr a) n \<Rightarrow> False | _ \<Rightarrow> True)"

definition close_communication :: "'w env \<Rightarrow> proc_ptr \<Rightarrow> int \<Rightarrow> ('w st, unit) M" where
  "close_communication E proc i =
     bnd (process_descriptor_get_fd proc i) (\<lambda>file_desc.
     case file_desc of
       None \<Rightarrow> ret ()
     | Some a \<Rightarrow> bnd (get_desc a) (\<lambda>d.
         if fd_type d \<noteq> FD_SOCKET then ret ()
         else bnd (comm_get_own_recv a) (\<lambda>recv.
           case recv of
             None \<Rightarrow> ret ()
           | Some r \<Rightarrow>
               bnd (get_recv r) (\<lambda>ri. block [
                 destroy_tasks E (recv_task ri),
                 upd_recv r (\<lambda>ri. ri\<lparr>recv_task := []\<rparr>),
                 bnd (get_recv r) (\<lambda>ri.
                   if list_all freeable (data_fifo ri) then upd_recv r (\<lambda>ri. ri\<lparr>data_fifo := []\<rparr>)
                   else fail Dangling_ptr),
                 socket_close E proc i]))))"

fun close_communications :: "'w env \<Rightarrow> proc_ptr \<Rightarrow> int list \<Rightarrow> ('w st, unit) M" where
  "close_communications E proc [] = ret ()"
| "close_communications E proc (i # keys) =
     sq (close_communication E proc i) (close_communications E proc keys)"

definition close_all_communication :: "'w env \<Rightarrow> proc_ptr \<Rightarrow> ('w st, int) M" where
  "close_all_communication E proc =
     bnd (get_proc proc) (\<lambda>p.
     sq (close_communications E proc (dict_order E (fd_map p))) (ret 0))"

definition process_die :: "'w env \<Rightarrow> proc_ptr \<Rightarrow> ('w st, unit) M" where
  "process_die E proc = sq (close_all_communication E proc) (process_descriptor_destroy E proc)"

end
