(* ===== verification/File_Syscalls.thy ===== *)
theory File_Syscalls
  imports Print_Syscall Socket_Operations
begin

unbundle bit_operations_syntax

text \<open>
  The handlers of the system calls on descriptors: \<open>sys_open.c\<close>, \<open>sys_creat.c\<close>,
  \<open>sys_close.c\<close> with \<open>process_close_call\<close> of \<open>syscall_process.c\<close>,
  \<open>sys_dup.c\<close>, \<open>sys_dup2.c\<close>, \<open>sys_pipe.c\<close>, \<open>sys_fcntl.c\<close> and
  \<open>sys_lseek.c\<close>. A handler runs when the call is entered and again when it returns. The
  messages on standard error are left out, except for the reads that they make of buffers.
\<close>

definition O_WRONLY :: "'a::len word" where "O_WRONLY = 1"
definition O_CREAT :: "'a::len word" where "O_CREAT = 64"
definition O_TRUNC :: "'a::len word" where "O_TRUNC = 512"
definition O_APPEND :: "'a::len word" where "O_APPEND = 1024"
definition O_NONBLOCK :: "'a::len word" where "O_NONBLOCK = 2048"
definition O_ASYNC :: "'a::len word" where "O_ASYNC = 8192"
definition O_CLOEXEC :: "'a::len word" where "O_CLOEXEC = 524288"
definition FD_CLOEXEC :: "'a::len word" where "FD_CLOEXEC = 1"

lemmas open_flags = O_WRONLY_def O_CREAT_def O_TRUNC_def O_APPEND_def O_NONBLOCK_def O_ASYNC_def
  O_CLOEXEC_def FD_CLOEXEC_def

definition if_strace :: "('w st, unit) M \<Rightarrow> ('w st, unit) M" where
  "if_strace m = bnd (gets strace_option) (\<lambda>strace. whenM strace m)"

lemma run_if_strace [run]: "if_strace m s = (if strace_option s then m s else Inr ((), s))"
  by (simp add: if_strace_def run)

definition refcount_incr :: "fd_ptr \<Rightarrow> ('w st, unit) M" where
  "refcount_incr a = upd_desc a (\<lambda>d. d\<lparr>fd_refcount := fd_refcount d + 1\<rparr>)"

definition refcount_decr :: "fd_ptr \<Rightarrow> ('w st, unit) M" where
  "refcount_decr a = upd_desc a (\<lambda>d. d\<lparr>fd_refcount := fd_refcount d - 1\<rparr>)"

declare refcount_incr_def [run, wps] refcount_decr_def [run, wps]

section \<open>Opening\<close>

definition sizeof_pathname :: nat where "sizeof_pathname = 200"

definition syscall_open :: "'w env \<Rightarrow> reg_s \<Rightarrow> proc_ptr \<Rightarrow> ('w st, unit) M" where
  "syscall_open E reg proc =
     bnd (proc_entering proc) (\<lambda>entering.
     if entering then proc_inside proc
     else
       sq (proc_outside proc)
       (bnd (get_proc proc) (\<lambda>p.
        bnd (ptrace_cpy E (p_pid p) sizeof_pathname (arg0 reg) (of_nat sizeof_pathname)) (\<lambda>pathname. block [
          whenM (0 \<le> c_int (reg_ret reg))
            (bnd (new_desc ((zero_desc proc)\<lparr>fd_refcount := 0, fd_fd := c_int (reg_ret reg), fd_type := FD_CLASSIC,
                    fd_flags := c_uint (arg1 reg),
                    fd_mode := if arg1 reg AND O_CREAT = O_CREAT then c_int (arg2 reg) else 0,
                    fd_offset := 0, fd_lock := 0\<rparr>)) (\<lambda>file_desc. block [
               process_descriptor_set_fd proc (c_int (reg_ret reg)) (Some file_desc),
               refcount_incr file_desc,
               whenM (arg1 reg AND O_CLOEXEC = O_CLOEXEC)
                 (upd_desc file_desc (\<lambda>d. d\<lparr>fd_flags := fd_flags d OR FD_CLOEXEC\<rparr>))])),
          if_strace (sq (buffer_text pathname) (ret ()))]))))"

definition syscall_creat_post :: "'w env \<Rightarrow> reg_s \<Rightarrow> proc_ptr \<Rightarrow> ('w st, unit) M" where
  "syscall_creat_post E reg proc =
     sq (proc_outside proc)
     (bnd (get_proc proc) (\<lambda>p.
      bnd (ptrace_cpy E (p_pid p) sizeof_pathname (arg0 reg) (of_nat sizeof_pathname)) (\<lambda>pathname. block [
        whenM (0 \<le> c_int (reg_ret reg))
          (bnd (new_desc ((zero_desc proc)\<lparr>fd_refcount := 0, fd_fd := c_int (reg_ret reg), fd_type := FD_CLASSIC,
                  fd_flags := O_CREAT OR O_WRONLY OR O_TRUNC, fd_mode := c_int (arg1 reg),
                  fd_offset := 0, fd_lock := 0\<rparr>)) (\<lambda>file_desc. block [
             process_descriptor_set_fd proc (c_int (reg_ret reg)) (Some file_desc),
             refcount_incr file_desc])),
        if_strace (print_creat_syscall E reg proc)])))"

definition syscall_creat :: "'w env \<Rightarrow> reg_s \<Rightarrow> proc_ptr \<Rightarrow> ('w st, unit) M" where
  "syscall_creat E reg proc =
     bnd (proc_entering proc) (\<lambda>entering.
     if entering then proc_inside proc else syscall_creat_post E reg proc)"

section \<open>Closing\<close>

text \<open>
  The loop over one end of a pipe that removes the entries of the descriptor: \<open>remove_at\<close>
  followed by \<open>cpt--\<close> leaves the cursor where it was. The process of an entry is only
  looked at when the descriptor number matches.
\<close>

fun remove_ends :: "int \<Rightarrow> int \<Rightarrow> pipe_end_s list \<Rightarrow> ('w st, pipe_end_s list) M" where
  "remove_ends fd pid [] = ret []"
| "remove_ends fd pid (e # ends) =
     (if end_fd e = fd then
        bnd (get_proc (end_proc e)) (\<lambda>p.
        if p_pid p = pid then remove_ends fd pid ends
        else bnd (remove_ends fd pid ends) (\<lambda>l. ret (e # l)))
      else bnd (remove_ends fd pid ends) (\<lambda>l. ret (e # l)))"

definition close_pipe_end :: "proc_ptr \<Rightarrow> int \<Rightarrow> pipe_ptr option \<Rightarrow> ('w st, unit) M" where
  "close_pipe_end proc fd pipe =
     (case pipe of
        None \<Rightarrow> fail Xbt_assert
      | Some q \<Rightarrow>
          bnd (get_proc proc) (\<lambda>pr.
          bnd (get_pipe q) (\<lambda>p.
          bnd (remove_ends fd (p_pid pr) (read_end p)) (\<lambda>rd.
          sq (upd_pipe q (\<lambda>p. p\<lparr>read_end := rd\<rparr>))
          (bnd (get_pipe q) (\<lambda>p.
           bnd (remove_ends fd (p_pid pr) (write_end p)) (\<lambda>wr.
           sq (upd_pipe q (\<lambda>p. p\<lparr>write_end := wr\<rparr>))
              (whenM (rd = [] \<and> wr = []) (free_pipe q)))))))))"

definition process_close_call :: "'w env \<Rightarrow> proc_ptr \<Rightarrow> int \<Rightarrow> ('w st, unit) M" where
  "process_close_call E proc fd =
     bnd (process_descriptor_get_fd proc fd) (\<lambda>file_desc.
     case file_desc of
       None \<Rightarrow> ret ()
     | Some a \<Rightarrow>
         sq (refcount_incr a)
         (bnd (get_desc a) (\<lambda>d. block [
            if fd_type d = FD_SOCKET then socket_close E proc fd
            else whenM (fd_type d = FD_PIPE) (close_pipe_end proc fd (fd_pipe d)),
            refcount_decr a,
            process_descriptor_set_fd proc fd None])))"

definition syscall_close :: "'w env \<Rightarrow> reg_s \<Rightarrow> proc_ptr \<Rightarrow> ('w st, unit) M" where
  "syscall_close E reg proc =
     bnd (proc_entering proc) (\<lambda>entering.
     if entering then proc_inside proc
     else block [
       whenM (reg_ret reg = 0) (block [
         proc_outside proc,
         process_close_call E proc (c_int (arg0 reg)),
         if_strace (block [
           stprintf proc (''close('' @ sprintf_d (c_int (arg0 reg)) @ '')''),
           stprintf_tabto proc,
           stprintf proc (''= '' @ fmt_u64 (reg_ret reg)),
           stprintf_eol proc])]),
       if_strace (print_close_syscall reg proc)])"

section \<open>Duplicating\<close>

text \<open>
  \<open>xbt_dynar_foreach\<close> over one end of a pipe, whose body pushes to the same end. The
  cursor is compared with the current length, so the new entries are visited too.
\<close>

partial_function (option) dup_ends_from ::
    "int \<Rightarrow> int \<Rightarrow> proc_ptr \<Rightarrow> nat \<Rightarrow> pipe_end_s list \<Rightarrow> pipe_end_s list option" where
  "dup_ends_from oldfd newfd proc cpt ends =
     (if cpt < length ends then
        let e = ends ! cpt in
        if end_fd e = oldfd \<and> end_proc e = proc
        then dup_ends_from oldfd newfd proc (Suc cpt) (ends @ [\<lparr>end_fd = newfd, end_proc = end_proc e\<rparr>])
        else dup_ends_from oldfd newfd proc (Suc cpt) ends
      else Some ends)"

definition dup_ends :: "int \<Rightarrow> int \<Rightarrow> proc_ptr \<Rightarrow> pipe_end_s list \<Rightarrow> ('w st, pipe_end_s list) M" where
  "dup_ends oldfd newfd proc ends =
     (case dup_ends_from oldfd newfd proc 0 ends of None \<Rightarrow> fail Diverges | Some l \<Rightarrow> ret l)"

definition dup_pipe :: "int \<Rightarrow> int \<Rightarrow> proc_ptr \<Rightarrow> pipe_ptr option \<Rightarrow> ('w st, unit) M" where
  "dup_pipe oldfd newfd proc pipe =
     bnd (nonnull pipe) (\<lambda>q.
     bnd (get_pipe q) (\<lambda>p.
     bnd (dup_ends oldfd newfd proc (read_end p)) (\<lambda>rd.
     sq (upd_pipe q (\<lambda>p. p\<lparr>read_end := rd\<rparr>))
     (bnd (get_pipe q) (\<lambda>p.
      bnd (dup_ends oldfd newfd proc (write_end p)) (\<lambda>wr.
      upd_pipe q (\<lambda>p. p\<lparr>write_end := wr\<rparr>)))))))"

text \<open>
  The numbers are \<open>unsigned int\<close> in the code; all their uses convert back to \<open>int\<close> or
  compare them with one.
\<close>

definition syscall_dup_post :: "reg_s \<Rightarrow> proc_ptr \<Rightarrow> ('w st, unit) M" where
  "syscall_dup_post reg proc =
     (let oldfd = c_int (arg0 reg); newfd = c_int (reg_ret reg) in
      sq (proc_outside proc)
      (bnd (bnd (process_descriptor_get_fd proc oldfd) nonnull) (\<lambda>file_desc.
       sq (refcount_incr file_desc)
       (sq (process_descriptor_set_fd proc newfd (Some file_desc))
       (bnd (get_desc file_desc) (\<lambda>d.
        whenM (fd_type d = FD_PIPE) (dup_pipe oldfd newfd proc (fd_pipe d))))))))"

definition syscall_dup :: "reg_s \<Rightarrow> proc_ptr \<Rightarrow> ('w st, unit) M" where
  "syscall_dup reg proc =
     bnd (proc_entering proc) (\<lambda>entering.
     if entering then proc_inside proc else syscall_dup_post reg proc)"

definition syscall_dup2_post :: "'w env \<Rightarrow> reg_s \<Rightarrow> proc_ptr \<Rightarrow> ('w st, unit) M" where
  "syscall_dup2_post E reg proc =
     (let oldfd = c_int (arg0 reg); newfd = c_int (arg1 reg) in
      sq (proc_outside proc)
      (bnd (bnd (process_descriptor_get_fd proc oldfd) nonnull) (\<lambda>file_desc.
       sq (refcount_incr file_desc)
       (bnd (process_descriptor_get_fd proc newfd) (\<lambda>file_desc_new.
        sq (case file_desc_new of None \<Rightarrow> ret ()
            | Some a \<Rightarrow> sq (refcount_decr a) (process_close_call E proc newfd))
        (sq (process_descriptor_set_fd proc newfd (Some file_desc))
        (bnd (get_desc file_desc) (\<lambda>d.
         whenM (fd_type d = FD_PIPE) (dup_pipe oldfd newfd proc (fd_pipe d))))))))))"

definition syscall_dup2 :: "'w env \<Rightarrow> reg_s \<Rightarrow> proc_ptr \<Rightarrow> ('w st, unit) M" where
  "syscall_dup2 E reg proc =
     bnd (proc_entering proc) (\<lambda>entering.
     if entering then proc_inside proc else syscall_dup2_post E reg proc)"

section \<open>Pipes\<close>

text \<open>
  The second number is \<open>*filedes + 1\<close>, an \<open>int\<close> addition: the second element of the
  array is never read.
\<close>

definition new_pipe_fd :: "proc_ptr \<Rightarrow> int \<Rightarrow> pipe_ptr \<Rightarrow> ('w st, unit) M" where
  "new_pipe_fd proc fd pipe =
     bnd (new_desc ((zero_desc proc)\<lparr>fd_refcount := 0, fd_fd := fd, fd_type := FD_PIPE, fd_pipe := Some pipe\<rparr>)) (\<lambda>file_desc.
     sq (process_descriptor_set_fd proc fd (Some file_desc)) (refcount_incr file_desc))"

definition syscall_pipe_post :: "'w env \<Rightarrow> reg_s \<Rightarrow> proc_ptr \<Rightarrow> ('w st, unit) M" where
  "syscall_pipe_post E reg proc =
     sq (proc_outside proc)
     (bnd (get_proc proc) (\<lambda>pr.
      bnd (ptrace_cpy E (p_pid pr) 8 (arg0 reg) 8) (\<lambda>filedes.
      whenM (c_int (reg_ret reg) = 0)
        (let p0 = le_int filedes; p1 = le_int filedes + 1 in
         bnd (new_pipe \<lparr>read_end = [\<lparr>end_fd = p0, end_proc = proc\<rparr>], write_end = [\<lparr>end_fd = p1, end_proc = proc\<rparr>]\<rparr>) (\<lambda>pipe.
         sq (new_pipe_fd proc p0 pipe) (new_pipe_fd proc p1 pipe))))))"

definition syscall_pipe :: "'w env \<Rightarrow> reg_s \<Rightarrow> proc_ptr \<Rightarrow> ('w st, unit) M" where
  "syscall_pipe E reg proc =
     bnd (proc_entering proc) (\<lambda>entering.
     if entering then proc_inside proc else syscall_pipe_post E reg proc)"

section \<open>fcntl\<close>

definition F_RDLCK :: int where "F_RDLCK = 0"
definition F_WRLCK :: int where "F_WRLCK = 1"
definition F_UNLCK :: int where "F_UNLCK = 2"

text \<open>The bounds of a lock, the same four lines in each of the three lock commands.\<close>

definition set_lock_range :: "flock \<Rightarrow> fd_descriptor_t \<Rightarrow> fd_descriptor_t" where
  "set_lock_range lock d =
     (let begin = l_start lock + l_whence lock; len = l_len lock in
      if 0 < len then d\<lparr>fd_begin := begin, fd_end := begin + len - 1\<rparr>
      else d\<lparr>fd_begin := begin + len, fd_end := begin - 1\<rparr>)"

definition fcntl_dup_flags :: "u32 \<Rightarrow> u32" where
  "fcntl_dup_flags flags =
     (if flags AND O_CLOEXEC = O_CLOEXEC then flags AND NOT O_CLOEXEC
      else if flags AND FD_CLOEXEC = FD_CLOEXEC then flags AND NOT FD_CLOEXEC
      else flags)"

definition fcntl_dup :: "reg_s \<Rightarrow> proc_ptr \<Rightarrow> fd_ptr \<Rightarrow> (u32 \<Rightarrow> u32) \<Rightarrow> ('w st, unit) M" where
  "fcntl_dup reg proc arg_fdesc f =
     bnd (get_desc arg_fdesc) (\<lambda>d.
     bnd (new_desc ((zero_desc proc)\<lparr>fd_type := fd_type d, fd_fd := c_int (reg_ret reg), fd_stream := fd_stream d,
            fd_pipe := fd_pipe d, fd_flags := f (fd_flags d), fd_refcount := 1\<rparr>)) (\<lambda>file_desc_dup.
     process_descriptor_set_fd proc (c_int (reg_ret reg)) (Some file_desc_dup)))"

text \<open>
  The commands that are only reported (\<open>F_GETFD\<close>, \<open>F_GETFL\<close> and those under
  \<open>__USE_GNU\<close>) change nothing. \<open>reg->ret\<close> and \<open>reg->arg[2]\<close> are unsigned, so the
  tests for a negative owner are never true. A descriptor that is not in the table is
  \<open>NULL\<close>.
\<close>

definition fcntl_command :: "reg_s \<Rightarrow> proc_ptr \<Rightarrow> int \<Rightarrow> flock \<Rightarrow> fd_ptr option \<Rightarrow> ('w st, unit) M" where
  "fcntl_command reg proc cmd lock fdesc =
     (let update = (\<lambda>f. bnd (nonnull fdesc) (\<lambda>a. upd_desc a f));
          cmd_arg = c_long (arg2 reg) in
      if cmd = F_DUPFD then bnd (nonnull fdesc) (\<lambda>a. fcntl_dup reg proc a fcntl_dup_flags)
      else if cmd = F_DUPFD_CLOEXEC then
        bnd (nonnull fdesc) (\<lambda>a. fcntl_dup reg proc a (\<lambda>flags. flags OR FD_CLOEXEC))
      else if cmd = F_SETFD then
        if cmd_arg = 1 then update (\<lambda>d. d\<lparr>fd_flags := fd_flags d OR c_uint (arg2 reg)\<rparr>)
        else fail (Exit_program (- 1))
      else if cmd = F_SETFL then
        whenM (cmd_arg = 1024 \<or> cmd_arg = 8192 \<or> cmd_arg = 2048)
          (update (\<lambda>d. d\<lparr>fd_flags := fd_flags d OR c_uint (arg2 reg)\<rparr>))
      else if cmd = F_GETLK then
        if l_type lock = F_UNLCK then update (\<lambda>d. d\<lparr>fd_ltype := F_UNLCK\<rparr>)
        else update (\<lambda>d. set_lock_range lock (d\<lparr>fd_ltype := l_type lock, fd_proc_locker := l_pid lock\<rparr>))
      else if cmd = F_SETLK then
        whenM (reg_ret reg = 0)
          (if l_type lock = F_RDLCK \<or> l_type lock = F_WRLCK then
             update (\<lambda>d. (set_lock_range lock (d\<lparr>fd_lock := 1, fd_proc_locker := l_pid lock\<rparr>))\<lparr>fd_ltype := l_type lock\<rparr>)
           else update (\<lambda>d. d\<lparr>fd_lock := 0, fd_ltype := F_UNLCK, fd_begin := 0, fd_end := 0, fd_proc_locker := 0\<rparr>))
      else if cmd = F_SETLKW then
        whenM (reg_ret reg = 0)
          (update (\<lambda>d. (set_lock_range lock (d\<lparr>fd_lock := 1, fd_proc_locker := l_pid lock\<rparr>))\<lparr>fd_ltype := l_type lock\<rparr>))
      else if cmd = F_GETOWN then update (\<lambda>d. d\<lparr>fd_sig_id := c_int (reg_ret reg)\<rparr>)
      else if cmd = F_SETOWN then update (\<lambda>d. d\<lparr>fd_sig_id := c_int (arg2 reg)\<rparr>)
      else ret ())"

definition process_fcntl_call :: "'w env \<Rightarrow> reg_s \<Rightarrow> proc_ptr \<Rightarrow> ('w st, unit) M" where
  "process_fcntl_call E reg proc =
     (let cmd = c_int (arg1 reg) in
      bnd (get_proc proc) (\<lambda>p.
      bnd (if cmd = F_GETLK \<or> cmd = F_SETLK \<or> cmd = F_SETLKW
           then ptrace_cpy E (p_pid p) sizeof_flock (arg2 reg) (of_nat sizeof_flock) else ret []) (\<lambda>lock.
      if c_int (reg_ret reg) = - 1 then fail (Exit_program (- 1))
      else bnd (process_descriptor_get_fd proc (c_int (arg0 reg))) (\<lambda>arg_fdesc.
        sq (fcntl_command reg proc cmd (decode_flock lock) arg_fdesc)
           (if_strace (print_fcntl_syscall E reg proc))))))"

definition syscall_fcntl :: "'w env \<Rightarrow> reg_s \<Rightarrow> proc_ptr \<Rightarrow> ('w st, unit) M" where
  "syscall_fcntl E reg proc =
     bnd (proc_entering proc) (\<lambda>entering.
     if entering then proc_inside proc
     else block [
       proc_outside proc,
       if_strace (print_fcntl_syscall E reg proc),
       process_fcntl_call E reg proc])"

section \<open>lseek\<close>

definition process_lseek_call :: "reg_s \<Rightarrow> proc_ptr \<Rightarrow> ('w st, unit) M" where
  "process_lseek_call reg proc =
     bnd (process_descriptor_get_fd proc (c_int (arg0 reg))) (\<lambda>file_fd. block [
       whenM (0 \<le> c_long (reg_ret reg))
         (bnd (nonnull file_fd) (\<lambda>a. upd_desc a (\<lambda>d. d\<lparr>fd_offset := c_long (reg_ret reg)\<rparr>))),
       if_strace (print_lseek_syscall reg proc)])"

definition syscall_lseek :: "'w env \<Rightarrow> reg_s \<Rightarrow> proc_ptr \<Rightarrow> ('w st, unit) M" where
  "syscall_lseek E reg proc =
     bnd (proc_entering proc) (\<lambda>entering.
     if entering then block [
       proc_inside proc,
       whenM (\<not> address_translation E) (block [
         process_lseek_call reg proc,
         if_strace (print_lseek_syscall reg proc)])]
     else block [
       proc_outside proc,
       if_strace (print_lseek_syscall reg proc),
       whenM (address_translation E) (process_lseek_call reg proc)])"

end
