(* ===== verification/Process_Syscalls.thy ===== *)
theory Process_Syscalls
  imports File_Syscalls
begin

unbundle bit_operations_syntax

text \<open>
  The handlers of the system calls on processes: \<open>sys_brk.c\<close>, \<open>sys_getpid.c\<close>,
  \<open>sys_tuxcall.c\<close>, \<open>sys_exit.c\<close>, \<open>sys_execve.c\<close>, \<open>sys_clone.c\<close>, and
  \<open>syscall_default\<close> of \<open>syscall_process.c\<close>.
\<close>

definition PROCESS_CONTINUE :: int where "PROCESS_CONTINUE = 0"
definition PROCESS_DEAD :: int where "PROCESS_DEAD = 1"
definition PROCESS_TASK_FOUND :: int where "PROCESS_TASK_FOUND = 3"

lemmas process_states = PROCESS_CONTINUE_def PROCESS_DEAD_def PROCESS_TASK_FOUND_def

section \<open>Calls without effect on the simulation\<close>

text \<open>\<open>%#lx\<close> prints zero without a prefix.\<close>

definition fmt_hex :: "u64 \<Rightarrow> string" where
  "fmt_hex v = sprintf_x (unat v)"

definition syscall_brk :: "reg_s \<Rightarrow> proc_ptr \<Rightarrow> ('w st, unit) M" where
  "syscall_brk reg proc =
     bnd (proc_entering proc) (\<lambda>entering.
     if entering then proc_inside proc
     else sq (proc_outside proc) (if_strace (block [
       stprintf proc (if arg0 reg \<noteq> 0 then ''brk('' @ fmt_hex (arg0 reg) @ '')'' else ''brk(0)''),
       stprintf_tabto proc,
       stprintf proc (''= '' @ fmt_hex (reg_ret reg)),
       stprintf_eol proc])))"

definition syscall_getpid :: "reg_s \<Rightarrow> proc_ptr \<Rightarrow> ('w st, unit) M" where
  "syscall_getpid reg proc =
     bnd (proc_entering proc) (\<lambda>entering.
     if entering then proc_inside proc else proc_outside proc)"

text \<open>\<open>tuxcall\<close> gives the traced process the simulated time.\<close>

definition syscall_tuxcall_post :: "'w env \<Rightarrow> reg_s \<Rightarrow> proc_ptr \<Rightarrow> ('w st, unit) M" where
  "syscall_tuxcall_post E reg proc =
     sq (proc_outside proc)
     (bnd (get_world (MSG_get_clock E)) (\<lambda>clock.
      bnd (get_proc proc) (\<lambda>p.
      sq (ptrace_poke E (p_pid p) (arg1 reg) (bytes64 clock) 8)
         (if_strace (print_tuxcall_syscall E reg proc)))))"

definition syscall_tuxcall :: "'w env \<Rightarrow> reg_s \<Rightarrow> proc_ptr \<Rightarrow> ('w st, unit) M" where
  "syscall_tuxcall E reg proc =
     bnd (proc_entering proc) (\<lambda>entering.
     if entering then proc_inside proc else syscall_tuxcall_post E reg proc)"

text \<open>The message of \<open>syscall_default\<close> names the call from a table of 297 entries.\<close>

definition syscall_default :: "reg_s \<Rightarrow> proc_ptr \<Rightarrow> ('w st, unit) M" where
  "syscall_default reg proc =
     bnd (proc_entering proc) (\<lambda>entering.
     if entering then proc_inside proc
     else if unat (reg_orig reg) < length syscall_list then proc_outside proc
     else fail Out_of_bounds)"

section \<open>exit and execve\<close>

definition syscall_exit :: "'w env \<Rightarrow> reg_s \<Rightarrow> proc_ptr \<Rightarrow> ('w st, int) M" where
  "syscall_exit E reg proc =
     bnd (proc_entering proc) (\<lambda>entering.
     if entering then
       sq (proc_inside proc)
       (bnd (get_proc proc) (\<lambda>p.
        sq (ptrace_detach_process E (p_pid p)) (ret PROCESS_DEAD)))
     else fail Throw_impossible)"

text \<open>The loop over the descriptors only warns; it reads every one of them.\<close>

fun read_descriptors :: "proc_ptr \<Rightarrow> int list \<Rightarrow> ('w st, unit) M" where
  "read_descriptors proc [] = ret ()"
| "read_descriptors proc (key # keys) =
     bnd (bnd (process_descriptor_get_fd proc key) nonnull) (\<lambda>file_desc.
     sq (get_desc file_desc) (read_descriptors proc keys))"

definition syscall_execve :: "'w env \<Rightarrow> reg_s \<Rightarrow> proc_ptr \<Rightarrow> ('w st, unit) M" where
  "syscall_execve E reg proc =
     bnd (get_proc proc) (\<lambda>p.
     if proc_event_exec p then ret ()
     else bnd (proc_entering proc) (\<lambda>entering.
       if entering then sq (proc_inside proc) (if_strace (print_execve_syscall_pre E reg proc))
       else block [
         proc_outside proc,
         if_strace (print_execve_syscall_post reg proc),
         bnd (get_proc proc) (\<lambda>p. read_descriptors proc (dict_order E (fd_map p)))]))"

section \<open>clone\<close>

text \<open>
  The entries that the loop over one end of a pipe adds for the clone. The loop also visits
  the entries it has added, and skips them because they belong to the clone.
\<close>

fun clone_ends :: "proc_ptr \<Rightarrow> int \<Rightarrow> pipe_end_s list \<Rightarrow> ('w st, pipe_end_s list) M" where
  "clone_ends clone pid [] = ret []"
| "clone_ends clone pid (e # ends) =
     (if end_proc e = clone then clone_ends clone pid ends
      else bnd (get_proc (end_proc e)) (\<lambda>p.
        if p_pid p = pid then clone_ends clone pid ends
        else bnd (clone_ends clone pid ends) (\<lambda>l. ret (\<lparr>end_fd = end_fd e, end_proc = clone\<rparr> # l))))"

definition clone_pipe :: "proc_ptr \<Rightarrow> int \<Rightarrow> pipe_ptr option \<Rightarrow> ('w st, unit) M" where
  "clone_pipe clone pid pipe =
     (case pipe of
        None \<Rightarrow> fail Xbt_assert
      | Some q \<Rightarrow>
          bnd (get_pipe q) (\<lambda>p.
          bnd (clone_ends clone pid (read_end p)) (\<lambda>rd.
          sq (upd_pipe q (\<lambda>p. p\<lparr>read_end := read_end p @ rd\<rparr>))
          (bnd (get_pipe q) (\<lambda>p.
           bnd (clone_ends clone pid (write_end p)) (\<lambda>wr.
           upd_pipe q (\<lambda>p. p\<lparr>write_end := write_end p @ wr\<rparr>)))))))"

definition clone_fd :: "proc_ptr \<Rightarrow> proc_ptr \<Rightarrow> int \<Rightarrow> ('w st, unit) M" where
  "clone_fd proc clone i =
     bnd (process_descriptor_get_fd proc i) (\<lambda>file_desc.
     case file_desc of
       None \<Rightarrow> ret ()
     | Some a \<Rightarrow>
         bnd (new_desc (zero_desc clone)) (\<lambda>clone_desc.
         sq (process_descriptor_set_fd clone i (Some clone_desc))
         (bnd (get_desc a) (\<lambda>d.
          sq (upd_desc clone_desc (\<lambda>c. c\<lparr>fd_proc := clone, fd_refcount := 0, fd_fd := fd_fd d,
               fd_flags := fd_flags d, fd_pipe := fd_pipe d, fd_stream := fd_stream d, fd_type := fd_type d\<rparr>))
          (bnd (get_proc clone) (\<lambda>cp.
           whenM (fd_type d = FD_PIPE) (clone_pipe clone (p_pid cp) (fd_pipe d))))))))"

fun clone_fds :: "proc_ptr \<Rightarrow> proc_ptr \<Rightarrow> int list \<Rightarrow> ('w st, unit) M" where
  "clone_fds proc clone [] = ret ()"
| "clone_fds proc clone (i # keys) = sq (clone_fd proc clone i) (clone_fds proc clone keys)"

definition sizeof_clone_name :: nat where "sizeof_clone_name = 256"

definition clone_name :: "int \<Rightarrow> string \<Rightarrow> string" where
  "clone_name n parent = ''clone #'' @ sprintf_d n @ '' of '' @ parent"

definition start_clone :: "'w env \<Rightarrow> proc_ptr \<Rightarrow> ('w st, unit) M" where
  "start_clone E clone =
     sq (modify (\<lambda>s. s\<lparr>clone_number := clone_number s + 1\<rparr>))
     (bnd (gets clone_number) (\<lambda>n.
      bnd (get_world (MSG_process_self_name E)) (\<lambda>parent.
      if length (clone_name n parent) < sizeof_clone_name then
        bnd (get_world (MSG_host_self E)) (\<lambda>host.
        upd_world (MSG_process_create E (clone_name n parent) clone host))
      else fail Out_of_bounds)))"

text \<open>The branch for the new process, then the handler.\<close>

definition syscall_clone_child :: "'w env \<Rightarrow> reg_s \<Rightarrow> proc_ptr \<Rightarrow> ('w st, unit) M" where
  "syscall_clone_child E reg proc =
     bnd (get_proc proc) (\<lambda>p.
     bnd (ptrace_get_pid_clone E (p_pid p)) (\<lambda>pid_clone.
     sq (proc_outside proc)
     (bnd (process_descriptor_new E (p_name p) (''cloned_'' @ sprintf_d pid_clone) pid_clone) (\<lambda>clone.
      sq (bnd (get_proc proc) (\<lambda>p. clone_fds proc clone (dict_order E (fd_map p))))
      (bnd (get_proc clone) (\<lambda>cp.
       let reg = reg\<lparr>reg_ret := of_c_int (p_pid cp)\<rparr> in block [
         ptrace_restore_syscall E (p_pid p) SYS_clone (of_c_int (c_int (reg_ret reg))),
         if_strace (print_clone_syscall reg proc),
         start_clone E clone,
         proc_inside proc]))))))"

definition syscall_clone :: "'w env \<Rightarrow> reg_s \<Rightarrow> proc_ptr \<Rightarrow> ('w st, unit) M" where
  "syscall_clone E reg proc =
     bnd (get_proc proc) (\<lambda>p.
     if WSTOPSIG (p_status p) AND (SIGTRAP OR 0x80) \<noteq> 0 then
       bnd (proc_entering proc) (\<lambda>entering.
       if entering then proc_inside proc
       else sq (proc_outside proc) (sq (ptrace_get_pid_clone E (p_pid p)) (ret ())))
     else if proc_event_exec p then syscall_clone_child E reg proc
     else ret ())"

end
