(* ===== verification/Proc_Net.thy ===== *)
theory Proc_Net
  imports Strace_Output
begin

unbundle bit_operations_syntax

text \<open>
  \<open>get_addr_port\<close> and \<open>socket_get_local_port\<close> of \<open>sockets.c\<close>: the search for the
  real port of a socket in the tables below \<open>/proc/net\<close>. The C strings are kept as cells
  of their arrays, \<open>None\<close> for a cell that was never written.
\<close>

section \<open>Lines and tokens\<close>

text \<open>\<open>fgets(buff, 512, file)\<close>: up to 511 characters, up to and with the first newline.\<close>

function fgets_lines :: "u8 list \<Rightarrow> u8 list list" where
  "fgets_lines content =
     (if content = [] then []
      else let line = take 511 (takeWhile (\<lambda>b. b \<noteq> 10) content @ [10]);
               n = min (length content) (length line)
           in take n content # fgets_lines (drop n content))"
  by pat_completeness auto
termination
  by (relation "measure length") (auto simp: min_def)

declare fgets_lines.simps [simp del]

definition fgets_store :: "u8 list \<Rightarrow> u8 option list \<Rightarrow> u8 option list" where
  "fgets_store line buff = map Some line @ Some 0 # drop (Suc (length line)) buff"

text \<open>
  \<open>strtok(str, delim)\<close> with one delimiter: the token, if there is one, and the cells after
  it, where the next call goes on.
\<close>

fun strtok_end :: "u8 \<Rightarrow> u8 option list \<Rightarrow> ('w st, u8 list \<times> u8 option list) M" where
  "strtok_end d [] = fail Out_of_bounds"
| "strtok_end d (None # cs) = fail Uninitialised"
| "strtok_end d (Some c # cs) =
     (if c = 0 then ret ([], Some 0 # cs)
      else if c = d then ret ([], cs)
      else bnd (strtok_end d cs) (\<lambda>(tok, rest). ret (c # tok, rest)))"

fun strtok :: "u8 \<Rightarrow> u8 option list \<Rightarrow> ('w st, u8 list option \<times> u8 option list) M" where
  "strtok d [] = fail Out_of_bounds"
| "strtok d (None # cs) = fail Uninitialised"
| "strtok d (Some c # cs) =
     (if c = d \<and> c \<noteq> 0 then strtok d cs
      else if c = 0 then ret (None, Some 0 # cs)
      else bnd (strtok_end d (Some c # cs)) (\<lambda>(tok, rest). ret (Some tok, rest)))"

text \<open>\<open>strncpy(dst, src, n)\<close>: a string shorter than \<open>n\<close> is filled up with zeros.\<close>

fun strncpy_cells :: "nat \<Rightarrow> u8 option list \<Rightarrow> ('w st, u8 option list) M" where
  "strncpy_cells 0 cs = ret []"
| "strncpy_cells (Suc n) [] = fail Out_of_bounds"
| "strncpy_cells (Suc n) (None # cs) = fail Uninitialised"
| "strncpy_cells (Suc n) (Some c # cs) =
     (if c = 0 then ret (replicate (Suc n) (Some 0))
      else bnd (strncpy_cells n cs) (\<lambda>l. ret (Some c # l)))"

text \<open>\<open>sscanf(hex, "%X:%hX", &ip, &port)\<close> of two hexadecimal numbers joined by a colon.\<close>

definition sscanf_addr :: "string \<Rightarrow> (u32 \<times> u16) option" where
  "sscanf_addr hex =
     (let ip = takeWhile isxdigit hex; rest = dropWhile isxdigit hex in
      if ip = [] \<or> rest = [] \<or> hd rest \<noteq> CHR '':'' then None
      else let port = takeWhile isxdigit (tl rest) in
        if port = [] then None else Some (of_nat (num_val 16 ip), of_nat (num_val 16 port)))"

section \<open>The tables of the kernel\<close>

definition SPACE :: u8 where "SPACE = 32"

definition TCP_PROTOCOL :: int where "TCP_PROTOCOL = 0"
definition UDP_PROTOCOL :: int where "UDP_PROTOCOL = 1"
definition RAW_PROTOCOL :: int where "RAW_PROTOCOL = 2"

definition proc_net_file :: "int \<Rightarrow> string" where
  "proc_net_file type =
     (if type = TCP_PROTOCOL then ''/proc/net/tcp'' else if type = UDP_PROTOCOL then ''/proc/net/udp'' else ''/proc/net/raw'')"

text \<open>The loop over the lines; only the local address is ever asked for.\<close>

fun get_addr_port_lines :: "int \<Rightarrow> u8 option list \<Rightarrow> u8 list list \<Rightarrow> ('w st, (u32 \<times> u16) option) M" where
  "get_addr_port_lines num_sock buff [] = ret None"
| "get_addr_port_lines num_sock buff (line # lines) =
     (let buff = fgets_store line buff in
      bnd (strncpy_cells (512 - 91) (drop 91 buff)) (\<lambda>part_inode.
      bnd (strtok SPACE part_inode) (\<lambda>(inode, _).
      bnd (nonnull inode) (\<lambda>inode.
      if atoi (chars inode) = num_sock then
        bnd (strncpy_cells 27 (drop 6 buff)) (\<lambda>addrs.
        bnd (strtok SPACE addrs) (\<lambda>(loc_addr_hex, rest).
        bnd (strtok SPACE rest) (\<lambda>(rem_addr_hex, _).
        bnd (nonnull loc_addr_hex) (\<lambda>loc.
        case sscanf_addr (chars loc) of None \<Rightarrow> fail Uninitialised | Some a \<Rightarrow> ret (Some a)))))
      else get_addr_port_lines num_sock buff lines))))"

definition get_addr_port :: "'w env \<Rightarrow> int \<Rightarrow> int \<Rightarrow> ('w st, (u32 \<times> u16) option) M" where
  "get_addr_port E type num_sock =
     bnd (get_world (read_file E (proc_net_file type))) (\<lambda>file.
     case file of
       None \<Rightarrow> fail Xbt_die
     | Some content \<Rightarrow> get_addr_port_lines num_sock (replicate 512 None) (fgets_lines content))"

text \<open>\<open>readlink\<close> does not write a terminating zero.\<close>

definition link_number :: "u8 list \<Rightarrow> ('w st, int) M" where
  "link_number dest =
     bnd (strtok 91 (map Some (take 512 dest) @ replicate (512 - length dest) None)) (\<lambda>(_, rest).
     bnd (strtok 93 rest) (\<lambda>(token, _).
     bnd (nonnull token) (\<lambda>token. ret (atoi (chars token)))))"

definition socket_get_local_port :: "'w env \<Rightarrow> proc_ptr \<Rightarrow> int \<Rightarrow> ('w st, int) M" where
  "socket_get_local_port E proc fd =
     bnd (bnd (get_infos_socket proc fd) nonnull) (\<lambda>is.
     bnd (get_proc proc) (\<lambda>p.
     bnd (get_sock is) (\<lambda>i.
     bnd (get_world (readlink E (''/proc/'' @ sprintf_d (p_pid p) @ ''/fd/'' @ sprintf_d fd))) (\<lambda>link.
     case link of
       None \<Rightarrow> ret (- 1)
     | Some dest \<Rightarrow>
         bnd (link_number dest) (\<lambda>num_socket.
         let protocol = is_protocol i in
         if protocol \<notin> {0, 1, 6, 17, 255} then ret 0
         else bnd (if protocol = 1 then      \<comment> \<open>\<open>IPPROTO_ICMP\<close>\<close>
                     bnd (get_addr_port E TCP_PROTOCOL num_socket) (\<lambda>r.
                     if r \<noteq> None then ret r
                     else bnd (get_addr_port E UDP_PROTOCOL num_socket) (\<lambda>r.
                          if r \<noteq> None then ret r else get_addr_port E RAW_PROTOCOL num_socket))
                   else if protocol = 6 \<or> protocol = 0 then get_addr_port E TCP_PROTOCOL num_socket
                   else if protocol = 17 then get_addr_port E UDP_PROTOCOL num_socket
                   else get_addr_port E RAW_PROTOCOL num_socket) (\<lambda>r.
              case r of None \<Rightarrow> fail Uninitialised | Some (ip, port) \<Rightarrow> ret (port_of port)))))))"

end
