(* ===== verification/Connection_Syscalls.thy ===== *)
theory Connection_Syscalls
  imports Process_Syscalls Proc_Net
begin

unbundle bit_operations_syntax

text \<open>
  The handlers of the system calls that set up and tear down connections:
  \<open>sys_socket.c\<close>, \<open>sys_bind.c\<close>, \<open>sys_listen.c\<close>, \<open>sys_connect.c\<close>,
  \<open>sys_accept.c\<close>, \<open>sys_shutdown.c\<close>, \<open>sys_getpeername.c\<close>,
  \<open>sys_getsockopt.c\<close> and \<open>sys_setsockopt.c\<close>. The condition
  \<open>address_translation E\<close> stands for the preprocessor conditionals. A handler that
  changes its registers works on an updated copy.
\<close>

definition EBADF :: int where "EBADF = 9"
definition EADDRINUSE :: int where "EADDRINUSE = 98"
definition ENOTCONN :: int where "ENOTCONN = 107"
definition ECONNREFUSED :: int where "ECONNREFUSED = 111"
definition EINPROGRESS :: int where "EINPROGRESS = 115"

lemmas errnos = EBADF_def EADDRINUSE_def ENOTCONN_def ECONNREFUSED_def EINPROGRESS_def

section \<open>Common parts\<close>

definition set_ret :: "int \<Rightarrow> reg_s \<Rightarrow> reg_s" where
  "set_ret r reg = reg\<lparr>reg_ret := of_c_int r\<rparr>"

text \<open>\<open>ptrace_restore_syscall(pid, nr, (int) reg->ret)\<close>.\<close>

definition restore_int :: "'w env \<Rightarrow> int \<Rightarrow> u64 \<Rightarrow> reg_s \<Rightarrow> ('w st, unit) M" where
  "restore_int E pid nr reg = ptrace_restore_syscall E pid nr (of_c_int (c_int (reg_ret reg)))"

text \<open>
  The copy of the address argument into the local variable of the domain. The result is
  \<open>sai\<close>, if it has been written.
\<close>

definition copy_sockaddr :: "'w env \<Rightarrow> int \<Rightarrow> int \<Rightarrow> u64 \<Rightarrow> ('w st, sockaddr_in option) M" where
  "copy_sockaddr E pid domain addr =
     (if domain = 2 then
        bnd (ptrace_cpy E pid sizeof_sockaddr_in addr (of_nat sizeof_sockaddr_in)) (\<lambda>bs. ret (Some (decode_sockaddr_in bs)))
      else if domain = 1 then
        sq (ptrace_cpy E pid sizeof_sockaddr_un addr (of_nat sizeof_sockaddr_un)) (ret None)
      else if domain = 16 then
        sq (ptrace_cpy E pid sizeof_sockaddr_nl addr (of_nat sizeof_sockaddr_nl)) (ret None)
      else ret None)"

definition initialised :: "'a option \<Rightarrow> ('w st, 'a) M" where
  "initialised v = (case v of None \<Rightarrow> fail Uninitialised | Some x \<Rightarrow> ret x)"

lemma run_initialised [run]:
  "initialised v s = (case v of None \<Rightarrow> Inl Uninitialised | Some x \<Rightarrow> Inr (x, s))"
  by (simp add: initialised_def run split: option.split)

definition proc_host :: "proc_ptr \<Rightarrow> ('w st, msg_host) M" where
  "proc_host proc = bnd (get_proc proc) (\<lambda>p. nonnull (p_host p))"

definition sock_at_fd :: "proc_ptr \<Rightarrow> int \<Rightarrow> ('w st, fd_ptr) M" where
  "sock_at_fd proc fd = bnd (get_infos_socket proc fd) nonnull"

text \<open>The semaphores of the stream of a descriptor.\<close>

definition stream_of :: "fd_ptr \<Rightarrow> ('w st, stream_ptr) M" where
  "stream_of a = bnd (get_desc a) (\<lambda>d. nonnull (fd_stream d))"

definition stream_sem :: "(stream_t \<Rightarrow> msg_sem option) \<Rightarrow> fd_ptr \<Rightarrow> ('w st, msg_sem) M" where
  "stream_sem f a = bnd (stream_of a) (\<lambda>st. bnd (get_stream st) (\<lambda>x. nonnull (f x)))"

definition sem_acquire :: "'w env \<Rightarrow> (stream_t \<Rightarrow> msg_sem option) \<Rightarrow> fd_ptr \<Rightarrow> ('w st, unit) M" where
  "sem_acquire E f a = bnd (stream_sem f a) (\<lambda>sem. call_block (\<lambda>s. ((), MSG_sem_acquire E sem s)))"

definition sem_release :: "'w env \<Rightarrow> (stream_t \<Rightarrow> msg_sem option) \<Rightarrow> fd_ptr \<Rightarrow> ('w st, unit) M" where
  "sem_release E f a = bnd (stream_sem f a) (\<lambda>sem. upd_world (MSG_sem_release E sem))"

section \<open>socket\<close>

definition syscall_socket :: "reg_s \<Rightarrow> proc_ptr \<Rightarrow> ('w st, unit) M" where
  "syscall_socket reg proc =
     bnd (proc_entering proc) (\<lambda>entering.
     if entering then proc_inside proc
     else block [
       proc_outside proc,
       if_strace (print_socket_syscall reg proc),
       whenM (0 < c_int (reg_ret reg))
         (sq (register_socket proc (c_int (reg_ret reg)) (c_int (arg0 reg)) (c_int (arg1 reg)) (c_int (arg2 reg)))
             (ret ()))])"

section \<open>bind\<close>

definition bind_device :: "u32 \<Rightarrow> u32" where
  "bind_device ip = (if ip = INADDR_ANY then PORT_LOCAL OR PORT_REMOTE
     else if ip = loopback then PORT_LOCAL else PORT_REMOTE)"

text \<open>The branch for a network socket, from the test whether the port is in use.\<close>

definition bind_network :: "'w env \<Rightarrow> reg_s \<Rightarrow> proc_ptr \<Rightarrow> int \<Rightarrow> sockaddr_in \<Rightarrow> ('w st, unit) M" where
  "bind_network E reg proc sockfd sai =
     (let port = port_of (sin_port sai) in
      bnd (get_proc proc) (\<lambda>p.
      bnd (proc_host proc) (\<lambda>host.
      bnd (is_port_in_use E host port) (\<lambda>in_use.
      if \<not> in_use then
        let reg = set_ret 0 reg in
        sq (register_port E host port)
        (bnd (sock_at_fd proc sockfd) (\<lambda>is. block [
          set_port_on_binding E host port is (bind_device (s_addr sai)),
          upd_sock is (\<lambda>i. i\<lparr>is_binded := 1\<rparr>),
          set_localaddr_port_socket proc sockfd (inet_ntoa (s_addr sai)) port,
          if address_translation E then
            bnd (ptrace_find_free_binding_port E (p_pid p)) (\<lambda>real. block [
              proc_outside proc,
              set_real_port E host port real,
              bnd (get_ip_of_host E host) (\<lambda>ip. add_new_translation real port ip),
              if_strace (print_bind_syscall E reg proc)])
          else block [
            ptrace_neutralize_syscall E (p_pid p),
            restore_int E (p_pid p) SYS_bind reg,
            proc_outside proc,
            if_strace (print_bind_syscall E reg proc)]]))
      else
        let reg = set_ret (- EADDRINUSE) reg in block [
          ptrace_neutralize_syscall E (p_pid p),
          restore_int E (p_pid p) SYS_bind reg,
          proc_outside proc,
          if_strace (print_bind_syscall E reg proc)]))))"

definition syscall_bind_pre :: "'w env \<Rightarrow> reg_s \<Rightarrow> proc_ptr \<Rightarrow> ('w st, unit) M" where
  "syscall_bind_pre E reg proc =
     (let reg = (if c_int (reg_ret reg) = - EINPROGRESS then set_ret 0 reg else reg);
          sockfd = c_int (arg0 reg) in
      sq (proc_inside proc)
      (bnd (get_proc proc) (\<lambda>p.
       bnd (get_domain_socket proc sockfd) (\<lambda>domain.
       bnd (copy_sockaddr E (p_pid p) domain (arg1 reg)) (\<lambda>sai.
       bnd (socket_registered proc sockfd) (\<lambda>registered.
       bnd (if registered \<noteq> 0 then socket_network proc sockfd else ret False) (\<lambda>network.
       if network then bnd (initialised sai) (bind_network E reg proc sockfd)
       else if_strace (print_bind_syscall E reg proc))))))))"

definition syscall_bind_post :: "'w env \<Rightarrow> reg_s \<Rightarrow> proc_ptr \<Rightarrow> ('w st, unit) M" where
  "syscall_bind_post E reg proc = sq (proc_outside proc) (if_strace (print_bind_syscall E reg proc))"

definition syscall_bind :: "'w env \<Rightarrow> reg_s \<Rightarrow> proc_ptr \<Rightarrow> ('w st, unit) M" where
  "syscall_bind E reg proc =
     bnd (proc_entering proc) (\<lambda>entering.
     if entering then syscall_bind_pre E reg proc else syscall_bind_post E reg proc)"

section \<open>listen\<close>

text \<open>The registers of \<open>process_listen_call\<close> are returned.\<close>

definition process_listen_call :: "'w env \<Rightarrow> reg_s \<Rightarrow> proc_ptr \<Rightarrow> ('w st, reg_s) M" where
  "process_listen_call E reg proc =
     bnd (sock_at_fd proc (c_int (arg0 reg))) (\<lambda>is.
     bnd (comm_new is) (\<lambda>comm.
     sq (comm_set_listen comm)
        (if address_translation E then ret reg
         else bnd (get_proc proc) (\<lambda>p.
           let reg = set_ret 0 reg in block_ret reg [
             ptrace_neutralize_syscall E (p_pid p),
             restore_int E (p_pid p) SYS_listen reg,
             proc_outside proc]))))"

definition syscall_listen :: "'w env \<Rightarrow> reg_s \<Rightarrow> proc_ptr \<Rightarrow> ('w st, unit) M" where
  "syscall_listen E reg proc =
     bnd (proc_entering proc) (\<lambda>entering.
     if entering then
       sq (proc_inside proc)
          (whenM (\<not> address_translation E)
             (bnd (process_listen_call E reg proc) (\<lambda>reg. if_strace (print_listen_syscall reg proc))))
     else
       sq (proc_outside proc)
          (if address_translation E
           then bnd (process_listen_call E reg proc) (\<lambda>reg. if_strace (print_listen_syscall reg proc))
           else fail Throw_impossible))"

section \<open>connect\<close>

definition sys_translate_connect_in :: "'w env \<Rightarrow> reg_s \<Rightarrow> proc_ptr \<Rightarrow> ('w st, unit) M" where
  "sys_translate_connect_in E reg proc =
     bnd (get_proc proc) (\<lambda>p.
     bnd (ptrace_cpy E (p_pid p) sizeof_sockaddr_in (arg1 reg) (of_nat sizeof_sockaddr_in)) (\<lambda>bs.
     let sai = decode_sockaddr_in bs in
     bnd (get_real_port E proc (s_addr sai) (port_of (sin_port sai))) (\<lambda>port.
     ptrace_poke E (p_pid p) (arg1 reg)
       (encode_sockaddr_in (sai\<lparr>sin_port := of_port port, s_addr := loopback\<rparr>)) (of_nat sizeof_sockaddr_in))))"

definition sys_translate_connect_out :: "'w env \<Rightarrow> reg_s \<Rightarrow> proc_ptr \<Rightarrow> ('w st, unit) M" where
  "sys_translate_connect_out E reg proc =
     bnd (get_proc proc) (\<lambda>p.
     bnd (ptrace_cpy E (p_pid p) sizeof_sockaddr_in (arg1 reg) (of_nat sizeof_sockaddr_in)) (\<lambda>bs.
     let sai = decode_sockaddr_in bs in
     bnd (bnd (get_translation (port_of (sin_port sai))) nonnull) (\<lambda>td.
     ptrace_poke E (p_pid p) (arg1 reg)
       (encode_sockaddr_in (sai\<lparr>sin_port := of_port (td_port_num td), s_addr := td_ip td\<rparr>)) (of_nat sizeof_sockaddr_in))))"

text \<open>The refusal of a connection; the result is the value 0 of \<open>process_connect_in_call\<close>.\<close>

definition refuse_connect :: "'w env \<Rightarrow> reg_s \<Rightarrow> proc_ptr \<Rightarrow> int \<Rightarrow> ('w st, bool) M" where
  "refuse_connect E reg proc pid =
     block_ret False [
       ptrace_neutralize_syscall E pid,
       proc_outside proc,
       restore_int E pid SYS_connect (set_ret (- ECONNREFUSED) reg)]"

definition connect_host :: "'w env \<Rightarrow> msg_host \<Rightarrow> u32 \<Rightarrow> ('w st, u32 \<times> u32 \<times> msg_host option) M" where
  "connect_host E own ip =
     (if ip = loopback then ret (loopback, PORT_LOCAL, Some own)
      else bnd (get_ip_of_host E own) (\<lambda>own_ip.
           bnd (get_host_by_ip E ip) (\<lambda>host. ret (own_ip, PORT_REMOTE, host))))"

definition process_connect_in_call :: "'w env \<Rightarrow> reg_s \<Rightarrow> proc_ptr \<Rightarrow> ('w st, bool) M" where
  "process_connect_in_call E reg proc =
     (let fd = c_int (arg0 reg) in
      bnd (get_proc proc) (\<lambda>p.
      bnd (get_domain_socket proc fd) (\<lambda>domain.
      if domain \<noteq> 2 then ret False
      else
        bnd (ptrace_cpy E (p_pid p) sizeof_sockaddr_in (arg1 reg) (of_nat sizeof_sockaddr_in)) (\<lambda>bs.
        let sai = decode_sockaddr_in bs in
        bnd (proc_host proc) (\<lambda>own.
        bnd (connect_host E own (s_addr sai)) (\<lambda>(inp, device, host).
        case host of
          None \<Rightarrow> refuse_connect E reg proc (p_pid p)
        | Some h \<Rightarrow>
            bnd (comm_ask_connect E h (port_of (sin_port sai)) proc fd device) (\<lambda>acc_proc.
            if acc_proc = None then refuse_connect E reg proc (p_pid p)
            else
              bnd (get_random_port E own) (\<lambda>port.
              sq (set_localaddr_port_socket proc fd (inet_ntoa inp) port)
              (sq (register_port E own port)
              (if \<not> address_translation E then
                 bnd (socket_get_flags proc fd) (\<lambda>flags.
                 let nonblock = flags AND O_NONBLOCK \<noteq> 0;
                     reg = set_ret (if nonblock then - EINPROGRESS else 0) reg
                 in block_ret (\<not> nonblock) [
                      ptrace_neutralize_syscall E (p_pid p),
                      restore_int E (p_pid p) SYS_connect reg])
               else
                 sq (sys_translate_connect_in E reg proc)
                 (bnd (socket_get_flags proc fd) (\<lambda>flags. ret (flags AND O_NONBLOCK = 0)))))))))))))"

text \<open>
  After the connection has been asked for, the handler goes on with \<open>process_handle\<close> of the
  same process, the argument \<open>handle\<close>; \<open>syscall_connect\<close> ignores what it returns.
\<close>

definition syscall_connect_pre :: "'w env \<Rightarrow> (proc_ptr \<Rightarrow> ('w st, int) M) \<Rightarrow> reg_s \<Rightarrow> proc_ptr \<Rightarrow> ('w st, int) M" where
  "syscall_connect_pre E handle reg proc =
     (let reg = (if c_int (reg_ret reg) = - EINPROGRESS then set_ret 0 reg else reg);
          sockfd = c_int (arg0 reg) in
      sq (proc_inside proc)
      (bnd (get_proc proc) (\<lambda>p.
       bnd (get_domain_socket proc sockfd) (\<lambda>domain.
       sq (copy_sockaddr E (p_pid p) domain (arg1 reg))
       (bnd (process_connect_in_call E reg proc) (\<lambda>asked.
        if asked then
          bnd (sock_at_fd proc sockfd) (\<lambda>is.
          bnd (bnd (comm_get_peer is) nonnull) (\<lambda>s.
          bnd (get_desc s) (\<lambda>remote.
          sq (upd_desc is (\<lambda>d. d\<lparr>fd_stream := fd_stream remote\<rparr>))
          (bnd (stream_of is) (\<lambda>st.
           bnd (get_world (MSG_process_self E)) (\<lambda>self.
           bnd (get_world (MSG_host_self E)) (\<lambda>host.
           sq (upd_stream st (\<lambda>x. x\<lparr>client := Some self, to_client := Some (MSG_host_get_name E host)\<rparr>))
           (sq (sem_release E sem_server is)
           (sq (sem_acquire E sem_client is)
           (handle proc))))))))))
        else sq (proc_outside proc) (ret PROCESS_CONTINUE)))))))"

definition syscall_connect_post :: "'w env \<Rightarrow> reg_s \<Rightarrow> proc_ptr \<Rightarrow> ('w st, unit) M" where
  "syscall_connect_post E reg proc =
     (let reg = (if c_int (reg_ret reg) = - EINPROGRESS then set_ret 0 reg else reg);
          sockfd = c_int (arg0 reg) in
      sq (proc_outside proc)
      (bnd (get_proc proc) (\<lambda>p.
       bnd (get_domain_socket proc sockfd) (\<lambda>domain.
       sq (copy_sockaddr E (p_pid p) domain (arg1 reg))
       (sq (whenM (address_translation E \<and> domain = 2 \<and> 0 \<le> c_int (reg_ret reg))
             (bnd (sock_at_fd proc sockfd) (\<lambda>is.
              sq (sys_translate_connect_out E reg proc)
              (bnd (socket_get_local_port E proc sockfd) (\<lambda>port.
               bnd (proc_host proc) (\<lambda>host.
               bnd (get_sock is) (\<lambda>i.
               sq (set_real_port E host (port_local i) (port_of (word_of_int port)))
               (bnd (get_ip_of_host E host) (\<lambda>ip.
                add_new_translation (port_of (word_of_int port)) (port_local i) ip)))))))))
       (sq (if_strace (print_connect_syscall E reg proc))
       (bnd (bnd (process_descriptor_get_fd proc sockfd) nonnull) (\<lambda>file_desc. block [
          refcount_incr file_desc,
          sem_release E sem_server file_desc,
          refcount_decr file_desc]))))))))"

definition syscall_connect :: "'w env \<Rightarrow> (proc_ptr \<Rightarrow> ('w st, int) M) \<Rightarrow> reg_s \<Rightarrow> proc_ptr \<Rightarrow> ('w st, unit) M" where
  "syscall_connect E handle reg proc =
     bnd (proc_entering proc) (\<lambda>entering.
     if entering then sq (syscall_connect_pre E handle reg proc) (ret ())
     else syscall_connect_post E reg proc)"

section \<open>accept\<close>

definition sys_translate_accept_out :: "'w env \<Rightarrow> reg_s \<Rightarrow> proc_ptr \<Rightarrow> ('w st, unit) M" where
  "sys_translate_accept_out E reg proc =
     bnd (get_proc proc) (\<lambda>p.
     bnd (ptrace_cpy E (p_pid p) sizeof_sockaddr_in (arg1 reg) (of_nat sizeof_sockaddr_in)) (\<lambda>bs.
     let sai = decode_sockaddr_in bs; port = port_of (sin_port sai) in
     bnd (sock_at_fd proc (c_int (arg0 reg))) (\<lambda>is.
     bnd (comm_get_ip_port_accept is sai) (\<lambda>sai.
     bnd (if s_addr sai = loopback then proc_host proc
          else bnd (get_host_by_ip E (s_addr sai)) nonnull) (\<lambda>host. block [
       set_real_port E host (port_of (sin_port sai)) port,
       add_new_translation port (port_of (sin_port sai)) (s_addr sai),
       ptrace_poke E (p_pid p) (arg1 reg) (encode_sockaddr_in sai) (of_nat sizeof_sockaddr_in)])))))"

text \<open>The address of the socket that \<open>accept\<close> makes.\<close>

definition accepted_ip :: "'w env \<Rightarrow> proc_ptr \<Rightarrow> fd_ptr \<Rightarrow> infos_socket \<Rightarrow> ('w st, u32) M" where
  "accepted_ip E proc is s =
     (if ip_local s = 0 then
        bnd (comm_of is) (\<lambda>comm.
        bnd (get_comm comm) (\<lambda>c.
        bnd (nonnull (ci_socket (info0 c))) (\<lambda>temp.
        bnd (get_sock temp) (\<lambda>t.
        if ip_local t = loopback then ret loopback
        else bnd (proc_host proc) (get_ip_of_host E)))))
      else ret (ip_local s))"

definition process_accept_out_call :: "'w env \<Rightarrow> reg_s \<Rightarrow> proc_ptr \<Rightarrow> ('w st, unit) M" where
  "process_accept_out_call E reg proc =
     (let fd = c_int (arg0 reg); new_fd = c_int (reg_ret reg) in
      whenM (0 \<le> new_fd)
        (bnd (get_domain_socket proc fd) (\<lambda>domain.
         bnd (get_protocol_socket proc fd) (\<lambda>protocol.
         bnd (get_type_socket proc fd) (\<lambda>type.
         bnd (register_socket proc new_fd domain type protocol) (\<lambda>is.
         sq (whenM (address_translation E) (sys_translate_accept_out E reg proc))
         (sq (comm_join_on_accept is proc fd)
         (bnd (sock_at_fd proc fd) (\<lambda>s.
          bnd (get_sock s) (\<lambda>si.
          bnd (proc_host proc) (\<lambda>host.
          sq (register_port E host (port_local si))
          (bnd (accepted_ip E proc is si) (\<lambda>ip.
           sq (set_localaddr_port_socket proc new_fd (inet_ntoa ip) (port_local si))
           (bnd (get_desc s) (\<lambda>ds.
            upd_desc is (\<lambda>d. d\<lparr>fd_stream := fd_stream ds\<rparr>))))))))))))))))"

definition new_accept_stream :: "'w env \<Rightarrow> ('w st, stream_ptr) M" where
  "new_accept_stream E =
     bnd (call_world (MSG_sem_init E 0)) (\<lambda>semc.
     bnd (call_world (MSG_sem_init E 0)) (\<lambda>sems.
     bnd (get_world (MSG_process_self E)) (\<lambda>self.
     bnd (get_world (MSG_host_self E)) (\<lambda>host.
     new_stream \<lparr>sem_client = Some semc, sem_server = Some sems, client = None, server = Some self,
       to_client = None, to_server = Some (MSG_host_get_name E host)\<rparr>))))"

text \<open>What happens when a connection is waiting.\<close>

definition accept_waiting :: "'w env \<Rightarrow> reg_s \<Rightarrow> proc_ptr \<Rightarrow> int \<Rightarrow> fd_ptr \<Rightarrow> ('w st, unit) M" where
  "accept_waiting E reg proc sockfd file_desc =
     bnd (sock_at_fd proc sockfd) (\<lambda>is.
     bnd (comm_accept_connect is) (\<lambda>conn.
     if address_translation E then
       bnd (nonnull conn) (\<lambda>(conn_proc, sai).
       bnd (get_proc conn_proc) (\<lambda>cp. ptrace_resume_process E (p_pid cp)))
     else
       bnd (get_proc proc) (\<lambda>p.
       bnd (ptrace_record_socket E (p_pid p)) (\<lambda>new_fd.
       let reg = set_ret new_fd reg in block [
         ptrace_neutralize_syscall E (p_pid p),
         proc_outside proc,
         restore_int E (p_pid p) SYS_accept reg,
         bnd (initialised conn) (\<lambda>(_, sai).
           ptrace_poke E (p_pid p) (arg1 reg) (encode_sockaddr_in sai) (of_nat sizeof_sockaddr_in)),
         process_accept_out_call E reg proc,
         if_strace (print_accept_syscall E reg proc),
         sem_acquire E sem_server file_desc]))))"

definition syscall_accept_pre :: "'w env \<Rightarrow> reg_s \<Rightarrow> proc_ptr \<Rightarrow> int \<Rightarrow> ('w st, unit) M" where
  "syscall_accept_pre E reg proc domain =
     (let sockfd = c_int (arg0 reg) in
      sq (proc_inside proc)
      (bnd (get_proc proc) (\<lambda>p.
       bnd (bnd (process_descriptor_get_fd proc sockfd) nonnull) (\<lambda>file_desc.
       sq (refcount_incr file_desc)
       (bnd (new_accept_stream E) (\<lambda>stream. block [
          sq (copy_sockaddr E (p_pid p) domain (arg1 reg)) (ret ()),
          sq (ptrace_cpy E (p_pid p) 8 (arg2 reg) 4) (ret ()),
          upd_desc file_desc (\<lambda>d. d\<lparr>fd_stream := Some stream\<rparr>),
          sem_acquire E sem_server file_desc,
          sem_release E sem_client file_desc,
          bnd (bnd (get_infos_socket proc sockfd) comm_has_connect_waiting) (\<lambda>waiting.
            whenM waiting (accept_waiting E reg proc sockfd file_desc)),
          refcount_decr file_desc]))))))"

definition syscall_accept :: "'w env \<Rightarrow> reg_s \<Rightarrow> proc_ptr \<Rightarrow> ('w st, unit) M" where
  "syscall_accept E reg proc =
     bnd (get_domain_socket proc (c_int (arg0 reg))) (\<lambda>domain.
     bnd (proc_entering proc) (\<lambda>entering.
     if entering then syscall_accept_pre E reg proc domain
     else block [
       proc_outside proc,
       whenM (address_translation E) (process_accept_out_call E reg proc),
       if_strace (print_accept_syscall E reg proc),
       bnd (bnd (process_descriptor_get_fd proc (c_int (arg0 reg))) nonnull) (\<lambda>file_desc. block [
         refcount_incr file_desc,
         sem_acquire E sem_server file_desc,
         refcount_decr file_desc])]))"

section \<open>shutdown and getpeername\<close>

definition syscall_shutdown_pre :: "'w env \<Rightarrow> reg_s \<Rightarrow> proc_ptr \<Rightarrow> ('w st, unit) M" where
  "syscall_shutdown_pre E reg proc =
     sq (proc_inside proc)
        (whenM (\<not> address_translation E)
          (bnd (get_proc proc) (\<lambda>p.
           let reg' = set_ret 0 reg in block [
             ptrace_neutralize_syscall E (p_pid p),
             restore_int E (p_pid p) SYS_shutdown reg',
             proc_outside proc,
             if_strace (print_shutdown_syscall reg' proc)])))"

definition syscall_shutdown_post :: "reg_s \<Rightarrow> proc_ptr \<Rightarrow> ('w st, unit) M" where
  "syscall_shutdown_post reg proc =
     sq (proc_outside proc)
     (bnd (get_infos_socket proc (c_int (arg0 reg))) (\<lambda>is.
      case is of
        None \<Rightarrow> ret ()
      | Some a \<Rightarrow> sq (comm_shutdown a) (if_strace (print_shutdown_syscall reg proc))))"

definition syscall_shutdown :: "'w env \<Rightarrow> reg_s \<Rightarrow> proc_ptr \<Rightarrow> ('w st, unit) M" where
  "syscall_shutdown E reg proc =
     bnd (proc_entering proc) (\<lambda>entering.
     if entering then syscall_shutdown_pre E reg proc else syscall_shutdown_post reg proc)"

text \<open>
  \<open>ptrace_cpy(pid, &len, &len, sizeof(socklen_t))\<close> reads the traced process at the address
  of the local variable. \<open>in\<close> is \<open>NULL\<close> when \<open>comm_getpeername\<close> is called, and
  \<open>PTRACE_SETREGS\<close> gets the address of the pointer \<open>reg\<close>, behind which there are not
  the registers that it reads.
\<close>

definition getpeername_network :: "reg_s \<Rightarrow> proc_ptr \<Rightarrow> ('w st, unit) M" where
  "getpeername_network reg proc =
     bnd (sock_at_fd proc (c_int (arg0 reg))) (\<lambda>is.
     sq (comm_getpeername is True) (fail Out_of_bounds))"

definition syscall_getpeername_pre :: "'w env \<Rightarrow> reg_s \<Rightarrow> proc_ptr \<Rightarrow> ('w st, unit) M" where
  "syscall_getpeername_pre E reg proc =
     (let fd = c_int (arg0 reg) in
      sq (proc_inside proc)
      (bnd (get_proc proc) (\<lambda>p.
       sq (ptrace_cpy E (p_pid p) 4 (stack_address E) 4)
       (bnd (socket_registered proc fd) (\<lambda>registered.
        bnd (if registered \<noteq> 0 then socket_network proc fd else ret False) (\<lambda>network.
        whenM network (getpeername_network reg proc)))))))"

definition syscall_getpeername :: "'w env \<Rightarrow> reg_s \<Rightarrow> proc_ptr \<Rightarrow> ('w st, unit) M" where
  "syscall_getpeername E reg proc =
     bnd (proc_entering proc) (\<lambda>entering.
     if entering then syscall_getpeername_pre E reg proc else proc_outside proc)"

section \<open>Options\<close>

definition SO_REUSEADDR :: u64 where "SO_REUSEADDR = 2"

text \<open>
  The option value goes to an object of four bytes; the value of \<open>socket_get_option\<close> is
  stored there and never reaches the traced process.
\<close>

definition syscall_getsockopt_pre :: "'w env \<Rightarrow> reg_s \<Rightarrow> proc_ptr \<Rightarrow> ('w st, unit) M" where
  "syscall_getsockopt_pre E reg proc =
     sq (proc_inside proc)
        (whenM (\<not> address_translation E)
          (bnd (get_proc proc) (\<lambda>p.
           let reg = set_ret 0 reg in block [
             sq (ptrace_cpy E (p_pid p) 4 (arg3 reg) 4) (ret ()),
             whenM (arg2 reg = SO_REUSEADDR)
               (sq (socket_get_option proc (c_int (arg0 reg)) SOCK_OPT_REUSEADDR) (ret ())),
             ptrace_neutralize_syscall E (p_pid p),
             restore_int E (p_pid p) SYS_getsockopt reg,
             proc_outside proc,
             if_strace (print_getsockopt_syscall reg proc)])))"

definition syscall_getsockopt_post :: "'w env \<Rightarrow> reg_s \<Rightarrow> proc_ptr \<Rightarrow> ('w st, unit) M" where
  "syscall_getsockopt_post E reg proc = block [
     proc_outside proc,
     whenM (\<not> address_translation E)
       (bnd (get_proc proc) (\<lambda>p.
        sq (ptrace_cpy E (p_pid p) (unat (c_uint (arg4 reg))) (arg3 reg) (ucast (c_uint (arg4 reg)))) (ret ()))),
     if_strace (print_getsockopt_syscall reg proc)]"

definition syscall_getsockopt :: "'w env \<Rightarrow> reg_s \<Rightarrow> proc_ptr \<Rightarrow> ('w st, unit) M" where
  "syscall_getsockopt E reg proc =
     bnd (proc_entering proc) (\<lambda>entering.
     if entering then syscall_getsockopt_pre E reg proc else syscall_getsockopt_post E reg proc)"

definition syscall_setsockopt_pre :: "'w env \<Rightarrow> reg_s \<Rightarrow> proc_ptr \<Rightarrow> ('w st, unit) M" where
  "syscall_setsockopt_pre E reg proc =
     sq (proc_inside proc)
        (whenM (\<not> address_translation E)
          (bnd (get_proc proc) (\<lambda>p.
           bnd (if c_int (arg2 reg) = 2 then
                  bnd (ptrace_cpy E (p_pid p) 4 (arg3 reg) 4) (\<lambda>optval.
                  sq (socket_set_option proc (c_int (arg0 reg)) SOCK_OPT_REUSEADDR (le_int optval))
                     (ret (set_ret 0 reg)))
                else ret (set_ret (- 1) reg)) (\<lambda>reg. block [
             ptrace_neutralize_syscall E (p_pid p),
             restore_int E (p_pid p) SYS_setsockopt reg,
             proc_outside proc,
             if_strace (print_setsockopt_syscall reg proc)]))))"

definition syscall_setsockopt_post :: "reg_s \<Rightarrow> proc_ptr \<Rightarrow> ('w st, unit) M" where
  "syscall_setsockopt_post reg proc = sq (proc_outside proc) (if_strace (print_setsockopt_syscall reg proc))"

definition syscall_setsockopt :: "'w env \<Rightarrow> reg_s \<Rightarrow> proc_ptr \<Rightarrow> ('w st, unit) M" where
  "syscall_setsockopt E reg proc =
     bnd (proc_entering proc) (\<lambda>entering.
     if entering then syscall_setsockopt_pre E reg proc else syscall_setsockopt_post reg proc)"

end
