(* ===== verification/Data_Syscalls.thy ===== *)
theory Data_Syscalls
  imports Connection_Syscalls
begin

unbundle bit_operations_syntax

text \<open>
  The handlers of the system calls that move data: \<open>process_send_call\<close> of
  \<open>syscall_process.c\<close>, \<open>sys_read.c\<close>, \<open>sys_write.c\<close>, \<open>sys_sendto.c\<close>,
  \<open>sys_recvfrom.c\<close>, \<open>sys_sendmsg.c\<close>, \<open>sys_recvmsg.c\<close>, \<open>sys_poll.c\<close> and
  \<open>sys_select.c\<close>.
\<close>

section \<open>Common parts\<close>

text \<open>
  \<open>data = xbt_new0(char, n); ptrace_cpy(pid, data, addr, n, ...)\<close>, and a copy from a data
  pointer to the traced process.
\<close>

definition copy_data :: "'w env \<Rightarrow> int \<Rightarrow> u64 \<Rightarrow> u64 \<Rightarrow> ('w st, cdata) M" where
  "copy_data E pid addr n =
     bnd (xbt_malloc0 n) (\<lambda>sz.
     bnd (ptrace_cpy E pid sz addr n) (\<lambda>bs.
     ret (Buffer (bs @ replicate (sz - length bs) 0))))"

definition poke_data :: "'w env \<Rightarrow> int \<Rightarrow> u64 \<Rightarrow> cdata \<Rightarrow> u64 \<Rightarrow> ('w st, unit) M" where
  "poke_data E pid addr data n =
     (if n = 0 then ret ()
      else case data of
        Null_data \<Rightarrow> fail Null_deref
      | Tracee_addr a \<Rightarrow> fail Dangling_ptr
      | Buffer bs \<Rightarrow> ptrace_poke E pid addr bs n)"

text \<open>The mailbox of the calling process on the stream of a descriptor.\<close>

definition choose_mailbox :: "'w env \<Rightarrow> fd_ptr \<Rightarrow> ('w st, string option) M" where
  "choose_mailbox E file_desc =
     bnd (get_world (MSG_process_self E)) (\<lambda>self.
     bnd (stream_of file_desc) (\<lambda>st.
     bnd (get_stream st) (\<lambda>x.
     if client x = Some self then ret (to_client x)
     else if server x = Some self then ret (to_server x)
     else fail Throw_impossible)))"

text \<open>\<open>MSG_task_receive\<close> and the two reads of the task, which is \<open>NULL\<close> if nothing came.\<close>

definition receive_task :: "'w env \<Rightarrow> string option \<Rightarrow> ('w st, msg_error \<times> msg_task \<times> int \<times> cdata) M" where
  "receive_task E mailbox =
     bnd (nonnull mailbox) (\<lambda>m.
     bnd (call_block (MSG_task_receive E m)) (\<lambda>(err, task).
     bnd (nonnull task) (\<lambda>t.
     bnd (get_world (MSG_task_get_bytes_amount E t)) (\<lambda>amount.
     bnd (get_world (MSG_task_get_data E t)) (\<lambda>data.
     ret (err, t, amount, data))))))"

section \<open>Sending a task\<close>

text \<open>The result and the registers that \<open>handle_new_send\<close> has changed.\<close>

definition process_send_call :: "'w env \<Rightarrow> reg_s \<Rightarrow> proc_ptr \<Rightarrow> cdata \<Rightarrow> ('w st, bool \<times> reg_s) M" where
  "process_send_call E reg proc data =
     (let fd = c_int (arg0 reg) in
      bnd (socket_registered proc fd) (\<lambda>registered.
      if registered = - 1 then fail Xbt_die
      else bnd (socket_netlink proc fd) (\<lambda>netlink.
        if netlink then ret (False, reg)
        else
          bnd (sock_at_fd proc fd) (\<lambda>is.
          bnd (comm_get_peer is) (\<lambda>peer.
          sq (upd_sock is (\<lambda>i. i\<lparr>ref_nb := ref_nb i + 1\<rparr>))
          (bnd (nonnull peer) (\<lambda>s.
          sq (upd_sock s (\<lambda>i. i\<lparr>ref_nb := ref_nb i + 1\<rparr>))
          (bnd (handle_new_send E reg is data) (\<lambda>reg.
           bnd (get_proc proc) (\<lambda>p.
           bnd (get_desc s) (\<lambda>ds.
           bnd (get_proc (fd_proc ds)) (\<lambda>ps.
           bnd (create_send_communication_task E proc is (c_int (reg_ret reg)) (p_host p) (p_host ps)) (\<lambda>task. block_ret (True, reg) [
             upd_world (MSG_task_set_bytes_amount E task (c_int (reg_ret reg))),
             upd_world (MSG_task_set_data E task data),
             send_task E (p_host ps) task,
             upd_sock is (\<lambda>i. i\<lparr>ref_nb := ref_nb i - 1\<rparr>),
             upd_sock s (\<lambda>i. i\<lparr>ref_nb := ref_nb i - 1\<rparr>)])))))))))))))"

section \<open>read\<close>

definition process_read_out_call :: "'w env \<Rightarrow> reg_s \<Rightarrow> proc_ptr \<Rightarrow> cdata \<Rightarrow> ('w st, unit) M" where
  "process_read_out_call E reg proc data =
     bnd (get_proc proc) (\<lambda>p.
     sq (restore_int E (p_pid p) SYS_read reg)
        (whenM (0 < c_int (reg_ret reg))
           (poke_data E (p_pid p) (arg1 reg) data (of_c_int (c_int (reg_ret reg))))))"

text \<open>
  The branch for a socket. The length of the message goes to the local variable \<open>ret\<close>,
  which nothing uses.
\<close>

definition read_socket :: "'w env \<Rightarrow> reg_s \<Rightarrow> proc_ptr \<Rightarrow> int \<Rightarrow> fd_ptr \<Rightarrow> ('w st, unit) M" where
  "read_socket E reg proc fd file_desc =
     bnd (choose_mailbox E file_desc) (\<lambda>mailbox.
     bnd (receive_task E mailbox) (\<lambda>(err, task, amount, data). block [
       bnd (if err \<noteq> MSG_OK then bnd (sock_at_fd proc fd) socket_get_state else ret 0) (\<lambda>sock_status.
         if address_translation E then
           whenM (err \<noteq> MSG_OK \<and> sock_status AND SOCKET_CLOSED \<noteq> 0) (process_read_out_call E reg proc data)
         else bnd (get_proc proc) (\<lambda>p. block [
           ptrace_neutralize_syscall E (p_pid p),
           proc_outside proc,
           process_read_out_call E reg proc data])),
       upd_world (MSG_task_destroy E task)]))"

text \<open>The mailbox of a pipe is the number of the descriptor.\<close>

definition read_pipe :: "'w env \<Rightarrow> reg_s \<Rightarrow> proc_ptr \<Rightarrow> int \<Rightarrow> pipe_ptr option \<Rightarrow> ('w st, unit) M" where
  "read_pipe E reg proc fd pipe =
     sq (if_strace (print_read_syscall E reg proc))
     (if pipe = None then fail Throw_impossible
      else sq (proc_host proc)
        (bnd (receive_task E (Some (sprintf_d fd))) (\<lambda>(err, task, amount, data).
         sq (proc_host proc) (upd_world (MSG_task_destroy E task)))))"

definition syscall_read :: "'w env \<Rightarrow> reg_s \<Rightarrow> proc_ptr \<Rightarrow> ('w st, unit) M" where
  "syscall_read E reg proc =
     (let fd = c_int (arg0 reg) in
      bnd (proc_entering proc) (\<lambda>entering.
      if entering then
        sq (proc_inside proc)
        (bnd (bnd (process_descriptor_get_fd proc fd) nonnull) (\<lambda>file_desc. block [
           refcount_incr file_desc,
           bnd (socket_registered proc fd) (\<lambda>registered.
           if registered \<noteq> - 1 then read_socket E reg proc fd file_desc
           else bnd (get_desc file_desc) (\<lambda>d.
             whenM (fd_type d = FD_PIPE) (read_pipe E reg proc fd (fd_pipe d)))),
           refcount_decr file_desc]))
      else sq (proc_outside proc) (if_strace (print_read_syscall E reg proc))))"

section \<open>write\<close>

text \<open>\<open>socket_registered\<close> returns 1 or -1, so its value as a condition is always true.\<close>

definition write_data :: "'w env \<Rightarrow> reg_s \<Rightarrow> proc_ptr \<Rightarrow> int \<Rightarrow> ('w st, cdata) M" where
  "write_data E reg proc fd =
     (if address_translation E then ret (Tracee_addr (arg1 reg))
      else bnd (get_proc proc) (\<lambda>p.
        bnd (socket_registered proc fd) (\<lambda>registered.
        bnd (if registered \<noteq> 0 then socket_network proc fd else ret False) (\<lambda>network.
        if network then copy_data E (p_pid p) (arg1 reg) (arg2 reg)
        else ret (Tracee_addr (arg1 reg))))))"

definition write_pipe :: "'w env \<Rightarrow> reg_s \<Rightarrow> proc_ptr \<Rightarrow> pipe_ptr option \<Rightarrow> cdata \<Rightarrow> ('w st, unit) M" where
  "write_pipe E reg proc pipe data =
     sq (if_strace (print_write_syscall E reg proc))
     (case pipe of
        None \<Rightarrow> fail Throw_impossible
      | Some q \<Rightarrow> bnd (get_pipe q) (\<lambda>p.
          case read_end p of
            [] \<Rightarrow> fail Xbt_exception
          | end_in # _ \<Rightarrow>
              bnd (get_proc (end_proc end_in)) (\<lambda>pr.
              sq (proc_host proc)
              (sq (nonnull (p_host pr))
              (let buff = sprintf_d (end_fd end_in) in
               bnd (call_world (MSG_task_create E buff (c_long (reg_ret reg)) data)) (\<lambda>task.
               call_block (\<lambda>s. ((), MSG_task_send E task buff s))))))))"

definition syscall_write :: "'w env \<Rightarrow> reg_s \<Rightarrow> proc_ptr \<Rightarrow> ('w st, int) M" where
  "syscall_write E reg proc =
     (let fd = c_int (arg0 reg) in
      bnd (write_data E reg proc fd) (\<lambda>data.
      bnd (proc_entering proc) (\<lambda>entering.
      if entering then
        sq (proc_inside proc)
        (bnd (socket_registered proc fd) (\<lambda>registered.
         if \<not> address_translation E \<and> registered \<noteq> - 1 then
           bnd (process_send_call E reg proc data) (\<lambda>(sent, reg').
           if sent then
             bnd (get_proc proc) (\<lambda>p. block_ret PROCESS_TASK_FOUND [
               ptrace_neutralize_syscall E (p_pid p),
               ptrace_restore_syscall E (p_pid p) SYS_write (reg_ret reg),
               if_strace (print_write_syscall E reg' proc),
               proc_outside proc])
           else ret PROCESS_CONTINUE)
         else ret PROCESS_CONTINUE))
      else
        sq (proc_outside proc)
        (bnd (bnd (process_descriptor_get_fd proc fd) nonnull) (\<lambda>file_desc.
         sq (refcount_incr file_desc)
         (bnd (get_desc file_desc) (\<lambda>d.
          sq (if fd_type d = FD_PIPE then write_pipe E reg proc (fd_pipe d) data
              else if_strace (print_write_syscall E reg proc))
          (sq (refcount_decr file_desc)
          (if address_translation E \<and> 0 < c_int (reg_ret reg) then
             bnd (socket_registered proc fd) (\<lambda>registered.
             if registered \<noteq> - 1 then
               bnd (process_send_call E reg proc data) (\<lambda>(sent, _).
               ret (if sent then PROCESS_TASK_FOUND else PROCESS_CONTINUE))
             else ret PROCESS_CONTINUE)
           else ret PROCESS_CONTINUE)))))))))"

section \<open>sendto\<close>

definition SOCK_STREAM :: int where "SOCK_STREAM = 1"
definition SOCK_SEQPACKET :: int where "SOCK_SEQPACKET = 5"

definition connectionless :: "proc_ptr \<Rightarrow> int \<Rightarrow> ('w st, bool) M" where
  "connectionless proc fd =
     bnd (get_type_socket proc fd) (\<lambda>t. ret (t \<noteq> SOCK_STREAM \<and> t \<noteq> SOCK_SEQPACKET))"

text \<open>
  The three address buffers of \<open>syscall_sendto\<close>, all zero at first. \<open>copy_addr_buffers\<close>
  is the copy of the address argument to the one of the domain, where \<open>size_in\<close>,
  \<open>size_un\<close> and \<open>size_nl\<close> are the sizes of the three destinations.
\<close>

record addr_buffers =
  b_sai :: "u8 list"
  b_sau :: "u8 list"
  b_snl :: "u8 list"

definition zero_buffers :: addr_buffers where
  "zero_buffers = \<lparr>b_sai = replicate sizeof_sockaddr_in 0, b_sau = replicate sizeof_sockaddr_un 0,
     b_snl = replicate sizeof_sockaddr_nl 0\<rparr>"

definition copy_addr_buffers ::
    "'w env \<Rightarrow> int \<Rightarrow> int \<Rightarrow> u64 \<Rightarrow> nat \<Rightarrow> nat \<Rightarrow> nat \<Rightarrow> addr_buffers \<Rightarrow> ('w st, addr_buffers) M" where
  "copy_addr_buffers E pid domain addr size_in size_un size_nl b =
     (if domain = 2 then
        bnd (ptrace_cpy E pid size_in addr (of_nat sizeof_sockaddr_in)) (\<lambda>bs. ret (b\<lparr>b_sai := bs\<rparr>))
      else if domain = 1 then
        bnd (ptrace_cpy E pid size_un addr (of_nat sizeof_sockaddr_un)) (\<lambda>bs. ret (b\<lparr>b_sau := bs\<rparr>))
      else if domain = 16 then
        bnd (ptrace_cpy E pid size_nl addr (of_nat sizeof_sockaddr_nl)) (\<lambda>bs. ret (b\<lparr>b_snl := bs\<rparr>))
      else ret b)"

definition print_sendto :: "'w env \<Rightarrow> reg_s \<Rightarrow> proc_ptr \<Rightarrow> cdata \<Rightarrow> (bool \<times> u32) option \<Rightarrow> addr_buffers \<Rightarrow> ('w st, unit) M" where
  "print_sendto E reg proc data addr b =
     if_strace (bnd (initialised addr) (\<lambda>(is_addr, addrlen).
       print_sendto_syscall E reg proc data is_addr addrlen (Some (b_sai b)) (Some (b_sau b)) (Some (b_snl b))))"

text \<open>
  \<open>ptrace_poke(pid, ..., &temp, sizeof(struct sockaddr_in))\<close> reads sixteen bytes at the
  address of a pointer variable, which has eight; so does \<open>sys_translate_sendto_out\<close>.
\<close>

definition sys_translate_sendto_in :: "'w env \<Rightarrow> reg_s \<Rightarrow> proc_ptr \<Rightarrow> addr_buffers \<Rightarrow> ('w st, unit) M" where
  "sys_translate_sendto_in E reg proc b =
     (if c_int (arg4 reg) = 0 then ret ()
      else let sai = decode_sockaddr_in (b_sai b) in
        bnd (get_real_port E proc (s_addr sai) (port_of (sin_port sai))) (\<lambda>port. fail Out_of_bounds))"

definition sys_translate_sendto_out :: "'w env \<Rightarrow> reg_s \<Rightarrow> addr_buffers \<Rightarrow> ('w st, unit) M" where
  "sys_translate_sendto_out E reg b =
     (if c_int (arg4 reg) = 0 then ret ()
      else bnd (bnd (get_translation (port_of (sin_port (decode_sockaddr_in (b_sai b))))) nonnull) (\<lambda>td.
        fail Out_of_bounds))"

text \<open>For a socket with connections \<open>is_addr\<close> and \<open>addrlen\<close> stay uninitialised.\<close>

definition syscall_sendto_pre :: "'w env \<Rightarrow> reg_s \<Rightarrow> proc_ptr \<Rightarrow> ('w st, int) M" where
  "syscall_sendto_pre E reg proc =
     (let fd = c_int (arg0 reg); is_addr = (c_int (arg4 reg) \<noteq> 0) in
      sq (proc_inside proc)
      (bnd (get_proc proc) (\<lambda>p.
       bnd (connectionless proc fd) (\<lambda>dgram.
       bnd (if dgram \<and> is_addr then
              bnd (get_domain_socket proc fd) (\<lambda>domain.
              copy_addr_buffers E (p_pid p) domain (arg4 reg) sizeof_sockaddr_in sizeof_sockaddr_un sizeof_sockaddr_nl zero_buffers)
            else ret zero_buffers) (\<lambda>b.
       let addr = (if dgram then Some (is_addr, if is_addr then c_uint (arg5 reg) else 0) else None) in
       if \<not> address_translation E then
         bnd (copy_data E (p_pid p) (arg1 reg) (arg2 reg)) (\<lambda>data.
         bnd (process_send_call E reg proc data) (\<lambda>(sent, reg).
         if sent then block_ret PROCESS_TASK_FOUND [
           ptrace_neutralize_syscall E (p_pid p),
           proc_outside proc,
           restore_int E (p_pid p) SYS_sendto reg,
           print_sendto E reg proc data addr b]
         else ret PROCESS_CONTINUE))
       else
         bnd (socket_registered proc fd) (\<lambda>registered.
         bnd (if registered \<noteq> - 1 then socket_network proc fd else ret False) (\<lambda>network.
         sq (whenM (network \<and> dgram) (sys_translate_sendto_in E reg proc b))
            (ret PROCESS_CONTINUE))))))))"

text \<open>
  At the exit the address is copied to \<open>&sai\<close>, \<open>&sau\<close> or \<open>&snl\<close>, the pointer
  variables themselves.
\<close>

definition syscall_sendto_post :: "'w env \<Rightarrow> reg_s \<Rightarrow> proc_ptr \<Rightarrow> ('w st, int) M" where
  "syscall_sendto_post E reg proc =
     (let fd = c_int (arg0 reg); is_addr = (c_int (arg4 reg) \<noteq> 0) in
      sq (proc_outside proc)
      (bnd (get_proc proc) (\<lambda>p.
       bnd (copy_data E (p_pid p) (arg1 reg) (arg2 reg)) (\<lambda>data.
       bnd (connectionless proc fd) (\<lambda>dgram.
       bnd (if dgram \<and> is_addr then
              bnd (get_domain_socket proc fd) (\<lambda>domain.
              copy_addr_buffers E (p_pid p) domain (arg4 reg) 8 8 8 zero_buffers)
            else ret zero_buffers) (\<lambda>b.
       sq (print_sendto E reg proc data (Some (dgram \<and> is_addr, if dgram \<and> is_addr then c_uint (arg5 reg) else 0)) b)
       (bnd (socket_registered proc fd) (\<lambda>registered.
        bnd (if registered \<noteq> - 1 then socket_network proc fd else ret False) (\<lambda>network.
        sq (whenM (network \<and> dgram) (sys_translate_sendto_out E reg b))
           (if 0 < c_int (reg_ret reg) then
              bnd (process_send_call E reg proc data) (\<lambda>(sent, _).
              ret (if sent then PROCESS_TASK_FOUND else PROCESS_CONTINUE))
            else ret PROCESS_CONTINUE))))))))))"

definition syscall_sendto :: "'w env \<Rightarrow> reg_s \<Rightarrow> proc_ptr \<Rightarrow> ('w st, int) M" where
  "syscall_sendto E reg proc =
     bnd (proc_entering proc) (\<lambda>entering.
     if entering then syscall_sendto_pre E reg proc else syscall_sendto_post E reg proc)"

section \<open>recvfrom\<close>

text \<open>
  \<open>sizeof(sockaddr)\<close> and \<open>sizeof(sai)\<close> are the sizes of pointers; the length goes to a
  \<open>socklen_t\<close> of four bytes.
\<close>

definition sys_translate_recvfrom_out :: "'w env \<Rightarrow> reg_s \<Rightarrow> proc_ptr \<Rightarrow> ('w st, unit) M" where
  "sys_translate_recvfrom_out E reg proc =
     (if arg4 reg = 0 then ret ()
      else bnd (get_proc proc) (\<lambda>p.
        bnd (ptrace_cpy E (p_pid p) 16 (arg4 reg) 8) (\<lambda>sockaddr.
        bnd (ptrace_cpy E (p_pid p) 4 (arg5 reg) 4) (\<lambda>len_buf.
        whenM (le_uint len_buf = 8)
          (let sai = decode_sockaddr_in (sockaddr @ replicate 8 0) in
           bnd (bnd (get_translation (port_of (sin_port sai))) nonnull) (\<lambda>td. block [
             ptrace_poke E (p_pid p) (arg4 reg)
               (encode_sockaddr_in (sai\<lparr>sin_port := of_port (td_port_num td), s_addr := td_ip td\<rparr>)) 8,
             ptrace_poke E (p_pid p) (arg5 reg) (le_bytes 4 8) 4]))))))"

definition translate_recvfrom :: "'w env \<Rightarrow> reg_s \<Rightarrow> proc_ptr \<Rightarrow> ('w st, unit) M" where
  "translate_recvfrom E reg proc =
     whenM (arg4 reg \<noteq> 0)
       (bnd (socket_registered proc (c_int (arg0 reg))) (\<lambda>registered.
        bnd (if registered \<noteq> - 1 then socket_network proc (c_int (arg0 reg)) else ret False) (\<lambda>network.
        whenM network (sys_translate_recvfrom_out E reg proc))))"

definition print_recvfrom :: "'w env \<Rightarrow> reg_s \<Rightarrow> proc_ptr \<Rightarrow> cdata \<Rightarrow> ('w st, unit) M" where
  "print_recvfrom E reg proc data =
     if_strace (print_recvfrom_syscall E reg proc data (Some (b_sai zero_buffers)) (Some (b_sau zero_buffers))
       (Some (b_snl zero_buffers)) False 0)"

definition process_recvfrom_out_call :: "'w env \<Rightarrow> reg_s \<Rightarrow> proc_ptr \<Rightarrow> cdata \<Rightarrow> ('w st, unit) M" where
  "process_recvfrom_out_call E reg proc data =
     sq (translate_recvfrom E reg proc)
     (bnd (get_proc proc) (\<lambda>p.
      bnd (data_text data) (\<lambda>txt.
      let len_data = of_nat (length txt) + 1; len_buf = arg2 reg;
          n = (if len_data \<le> len_buf then len_data else len_buf);
          reg = reg\<lparr>reg_ret := n\<rparr> in block [
        poke_data E (p_pid p) (arg1 reg) data n,
        ptrace_restore_syscall E (p_pid p) SYS_recvfrom (reg_ret reg),
        print_recvfrom E reg proc data])))"

definition recvfrom_socket :: "'w env \<Rightarrow> reg_s \<Rightarrow> proc_ptr \<Rightarrow> fd_ptr \<Rightarrow> ('w st, unit) M" where
  "recvfrom_socket E reg proc file_desc =
     bnd (choose_mailbox E file_desc) (\<lambda>mailbox.
     bnd (receive_task E mailbox) (\<lambda>(err, task, amount, data).
     let reg = reg\<lparr>reg_ret := word_of_int amount\<rparr> in block [
       bnd (if err \<noteq> MSG_OK then bnd (sock_at_fd proc (c_int (arg0 reg))) socket_get_state else ret 0) (\<lambda>sock_status.
         let closed = (err \<noteq> MSG_OK \<and> sock_status AND SOCKET_CLOSED \<noteq> 0) in
         if address_translation E then whenM closed (process_recvfrom_out_call E reg proc data)
         else bnd (get_proc proc) (\<lambda>p. block [
           ptrace_neutralize_syscall E (p_pid p),
           proc_outside proc,
           process_recvfrom_out_call E (if closed then set_ret 0 reg else reg) proc data])),
       upd_world (MSG_task_destroy E task)]))"

definition syscall_recvfrom_pre :: "'w env \<Rightarrow> reg_s \<Rightarrow> proc_ptr \<Rightarrow> ('w st, unit) M" where
  "syscall_recvfrom_pre E reg proc =
     (let fd = c_int (arg0 reg) in
      sq (proc_inside proc)
         (whenM (\<not> address_translation E \<or> 0 < reg_ret reg)
           (bnd (bnd (process_descriptor_get_fd proc fd) nonnull) (\<lambda>file_desc. block [
              refcount_incr file_desc,
              bnd (socket_registered proc fd) (\<lambda>registered.
              bnd (if registered \<noteq> - 1 then socket_netlink proc fd else ret True) (\<lambda>netlink.
              whenM (\<not> netlink) (recvfrom_socket E reg proc file_desc))),
              refcount_decr file_desc]))))"

definition syscall_recvfrom_post :: "'w env \<Rightarrow> reg_s \<Rightarrow> proc_ptr \<Rightarrow> ('w st, unit) M" where
  "syscall_recvfrom_post E reg proc =
     sq (proc_outside proc)
     (bnd (get_proc proc) (\<lambda>p.
      bnd (copy_data E (p_pid p) (arg1 reg) (reg_ret reg)) (\<lambda>data.
      sq (translate_recvfrom E reg proc) (print_recvfrom E reg proc data))))"

definition syscall_recvfrom :: "'w env \<Rightarrow> reg_s \<Rightarrow> proc_ptr \<Rightarrow> ('w st, unit) M" where
  "syscall_recvfrom E reg proc =
     bnd (proc_entering proc) (\<lambda>entering.
     if entering then syscall_recvfrom_pre E reg proc else syscall_recvfrom_post E reg proc)"

section \<open>sendmsg\<close>

text \<open>
  \<open>struct iovec\<close>: an address and a length. The pointer expression
  \<open>msg->msg_iov + i * sizeof(struct iovec)\<close> scales the index twice.
\<close>

definition sizeof_iovec :: nat where "sizeof_iovec = 16"

definition iov_address :: "u64 \<Rightarrow> nat \<Rightarrow> u64" where
  "iov_address iov i = iov + of_nat (i * sizeof_iovec) * of_nat sizeof_iovec"

definition read_iovec :: "'w env \<Rightarrow> int \<Rightarrow> u64 \<Rightarrow> nat \<Rightarrow> ('w st, u64 \<times> u64) M" where
  "read_iovec E pid iov i =
     bnd (ptrace_cpy E pid sizeof_iovec (iov_address iov i) (of_nat sizeof_iovec)) (\<lambda>bs.
     ret (le_ulong bs, le_ulong (drop 8 bs)))"

definition append_data :: "cdata \<Rightarrow> u8 list \<Rightarrow> cdata" where
  "append_data data bs = (case data of Buffer old \<Rightarrow> Buffer (old @ bs) | _ \<Rightarrow> Buffer bs)"

text \<open>\<open>realloc\<close> returns \<open>NULL\<close> for a size that no object has.\<close>

definition realloc :: "u64 \<Rightarrow> ('w st, unit) M" where
  "realloc n = (if unat n < 2 ^ 63 then ret () else fail Null_deref)"

text \<open>The loop over the vectors, \<open>n\<close> of them left; \<open>realloc\<close> makes room for each.\<close>

fun gather_iovecs :: "'w env \<Rightarrow> int \<Rightarrow> u64 \<Rightarrow> nat \<Rightarrow> nat \<Rightarrow> cdata \<Rightarrow> u64 \<Rightarrow> ('w st, cdata \<times> u64) M" where
  "gather_iovecs E pid iov i 0 data len = ret (data, len)"
| "gather_iovecs E pid iov i (Suc n) data len =
     bnd (read_iovec E pid iov i) (\<lambda>(iov_base, iov_len).
     sq (realloc (len + iov_len))
     (bnd (ptrace_cpy E pid (unat iov_len) iov_base iov_len) (\<lambda>bs.
      gather_iovecs E pid iov (Suc i) n (append_data data bs) (len + iov_len))))"

definition read_msghdr :: "'w env \<Rightarrow> int \<Rightarrow> u64 \<Rightarrow> ('w st, msghdr) M" where
  "read_msghdr E pid addr =
     bnd (ptrace_cpy E pid sizeof_msghdr addr (of_nat sizeof_msghdr)) (\<lambda>bs. ret (decode_msghdr bs))"

definition syscall_sendmsg :: "'w env \<Rightarrow> reg_s \<Rightarrow> proc_ptr \<Rightarrow> ('w st, int) M" where
  "syscall_sendmsg E reg proc =
     bnd (get_proc proc) (\<lambda>p.
     bnd (read_msghdr E (p_pid p) (arg1 reg)) (\<lambda>msg.
     bnd (if address_translation E then ret (Null_data, 0)
          else gather_iovecs E (p_pid p) (msg_iov msg) 0 (unat (msg_iovlen msg)) Null_data 0) (\<lambda>(data, len).
     bnd (proc_entering proc) (\<lambda>entering.
     if entering then
       sq (proc_inside proc)
       (if \<not> address_translation E then
          bnd (process_send_call E reg proc data) (\<lambda>(sent, reg).
          if sent then block_ret PROCESS_TASK_FOUND [
            ptrace_neutralize_syscall E (p_pid p),
            proc_outside proc,
            ptrace_restore_syscall E (p_pid p) SYS_sendmsg (reg_ret reg),
            if_strace (print_sendmsg_syscall E reg proc (c_int len) data msg)]
          else ret PROCESS_CONTINUE)
        else ret PROCESS_CONTINUE)
     else
       sq (proc_outside proc)
       (sq (if_strace (print_sendmsg_syscall E reg proc (c_int len) data msg))
       (if address_translation E \<and> 0 < c_int (reg_ret reg) then
          bnd (process_send_call E reg proc data) (\<lambda>(sent, _).
          ret (if sent then PROCESS_TASK_FOUND else PROCESS_CONTINUE))
        else ret PROCESS_CONTINUE))))))"

section \<open>recvmsg\<close>

text \<open>The loops that add up a length which nothing uses.\<close>

fun sum_iovecs :: "'w env \<Rightarrow> int \<Rightarrow> u64 \<Rightarrow> nat \<Rightarrow> nat \<Rightarrow> u64 \<Rightarrow> ('w st, u64) M" where
  "sum_iovecs E pid iov i 0 len = ret len"
| "sum_iovecs E pid iov i (Suc n) len =
     bnd (read_iovec E pid iov i) (\<lambda>(_, iov_len). sum_iovecs E pid iov (Suc i) n (len + iov_len))"

fun scatter_iovecs :: "'w env \<Rightarrow> int \<Rightarrow> u64 \<Rightarrow> nat \<Rightarrow> nat \<Rightarrow> cdata \<Rightarrow> u64 \<Rightarrow> ('w st, u64) M" where
  "scatter_iovecs E pid iov i 0 data bytes_read = ret bytes_read"
| "scatter_iovecs E pid iov i (Suc n) data bytes_read =
     bnd (read_iovec E pid iov i) (\<lambda>(iov_base, iov_len).
     bnd (data_text data) (\<lambda>txt.
     sq (ptrace_poke E pid (iov_address iov i) (bytes64 iov_base @ bytes64 iov_len) (of_nat sizeof_iovec))
     (sq (poke_data E pid iov_base data iov_len)
     (scatter_iovecs E pid iov (Suc i) n data (bytes_read + of_nat (length txt))))))"

definition sys_build_recvmsg :: "'w env \<Rightarrow> proc_ptr \<Rightarrow> cdata \<Rightarrow> msghdr \<Rightarrow> ('w st, unit) M" where
  "sys_build_recvmsg E proc data msg =
     bnd (get_proc proc) (\<lambda>p.
     bnd (scatter_iovecs E (p_pid p) (msg_iov msg) 0 (unat (msg_iovlen msg)) data 0) (\<lambda>bytes_read.
     ptrace_restore_syscall E (p_pid p) SYS_recvmsg bytes_read))"

definition recvmsg_socket :: "'w env \<Rightarrow> reg_s \<Rightarrow> proc_ptr \<Rightarrow> fd_ptr \<Rightarrow> msghdr \<Rightarrow> ('w st, unit) M" where
  "recvmsg_socket E reg proc file_desc msg =
     bnd (choose_mailbox E file_desc) (\<lambda>mailbox.
     bnd (receive_task E mailbox) (\<lambda>(err, task, amount, data). block [
       bnd (if err \<noteq> MSG_OK then bnd (sock_at_fd proc (c_int (arg0 reg))) socket_get_state else ret 0) (\<lambda>sock_status.
         if address_translation E then
           whenM (err \<noteq> MSG_OK \<and> sock_status AND SOCKET_CLOSED \<noteq> 0) (sys_build_recvmsg E proc data msg)
         else bnd (get_proc proc) (\<lambda>p. block [
           ptrace_neutralize_syscall E (p_pid p),
           proc_outside proc,
           sys_build_recvmsg E proc data msg])),
       upd_world (MSG_task_destroy E task)]))"

definition syscall_recvmsg_pre :: "'w env \<Rightarrow> reg_s \<Rightarrow> proc_ptr \<Rightarrow> ('w st, unit) M" where
  "syscall_recvmsg_pre E reg proc =
     (let fd = c_int (arg0 reg) in
      sq (proc_inside proc)
      (bnd (get_proc proc) (\<lambda>p.
       bnd (read_msghdr E (p_pid p) (arg1 reg)) (\<lambda>msg.
       sq (sum_iovecs E (p_pid p) (msg_iov msg) 0 (unat (msg_iovlen msg)) 0)
          (whenM (\<not> address_translation E \<or> 0 < reg_ret reg)
            (bnd (bnd (process_descriptor_get_fd proc fd) nonnull) (\<lambda>file_desc. block [
               refcount_incr file_desc,
               bnd (socket_registered proc fd) (\<lambda>registered.
               bnd (if registered \<noteq> - 1 then socket_netlink proc fd else ret True) (\<lambda>netlink.
               whenM (\<not> netlink) (recvmsg_socket E reg proc file_desc msg))),
               refcount_decr file_desc])))))))"

definition syscall_recvmsg_post :: "'w env \<Rightarrow> reg_s \<Rightarrow> proc_ptr \<Rightarrow> ('w st, unit) M" where
  "syscall_recvmsg_post E reg proc =
     sq (proc_outside proc)
     (bnd (get_proc proc) (\<lambda>p.
      bnd (read_msghdr E (p_pid p) (arg1 reg)) (\<lambda>msg.
      sq (sum_iovecs E (p_pid p) (msg_iov msg) 0 (unat (msg_iovlen msg)) 0)
         (if_strace (print_recvmsg_syscall reg proc msg)))))"

definition syscall_recvmsg :: "'w env \<Rightarrow> reg_s \<Rightarrow> proc_ptr \<Rightarrow> ('w st, unit) M" where
  "syscall_recvmsg E reg proc =
     bnd (proc_entering proc) (\<lambda>entering.
     if entering then syscall_recvmsg_pre E reg proc else syscall_recvmsg_post E reg proc)"

section \<open>poll and select\<close>

definition POLLIN :: u16 where "POLLIN = 1"

text \<open>\<open>((int) x) / 1000.\<close> truncated to an \<open>int\<close>.\<close>

definition poll_timeout :: "u64 \<Rightarrow> int" where
  "poll_timeout x = sgn (c_int x) * (\<bar>c_int x\<bar> div 1000)"

definition read_pollfds :: "'w env \<Rightarrow> int \<Rightarrow> u64 \<Rightarrow> u64 \<Rightarrow> ('w st, pollfd list option) M" where
  "read_pollfds E pid src nfds =
     bnd (xbt_malloc0 (nfds * 8)) (\<lambda>sz.
     if src \<noteq> 0 then
       bnd (ptrace_cpy E pid sz src (nfds * 8)) (\<lambda>bs. ret (Some (decode_pollfds (sz div 8) bs)))
     else ret None)"

text \<open>The receive that is started for the first descriptor; \<open>comm\<close> is only set here.\<close>

definition poll_irecv :: "'w env \<Rightarrow> proc_ptr \<Rightarrow> pollfd \<Rightarrow> ('w st, msg_comm option) M" where
  "poll_irecv E proc temp =
     bnd (get_infos_socket proc (pfd_fd temp)) (\<lambda>sock.
     case sock of
       None \<Rightarrow> ret None
     | Some is \<Rightarrow>
         sq (upd_sock is (\<lambda>i. i\<lparr>ref_nb := ref_nb i + 1\<rparr>))
         (sq (socket_get_state is)
         (bnd (if pfd_events temp AND POLLIN \<noteq> 0 then
                 bnd (get_sock is) (\<lambda>i.
                 bnd (nonnull (is_host i)) (\<lambda>h.
                 bnd (call_block (MSG_task_irecv E (MSG_host_get_name E h))) (\<lambda>c. ret (Some c))))
               else ret None) (\<lambda>comm.
          sq (upd_sock is (\<lambda>i. i\<lparr>ref_nb := ref_nb i - 1\<rparr>)) (ret comm)))))"

definition poll_result :: "'w env \<Rightarrow> reg_s \<Rightarrow> proc_ptr \<Rightarrow> pollfd list \<Rightarrow> int \<Rightarrow> int \<Rightarrow> ('w st, unit) M" where
  "poll_result E reg proc fd_list timeout r =
     bnd (get_proc proc) (\<lambda>p. block [
       ptrace_restore_syscall E (p_pid p) SYS_poll (of_c_int r),
       whenM (arg0 reg \<noteq> 0)
         (ptrace_poke E (p_pid p) (arg0 reg) (concat (map encode_pollfd fd_list)) (8 * arg1 reg)),
       if_strace (print_poll_syscall (set_ret r reg) proc (Some fd_list) timeout)])"

definition syscall_poll_pre :: "'w env \<Rightarrow> reg_s \<Rightarrow> proc_ptr \<Rightarrow> ('w st, unit) M" where
  "syscall_poll_pre E reg proc =
     (let timeout = poll_timeout (arg2 reg) in
      sq (proc_inside proc)
      (bnd (get_proc proc) (\<lambda>p.
       bnd (read_pollfds E (p_pid p) (arg0 reg) (arg1 reg)) (\<lambda>fd_list.
       sq (if_strace (print_poll_syscall reg proc fd_list timeout))
       (bnd (nonnull fd_list) (\<lambda>pfds.
        case pfds of
          [] \<Rightarrow> fail Out_of_bounds
        | temp # rest \<Rightarrow>
            bnd (poll_irecv E proc temp) (\<lambda>comm.
            bnd (initialised comm) (\<lambda>comm.
            bnd (call_block (MSG_comm_wait E comm timeout)) (\<lambda>err.
            case err of
              MSG_OK \<Rightarrow> poll_result E reg proc (temp\<lparr>pfd_revents := pfd_revents temp OR POLLIN\<rparr> # rest) timeout 1
            | MSG_TIMEOUT \<Rightarrow> poll_result E reg proc pfds timeout 0
            | MSG_FAILURE \<Rightarrow> ret ())))))))))"

definition syscall_poll_post :: "'w env \<Rightarrow> reg_s \<Rightarrow> proc_ptr \<Rightarrow> ('w st, unit) M" where
  "syscall_poll_post E reg proc =
     sq (proc_outside proc)
     (bnd (get_proc proc) (\<lambda>p.
      bnd (read_pollfds E (p_pid p) (arg0 reg) (arg1 reg)) (\<lambda>fd_list.
      if_strace (print_poll_syscall reg proc fd_list (poll_timeout (arg2 reg))))))"

definition syscall_poll :: "'w env \<Rightarrow> reg_s \<Rightarrow> proc_ptr \<Rightarrow> ('w st, unit) M" where
  "syscall_poll E reg proc =
     bnd (proc_entering proc) (\<lambda>entering.
     if entering then syscall_poll_pre E reg proc else syscall_poll_post E reg proc)"

text \<open>Nothing of \<open>syscall_select_pre\<close> runs after \<open>THROW_UNIMPLEMENTED\<close>.\<close>

definition syscall_select_pre :: "proc_ptr \<Rightarrow> ('w st, unit) M" where
  "syscall_select_pre proc = sq (proc_inside proc) (fail Throw_unimplemented)"

definition syscall_select :: "proc_ptr \<Rightarrow> ('w st, unit) M" where
  "syscall_select proc =
     bnd (proc_entering proc) (\<lambda>entering.
     if entering then syscall_select_pre proc else proc_outside proc)"

end
