(* ===== verification/Syscall_Process.thy ===== *)
theory Syscall_Process
  imports Data_Syscalls
begin

text \<open>
  \<open>process_handle\<close> of \<open>syscall_process.c\<close>, the dispatch of the system calls, and the two
  main loops of \<open>simterpose.c\<close>.
\<close>

section \<open>The dispatch\<close>

text \<open>
  The \<open>switch\<close> of \<open>process_handle\<close>: \<open>Some r\<close> is a \<open>return\<close>, \<open>None\<close> a
  \<open>break\<close>. There is no \<open>break\<close> after \<open>SYS_pipe\<close>.
\<close>

definition breaks :: "('w st, unit) M \<Rightarrow> ('w st, int option) M" where
  "breaks m = sq m (ret None)"

definition returns_nonzero :: "('w st, int) M \<Rightarrow> ('w st, int option) M" where
  "returns_nonzero m = bnd m (\<lambda>r. ret (if r \<noteq> 0 then Some r else None))"

definition dispatch :: "'w env \<Rightarrow> (proc_ptr \<Rightarrow> ('w st, int) M) \<Rightarrow> reg_s \<Rightarrow> proc_ptr \<Rightarrow> ('w st, int option) M" where
  "dispatch E handle arg proc =
     (let nr = reg_orig arg in
      if nr = SYS_creat then breaks (syscall_creat E arg proc)
      else if nr = SYS_open then breaks (syscall_open E arg proc)
      else if nr = SYS_close then breaks (syscall_close E arg proc)
      else if nr = SYS_read then breaks (syscall_read E arg proc)
      else if nr = SYS_write then returns_nonzero (syscall_write E arg proc)
      else if nr = SYS_dup then breaks (syscall_dup arg proc)
      else if nr = SYS_dup2 then breaks (syscall_dup2 E arg proc)
      else if nr = SYS_fcntl then breaks (syscall_fcntl E arg proc)
      else if nr = SYS_lseek then breaks (syscall_lseek E arg proc)
      else if nr = SYS_poll then breaks (syscall_poll E arg proc)
      else if nr = SYS_select then breaks (syscall_select proc)
      else if nr = SYS_pipe then breaks (sq (syscall_pipe E arg proc) (syscall_brk arg proc))
      else if nr = SYS_brk then breaks (syscall_brk arg proc)
      else if nr = SYS_socket then breaks (syscall_socket arg proc)
      else if nr = SYS_connect then breaks (syscall_connect E handle arg proc)
      else if nr = SYS_bind then breaks (syscall_bind E arg proc)
      else if nr = SYS_listen then breaks (syscall_listen E arg proc)
      else if nr = SYS_accept then breaks (syscall_accept E arg proc)
      else if nr = SYS_sendto then returns_nonzero (syscall_sendto E arg proc)
      else if nr = SYS_recvfrom then breaks (syscall_recvfrom E arg proc)
      else if nr = SYS_sendmsg then returns_nonzero (syscall_sendmsg E arg proc)
      else if nr = SYS_recvmsg then breaks (syscall_recvmsg E arg proc)
      else if nr = SYS_shutdown then breaks (syscall_shutdown E arg proc)
      else if nr = SYS_getpeername then breaks (syscall_getpeername E arg proc)
      else if nr = SYS_getsockopt then breaks (syscall_getsockopt E arg proc)
      else if nr = SYS_setsockopt then breaks (syscall_setsockopt E arg proc)
      else if nr = SYS_clone then breaks (syscall_clone E arg proc)
      else if nr = SYS_execve then breaks (syscall_execve E arg proc)
      else if nr = SYS_exit \<or> nr = SYS_exit_group then bnd (syscall_exit E arg proc) (\<lambda>r. ret (Some r))
      else if nr = SYS_getpid then breaks (syscall_getpid arg proc)
      else if nr = SYS_tuxcall then breaks (syscall_tuxcall E arg proc)
      else breaks (syscall_default arg proc))"

text \<open>\<open>waitpid(pid, &(proc->status), __WALL)\<close>: a call that fails does not write the status.\<close>

definition wait_status :: "'w env \<Rightarrow> proc_ptr \<Rightarrow> int \<Rightarrow> ('w st, int) M" where
  "wait_status E proc pid =
     bnd (call_world (sys_waitpid E pid)) (\<lambda>(r, status).
     sq (whenM (0 \<le> r) (upd_proc proc (\<lambda>p. p\<lparr>p_status := status\<rparr>))) (ret r))"

text \<open>One round of the \<open>while (1)\<close>.\<close>

definition handle_step ::
    "'w env \<Rightarrow> (proc_ptr \<Rightarrow> ('w st, int) M) \<Rightarrow> proc_ptr \<Rightarrow> int \<Rightarrow> unit \<Rightarrow> ('w st, unit + int) M" where
  "handle_step E handle proc pid = (\<lambda>_.
     bnd (ptrace_get_register E pid) (\<lambda>arg.
     bnd (dispatch E handle arg proc) (\<lambda>r.
     case r of
       Some v \<Rightarrow> ret (Inr v)
     | None \<Rightarrow>
         sq (ptrace_resume_process E pid)
         (sq (wait_status E proc pid) (ret (Inl ()))))))"

text \<open>
  \<open>process_handle\<close> calls itself through \<open>syscall_connect\<close>; the first argument is the
  number of calls for which there is room on the stack.
\<close>

fun process_handle :: "nat \<Rightarrow> 'w env \<Rightarrow> proc_ptr \<Rightarrow> ('w st, int) M" where
  "process_handle 0 E proc = fail Stack_overflow"
| "process_handle (Suc depth) E proc =
     bnd (get_proc proc) (\<lambda>p.
     loopM (handle_step E (process_handle depth E) proc (p_pid p)) ())"

section \<open>The main loops\<close>

text \<open>\<open>waitpid(...) < 0\<close> followed by \<open>xbt_die\<close>.\<close>

definition wait_or_die :: "'w env \<Rightarrow> proc_ptr \<Rightarrow> int \<Rightarrow> ('w st, unit) M" where
  "wait_or_die E proc pid =
     bnd (wait_status E proc pid) (\<lambda>r. if r < 0 then fail Xbt_die else ret ())"

definition runner_step :: "nat \<Rightarrow> 'w env \<Rightarrow> proc_ptr \<Rightarrow> int \<Rightarrow> ('w st, int + unit) M" where
  "runner_step depth E proc = (\<lambda>proc_next_state.
     if proc_next_state \<noteq> PROCESS_DEAD then
       bnd (get_proc proc) (\<lambda>p.
       sq (ptrace_resume_process E (p_pid p))
       (sq (wait_or_die E proc (p_pid p))
       (bnd (process_handle depth E proc) (\<lambda>state. ret (Inl state)))))
     else ret (Inr ()))"

text \<open>
  \<open>simterpose_process_runner\<close>, the part that runs in the simulator: the child that
  \<open>fork\<close> starts is the traced process.
\<close>

definition simterpose_process_runner :: "nat \<Rightarrow> 'w env \<Rightarrow> string \<Rightarrow> ('w st, int) M" where
  "simterpose_process_runner depth E argv0 =
     bnd (call_world (sys_fork E)) (\<lambda>tracked_pid.
     bnd (get_world (MSG_host_self E)) (\<lambda>host.
     bnd (process_descriptor_new E (MSG_host_get_name E host) argv0 tracked_pid) (\<lambda>proc.
     sq (call_world (sys_waitpid E tracked_pid))
     (sq increment_nb_setoptions
     (sq (bnd (get_world (PTRACE_SETOPTIONS E tracked_pid)) (\<lambda>r.
          case r of None \<Rightarrow> fail Xbt_die | Some w \<Rightarrow> upd_world (\<lambda>_. w)))
     (sq (loopM (runner_step depth E proc) PROCESS_CONTINUE)
     (sq (process_die E proc) (ret 0))))))))"

text \<open>\<open>main_loop\<close>, for the process of a clone.\<close>

definition main_loop_step :: "nat \<Rightarrow> 'w env \<Rightarrow> proc_ptr \<Rightarrow> unit \<Rightarrow> ('w st, unit + unit) M" where
  "main_loop_step depth E proc = (\<lambda>_.
     sq (wait_status E proc (- 1))
     (bnd (get_proc proc) (\<lambda>p.
      sq (ptrace_resume_process E (p_pid p))
      (sq (wait_or_die E proc (p_pid p))
      (bnd (process_handle depth E proc) (\<lambda>state.
       ret (if state \<noteq> PROCESS_DEAD then Inl () else Inr ())))))))"

definition main_loop :: "nat \<Rightarrow> 'w env \<Rightarrow> proc_ptr \<Rightarrow> ('w st, int) M" where
  "main_loop depth E proc = sq (loopM (main_loop_step depth E proc) ()) (ret 0)"

end
