(* ===== verification/Process_Properties.thy ===== *)
theory Process_Properties
  imports Syscall_Process Sample_Platform
begin

text \<open>
  Properties of \<open>process_handle\<close> as a whole: the size of the stack does not matter as long as
  it is large enough, and a process that only makes calls of no interest to the simulation is
  followed until it exits.
\<close>

section \<open>The size of the stack\<close>

text \<open>
  \<open>below m n\<close>: \<open>m\<close> behaves like \<open>n\<close> unless it runs out of stack.
\<close>

definition below :: "('s, 'a) M \<Rightarrow> ('s, 'a) M \<Rightarrow> bool" where
  "below m n \<longleftrightarrow> (\<forall>s. m s = Inl Stack_overflow \<or> m s = n s)"

named_theorems mono

lemma below_refl [mono]: "below m m"
  by (simp add: below_def)

lemma below_trans: "below m n \<Longrightarrow> below n k \<Longrightarrow> below m k"
  unfolding below_def by metis

lemma below_bnd [mono]:
  assumes "below m m'" "\<And>x. below (f x) (f' x)"
  shows "below (bnd m f) (bnd m' f')"
proof -
  have "bnd m f s = Inl Stack_overflow \<or> bnd m f s = bnd m' f' s" for s
  proof (cases "m s = Inl Stack_overflow")
    case False
    with assms(1) have "m' s = m s" unfolding below_def by metis
    moreover have "f x t = Inl Stack_overflow \<or> f x t = f' x t" for x t
      using assms(2) [of x] by (simp add: below_def)
    ultimately show ?thesis by (auto simp: run_bnd split: sum.split)
  qed (simp add: run_bnd)
  then show ?thesis by (simp add: below_def)
qed

lemma below_sq [mono]: "below m m' \<Longrightarrow> below n n' \<Longrightarrow> below (sq m n) (sq m' n')"
  unfolding sq_def by (intro below_bnd)

lemma below_block [mono]: "below m m' \<Longrightarrow> below (block ms) (block ms') \<Longrightarrow> below (block (m # ms)) (block (m' # ms'))"
  by (simp add: below_sq)

lemma below_block_ret [mono]: "below (block ms) (block ms') \<Longrightarrow> below (block_ret x ms) (block_ret x ms')"
  unfolding block_ret_def by (intro below_sq below_refl)

lemma below_if [mono]: "below m m' \<Longrightarrow> below n n' \<Longrightarrow> below (if b then m else n) (if b then m' else n')"
  by simp

lemma below_whenM [mono]: "below m m' \<Longrightarrow> below (whenM b m) (whenM b m')"
  by (simp add: whenM_def below_refl)

lemma below_option [mono]:
  "below m m' \<Longrightarrow> (\<And>a. below (f a) (f' a)) \<Longrightarrow>
     below (case p of None \<Rightarrow> m | Some a \<Rightarrow> f a) (case p of None \<Rightarrow> m' | Some a \<Rightarrow> f' a)"
  by (cases p) auto

lemma below_prod [mono]: "(\<And>a b. below (f a b) (f' a b)) \<Longrightarrow> below (case p of (a, b) \<Rightarrow> f a b) (case p of (a, b) \<Rightarrow> f' a b)"
  by (cases p) auto

lemma iterate_below:
  assumes "\<And>l. below (body l) (body' l)"
  shows "iterate body l s = Some r \<Longrightarrow> r = Inl Stack_overflow \<or> iterate body' l s = Some r"
proof -
  assume "iterate body l s = Some r"
  moreover have "(\<forall>l. below (body l) (body' l)) \<longrightarrow> r = Inl Stack_overflow \<or> iterate body' l s = Some r"
    if "iterate body l s = Some r" for body l s r
  proof (rule iterate.raw_induct [where P = "\<lambda>body l s r. (\<forall>l. below (body l) (body' l)) \<longrightarrow>
      r = Inl Stack_overflow \<or> iterate body' l s = Some r", OF _ that])
    fix loop and body :: "'a \<Rightarrow> ('b, 'a + 'c) M" and l s r
    assume IH: "\<And>body l s r. loop body l s = Some r \<Longrightarrow>
        (\<forall>l. below (body l) (body' l)) \<longrightarrow> r = Inl Stack_overflow \<or> iterate body' l s = Some r"
      and step: "(case body l s of Inl e \<Rightarrow> Some (Inl e)
        | Inr (x, t) \<Rightarrow> (case x of Inr y \<Rightarrow> Some (Inr (y, t)) | Inl l' \<Rightarrow> loop body l' t)) = Some r"
    show "(\<forall>l. below (body l) (body' l)) \<longrightarrow> r = Inl Stack_overflow \<or> iterate body' l s = Some r"
    proof
      assume b: "\<forall>l. below (body l) (body' l)"
      then have "body l s = Inl Stack_overflow \<or> body l s = body' l s" by (simp add: below_def)
      then show "r = Inl Stack_overflow \<or> iterate body' l s = Some r"
        using step IH [where body = body] b
        by (subst iterate.simps) (fastforce split: sum.splits)
    qed
  qed
  ultimately show ?thesis using assms by blast
qed

lemma iterate_above:
  assumes "\<And>l. below (body l) (body' l)"
  shows "iterate body' l s = Some r \<Longrightarrow> iterate body l s = Some (Inl Stack_overflow) \<or> iterate body l s = Some r"
proof -
  assume "iterate body' l s = Some r"
  moreover have "(\<forall>l. below (body l) (body' l)) \<longrightarrow> iterate body l s = Some (Inl Stack_overflow) \<or> iterate body l s = Some r"
    if "iterate body' l s = Some r" for body' l s r
  proof (rule iterate.raw_induct [where P = "\<lambda>body' l s r. (\<forall>l. below (body l) (body' l)) \<longrightarrow>
      iterate body l s = Some (Inl Stack_overflow) \<or> iterate body l s = Some r", OF _ that])
    fix loop and body' :: "'a \<Rightarrow> ('b, 'a + 'c) M" and l s r
    assume IH: "\<And>body' l s r. loop body' l s = Some r \<Longrightarrow>
        (\<forall>l. below (body l) (body' l)) \<longrightarrow> iterate body l s = Some (Inl Stack_overflow) \<or> iterate body l s = Some r"
      and step: "(case body' l s of Inl e \<Rightarrow> Some (Inl e)
        | Inr (x, t) \<Rightarrow> (case x of Inr y \<Rightarrow> Some (Inr (y, t)) | Inl l' \<Rightarrow> loop body' l' t)) = Some r"
    show "(\<forall>l. below (body l) (body' l)) \<longrightarrow> iterate body l s = Some (Inl Stack_overflow) \<or> iterate body l s = Some r"
    proof
      assume b: "\<forall>l. below (body l) (body' l)"
      then have "body l s = Inl Stack_overflow \<or> body l s = body' l s" by (simp add: below_def)
      then show "iterate body l s = Some (Inl Stack_overflow) \<or> iterate body l s = Some r"
        using step IH [where body' = body'] b
        by (subst (1 2) iterate.simps) (fastforce split: sum.splits)
    qed
  qed
  ultimately show ?thesis using assms by blast
qed

lemma below_loopM [mono]:
  assumes "\<And>l. below (body l) (body' l)"
  shows "below (loopM body l) (loopM body' l)"
proof -
  have "loopM body l s = Inl Stack_overflow \<or> loopM body l s = loopM body' l s" for s
    using iterate_below [of body body' l s, OF assms] iterate_above [of body body' l s, OF assms]
    by (cases "iterate body l s"; cases "iterate body' l s") (auto simp: loopM_def)
  then show ?thesis by (simp add: below_def)
qed

lemma below_connect [mono]:
  "(\<And>p. below (handle p) (handle' p)) \<Longrightarrow> below (syscall_connect E handle reg proc) (syscall_connect E handle' reg proc)"
  unfolding syscall_connect_def syscall_connect_pre_def Let_def by (intro mono)

lemma below_dispatch [mono]:
  "(\<And>p. below (handle p) (handle' p)) \<Longrightarrow> below (dispatch E handle reg proc) (dispatch E handle' reg proc)"
  unfolding dispatch_def Let_def breaks_def by (intro mono)

lemma below_handle_step [mono]:
  "(\<And>p. below (handle p) (handle' p)) \<Longrightarrow> below (handle_step E handle proc pid l) (handle_step E handle' proc pid l)"
  unfolding handle_step_def by (intro mono)

lemma below_process_handle: "below (process_handle depth E proc) (process_handle (depth + n) E proc)"
proof (induction depth arbitrary: proc)
  case 0
  show ?case by (simp add: below_def run)
next
  case (Suc depth)
  show ?case by (simp only: process_handle.simps add_Suc) (intro mono Suc)
qed


section \<open>The end of a process\<close>

text \<open>Entering \<open>exit\<close> ends the handling of a process.\<close>

definition detached :: "proc_ptr \<Rightarrow> 'w \<Rightarrow> 'w st \<Rightarrow> 'w st" where
  "detached proc w s = s\<lparr>procs := (procs s)(proc := map_option (\<lambda>p. p\<lparr>in_syscall := True\<rparr>) (procs s proc)),
     global_data := (global_data s)\<lparr>nb_getregs := nb_getregs (global_data s) + 1,
       nb_detach := nb_detach (global_data s) + 1\<rparr>, world := w\<rparr>"

lemma syscall_exit_entry:
  assumes "procs s proc = Some p" "\<not> in_syscall p" "PTRACE_DETACH E (p_pid p) (world s) = Some w"
  shows "syscall_exit E arg proc (counted 1 0 0 (world s) s) = Inr (PROCESS_DEAD, detached proc w s)"
  using assms by (simp add: syscall_exit_def ptrace_detach_process_def increment_nb_detach_def counted_def detached_def run)

lemma dispatch_exit:
  assumes "reg_orig arg \<in> {SYS_exit, SYS_exit_group}"
  shows "dispatch E handle arg proc = bnd (syscall_exit E arg proc) (\<lambda>r. ret (Some r))"
  using assms by (auto simp: dispatch_def Let_def syscall_numbers)

lemma handle_exit:
  assumes proc: "procs s proc = Some p" "\<not> in_syscall p"
    and regs: "tracee_registers E (p_pid p) regs" "orig_rax (regs (world s)) \<in> {SYS_exit, SYS_exit_group}"
    and detach: "PTRACE_DETACH E (p_pid p) (world s) = Some w"
  shows "handle_step E handle proc (p_pid p) () s = Inr (Inr PROCESS_DEAD, detached proc w s)"
  using regs(2) by (simp add: handle_step_def ptrace_get_register_def getregs_spec [OF regs(1)]
      dispatch_exit syscall_exit_entry [OF proc detach] run)

lemma process_handle_exit:
  assumes "procs s proc = Some p" "\<not> in_syscall p"
    and "tracee_registers E (p_pid p) regs" "orig_rax (regs (world s)) \<in> {SYS_exit, SYS_exit_group}"
    and "PTRACE_DETACH E (p_pid p) (world s) = Some w"
  shows "process_handle (Suc depth) E proc s = Inr (PROCESS_DEAD, detached proc w s)"
  using handle_exit [OF assms] assms(1) by (simp add: run loopM_unfold [of _ "()" s])

section \<open>Calls of no interest\<close>

text \<open>The calls that only switch between the inside and the outside of a system call.\<close>

definition active_calls :: "u64 list" where
  "active_calls = [SYS_creat, SYS_open, SYS_close, SYS_read, SYS_write, SYS_dup, SYS_dup2, SYS_fcntl, SYS_lseek,
     SYS_poll, SYS_select, SYS_pipe, SYS_brk, SYS_socket, SYS_connect, SYS_bind, SYS_listen, SYS_accept, SYS_sendto,
     SYS_recvfrom, SYS_sendmsg, SYS_recvmsg, SYS_shutdown, SYS_getpeername, SYS_getsockopt, SYS_setsockopt, SYS_clone,
     SYS_execve, SYS_exit, SYS_exit_group, SYS_tuxcall]"

definition passive_call :: "u64 \<Rightarrow> bool" where
  "passive_call nr \<longleftrightarrow> nr \<notin> set active_calls \<and> unat nr < length syscall_list"

definition toggled :: "proc_ptr \<Rightarrow> process_descriptor \<Rightarrow> 'w st \<Rightarrow> 'w st" where
  "toggled proc p s = s\<lparr>procs := (procs s)(proc \<mapsto> p\<lparr>in_syscall := \<not> in_syscall p\<rparr>)\<rparr>"

lemma dispatch_passive:
  assumes "passive_call (reg_orig arg)" "procs s proc = Some p"
  shows "dispatch E handle arg proc s = Inr (None, toggled proc p s)"
proof -
  have "dispatch E handle arg proc s = (if reg_orig arg = SYS_getpid then breaks (syscall_getpid arg proc) s
      else breaks (syscall_default arg proc) s)"
    using assms(1) by (simp add: dispatch_def Let_def passive_call_def active_calls_def)
  then show ?thesis using assms
    by (auto simp: breaks_def syscall_getpid_def syscall_default_def passive_call_def toggled_def run)
qed

text \<open>
  A run of the traced process that only makes such calls, each stop followed by the next, and
  then enters \<open>exit\<close>. The flag tells whether the stop is one on the way out of a call, and the number counts the stops before the last.
\<close>

inductive passive_run :: "'w env \<Rightarrow> int \<Rightarrow> ('w \<Rightarrow> user_regs) \<Rightarrow> bool \<Rightarrow> 'w \<Rightarrow> nat \<Rightarrow> 'w \<Rightarrow> bool" for E pid regs where
  exits: "orig_rax (regs w) \<in> {SYS_exit, SYS_exit_group} \<Longrightarrow> PTRACE_DETACH E pid w = Some w' \<Longrightarrow>
    passive_run E pid regs False w 0 w'"
| stops: "passive_call (orig_rax (regs w)) \<Longrightarrow> PTRACE_SYSCALL E pid w = Some v \<Longrightarrow>
    sys_waitpid E pid v = ((r, status), u) \<Longrightarrow> passive_run E pid regs (\<not> inside) u n w' \<Longrightarrow>
    passive_run E pid regs inside w (Suc n) w'"

inductive_cases passive_run_0: "passive_run E pid regs inside w 0 w'"
inductive_cases passive_run_Suc: "passive_run E pid regs inside w (Suc n) w'"

lemma handle_passive:
  assumes "procs s proc = Some p" "tracee_registers E pid regs" "passive_call (orig_rax (regs (world s)))"
    and "PTRACE_SYSCALL E pid (world s) = Some v" "sys_waitpid E pid v = ((r, status), u)"
  shows "\<exists>q. handle_step E handle proc pid () s = Inr (Inl (), (counted 1 0 1 u s)\<lparr>procs := (procs s)(proc \<mapsto> q)\<rparr>) \<and>
    in_syscall q = (\<not> in_syscall p) \<and> p_pid q = p_pid p \<and> fd_map q = fd_map p"
proof -
  define t where "t = counted 1 0 0 (world s) s"
  have "procs t proc = Some p" using assms(1) by (simp add: t_def counted_def)
  then have d: "dispatch E handle arg proc t = Inr (None, toggled proc p t)" if "passive_call (reg_orig arg)" for arg
    using dispatch_passive [OF that] by blast
  have get: "ptrace_getregs E pid s = Inr (regs (world s), t)"
    using getregs_spec [OF assms(2)] by (simp add: t_def)
  let ?q = "p\<lparr>in_syscall := \<not> in_syscall p, p_status := if 0 \<le> r then status else p_status p\<rparr>"
  have "handle_step E handle proc pid () s = Inr (Inl (), (counted 1 0 1 u s)\<lparr>procs := (procs s)(proc \<mapsto> ?q)\<rparr>)"
    using assms(1,3-) d get
    by (simp add: handle_step_def ptrace_get_register_def run ptrace_resume_process_def increment_nb_syscall_def
        wait_status_def toggled_def t_def counted_def)
  then show ?thesis by (intro exI [of _ ?q]) simp
qed

text \<open>What the handling of such a process leaves alone.\<close>

definition same_simulation :: "proc_ptr \<Rightarrow> 'w st \<Rightarrow> 'w st \<Rightarrow> bool" where
  "same_simulation proc s t \<longleftrightarrow> fd_lookup proc t = fd_lookup proc s \<and> fds t = fds s \<and> comms t = comms s \<and>
     pipes t = pipes s \<and> streams t = streams s \<and> all_sockets t = all_sockets s \<and>
     list_host (global_data t) = list_host (global_data s)"

lemma same_simulation_trans: "same_simulation proc s t \<Longrightarrow> same_simulation proc t u \<Longrightarrow> same_simulation proc s u"
  by (simp add: same_simulation_def)

lemma passive_loop:
  assumes "procs s proc = Some p" "p_pid p = pid" "tracee_registers E pid regs"
    and "passive_run E pid regs (in_syscall p) (world s) n w'"
  shows "\<exists>t. loopM (handle_step E handle proc pid) () s = Inr (PROCESS_DEAD, t) \<and> world t = w' \<and>
    same_simulation proc s t \<and> nb_syscall (global_data t) = nb_syscall (global_data s) + int n"
  using assms
proof (induction n arbitrary: s p)
  case 0
  then have ex: "\<not> in_syscall p" "orig_rax (regs (world s)) \<in> {SYS_exit, SYS_exit_group}" "PTRACE_DETACH E pid (world s) = Some w'"
    by (auto elim: passive_run_0)
  with handle_exit [OF 0(1) ex(1), of E regs w' handle] 0 show ?case
    by (auto simp: loopM_unfold [of _ "()" s] detached_def same_simulation_def fd_lookup_def fun_eq_iff)
next
  case (Suc n)
  from Suc.prems(4) obtain v r status u where stop: "passive_call (orig_rax (regs (world s)))"
    "PTRACE_SYSCALL E pid (world s) = Some v" "sys_waitpid E pid v = ((r, status), u)"
    and rest: "passive_run E pid regs (\<not> in_syscall p) u n w'"
    by (auto elim: passive_run_Suc)
  obtain q where step: "handle_step E handle proc pid () s =
      Inr (Inl (), (counted 1 0 1 u s)\<lparr>procs := (procs s)(proc \<mapsto> q)\<rparr>)"
    and q: "in_syscall q = (\<not> in_syscall p)" "p_pid q = p_pid p" "fd_map q = fd_map p"
    using handle_passive [OF Suc.prems(1,3) stop] by blast
  let ?t = "(counted 1 0 1 u s)\<lparr>procs := (procs s)(proc \<mapsto> q)\<rparr>"
  have t: "world ?t = u" "procs ?t proc = Some q" "same_simulation proc s ?t"
    "nb_syscall (global_data ?t) = nb_syscall (global_data s) + 1"
    using Suc.prems(1) q(3) by (simp_all add: counted_def same_simulation_def fd_lookup_def fun_eq_iff)
  obtain t' where "loopM (handle_step E handle proc pid) () ?t = Inr (PROCESS_DEAD, t')" "world t' = w'"
    "same_simulation proc ?t t'" "nb_syscall (global_data t') = nb_syscall (global_data ?t) + int n"
    using Suc.IH [OF t(2) _ Suc.prems(3)] rest q Suc.prems(2) t(1) by auto
  with step t same_simulation_trans [OF t(3)] show ?case
    by (auto simp: loopM_unfold [of _ "()" s])
qed

text \<open>
  C16. A traced process that makes any number of system calls that are of no interest to the
  simulation and then exits is followed until its end: \<open>process_handle\<close> returns, with the
  result that the process is dead, after resuming it once for every stop, and it has
  changed neither the descriptors of the process nor any object of the simulation.
\<close>

theorem passive_process_is_followed:
  assumes p: "procs s proc = Some p" and regs: "tracee_registers E (p_pid p) regs"
    and stops: "passive_run E (p_pid p) regs (in_syscall p) (world s) n w'"
  shows "\<exists>t. process_handle (Suc depth) E proc s = Inr (PROCESS_DEAD, t) \<and> world t = w' \<and>
    same_simulation proc s t \<and> nb_syscall (global_data t) = nb_syscall (global_data s) + int n"
  using passive_loop [OF p refl regs stops, of "process_handle depth E"] p by (simp add: run)

section \<open>Clones\<close>

text \<open>
  C38. The branch of \<open>syscall_clone\<close> that makes a clone known to the simulation is dead
  code. The stop that reports an event of ptrace carries the signal \<open>SIGTRAP\<close>, and the test
  for a system call stop is true for this signal as well. For a process stopped by this signal
  the handler only switches between inside and outside of the call: no descriptor and no
  simulated process is created, whatever the event is.
\<close>

theorem clone_is_not_followed:
  assumes p: "procs s proc = Some p" and trap: "WSTOPSIG (p_status p) = SIGTRAP"
    and res: "syscall_clone E reg proc s = Inr (x, t)"
  shows "procs t = (procs s)(proc \<mapsto> p\<lparr>in_syscall := \<not> in_syscall p\<rparr>) \<and> fds t = fds s \<and> pipes t = pipes s \<and>
    clone_number t = clone_number s \<and> world t = world s"
proof -
  have "WSTOPSIG (p_status p) AND (SIGTRAP OR 0x80) \<noteq> 0" unfolding trap by (simp add: SIGTRAP_def)
  with p res show ?thesis
    by (auto simp: syscall_clone_def ptrace_get_pid_clone_def increment_nb_geteventmsg_def run
        split: if_splits option.splits)
qed

section \<open>Witnesses\<close>

text \<open>A process that makes the call \<open>getpid\<close> and then exits, all registers following a script.\<close>

definition scripted_env :: "kernel env" where
  "scripted_env = sample_env\<lparr>PTRACE_SYSCALL := (\<lambda>p w. Some (w\<lparr>k_ids := Suc (k_ids w),
     k_regs := (k_regs w)\<lparr>orig_rax := if k_ids w = 0 then SYS_getpid else SYS_exit\<rparr>\<rparr>)),
     sys_waitpid := (\<lambda>_ w. ((100, 0x857F), w))\<rparr>"

definition scripted_st :: "kernel st" where
  "scripted_st = sample_st\<lparr>world := sample_kernel\<lparr>k_regs := sample_regs\<lparr>orig_rax := SYS_getpid\<rparr>\<rparr>\<rparr>"

lemma scripted_regs: "tracee_registers scripted_env 100 k_regs"
  by (simp add: tracee_registers_def scripted_env_def sample_env_def)

lemma scripted_run: "\<exists>w. passive_run scripted_env 100 k_regs False (world scripted_st) 2 w"
proof -
  let ?w0 = "world scripted_st"
  let ?w1 = "?w0\<lparr>k_ids := 1, k_regs := (k_regs ?w0)\<lparr>orig_rax := SYS_getpid\<rparr>\<rparr>"
  let ?w2 = "?w0\<lparr>k_ids := Suc (Suc 0), k_regs := (k_regs ?w0)\<lparr>orig_rax := SYS_exit\<rparr>\<rparr>"
  have call: "passive_call SYS_getpid" by code_simp
  have last: "passive_run scripted_env 100 k_regs False ?w2 0 ?w2"
    by (rule exits) (simp_all add: scripted_env_def sample_env_def)
  have mid: "passive_run scripted_env 100 k_regs True ?w1 1 ?w2"
    unfolding One_nat_def
    by (rule stops [where u = ?w2 and v = ?w2 and r = 100 and status = "0x857F"])
      (use call last in \<open>simp_all add: scripted_env_def numeral_2_eq_2\<close>)
  have "passive_run scripted_env 100 k_regs False ?w0 2 ?w2"
    unfolding numeral_2_eq_2
    by (rule stops [where u = ?w1 and v = ?w1 and r = 100 and status = "0x857F"])
      (use call mid in \<open>simp_all add: scripted_env_def scripted_st_def sample_kernel_def\<close>)
  then show ?thesis ..
qed

theorem passive_process_is_followed_witness:
  "\<exists>t. process_handle (Suc 0) scripted_env 0 scripted_st = Inr (PROCESS_DEAD, t) \<and>
     same_simulation 0 scripted_st t \<and> nb_syscall (global_data t) = 2"
proof -
  obtain w where "passive_run scripted_env 100 k_regs False (world scripted_st) 2 w" using scripted_run ..
  moreover have "procs scripted_st 0 = Some sample_proc" by (simp add: scripted_st_def sample_st_def)
  moreover have "nb_syscall (global_data scripted_st) = 0" by (simp add: scripted_st_def sample_st_def sample_globals_def)
  ultimately show ?thesis
    using passive_process_is_followed [of scripted_st 0 sample_proc scripted_env k_regs 2 w 0] scripted_regs
    by (auto simp: sample_proc_def)
qed


theorem clone_is_not_followed_witness:
  "\<exists>t. syscall_clone sample_env sample_reg 0 (sample_st\<lparr>procs := [0 \<mapsto> sample_proc\<lparr>p_status := 0x4057F, in_syscall := True\<rparr>]\<rparr>) =
     Inr ((), t) \<and> dom (procs t) = {0} \<and> proc_event_exec (sample_proc\<lparr>p_status := 0x4057F\<rparr>)"
proof -
  let ?p = "sample_proc\<lparr>p_status := 0x4057F, in_syscall := True\<rparr>"
  let ?s = "sample_st\<lparr>procs := [0 \<mapsto> ?p]\<rparr>"
  have sig: "WSTOPSIG 0x4057F = SIGTRAP" "WSTOPSIG 0x4057F AND (SIGTRAP OR 0x80) \<noteq> 0" by code_simp+
  have "PTRACE_GETEVENTMSG sample_env 100 w = Some 101" for w by (simp add: sample_env_def)
  then obtain t where t: "syscall_clone sample_env sample_reg 0 ?s = Inr ((), t)"
    using sig(2) by (simp add: syscall_clone_def ptrace_get_pid_clone_def increment_nb_geteventmsg_def run sample_proc_def)
  with clone_is_not_followed [OF _ _ t, of ?p] sig have "dom (procs t) = {0}" by simp
  moreover have "proc_event_exec (sample_proc\<lparr>p_status := 0x4057F\<rparr>)" by code_simp
  ultimately show ?thesis using t by blast
qed

end
