(* ===== verification/Log_Properties.thy ===== *)
theory Log_Properties
  imports Print_Syscall Sample_Platform "HOL-Library.Sublist"
begin

text \<open>
  The log: printing a system call has no effect but on the log itself, which string
  \<open>get_string\<close> finds, which names \<open>print_flags\<close> prints, and where the results are aligned.
\<close>

section \<open>Printing changes the log and nothing else\<close>

text \<open>A state without its logs and without the number of words read for them.\<close>

definition unlogged :: "'w st \<Rightarrow> 'w st" where
  "unlogged s = s\<lparr>procs := (\<lambda>a. map_option (\<lambda>p. p\<lparr>strace_out := None, curcol := 0\<rparr>) (procs s a)),
     global_data := (global_data s)\<lparr>nb_peek := 0\<rparr>\<rparr>"

lemma unlogged_frame:
  assumes "unlogged t = unlogged s"
  shows "list_host (global_data t) = list_host (global_data s)" "list_ip (global_data t) = list_ip (global_data s)" "fds t = fds s"
proof -
  show "fds t = fds s" using arg_cong [OF assms, of fds] by (simp add: unlogged_def)
  have "(global_data t)\<lparr>nb_peek := 0\<rparr> = (global_data s)\<lparr>nb_peek := 0\<rparr>"
    using arg_cong [OF assms, of global_data] by (simp add: unlogged_def)
  then show "list_host (global_data t) = list_host (global_data s)" "list_ip (global_data t) = list_ip (global_data s)"
    by (metis simterpose_globals.ext_inject simterpose_globals.surjective simterpose_globals.update_convs)+
qed

locale log_frame =
  fixes I :: "'w st \<Rightarrow> bool"
  assumes log_frame: "unlogged t = unlogged s \<Longrightarrow> I t \<longleftrightarrow> I s"
begin

lemma keeps_unlogged:
  assumes "\<And>s x t. m s = Inr (x, t) \<Longrightarrow> unlogged t = unlogged s"
  shows "keeps I m"
proof (rule keepsI)
  fix s x t assume I: "I s" and run: "m s = Inr (x, t)"
  from log_frame [OF assms [OF run]] I show "I t" by blast
qed

lemma keeps_reads [keep]:
  "keeps I (get_proc a)" "keeps I (get_desc a)" "keeps I (get_comm a)" "keeps I (get_pipe a)" "keeps I (get_stream a)"
  "keeps I (get_sock a)" "keeps I (sock_of d)" "keeps I (get_world f)" "keeps I (process_descriptor_get_fd proc fd)"
  by (rule keeps_unlogged; auto simp: run split: option.splits)+

lemma keeps_logged [keep]:
  "keeps I (upd_proc a (\<lambda>p. p\<lparr>strace_out := f p\<rparr>))"
  "keeps I (upd_proc a (\<lambda>p. p\<lparr>strace_out := f p, curcol := g p\<rparr>))"
  "keeps I increment_nb_peek"
  by (rule keeps_unlogged; auto simp: run unlogged_def increment_nb_peek_def fun_eq_iff split: option.splits)+

lemma keeps_cdata [keep]:
  "keeps I m \<Longrightarrow> (\<And>bs. keeps I (f bs)) \<Longrightarrow> (\<And>a. keeps I (g a)) \<Longrightarrow>
     keeps I (case data of Null_data \<Rightarrow> m | Buffer bs \<Rightarrow> f bs | Tracee_addr a \<Rightarrow> g a)"
  by (cases data) simp_all

lemma keeps_domain [keep]: "keeps I (get_domain_socket proc fd)" "keeps I (socket_get_option proc fd opt)"
  unfolding get_domain_socket_def socket_get_option_def socket_attribute_def get_infos_socket_def by (intro keep)+

lemma keeps_peek [keep]: "keeps I (ptrace_peek E pid a)" "keeps I (store_long sz dst v)"
  unfolding ptrace_peek_def store_long_def by (intro keep)+

lemma keeps_cpy_loop [keep]: "keeps I (ptrace_cpy_loop E pid sz src i c len dst)"
  by (induction "len - c" arbitrary: i c dst rule: less_induct) (subst ptrace_cpy_loop.simps, intro keep, simp)

lemma keeps_cpy [keep]: "keeps I (ptrace_cpy E pid sz src len)"
  unfolding ptrace_cpy_def Let_def by (intro keep)

lemma keeps_text [keep]:
  "keeps I (c_str cells)" "keeps I (buffer_text bs)" "keeps I (data_bytes data n)" "keeps I (data_text data)"
  "keeps I (local_buffer sz data n k)" "keeps I (xbt_malloc0 sz')"
proof -
  show c_str: "keeps I (c_str cells)" for cells
    by (induction cells rule: c_str.induct) (auto intro: keep)
  show "keeps I (buffer_text bs)" "keeps I (data_bytes data n)" "keeps I (data_text data)"
    "keeps I (local_buffer sz data n k)" "keeps I (xbt_malloc0 sz')"
    unfolding buffer_text_def data_bytes_def data_text_def local_buffer_def xbt_malloc0_def by (intro keep c_str)+
qed

lemma keeps_log [keep]:
  "keeps I (fprintf proc txt)" "keeps I (stprintf proc txt)" "keeps I (stprintf_tabto proc)" "keeps I (stprintf_eol proc)"
  "keeps I (get_string E pid ptr sz)" "keeps I (print_flags proc flags names)"
  unfolding fprintf_def stprintf_def stprintf_tabto_def stprintf_eol_def get_string_def print_flags_def Let_def
  by (intro keep)+

lemma keeps_print_bits [keep]: "keeps I (print_bits proc flags bits)"
  by (induction bits rule: print_bits.induct [of "\<lambda>_ _ bits. keeps I (print_bits proc flags bits)", case_names Nil Cons])
    (auto intro: keep)

lemma keeps_print_poll [keep]:
  "keeps I (disp_pollfd_loop proc pfds nfds i)" "keeps I (print_poll_syscall reg proc fd_list timeout)"
proof -
  have one: "keeps I (print_pollfd proc pfds i)" for pfds i
    unfolding print_pollfd_def get_events_poll_def get_revents_poll_def by (intro keep)
  show loop: "keeps I (disp_pollfd_loop proc pfds nfds i)" for pfds nfds i
    by (induction "5 - i" arbitrary: i rule: less_induct)
      (subst disp_pollfd_loop.simps, intro keep one, simp)
  show "keeps I (print_poll_syscall reg proc fd_list timeout)"
    unfolding print_poll_syscall_def disp_pollfd_def by (intro keep one loop)
qed

lemma keeps_print_addr [keep]:
  "keeps I (print_sockaddr_arg E proc pid domain addr)" "keeps I (print_addr_syscall name E reg proc)"
  "keeps I (print_accept_syscall E reg proc)" "keeps I (print_connect_syscall E reg proc)" "keeps I (print_bind_syscall E reg proc)"
  "keeps I (print_socket_syscall reg proc)" "keeps I (print_sockopt_syscall name reg proc)"
  "keeps I (print_getsockopt_syscall reg proc)" "keeps I (print_setsockopt_syscall reg proc)" "keeps I (print_listen_syscall reg proc)"
  unfolding print_accept_syscall_def print_connect_syscall_def print_bind_syscall_def print_addr_syscall_def
    print_sockaddr_arg_def print_socket_syscall_def print_getsockopt_syscall_def print_setsockopt_syscall_def
    print_sockopt_syscall_def print_listen_syscall_def Let_def
  by (intro keep)+

lemma keeps_print_data [keep]:
  "keeps I (print_flags_send proc flags)" "keeps I (print_flags_recv proc flags)" "keeps I (print_flags_arg3 reg proc)"
  "keeps I (print_sent_data E reg proc data)" "keeps I (print_received_data E reg proc data)"
  "keeps I (print_sockaddr_local proc domain is_addr sai sau snl)"
  "keeps I (print_sendto_syscall E reg proc data is_addr addrlen sai sau snl)"
  "keeps I (print_recvfrom_syscall E reg proc data sai sau snl is_addr addrlen)"
  "keeps I (print_sendmsg_syscall E reg proc len data msg)" "keeps I (print_recvmsg_syscall reg proc msg)"
  unfolding print_sendto_syscall_def print_recvfrom_syscall_def print_sendmsg_syscall_def print_recvmsg_syscall_def
    print_sent_data_def print_received_data_def print_flags_arg3_def print_flags_send_def print_flags_recv_def
    print_sockaddr_local_def Let_def
  by (intro keep)+

lemma keeps_print_files [keep]:
  "keeps I (print_flock E reg proc pid name)" "keeps I (print_fcntl_syscall E reg proc)" "keeps I (print_lseek_syscall reg proc)"
  "keeps I (print_read_syscall E reg proc)" "keeps I (print_write_syscall E reg proc)"
  "keeps I (print_shutdown_syscall reg proc)" "keeps I (print_clone_syscall reg proc)"
  "keeps I (print_execve_syscall_pre E reg proc)" "keeps I (print_execve_syscall_post reg proc)"
  "keeps I (print_creat_syscall E reg proc)" "keeps I (print_close_syscall reg proc)" "keeps I (print_tuxcall_syscall E reg proc)"
  unfolding print_fcntl_syscall_def print_flock_def print_lseek_syscall_def print_read_syscall_def print_write_syscall_def
    print_rw_syscall_def print_shutdown_syscall_def print_shutdown_option_def print_clone_syscall_def print_flags_clone_def
    print_execve_syscall_pre_def print_argv_step_def print_execve_syscall_post_def print_creat_syscall_def
    print_close_syscall_def print_tuxcall_syscall_def Let_def
  by (intro keep)+

lemma keeps_print_more [keep]:
  "keeps I (disp_selectfd proc fdset)" "keeps I (print_select_syscall E reg proc fd_state)"
  "keeps I (print_getpeername_syscall E reg proc)" "keeps I (print_open_syscall E reg proc)"
  "keeps I (print_send_syscall E reg proc data)" "keeps I (print_recv_syscall E reg proc data)"
proof -
  have "keeps I (block (map (\<lambda>i. fprintf proc (out i)) ks))" for out and ks :: "nat list"
    by (induction ks) (auto intro: keep simp del: block.simps)
  then show select: "keeps I (disp_selectfd proc fdset)" for fdset
    unfolding disp_selectfd_def by (intro keep)
  show "keeps I (print_select_syscall E reg proc fd_state)"
    unfolding print_select_syscall_def by (intro keep select)
  show "keeps I (print_getpeername_syscall E reg proc)" "keeps I (print_open_syscall E reg proc)"
    "keeps I (print_send_syscall E reg proc data)" "keeps I (print_recv_syscall E reg proc data)"
    unfolding print_getpeername_syscall_def print_open_syscall_def print_send_syscall_def print_recv_syscall_def Let_def
    by (intro keep)+
qed

end

interpretation unlogged: log_frame "\<lambda>s. unlogged s = u" for u
  by unfold_locales simp

text \<open>
  C29. Logging is transparent: whatever a function of \<open>print_syscall.c\<close> prints, when it
  returns the state differs from the one before at most in the text of the logs, in their
  columns, and in the count of words read from the traced process.
\<close>

theorem printing_only_logs:
  "list_all (keeps (\<lambda>s. unlogged s = u))
    [print_accept_syscall E reg proc, print_connect_syscall E reg proc, print_bind_syscall E reg proc,
     print_socket_syscall reg proc, print_getsockopt_syscall reg proc, print_setsockopt_syscall reg proc,
     print_listen_syscall reg proc, print_send_syscall E reg proc data, print_recv_syscall E reg proc data,
     print_sendto_syscall E reg proc data is_addr addrlen sai sau snl,
     print_recvfrom_syscall E reg proc data sai sau snl is_addr addrlen,
     print_sendmsg_syscall E reg proc len data msg, print_recvmsg_syscall reg proc msg,
     print_poll_syscall reg proc fd_list timeout, print_select_syscall E reg proc fd_state,
     print_fcntl_syscall E reg proc, print_lseek_syscall reg proc, print_read_syscall E reg proc,
     print_write_syscall E reg proc, print_shutdown_syscall reg proc, print_getpeername_syscall E reg proc,
     print_clone_syscall reg proc, print_execve_syscall_pre E reg proc, print_execve_syscall_post reg proc,
     print_open_syscall E reg proc, print_creat_syscall E reg proc, print_close_syscall reg proc,
     print_tuxcall_syscall E reg proc]"
  by (simp only: list.pred_inject, intro conjI TrueI) (intro keep)+

section \<open>Names of flags\<close>

lemma or_and_not: "(v :: u32) AND flags = v \<Longrightarrow> v OR (flags AND NOT v) = flags"
  by (rule bit_eqI) (auto simp: bit_simps bit_eq_iff)

lemma select_flags_all: "foldr (\<lambda>(v, _). (OR) v) (fst (select_flags flags names)) (snd (select_flags flags names)) = flags"
  by (induction flags names rule: select_flags.induct) (auto simp: Let_def or_and_not split: prod.splits)

lemma select_flags_rest: "snd (select_flags flags names) AND flags = snd (select_flags flags names)"
proof (induction flags names rule: select_flags.induct)
  case (2 flags v name names)
  show ?case
  proof (cases "v AND flags = v")
    case True
    let ?r = "snd (select_flags (flags AND NOT v) names)"
    have "?r AND flags = ?r" using 2(1) True by (auto simp: bit_eq_iff bit_simps)
    then show ?thesis using True by (auto simp: Let_def split: prod.split)
  qed (use 2(2) in simp)
qed simp

lemma select_flags_disjoint: "list_all (\<lambda>(v, _). v AND snd (select_flags flags names) = 0) (fst (select_flags flags names))"
proof (induction flags names rule: select_flags.induct)
  case (2 flags v name names)
  show ?case
  proof (cases "v AND flags = v")
    case True
    let ?r = "snd (select_flags (flags AND NOT v) names)"
    have "v AND ?r = v AND (?r AND (flags AND NOT v))" by (simp only: select_flags_rest)
    also have "\<dots> = 0" by (rule bit_eqI) (auto simp: bit_simps)
    finally show ?thesis using True 2(1) by (auto simp: Let_def split: prod.splits)
  qed (use 2(2) in simp)
qed simp

lemma select_flags_subseq: "subseq (fst (select_flags flags names)) names"
  by (induction flags names rule: select_flags.induct) (auto simp: Let_def split: prod.splits)


section \<open>Strings of the traced process\<close>

text \<open>A zero-terminated string of \<open>len\<close> bytes in memory.\<close>

definition c_string :: "mem \<Rightarrow> u64 \<Rightarrow> nat \<Rightarrow> bool" where
  "c_string m ptr len \<longleftrightarrow> m (ptr + of_nat len) = 0 \<and> (\<forall>i<len. m (ptr + of_nat i) \<noteq> 0)"

lemma get_string_full: "sz \<le> length buf \<Longrightarrow> get_string_from peek ptr buf sz = None"
  by (subst get_string_from.simps) (simp add: Let_def)

lemma bytes64_zero [simp]: "bytes64 0 = replicate 8 0"
  by code_simp

lemma take_bytes: "take n (read_bytes m a k) = read_bytes m a (min n k)"
  by (simp add: read_bytes_def take_map min_def)

lemma read_bytes_Cons: "0 < n \<Longrightarrow> read_bytes m a n = m a # read_bytes m (a + 1) (n - 1)"
  using read_bytes_add [of m a 1 "n - 1"] by (simp add: read_bytes_def)

lemma word_inside:
  assumes "c_string m ptr len" "c + n \<le> len"
  shows "0 \<notin> set (read_bytes m (ptr + of_nat c) n)"
  using assms by (force simp: c_string_def read_bytes_def add.assoc simp flip: of_nat_add)

lemma word_at_end:
  assumes str: "c_string m ptr len" and "c \<le> len" "len < c + n"
  shows "0 \<in> set (read_bytes m (ptr + of_nat c) n)"
    "takeWhile (\<lambda>b. b \<noteq> 0) (read_bytes m (ptr + of_nat c) n) = read_bytes m (ptr + of_nat c) (len - c)"
proof -
  let ?a = "ptr + of_nat c" and ?k = "len - c"
  have "?a + of_nat ?k = ptr + of_nat len" using assms(2) by (simp add: of_nat_diff)
  then have "read_bytes m ?a n = read_bytes m ?a ?k @ 0 # read_bytes m (?a + of_nat ?k + 1) (n - ?k - 1)"
    using assms read_bytes_add [of m ?a ?k "n - ?k"] read_bytes_Cons [of "n - ?k" m "?a + of_nat ?k"]
    by (simp add: c_string_def)
  moreover have "0 \<notin> set (read_bytes m ?a ?k)" using word_inside [OF str, of c ?k] assms(2) by simp
  ultimately show "0 \<in> set (read_bytes m ?a n)" "takeWhile (\<lambda>b. b \<noteq> 0) (read_bytes m ?a n) = read_bytes m ?a ?k"
    by (simp, metis (mono_tags, lifting) takeWhile_eq_all_conv takeWhile_tail)
qed

lemma get_string_word:
  assumes "c_string m ptr len" "c < len" "c < sz"
  shows "get_string_from (peek_mem m) (ptr + of_nat c) (read_bytes m ptr c) sz =
    (let p = read_bytes m (ptr + of_nat c) (min (sz - c) 8) in
     if 0 \<in> set p then Some (read_bytes m ptr c @ takeWhile (\<lambda>b. b \<noteq> 0) p)
     else get_string_from (peek_mem m) (ptr + of_nat (c + 8)) (read_bytes m ptr c @ p) sz)"
proof -
  let ?a = "ptr + of_nat c"
  have "m ?a \<noteq> 0" using assms by (simp add: c_string_def)
  moreover have "m ?a = 0" if "peek_mem m ?a = 0"
    using that bytes64_peek [of m ?a] read_bytes_Cons [of 8 m ?a] by (simp add: eval_nat_numeral)
  ultimately have "peek_mem m ?a \<noteq> 0" by blast
  then show ?thesis using assms(3) by (subst get_string_from.simps) (simp add: Let_def take_bytes add.assoc)
qed

lemma get_string_loop:
  assumes str: "c_string m ptr len" and "c \<le> len"
  shows "get_string_from (peek_mem m) (ptr + of_nat c) (read_bytes m ptr c) sz =
    (if len < sz then Some (read_bytes m ptr len) else None)"
  using assms(2)
proof (induction "sz - c" arbitrary: c rule: less_induct)
  case less
  let ?n = "min (sz - c) 8"
  consider "sz \<le> c" | "c < sz" "c = len" | "c < sz" "c < len" "len < c + ?n" | "c < sz" "c + ?n \<le> len" "?n = 8"
    | "c < sz" "c + ?n \<le> len" "?n = sz - c"
    using less.prems by linarith
  then show ?case
  proof cases
    case 2
    then show ?thesis using word_at_end [OF str, of c ?n]
      by (subst get_string_from.simps) (simp add: Let_def take_bytes)
  next
    case 3
    then show ?thesis using get_string_word [OF str, of c sz] word_at_end [OF str, of c ?n]
        read_bytes_add [of m ptr c "len - c"] by (simp add: Let_def)
  next
    case 4
    then have "get_string_from (peek_mem m) (ptr + of_nat (c + 8)) (read_bytes m ptr (c + 8)) sz =
        (if len < sz then Some (read_bytes m ptr len) else None)" by (intro less.hyps) auto
    then show ?thesis using 4 get_string_word [OF str, of c sz] word_inside [OF str, of c 8]
      by (simp add: Let_def read_bytes_add)
  next
    case 5
    then show ?thesis using get_string_word [OF str, of c sz] word_inside [OF str, of c ?n]
      by (simp add: Let_def get_string_full)
  qed (use less.prems in \<open>simp add: get_string_full\<close>)
qed

text \<open>
  C35. \<open>get_string\<close> returns the whole zero-terminated string of the traced process when it fits
  into the buffer with its terminating zero, although it reads whole words at once. A
  longer string makes it write the terminating zero behind the end of the buffer.
\<close>

theorem get_string_spec:
  assumes mem: "tracee_memory E pid mem" and str: "c_string (mem (world s)) ptr len"
  shows "get_string E pid ptr sz s =
    (if len < sz then Inr (chars (read_bytes (mem (world s)) ptr len), s) else Inl Out_of_bounds)"
proof -
  have "peek_text E pid (world s) = peek_mem (mem (world s))"
    using mem by (simp add: fun_eq_iff peek_text_def tracee_memory_def)
  with get_string_loop [OF str, of 0 sz] show ?thesis by (simp add: get_string_def run)
qed

section \<open>Witnesses\<close>

definition logging_st :: "kernel st" where
  "logging_st = sample_st\<lparr>procs := [0 \<mapsto> sample_proc\<lparr>strace_out := Some []\<rparr>],
     world := sample_kernel\<lparr>k_mem := write_bytes 4096 [97, 98] (\<lambda>_. 0)\<rparr>\<rparr>"


theorem get_string_spec_witness:
  "get_string sample_env 100 4096 8 logging_st = Inr (''ab'', logging_st) \<and>
   get_string sample_env 100 4096 2 logging_st = Inl Out_of_bounds"
proof -
  have mem: "k_mem (world logging_st) = write_bytes 4096 [97, 98] (\<lambda>_. 0)" by (simp add: logging_st_def)
  have "c_string (write_bytes 4096 [97, 98] (\<lambda>_. 0)) 4096 2"
    by code_simp
  moreover have "chars (read_bytes (write_bytes 4096 [97, 98] (\<lambda>_. 0)) 4096 2) = ''ab''" by code_simp
  moreover have "tracee_memory sample_env 100 k_mem" by (rule sample_memory)
  ultimately show ?thesis by (simp add: get_string_spec mem)
qed

end
