(* ===== verification/Handler_Invariants.thy ===== *)
theory Handler_Invariants
  imports Data_Utils Process_Properties Log_Properties
begin

text \<open>
  What every handler keeps. The descriptors and the tables of hosts and ports are only changed
  by a few operations; a property of them that these operations keep, and that the other
  simulated processes keep while the calling one is blocked, is kept by every system
  call, by \<open>process_handle\<close> as a whole and by the main loops.
\<close>

section \<open>The kind of a descriptor\<close>

text \<open>
  The fields of a descriptor that tell what it is. Only the creation of a descriptor sets them.
\<close>

definition kind :: "fd_descriptor_t \<Rightarrow> int \<times> pipe_ptr option \<times> infos_socket option" where
  "kind d = (fd_type d, fd_pipe d, as_socket d)"

lemma kind_refl [keep]: "kind d = kind d"
  by (rule refl)

lemma kind_update [keep]:
  assumes "kind e = k"
  shows "kind (e\<lparr>fd_stream := stream\<rparr>) = k" "kind (e\<lparr>fd_refcount := n\<rparr>) = k" "kind (e\<lparr>fd_flags := flags\<rparr>) = k"
    "kind (e\<lparr>fd_offset := offset\<rparr>) = k" "kind (e\<lparr>fd_lock := lock\<rparr>) = k" "kind (e\<lparr>fd_ltype := ltype\<rparr>) = k"
    "kind (e\<lparr>fd_begin := low\<rparr>) = k" "kind (e\<lparr>fd_end := high\<rparr>) = k" "kind (e\<lparr>fd_proc_locker := locker\<rparr>) = k"
    "kind (e\<lparr>fd_sig_id := owner\<rparr>) = k" "kind (set_lock_range fl e) = k"
  using assms by (simp_all add: kind_def set_lock_range_def Let_def)

text \<open>
  A well-typed descriptor: an object allocated as a socket is marked as one, and a pipe has
  its pipe.
\<close>

definition typed_fd :: "fd_descriptor_t \<Rightarrow> bool" where
  "typed_fd d \<longleftrightarrow> (as_socket d \<noteq> None \<longrightarrow> fd_type d = FD_SOCKET) \<and> (fd_type d = FD_PIPE \<longrightarrow> fd_pipe d \<noteq> None)"

lemma typed_fd_kind: "kind e = kind d \<Longrightarrow> typed_fd e = typed_fd d"
  by (simp add: typed_fd_def kind_def)

lemma typed_new [keep]:
  "typed_fd ((zero_desc p)\<lparr>fd_refcount := n, fd_fd := fd, fd_type := FD_CLASSIC, fd_flags := flags, fd_mode := mode, fd_offset := offset, fd_lock := lock\<rparr>)"
  "typed_fd ((zero_desc p)\<lparr>fd_refcount := n, fd_fd := fd, fd_type := FD_PIPE, fd_pipe := Some q\<rparr>)"
  "typed_fd ((zero_desc p)\<lparr>fd_type := FD_SOCKET, fd_fd := fd, as_socket := i\<rparr>)"
  "typed_fd ((zero_desc p)\<lparr>fd_refcount := n, fd_type := initial_fd_type fd, fd_proc := p', fd_fd := fd, fd_flags := flags\<rparr>)"
  by (simp_all add: typed_fd_def zero_desc_def initial_fd_type_def fd_types)

section \<open>The contract\<close>

locale simulator_invariant =
  fixes E :: "'w env" and I :: "'w st \<Rightarrow> bool"
  assumes frame: "fds t = fds s \<Longrightarrow> list_host (global_data t) = list_host (global_data s) \<Longrightarrow>
      list_ip (global_data t) = list_ip (global_data s) \<Longrightarrow> I t \<longleftrightarrow> I s"
    and register_port_keeps: "keeps I (register_port E host port)"
    and set_port_on_binding_keeps: "keeps I (set_port_on_binding E host port is device)"
    and set_real_port_keeps: "keeps I (set_real_port E host port real)"
    and unset_socket_keeps: "keeps I (unset_socket E pid is)"
    and upd_desc_keeps: "(\<And>d. kind (f d) = kind d) \<Longrightarrow> keeps I (upd_desc a f)"
    and upd_sock_keeps: "keeps I (upd_sock a g)"
    and new_desc_keeps: "typed_fd d \<Longrightarrow> keeps I (new_desc d)"
    and free_desc_keeps: "keeps I (free_desc a)"
    and fcntl_dup_keeps: "keeps I (fcntl_dup reg proc a h)"
    and clone_fd_keeps: "keeps I (clone_fd proc clone fd)"
    and others_keep: "I s \<Longrightarrow> I (MSG_sem_acquire E sem s)"
      "I s \<Longrightarrow> I (MSG_task_send E task mailbox s)"
      "I s \<Longrightarrow> I (snd (MSG_task_receive E mailbox s))"
      "I s \<Longrightarrow> I (snd (MSG_task_irecv E mailbox s))"
      "I s \<Longrightarrow> I (snd (MSG_comm_wait E comm timeout s))"

text \<open>The log is not part of them, so printing keeps them.\<close>

sublocale simulator_invariant \<subseteq> log: log_frame I
  by unfold_locales (intro frame unlogged_frame)

context simulator_invariant
begin

section \<open>The primitives\<close>

declare register_port_keeps [keep] set_port_on_binding_keeps [keep] set_real_port_keeps [keep]
  unset_socket_keeps [keep] upd_desc_keeps [keep] upd_sock_keeps [keep] new_desc_keeps [keep] free_desc_keeps [keep]
  fcntl_dup_keeps [keep] clone_fd_keeps [keep]

lemma keeps_frame:
  assumes "\<And>s x t. m s = Inr (x, t) \<Longrightarrow> fds t = fds s \<and> list_host (global_data t) = list_host (global_data s) \<and>
     list_ip (global_data t) = list_ip (global_data s)"
  shows "keeps I m"
proof (rule keepsI)
  fix s x t assume I: "I s" and run: "m s = Inr (x, t)"
  from assms [OF run] frame [of t s] I show "I t" by blast
qed

lemma keeps_heap [keep]:
  "keeps I (get_proc a)" "keeps I (upd_proc a pf)" "keeps I (get_desc a)"
  "keeps I (get_comm a)" "keeps I (upd_comm a cf)"
  "keeps I (get_pipe a)" "keeps I (upd_pipe a qf)"
  "keeps I (get_stream a)" "keeps I (upd_stream a sf)"
  "keeps I (get_sock a)" "keeps I (sock_of d)"
  by (rule keeps_frame; auto simp: run split: option.splits)+

lemma keeps_new [keep]:
  "keeps I (new_comm c)" "keeps I (new_pipe q)" "keeps I (new_stream x)" "keeps I (new_proc p)"
  "keeps I (free_comm a)" "keeps I (free_pipe a)" "keeps I (free_proc a)"
  by (rule keeps_frame; auto simp: run split: option.splits)+

lemma keeps_globals [keep]:
  "keeps I increment_nb_peek" "keeps I increment_nb_poke" "keeps I increment_nb_getregs" "keeps I increment_nb_setregs"
  "keeps I increment_nb_syscall" "keeps I increment_nb_setoptions" "keeps I increment_nb_detach"
  "keeps I increment_nb_geteventmsg" "keeps I (add_new_translation real port ip)"
  by (rule keeps_frame; auto simp: run increment_defs add_new_translation_def port_key_def split: if_splits)+

lemma keeps_modify_frame [keep]:
  "keeps I (modify (\<lambda>s. s\<lparr>all_sockets := f1 s\<rparr>))" "keeps I (modify (\<lambda>s. s\<lparr>comm_list := f2 s\<rparr>))"
  "keeps I (modify (\<lambda>s. s\<lparr>clone_number := f3 s\<rparr>))" "keeps I (modify (\<lambda>s. s\<lparr>binding_port := f4 s\<rparr>))"
  by (rule keeps_frame; auto simp: run)+

lemma keeps_world [keep]: "keeps I (get_world f)" "keeps I (upd_world g)" "keeps I (call_world h)"
  by (rule keeps_frame; auto simp: run split: prod.splits)+

lemma keeps_call_block: "(\<And>s. I s \<Longrightarrow> I (snd (f s))) \<Longrightarrow> keeps I (call_block f)"
proof (rule keepsI)
  fix s x t
  assume "\<And>s. I s \<Longrightarrow> I (snd (f s))" "I s" "call_block f s = Inr (x, t)"
  then have "I (snd (f s))" by blast
  with \<open>call_block f s = Inr (x, t)\<close> show "I t" by (simp add: run_call_block)
qed

lemma keeps_blocking [keep]:
  "keeps I (call_block (\<lambda>s. ((), MSG_sem_acquire E sem s)))"
  "keeps I (call_block (\<lambda>s. ((), MSG_task_send E task mailbox s)))"
  "keeps I (call_block (MSG_task_receive E mailbox))"
  "keeps I (call_block (MSG_task_irecv E mailbox))"
  "keeps I (call_block (MSG_comm_wait E comm timeout))"
  by (rule keeps_call_block; simp add: others_keep)+

lemma keeps_msg_error [keep]:
  "keeps I m1 \<Longrightarrow> keeps I m2 \<Longrightarrow> keeps I m3 \<Longrightarrow>
     keeps I (case err of MSG_OK \<Rightarrow> m1 | MSG_TIMEOUT \<Rightarrow> m2 | MSG_FAILURE \<Rightarrow> m3)"
  by (cases err) simp_all

section \<open>Tables, sockets and communications\<close>

lemma keeps_tables [keep]:
  "keeps I (process_descriptor_get_fd proc fd)" "keeps I (process_descriptor_set_fd proc fd v)"
  "keeps I (proc_entering proc)" "keeps I (proc_inside proc)" "keeps I (proc_outside proc)"
  unfolding process_descriptor_get_fd_def process_descriptor_set_fd_def proc_entering_def proc_inside_def proc_outside_def
  by (intro keep)+

lemma keeps_data_utils [keep]:
  "keeps I (port_key port)" "keeps I (get_host_desc E host)" "keeps I (is_port_in_use E host port)"
  "keeps I (get_binding_socket_host E host port device)" "keeps I (get_ip_of_host E host)" "keeps I (get_host_by_ip E ip)"
  "keeps I (get_random_port E host)" "keeps I (get_translation real)" "keeps I (get_real_port E proc ip port)"
  unfolding port_key_def get_host_desc_def is_port_in_use_def get_binding_socket_host_def get_ip_of_host_def
    get_host_by_ip_def get_random_port_def get_translation_def get_real_port_def
  by (intro keep)+

lemma keeps_sockets [keep]:
  "keeps I (get_infos_socket proc fd)" "keeps I (socket_attribute f dflt proc fd)"
  "keeps I (get_domain_socket proc fd)" "keeps I (get_protocol_socket proc fd)" "keeps I (get_type_socket proc fd)"
  "keeps I (socket_registered proc fd)" "keeps I (socket_netlink proc fd)" "keeps I (socket_network proc fd)"
  "keeps I (socket_get_flags proc fd)" "keeps I (socket_get_option proc fd opt)" "keeps I (socket_set_option proc fd opt val)"
  "keeps I (register_socket proc fd domain type protocol)" "keeps I (delete_socket is)"
  "keeps I (set_localaddr_port_socket proc fd ip port)"
  unfolding get_infos_socket_def socket_attribute_def get_domain_socket_def get_protocol_socket_def get_type_socket_def
    socket_registered_def socket_netlink_def socket_network_def socket_get_flags_def socket_get_option_def
    socket_set_option_def register_socket_def confirm_register_socket_def delete_socket_def set_localaddr_port_socket_def
  by (intro keep)+

lemma keeps_communication [keep]:
  "keeps I (comm_new is)" "keeps I (unref_socket sock)" "keeps I (comm_destroy comm)" "keeps I (comm_of is)"
  "keeps I (comm_get_peer is)" "keeps I (comm_get_own_recv is)" "keeps I (comm_get_peer_recv is)"
  "keeps I (drop_socket E sock)" "keeps I (comm_close E is)" "keeps I (comm_shutdown is)" "keeps I (comm_set_listen comm)"
  "keeps I (comm_ask_connect E host port proc fd device)" "keeps I (comm_join_on_accept is proc fd)"
  "keeps I (first_waiting is)" "keeps I (comm_get_ip_port_accept is inp)" "keeps I (comm_accept_connect is)"
  "keeps I (comm_has_connect_waiting sock)" "keeps I (comm_getpeername is b)"
  unfolding comm_new_def unref_socket_def comm_destroy_def comm_of_def comm_get_peer_def comm_get_own_recv_def
    comm_get_peer_recv_def drop_socket_def comm_close_def comm_shutdown_def comm_set_listen_def comm_ask_connect_def
    comm_join_on_accept_def first_waiting_def comm_get_ip_port_accept_def comm_accept_connect_def
    comm_has_connect_waiting_def comm_getpeername_def
  by (intro keep)+

lemma keeps_recv [keep]: "keeps I (get_recv r)" "keeps I (upd_recv r f)"
  by (cases r; simp; intro keep)+

lemma keeps_sending [keep]:
  "keeps I (comm_get_socket_state is)" "keeps I (socket_get_state is)" "keeps I (comm_send_data is tci)"
  "keeps I (create_send_communication_task E proc is amount sender receiver)" "keeps I (send_task E h task)"
  "keeps I (handle_new_send E reg is data)" "keeps I (socket_close E proc fd)"
  unfolding socket_get_state_def comm_get_socket_state_def comm_send_data_def create_send_communication_task_def
    send_task_def handle_new_send_def socket_close_def Let_def
  by (intro keep)+

section \<open>The traced process\<close>

lemma keeps_ptrace_peek [keep]: "keeps I (ptrace_peek E pid a)" "keeps I (store_long sz dst v)"
  unfolding ptrace_peek_def store_long_def by (intro keep)+

lemma keeps_ptrace_loops [keep]:
  "keeps I (ptrace_cpy_loop E pid sz src i c len dst)"
  "keeps I (ptrace_poke_loop E pid a bs c len)"
proof (induction "len - c" arbitrary: i c dst rule: less_induct)
  case less
  { case 1 show ?case by (subst ptrace_cpy_loop.simps) (intro keep less; simp) }
  { case 2 show ?case by (subst ptrace_poke_loop.simps) (intro keep less; simp) }
qed

lemma keeps_ptrace [keep]:
  "keeps I (ptrace_cpy E pid sz src len)" "keeps I (ptrace_poke E pid a bs len)" "keeps I (ptrace_getregs E pid)"
  "keeps I (ptrace_setregs E pid regs)" "keeps I (ptrace_resume_process E pid)" "keeps I (ptrace_detach_process E pid)"
  "keeps I (waitpid E pid)" "keeps I (ptrace_rewind_syscalls E pid)" "keeps I (ptrace_record_socket E pid)"
  "keeps I (ptrace_get_register E pid)" "keeps I (ptrace_neutralize_syscall E pid)"
  "keeps I (ptrace_restore_syscall E pid nr r)" "keeps I (ptrace_get_pid_clone E pid)"
  "keeps I (ptrace_find_free_binding_port E pid)"
  unfolding ptrace_cpy_def ptrace_poke_def ptrace_getregs_def ptrace_setregs_def ptrace_resume_process_def
    ptrace_detach_process_def waitpid_def ptrace_rewind_syscalls_def ptrace_record_socket_def ptrace_get_register_def
    ptrace_neutralize_syscall_def ptrace_restore_syscall_def ptrace_get_pid_clone_def ptrace_find_free_binding_port_def
    find_port_step_def decrement_binding_port_def Let_def
  by (intro keep)+

section \<open>The handlers\<close>

lemma keeps_if_strace [keep]: "keeps I m \<Longrightarrow> keeps I (if_strace m)"
  unfolding if_strace_def by (intro keep)

lemma keeps_refcount [keep]: "keeps I (refcount_incr a)" "keeps I (refcount_decr a)"
  unfolding refcount_incr_def refcount_decr_def by (intro keep)+

lemma keeps_open [keep]: "keeps I (syscall_open E reg proc)" "keeps I (syscall_creat E reg proc)"
  unfolding syscall_open_def syscall_creat_def syscall_creat_post_def by (intro keep)+

lemma keeps_remove_ends [keep]: "keeps I (remove_ends fd pid ends)"
  by (induction ends rule: remove_ends.induct [of "\<lambda>_ _ ends. keeps I (remove_ends fd pid ends)", case_names Nil Cons])
    (auto intro!: keep)

lemma keeps_close [keep]: "keeps I (process_close_call E proc fd)" "keeps I (syscall_close E reg proc)"
  unfolding syscall_close_def process_close_call_def close_pipe_end_def by (intro keep)+

lemma keeps_dup [keep]: "keeps I (syscall_dup reg proc)" "keeps I (syscall_dup2 E reg proc)"
  unfolding syscall_dup_def syscall_dup_post_def syscall_dup2_def syscall_dup2_post_def dup_pipe_def dup_ends_def Let_def
  by (intro keep)+

lemma keeps_files [keep]:
  "keeps I (syscall_pipe E reg proc)" "keeps I (syscall_lseek E reg proc)"
  "keeps I (fcntl_command reg proc cmd lock fdesc)" "keeps I (syscall_fcntl E reg proc)"
  unfolding syscall_pipe_def syscall_pipe_post_def new_pipe_fd_def syscall_lseek_def process_lseek_call_def
    syscall_fcntl_def process_fcntl_call_def fcntl_command_def Let_def
  by (intro keep)+

lemma keeps_simple [keep]:
  "keeps I (syscall_brk reg proc)" "keeps I (syscall_getpid reg proc)" "keeps I (syscall_tuxcall E reg proc)"
  "keeps I (syscall_default reg proc)" "keeps I (syscall_exit E reg proc)"
  unfolding syscall_brk_def syscall_getpid_def syscall_tuxcall_def syscall_tuxcall_post_def syscall_default_def syscall_exit_def
  by (intro keep)+

lemma keeps_read_descriptors [keep]: "keeps I (read_descriptors proc keys)"
  by (induction keys) (auto intro!: keep)

lemma keeps_execve [keep]: "keeps I (syscall_execve E reg proc)"
  unfolding syscall_execve_def by (intro keep)

lemma keeps_register_entries [keep]: "keeps I (register_entries proc dir_fd entries)"
  by (induction entries)
    (auto intro!: keep simp: register_file_descriptor_def Let_def)

lemma keeps_process_new [keep]: "keeps I (process_descriptor_new E name argv0 pid)"
  unfolding process_descriptor_new_def by (intro keep)

lemma keeps_clone_ends [keep]: "keeps I (clone_ends clone pid ends)"
  by (induction ends) (auto intro!: keep)

lemma keeps_clone_fds [keep]: "keeps I (clone_fds proc clone keys)"
  by (induction keys) (auto intro!: keep)

lemma keeps_clone [keep]: "keeps I (syscall_clone E reg proc)"
  unfolding syscall_clone_def syscall_clone_child_def start_clone_def Let_def by (intro keep)

lemma keeps_connection_parts [keep]:
  "keeps I (restore_int E pid nr reg)" "keeps I (copy_sockaddr E pid domain addr)" "keeps I (initialised v)"
  "keeps I (proc_host proc)" "keeps I (sock_at_fd proc fd)" "keeps I (stream_of a)" "keeps I (sem_acquire E f a)"
  "keeps I (sem_release E f a)"
  unfolding restore_int_def copy_sockaddr_def initialised_def proc_host_def sock_at_fd_def stream_of_def sem_acquire_def
    sem_release_def stream_sem_def
  by (intro keep)+

lemma keeps_bind [keep]: "keeps I (syscall_socket reg proc)" "keeps I (syscall_bind E reg proc)" "keeps I (syscall_listen E reg proc)"
  unfolding syscall_socket_def syscall_bind_def syscall_bind_pre_def syscall_bind_post_def bind_network_def syscall_listen_def
    process_listen_call_def Let_def
  by (intro keep)+

lemma keeps_connect_parts [keep]:
  "keeps I (sys_translate_connect_in E reg proc)" "keeps I (sys_translate_connect_out E reg proc)"
  "keeps I (refuse_connect E reg proc pid)" "keeps I (connect_host E own ip)"
  "keeps I (process_connect_in_call E reg proc)"
  unfolding sys_translate_connect_in_def sys_translate_connect_out_def refuse_connect_def connect_host_def
    process_connect_in_call_def Let_def
  by (intro keep)+

lemma keeps_strtok [keep]: "keeps I (strtok_end d cells)" "keeps I (strtok d cells)"
proof -
  show "keeps I (strtok_end d cells)" for cells by (induction d cells rule: strtok_end.induct) (auto intro!: keep)
  then show "keeps I (strtok d cells)" for cells by (induction d cells rule: strtok.induct) (auto intro!: keep)
qed

lemma keeps_strncpy [keep]: "keeps I (strncpy_cells n cells)"
  by (induction n cells rule: strncpy_cells.induct) (auto intro!: keep)

lemma keeps_addr_port_lines [keep]: "keeps I (get_addr_port_lines num buff lines)"
  by (induction lines arbitrary: buff) (auto intro!: keep simp: Let_def)

lemma keeps_local_port [keep]: "keeps I (socket_get_local_port E proc fd)"
  unfolding socket_get_local_port_def get_addr_port_def link_number_def Let_def by (intro keep)

lemma keeps_connect [keep]:
  assumes "\<And>p. keeps I (handle p)"
  shows "keeps I (syscall_connect E handle reg proc)"
  unfolding syscall_connect_def syscall_connect_pre_def syscall_connect_post_def Let_def by (intro keep assms)

lemma keeps_accept [keep]: "keeps I (syscall_accept E reg proc)"
  unfolding syscall_accept_def syscall_accept_pre_def accept_waiting_def new_accept_stream_def process_accept_out_call_def
    accepted_ip_def sys_translate_accept_out_def Let_def
  by (intro keep)

lemma keeps_options [keep]:
  "keeps I (syscall_shutdown E reg proc)" "keeps I (syscall_getpeername E reg proc)" "keeps I (syscall_getsockopt E reg proc)"
  "keeps I (syscall_setsockopt E reg proc)"
  unfolding syscall_shutdown_def syscall_shutdown_pre_def syscall_shutdown_post_def syscall_getpeername_def
    syscall_getpeername_pre_def getpeername_network_def syscall_getsockopt_def syscall_getsockopt_pre_def
    syscall_getsockopt_post_def syscall_setsockopt_def syscall_setsockopt_pre_def syscall_setsockopt_post_def Let_def
  by (intro keep)+

lemma keeps_data_parts [keep]:
  "keeps I (copy_data E pid addr n)" "keeps I (poke_data E pid addr data n)" "keeps I (choose_mailbox E a)"
  "keeps I (receive_task E mailbox)" "keeps I (process_send_call E reg proc data)"
  unfolding copy_data_def poke_data_def choose_mailbox_def receive_task_def process_send_call_def Let_def
  by (intro keep)+

lemma keeps_read_write [keep]: "keeps I (syscall_read E reg proc)" "keeps I (syscall_write E reg proc)"
  unfolding syscall_read_def read_socket_def read_pipe_def process_read_out_call_def syscall_write_def write_data_def
    write_pipe_def Let_def
  by (intro keep)+

lemma keeps_sendto [keep]: "keeps I (syscall_sendto E reg proc)"
  unfolding syscall_sendto_def syscall_sendto_pre_def syscall_sendto_post_def connectionless_def copy_addr_buffers_def
    print_sendto_def sys_translate_sendto_in_def sys_translate_sendto_out_def Let_def
  by (intro keep)

lemma keeps_recvfrom [keep]: "keeps I (syscall_recvfrom E reg proc)"
  unfolding syscall_recvfrom_def syscall_recvfrom_pre_def syscall_recvfrom_post_def recvfrom_socket_def translate_recvfrom_def
    process_recvfrom_out_call_def sys_translate_recvfrom_out_def print_recvfrom_def Let_def
  by (intro keep)

lemma keeps_read_iovec [keep]: "keeps I (read_iovec E pid iov i)" "keeps I (read_msghdr E pid addr)" "keeps I (realloc n)"
  unfolding read_iovec_def read_msghdr_def realloc_def by (intro keep)+

lemma keeps_iovecs [keep]:
  "keeps I (gather_iovecs E pid iov i n data len)" "keeps I (sum_iovecs E pid iov i n len)"
  "keeps I (scatter_iovecs E pid iov i n data len)"
  by (induction n arbitrary: i data len) (auto intro!: keep)

lemma keeps_messages [keep]: "keeps I (syscall_sendmsg E reg proc)" "keeps I (syscall_recvmsg E reg proc)"
  unfolding syscall_sendmsg_def syscall_recvmsg_def syscall_recvmsg_pre_def syscall_recvmsg_post_def recvmsg_socket_def
    sys_build_recvmsg_def Let_def
  by (intro keep)+

lemma keeps_poll [keep]: "keeps I (syscall_poll E reg proc)" "keeps I (syscall_select proc)"
  unfolding syscall_poll_def syscall_poll_pre_def syscall_poll_post_def read_pollfds_def poll_irecv_def poll_result_def
    syscall_select_def syscall_select_pre_def Let_def
  by (intro keep)+

section \<open>The whole of \<open>process_handle\<close>\<close>

lemma keeps_dispatch [keep]:
  assumes "\<And>p. keeps I (handle p)"
  shows "keeps I (dispatch E handle reg proc)"
  unfolding dispatch_def breaks_def returns_nonzero_def Let_def by (intro keep assms)

lemma keeps_process_handle [keep]: "keeps I (process_handle depth E proc)"
proof (induction depth arbitrary: proc)
  case (Suc depth)
  show ?case
    unfolding process_handle.simps handle_step_def wait_status_def by (intro keep Suc)
qed (simp add: keep)

section \<open>The main loops\<close>

lemma keeps_destroy_tasks [keep]: "keeps I (destroy_tasks E tasks)"
  by (induction tasks) (auto intro!: keep)

lemma keeps_close_communications [keep]: "keeps I (close_communications E proc keys)"
  by (induction keys) (auto intro!: keep simp: close_communication_def)

lemma keeps_release_fds [keep]: "keeps I (release_fds proc keys)"
  by (induction keys) (simp_all only: release_fds.simps, (intro keep; assumption?)+)

lemma keeps_process_die [keep]: "keeps I (process_die E proc)"
  unfolding process_die_def close_all_communication_def process_descriptor_destroy_def by (intro keep)

lemma keeps_runner [keep]: "keeps I (simterpose_process_runner depth E argv0)" "keeps I (main_loop depth E proc)"
  unfolding simterpose_process_runner_def main_loop_def main_loop_step_def runner_step_def wait_or_die_def wait_status_def
  by (intro keep)+

end

end
