(* ===== verification/Host_Invariants.thy ===== *)
theory Host_Invariants
  imports Hosts_And_Ports Handler_Invariants
begin

text \<open>
  The invariants: the tables of ports stay well formed and the addresses of the hosts
  never change.
\<close>

section \<open>Properties of the tables of hosts\<close>

text \<open>
  For a property of the tables of hosts and ports alone, the four operations of
  \<open>data_utils.c\<close> are what is left of the contract.
\<close>

locale host_invariant =
  fixes E :: "'w env" and I :: "'w st \<Rightarrow> bool"
  assumes tables: "list_host (global_data t) = list_host (global_data s) \<Longrightarrow>
      list_ip (global_data t) = list_ip (global_data s) \<Longrightarrow> I t \<longleftrightarrow> I s"
    and ports_kept: "keeps I (register_port E host port)" "keeps I (set_port_on_binding E host port is device)"
      "keeps I (set_real_port E host port real)" "keeps I (unset_socket E pid is)"
    and blocking: "I s \<Longrightarrow> I (MSG_sem_acquire E sem s)"
      "I s \<Longrightarrow> I (MSG_task_send E task mailbox s)"
      "I s \<Longrightarrow> I (snd (MSG_task_receive E mailbox s))"
      "I s \<Longrightarrow> I (snd (MSG_task_irecv E mailbox s))"
      "I s \<Longrightarrow> I (snd (MSG_comm_wait E comm timeout s))"
begin

lemma keeps_tables:
  assumes "\<And>s x t. m s = Inr (x, t) \<Longrightarrow> list_host (global_data t) = list_host (global_data s) \<and>
     list_ip (global_data t) = list_ip (global_data s)"
  shows "keeps I m"
proof (rule keepsI)
  fix s x t assume I: "I s" and run: "m s = Inr (x, t)"
  from assms [OF run] tables [of t s] I show "I t" by blast
qed

lemma keeps_descriptors:
  "keeps I (upd_desc a f)" "keeps I (upd_sock a g)" "keeps I (new_desc d)" "keeps I (free_desc a)"
  by (rule keeps_tables; auto simp: run split: option.splits)+

lemma keeps_objects:
  "keeps I (get_proc p)" "keeps I (upd_proc p pf)" "keeps I (get_desc a)" "keeps I (get_pipe q)" "keeps I (upd_pipe q qf)"
  by (rule keeps_tables; auto simp: run split: option.splits)+

lemma keeps_copied_ends: "keeps I (clone_ends clone pid ends)"
  by (induction ends) (auto intro!: keep keeps_descriptors keeps_objects)

lemma keeps_copies: "keeps I (fcntl_dup reg proc a h)" "keeps I (clone_fd proc clone fd)"
  unfolding fcntl_dup_def clone_fd_def clone_pipe_def process_descriptor_get_fd_def process_descriptor_set_fd_def
  by (intro keep keeps_descriptors keeps_objects keeps_copied_ends)+

end

sublocale host_invariant \<subseteq> handlers: simulator_invariant E I
  by unfold_locales (rule tables ports_kept blocking keeps_descriptors keeps_copies; assumption?)+

section \<open>The invariants\<close>

text \<open>
  The other simulated processes run while the calling one is blocked. \<open>cooperative E I\<close>: a
  blocking call keeps \<open>I\<close>. \<open>relying E I\<close> is the invariant under this condition on
  the engine, which makes it an invariant for every engine.
\<close>

definition cooperative :: "'w env \<Rightarrow> ('w st \<Rightarrow> bool) \<Rightarrow> bool" where
  "cooperative E I \<longleftrightarrow>
     (\<forall>s. I s \<longrightarrow> (\<forall>sem. I (MSG_sem_acquire E sem s)) \<and> (\<forall>task m. I (MSG_task_send E task m s)) \<and>
        (\<forall>m. I (snd (MSG_task_receive E m s))) \<and> (\<forall>m. I (snd (MSG_task_irecv E m s))) \<and>
        (\<forall>c d. I (snd (MSG_comm_wait E c d s))))"

definition relying :: "'w env \<Rightarrow> ('w st \<Rightarrow> bool) \<Rightarrow> 'w st \<Rightarrow> bool" where
  "relying E I s \<longleftrightarrow> (cooperative E I \<longrightarrow> I s)"

lemma keeps_relying: "keeps I m \<Longrightarrow> keeps (relying E I) m"
  by (auto simp: keeps_def relying_def)

lemma keeps_from_relying: "keeps (relying E I) m \<Longrightarrow> cooperative E I \<Longrightarrow> keeps I m"
  by (auto simp: keeps_def relying_def)

interpretation ports: host_invariant E "relying E ports_wf" for E
proof
  show "relying E ports_wf t \<longleftrightarrow> relying E ports_wf s"
    if "list_host (global_data t) = list_host (global_data s)" for s t
    using ports_wf_globals [OF that] by (simp add: relying_def)
qed (auto intro!: keeps_relying keep simp: relying_def cooperative_def)

text \<open>The addresses of the hosts, in both directions.\<close>

definition addressing :: "'w st \<Rightarrow> (string \<rightharpoonup> u32) \<times> (string \<rightharpoonup> string)" where
  "addressing s = (\<lambda>n. map_option host_ip (list_host (global_data s) n), list_ip (global_data s))"

lemma addressing_fds [simp]: "addressing (s\<lparr>fds := f\<rparr>) = addressing s"
  by (simp add: addressing_def)

lemma addressing_set_port: "set_port_desc E host buff v s = Inr (x, t) \<Longrightarrow> addressing t = addressing s"
  by (auto simp: set_port_desc_def get_host_desc_def run addressing_def fun_eq_iff split: option.splits)

lemma keeps_addressing_set_port [keep]: "keeps (\<lambda>s. addressing s = A) (set_port_desc E host buff v)"
  by (rule keepsI) (simp add: addressing_set_port)

lemma keeps_addressing_parts [keep]:
  "keeps (\<lambda>s. addressing s = A) (get_host_desc E host)" "keeps (\<lambda>s. addressing s = A) (port_key port)"
  "keeps (\<lambda>s. addressing s = A) (upd_sock a f)" "keeps (\<lambda>s. addressing s = A) (get_sock a)"
  by (auto intro!: keepsI simp: get_host_desc_def port_key_def run split: option.splits if_splits)

interpretation addresses: host_invariant E "relying E (\<lambda>s. addressing s = A)" for E A
proof
  show "relying E (\<lambda>s. addressing s = A) t \<longleftrightarrow> relying E (\<lambda>s. addressing s = A) s"
    if "list_host (global_data t) = list_host (global_data s)" "list_ip (global_data t) = list_ip (global_data s)" for s t
    using that by (simp add: relying_def addressing_def)
  show "keeps (relying E (\<lambda>s. addressing s = A)) (register_port E host port)"
    "keeps (relying E (\<lambda>s. addressing s = A)) (set_port_on_binding E host port is device)"
    "keeps (relying E (\<lambda>s. addressing s = A)) (set_real_port E host port real)"
    "keeps (relying E (\<lambda>s. addressing s = A)) (unset_socket E pid is)" for host port real pid "is" device
    unfolding register_port_def set_port_on_binding_def set_real_port_def unset_socket_def Let_def
    by (intro keeps_relying keep)+
qed (auto simp: relying_def cooperative_def)

text \<open>
  C1. Whatever system calls a process makes, in whatever order and with whatever arguments and
  results, when \<open>process_handle\<close> returns the tables of ports are well-formed if they were
  before: every registered port has at least one user and is stored under its own number. The
  other simulated processes are assumed to keep the tables well-formed while this one is
  blocked.
\<close>

theorem process_handle_keeps_ports:
  assumes "cooperative E ports_wf" "ports_wf s" "process_handle depth E proc s = Inr (r, t)"
  shows "ports_wf t"
  using keeps_from_relying [OF ports.handlers.keeps_process_handle assms(1)] assms(2,3) by (rule keepsD)

text \<open>
  C2. The addresses of the hosts never change while the simulation runs: the whole life of a
  simulated process in \<open>simterpose_process_runner\<close>, from the fork to the closing of its
  sockets, changes neither the address of a host nor the host that an address belongs to,
  provided that the blocking calls do not.
\<close>

theorem runner_keeps_addresses:
  assumes others: "\<And>A. cooperative E (\<lambda>s. addressing s = A)"
    and run: "simterpose_process_runner depth E argv0 s = Inr (r, t)"
  shows "addressing t = addressing s"
  using keepsD [OF keeps_from_relying [OF addresses.handlers.keeps_runner(1) others] refl run] .

section \<open>Witnesses\<close>

text \<open>A process that enters \<open>exit\<close>.\<close>

definition exiting_st :: "kernel st" where
  "exiting_st = sample_st\<lparr>world := sample_kernel\<lparr>k_regs := sample_regs\<lparr>orig_rax := SYS_exit\<rparr>,
     k_wait := replicate 3 (100, 0x857F)\<rparr>\<rparr>"

lemma exiting_returns: "process_handle (Suc 0) sample_env 0 exiting_st =
    Inr (PROCESS_DEAD, detached 0 (world exiting_st) exiting_st)"
  by (rule process_handle_exit [where p = sample_proc and regs = k_regs])
    (simp_all add: exiting_st_def sample_st_def sample_proc_def sample_env_def tracee_registers_def)

lemma sample_cooperative: "(\<And>s w. I (s\<lparr>world := w\<rparr>) = I s) \<Longrightarrow> cooperative sample_env I"
  by (simp add: cooperative_def sample_env_def)

theorem process_handle_keeps_ports_witness:
  "\<exists>t. process_handle (Suc 0) sample_env 0 exiting_st = Inr (PROCESS_DEAD, t) \<and> ports_wf t"
proof -
  have "ports_wf exiting_st" using sample_ports_wf by (simp add: exiting_st_def ports_wf_def)
  moreover have "cooperative sample_env ports_wf" by (rule sample_cooperative) (simp add: ports_wf_def)
  ultimately show ?thesis using process_handle_keeps_ports [OF _ _ exiting_returns] exiting_returns by blast
qed


text \<open>The runner starts a process on the host \<open>alice\<close> that exits at once.\<close>

definition started_fd :: "int \<Rightarrow> int \<Rightarrow> fd_descriptor_t" where
  "started_fd fd type = (zero_desc 2)\<lparr>fd_refcount := 1, fd_type := type, fd_fd := fd\<rparr>"

definition started_proc :: process_descriptor where
  "started_proc = sample_proc\<lparr>fd_map := [0 \<mapsto> 3, 1 \<mapsto> 4, 2 \<mapsto> 5]\<rparr>"

definition started_st :: "kernel st" where
  "started_st = exiting_st\<lparr>procs := [0 \<mapsto> sample_proc, 2 \<mapsto> started_proc], 
     fds := (fds exiting_st)(3 \<mapsto> started_fd 0 FD_STDIN, 4 \<mapsto> started_fd 1 FD_STDOUT, 5 \<mapsto> started_fd 2 FD_STDERR),
     next_ptr := 6\<rparr>"

lemma sample_entries:
  "atoi ''0'' = 0" "atoi ''1'' = 1" "atoi ''2'' = 2" "atoi ''3'' = 3"
  "\<not> isdigit CHR ''.''" "isdigit CHR ''0''" "isdigit CHR ''1''" "isdigit CHR ''2''" "isdigit CHR ''3''"
  by code_simp+

lemma start_exiting: "process_descriptor_new sample_env ''alice'' a 100 exiting_st = Inr (2, started_st)"
  by (simp add: process_descriptor_new_def register_file_descriptor_def initial_fd_type_def sample_entries Let_def
    sample_env_def exiting_st_def sample_st_def started_st_def started_proc_def started_fd_def sample_proc_def
    zero_desc_def process_descriptor_set_fd_def run fun_upd_twist)

lemma started_order: "dict_order sample_env [0 \<mapsto> 3, 1 \<mapsto> 4, 2 \<mapsto> 5] = [0, 1, 2]"
  by (simp add: sample_env_def upt_rec)

lemma started_dies:
  assumes "procs s 2 = Some p" "fd_map p = [0 \<mapsto> 3, 1 \<mapsto> 4, 2 \<mapsto> 5]"
    "fds s 3 = Some (started_fd 0 FD_STDIN)" "fds s 4 = Some (started_fd 1 FD_STDOUT)"
    "fds s 5 = Some (started_fd 2 FD_STDERR)"
  shows "\<exists>t. process_die sample_env 2 s = Inr ((), t)"
  by (simp add: assms process_die_def close_all_communication_def close_communication_def process_descriptor_destroy_def
    started_order started_fd_def fd_types process_descriptor_get_fd_def run)

definition running_st :: "kernel st" where
  "running_st = started_st\<lparr>global_data := (global_data started_st)\<lparr>nb_setoptions := 1\<rparr>,
     world := (world exiting_st)\<lparr>k_wait := replicate 2 (100, 0x857F)\<rparr>\<rparr>"

definition stopped_st :: "kernel st" where
  "stopped_st = running_st\<lparr>procs := (procs running_st)(2 \<mapsto> started_proc\<lparr>p_status := 0x857F\<rparr>),
     global_data := (global_data running_st)\<lparr>nb_syscall := 1\<rparr>,
     world := (world running_st)\<lparr>k_wait := replicate 1 (100, 0x857F), k_running := [100]\<rparr>\<rparr>"

lemmas sample_run = started_st_def running_st_def stopped_st_def exiting_st_def

lemma stopped_exits: "process_handle (Suc 0) sample_env 2 stopped_st = Inr (PROCESS_DEAD, detached 2 (world stopped_st) stopped_st)"
  by (rule process_handle_exit [where p = "started_proc\<lparr>p_status := 0x857F\<rparr>" and regs = k_regs])
    (simp_all add: sample_run started_proc_def sample_proc_def sample_env_def tracee_registers_def)

lemma running_exits:
  "runner_step (Suc 0) sample_env 2 PROCESS_CONTINUE running_st = Inr (Inl PROCESS_DEAD, detached 2 (world stopped_st) stopped_st)"
proof -
  let ?s = "running_st\<lparr>global_data := (global_data running_st)\<lparr>nb_syscall := 1\<rparr>,
      world := (world running_st)\<lparr>k_running := [100]\<rparr>\<rparr>"
  have "ptrace_resume_process sample_env 100 running_st = Inr ((), ?s)"
    by (simp add: ptrace_resume_process_def increment_nb_syscall_def sample_env_def sample_run
      sample_kernel_def sample_regs_def sample_st_def sample_globals_def SYS_exit_def run)
  moreover have "wait_or_die sample_env 2 100 ?s = Inr ((), stopped_st)"
    by (simp add: wait_or_die_def wait_status_def sample_env_def sample_run numeral_2_eq_2 run)
  ultimately show ?thesis using stopped_exits
    by (simp add: runner_step_def PROCESS_CONTINUE_def PROCESS_DEAD_def started_proc_def sample_proc_def run
      running_st_def started_st_def)
qed

lemma runner_runs: "\<exists>t. simterpose_process_runner (Suc 0) sample_env a exiting_st = Inr (0, t)"
proof -
  have loop: "loopM (runner_step (Suc 0) sample_env 2) PROCESS_CONTINUE running_st =
      Inr ((), detached 2 (world stopped_st) stopped_st)"
    by (simp add: loopM_unfold [of _ PROCESS_CONTINUE] running_exits)
      (simp add: loopM_unfold [of _ PROCESS_DEAD] runner_step_def run)
  obtain t where die: "process_die sample_env 2 (detached 2 (world stopped_st) stopped_st) = Inr ((), t)"
    using started_dies [of "detached 2 (world stopped_st) stopped_st" "started_proc\<lparr>p_status := 0x857F, in_syscall := True\<rparr>"]
    by (auto simp: detached_def sample_run started_proc_def)
  have sys: "sys_fork sample_env (world exiting_st) = (100, world exiting_st)"
    "MSG_host_get_name sample_env (MSG_host_self sample_env (world exiting_st)) = ''alice''"
    "sys_waitpid sample_env 100 (world started_st) = ((100, 0x857F), world running_st)"
    "PTRACE_SETOPTIONS sample_env 100 (world running_st) = Some (world running_st)"
    by (simp_all add: sample_env_def sample_run numeral_3_eq_3 numeral_2_eq_2)
  have options: "started_st\<lparr>world := w, global_data := (global_data started_st)\<lparr>nb_setoptions :=
      nb_setoptions (global_data started_st) + 1\<rparr>\<rparr>\<lparr>world := world running_st\<rparr> = running_st" for w
    by (simp add: running_st_def started_st_def exiting_st_def sample_st_def sample_globals_def)
  show ?thesis
    using options by (simp add: simterpose_process_runner_def run sys start_exiting increment_nb_setoptions_def loop die)
qed

theorem runner_keeps_addresses_witness:
  "\<exists>t. simterpose_process_runner (Suc 0) sample_env ''alice'' exiting_st = Inr (0, t) \<and>
     addressing t = addressing exiting_st"
proof -
  obtain t where t: "simterpose_process_runner (Suc 0) sample_env ''alice'' exiting_st = Inr (0, t)"
    using runner_runs ..
  have "cooperative sample_env (\<lambda>s. addressing s = A)" for A
    by (rule sample_cooperative) (simp add: addressing_def)
  from runner_keeps_addresses [OF this t] t show ?thesis by blast
qed

end
