(* ===== verification/Type_Invariants.thy ===== *)
theory Type_Invariants
  imports Host_Invariants
begin

text \<open>
  The descriptors stay well typed: what is allocated as a socket is marked as one, and what is
  marked as a pipe has its pipe.
\<close>

section \<open>The types of the descriptors\<close>

definition typed :: "'w st \<Rightarrow> bool" where
  "typed s \<longleftrightarrow> (\<forall>a f. fds s a = Some f \<longrightarrow> typed_fd f)"

lemma typedD: "typed s \<Longrightarrow> fds s a = Some d \<Longrightarrow> typed_fd d"
  by (simp add: typed_def)

lemma typed_insert: "typed s \<Longrightarrow> typed_fd d \<Longrightarrow> fds t = (fds s)(a \<mapsto> d) \<Longrightarrow> typed t"
  by (simp add: typed_def)

lemma keeps_typed_frame: "(\<And>s x t. m s = Inr (x, t) \<Longrightarrow> fds t = fds s) \<Longrightarrow> keeps typed m"
  by (rule keepsI) (simp add: typed_def)

lemma keeps_typed_tables [keep]:
  "keeps typed (set_port_desc E host buff v)" "keeps typed (get_host_desc E host)" "keeps typed (port_key port)"
  "keeps typed (get_sock a)" "keeps typed (get_desc a)" "keeps typed (get_proc p)" "keeps typed (upd_proc p pf)"
  "keeps typed (get_pipe q)" "keeps typed (upd_pipe q qf)"
  by (rule keeps_typed_frame; auto simp: set_port_desc_def get_host_desc_def port_key_def run split: option.splits if_splits)+

lemma keeps_typed_new [keep]: "typed_fd d \<Longrightarrow> keeps typed (new_desc d)"
  by (rule keepsI) (auto simp: run elim: typed_insert)

lemma keeps_typed_free [keep]: "keeps typed (free_desc a)"
  by (rule keepsI) (auto simp: run typed_def split: option.splits if_splits)

lemma keeps_typed_upd_desc:
  assumes "\<And>d. kind (f d) = kind d"
  shows "keeps typed (upd_desc a f)"
proof (rule keepsI)
  fix s x t assume "typed s" "upd_desc a f s = Inr (x, t)"
  then obtain d where "fds s a = Some d" "fds t = (fds s)(a \<mapsto> f d)" by (auto simp: run split: option.splits)
  with \<open>typed s\<close> show "typed t" using typed_fd_kind [OF assms] by (metis typedD typed_insert)
qed

lemma keeps_typed_upd_sock [keep]: "keeps typed (upd_sock a g)"
proof (rule keepsI)
  fix s x t assume "typed s" "upd_sock a g s = Inr (x, t)"
  then obtain d i where "fds s a = Some d" "as_socket d = Some i" "fds t = (fds s)(a \<mapsto> d\<lparr>as_socket := Some (g i)\<rparr>)"
    by (auto simp: run split: option.splits)
  with \<open>typed s\<close> show "typed t"
    using typedD [of s a d] by (intro typed_insert [OF \<open>typed s\<close>]) (auto simp: typed_fd_def)
qed

section \<open>The copies\<close>

text \<open>
  \<open>F_DUPFD\<close> and \<open>clone\<close> copy the type and the pipe of a descriptor into a new one that is
  not allocated as a socket.
\<close>

lemma keeps_typed_bnd_desc: "(\<And>d. typed_fd d \<Longrightarrow> keeps typed (m d)) \<Longrightarrow> keeps typed (bnd (get_desc a) m)"
  by (auto simp: keeps_def run dest: typedD split: option.splits)

lemma typed_copy:
  "typed_fd d \<Longrightarrow> typed_fd c \<Longrightarrow> as_socket c = None \<Longrightarrow> typed_fd (c\<lparr>fd_proc := p, fd_refcount := n, fd_fd := fd, fd_flags := flags,
     fd_pipe := fd_pipe d, fd_stream := stream, fd_type := fd_type d\<rparr>)"
  "typed_fd d \<Longrightarrow> typed_fd ((zero_desc p)\<lparr>fd_type := fd_type d, fd_fd := fd, fd_stream := stream, fd_pipe := fd_pipe d,
     fd_flags := flags, fd_refcount := n\<rparr>)"
  by (simp_all add: typed_fd_def zero_desc_def)

lemma keeps_typed_fcntl_dup: "keeps typed (fcntl_dup reg proc a h)"
  unfolding fcntl_dup_def process_descriptor_set_fd_def process_descriptor_get_fd_def
  by (intro keeps_typed_bnd_desc keep typed_copy)

lemma keeps_typed_ends [keep]: "keeps typed (clone_ends clone pid ends)"
  by (induction ends) (auto intro!: keep)

lemma keeps_typed_clone_pipe [keep]: "keeps typed (clone_pipe clone pid q)"
  unfolding clone_pipe_def by (intro keep)

lemma typed_zero: "typed_fd (zero_desc p)"
  by (simp add: typed_fd_def zero_desc_def fd_types)

lemma typed_clone_into:
  assumes "typed s" "fds s c = Some e" "as_socket e = None"
    and copied: "bnd (get_desc a) (\<lambda>d. sq (upd_desc c (\<lambda>e. e\<lparr>fd_proc := p, fd_refcount := n, fd_fd := fd_fd d,
      fd_flags := fd_flags d, fd_pipe := fd_pipe d, fd_stream := fd_stream d, fd_type := fd_type d\<rparr>)) (rest d)) s = Inr (x, t)"
    and rest: "\<And>d. keeps typed (rest d)"
  shows "typed t"
proof -
  from copied assms(2) obtain d where d: "fds s a = Some d" and t: "rest d (s\<lparr>fds := (fds s)(c \<mapsto> e\<lparr>fd_proc := p, fd_refcount := n,
      fd_fd := fd_fd d, fd_flags := fd_flags d, fd_pipe := fd_pipe d, fd_stream := fd_stream d, fd_type := fd_type d\<rparr>)\<rparr>) = Inr (x, t)"
    by (auto simp: run split: option.splits)
  show ?thesis using assms(1-3) d
    by (intro keepsD [OF rest _ t] typed_insert [OF assms(1)]) (auto intro: typed_copy dest: typedD)
qed

lemma keeps_typed_clone_fd: "keeps typed (clone_fd proc clone fd)"
proof (rule keepsI)
  fix s x t assume typed: "typed s" and cloned: "clone_fd proc clone fd s = Inr (x, t)"
  have rest: "keeps typed (bnd (get_proc clone) (\<lambda>cp. whenM (fd_type d = FD_PIPE) (clone_pipe clone (p_pid cp) (fd_pipe d))))"
    for d by (intro keep)
  show "typed t"
  proof (cases "\<exists>p a. procs s proc = Some p \<and> fd_map p fd = Some a")
    case True
    with cloned obtain a c u v where new: "new_desc (zero_desc clone) s = Inr (c, u)"
        "process_descriptor_set_fd clone fd (Some c) u = Inr ((), v)"
      and copied: "bnd (get_desc a) (\<lambda>d. sq (upd_desc c (\<lambda>e. e\<lparr>fd_proc := clone, fd_refcount := 0, fd_fd := fd_fd d,
        fd_flags := fd_flags d, fd_pipe := fd_pipe d, fd_stream := fd_stream d, fd_type := fd_type d\<rparr>))
        (bnd (get_proc clone) (\<lambda>cp. whenM (fd_type d = FD_PIPE) (clone_pipe clone (p_pid cp) (fd_pipe d))))) v = Inr ((), t)"
      by (auto simp: clone_fd_def run_bnd [of _ _ s] run_get_fd run_sq [of "process_descriptor_set_fd _ _ _"]
        split: option.splits sum.splits prod.splits)
    from new have v: "fds v = (fds s)(c \<mapsto> zero_desc clone)"
      by (auto simp: process_descriptor_set_fd_def run split: option.splits)
    show ?thesis
      by (rule typed_clone_into [OF typed_insert [OF typed typed_zero v] _ _ copied rest, where e = "zero_desc clone"])
        (simp_all add: v zero_desc_def)
  next
    case False
    with cloned typed show ?thesis by (auto simp: clone_fd_def run split: option.splits)
  qed
qed

lemma keeps_typed_ports:
  "keeps typed (register_port E host port)" "keeps typed (set_port_on_binding E host port is device)"
  "keeps typed (set_real_port E host port real)" "keeps typed (unset_socket E pid is)"
  unfolding register_port_def set_port_on_binding_def set_real_port_def unset_socket_def Let_def
  by (intro keep)+

interpretation types: simulator_invariant E "relying E typed" for E
proof
  show "relying E typed t \<longleftrightarrow> relying E typed s" if "fds t = fds s" for s t
    using that by (simp add: relying_def typed_def)
  show "keeps (relying E typed) (upd_desc a f)" if "\<And>d. kind (f d) = kind d" for a f
    using that by (intro keeps_relying keeps_typed_upd_desc)
qed (simp_all add: keeps_relying keeps_typed_ports keeps_typed_fcntl_dup keeps_typed_clone_fd keeps_typed_new
  keeps_typed_free keeps_typed_upd_sock relying_def cooperative_def)

section \<open>The property\<close>

text \<open>
  C3. Whatever system calls a process makes, the descriptors that the simulator keeps stay well
  typed: every descriptor that was allocated as a socket is marked \<open>FD_SOCKET\<close>, so that
  it is never taken for a file or a pipe, and every descriptor that is marked \<open>FD_PIPE\<close>
  has its pipe, also when it was made by \<open>dup\<close>, \<open>fcntl\<close> or \<open>clone\<close>. The
  other simulated processes are assumed to keep them well typed while this one is blocked.
\<close>

theorem descriptors_stay_typed:
  assumes "cooperative E typed" "typed s" "process_handle depth E proc s = Inr (r, t)"
  shows "typed t"
  using keeps_from_relying [OF types.keeps_process_handle assms(1)] assms(2,3) by (rule keepsD)

theorem descriptors_stay_typed_witness:
  "\<exists>t. process_handle (Suc 0) sample_env 0 exiting_st = Inr (PROCESS_DEAD, t) \<and> typed t"
proof -
  have "typed exiting_st"
    by (simp add: typed_def typed_fd_def exiting_st_def sample_st_def sample_fd_def zero_desc_def fd_types)
  moreover have "cooperative sample_env typed" by (rule sample_cooperative) (simp add: typed_def)
  ultimately show ?thesis using descriptors_stay_typed [OF _ _ exiting_returns] exiting_returns by blast
qed

end
