(* ===== verification/Queues.thy ===== *)
theory Queues
  imports Prelude
begin

text \<open>
  The contract of a queue inside a larger state, and what it gives for every interleaving of
  the two operations: the outcomes are those of a list to whose end elements are added and
  from whose front they are taken.
\<close>

datatype 'a queue_op = Put 'a | Take

fun queue_spec :: "'a queue_op list \<Rightarrow> 'a list \<Rightarrow> 'a option list \<times> 'a list" where
  "queue_spec [] xs = ([], xs)"
| "queue_spec (Put x # ops) xs = queue_spec ops (xs @ [x])"
| "queue_spec (Take # ops) [] = (let (out, ys) = queue_spec ops [] in (None # out, ys))"
| "queue_spec (Take # ops) (x # xs) = (let (out, ys) = queue_spec ops xs in (Some x # out, ys))"

fun queue_run :: "('a \<Rightarrow> ('s, unit) M) \<Rightarrow> ('s, 'a option) M \<Rightarrow> 'a queue_op list \<Rightarrow> ('s, 'a option list) M" where
  "queue_run put tak [] = ret []"
| "queue_run put tak (Put x # ops) = sq (put x) (queue_run put tak ops)"
| "queue_run put tak (Take # ops) =
     bnd tak (\<lambda>r. bnd (queue_run put tak ops) (\<lambda>out. ret (r # out)))"

locale queue_in_state =
  fixes put :: "'a \<Rightarrow> ('s, unit) M"
    and tak :: "('s, 'a option) M"
    and content :: "'s \<Rightarrow> 'a list"
    and ok :: "'s \<Rightarrow> bool"
  assumes put_ok: "ok s \<Longrightarrow> \<exists>t. put x s = Inr ((), t) \<and> ok t \<and> content t = content s @ [x]"
    and take_empty: "ok s \<Longrightarrow> content s = [] \<Longrightarrow> tak s = Inr (None, s)"
    and take_first: "ok s \<Longrightarrow> content s = x # xs \<Longrightarrow> \<exists>t. tak s = Inr (Some x, t) \<and> ok t \<and> content t = xs"
begin

lemma run_refines_spec:
  "ok s \<Longrightarrow> \<exists>t. queue_run put tak ops s = Inr (fst (queue_spec ops (content s)), t) \<and>
     ok t \<and> content t = snd (queue_spec ops (content s))"
proof (induction ops arbitrary: s)
  case Nil
  then show ?case by (simp add: run)
next
  case (Cons opn ops)
  show ?case
  proof (cases opn)
    case (Put x)
    from put_ok [OF Cons.prems, of x] obtain u where
      u: "put x s = Inr ((), u)" "ok u" "content u = content s @ [x]" by blast
    from Cons.IH [OF u(2)] u Put show ?thesis by (auto simp: run)
  next
    case Take
    show ?thesis
    proof (cases "content s")
      case empty: Nil
      with Cons.IH [OF Cons.prems] Take show ?thesis
        by (auto simp: take_empty [OF Cons.prems] run split: prod.splits)
    next
      case more: (Cons x xs)
      from take_first [OF Cons.prems more] obtain u where
        u: "tak s = Inr (Some x, u)" "ok u" "content u = xs" by blast
      with Cons.IH [OF u(2)] Take more show ?thesis by (auto simp: run split: prod.splits)
    qed
  qed
qed

lemma all_delivered:
  assumes "ok s" "content s = []"
  shows "\<exists>t. queue_run put tak (map Put xs @ replicate (length xs) Take) s = Inr (map Some xs, t) \<and>
    ok t \<and> content t = []"
proof -
  have puts: "queue_spec (map Put xs @ ops) ys = queue_spec ops (ys @ xs)" for ops and ys :: "'a list"
    by (induction xs arbitrary: ys) auto
  have takes: "queue_spec (replicate (length xs) Take) xs = (map Some xs, [])" for xs :: "'a list"
    by (induction xs) auto
  from run_refines_spec [OF assms(1), of "map Put xs @ replicate (length xs) Take"] assms(2)
  show ?thesis by (simp add: puts takes)
qed

end

end
