(* ===== verification/Connections.thy ===== *)
theory Connections
  imports Socket_Operations Queues Hosts_And_Ports
begin

unbundle bit_operations_syntax

text \<open>
  What the two ends of a communication can rely on: each is the peer of the other, what one
  sends is what the other gets, in order; how \<open>connect\<close> and \<open>accept\<close> build such a
  pair through the queue of a listening socket; and what the state of a socket says.
\<close>

section \<open>Two joined sockets\<close>

text \<open>\<open>in_comm c a s\<close>: \<open>a\<close> is a socket and its communication is \<open>c\<close>.\<close>

definition in_comm :: "comm_ptr \<Rightarrow> fd_ptr \<Rightarrow> 'w st \<Rightarrow> bool" where
  "in_comm c a s \<longleftrightarrow> (\<exists>f i. fds s a = Some f \<and> as_socket f = Some i \<and> is_comm i = Some c)"

definition paired :: "comm_ptr \<Rightarrow> fd_ptr \<Rightarrow> fd_ptr \<Rightarrow> 'w st \<Rightarrow> bool" where
  "paired c a b s \<longleftrightarrow> a \<noteq> b \<and> in_comm c a s \<and> in_comm c b s \<and>
     (\<exists>cc. comms s c = Some cc \<and> ci_socket (info0 cc) = Some a \<and> ci_socket (info1 cc) = Some b)"

lemma in_comm_sock:
  "in_comm c a s \<Longrightarrow> \<exists>i. get_sock a s = Inr (i, s) \<and> is_comm i = Some c"
  by (auto simp: in_comm_def run)

lemma comm_of_run: "in_comm c a s \<Longrightarrow> comm_of a s = Inr (c, s)"
  by (auto simp: in_comm_def comm_of_def run)

lemma get_peer_run:
  "paired c a b s \<Longrightarrow> comm_get_peer a s = Inr (Some b, s)"
  "paired c a b s \<Longrightarrow> comm_get_peer b s = Inr (Some a, s)"
  by (auto simp: paired_def comm_get_peer_def run comm_of_run)

lemma own_recv_run:
  "paired c a b s \<Longrightarrow> comm_get_own_recv a s = Inr (Some (Recv c False), s)"
  "paired c a b s \<Longrightarrow> comm_get_own_recv b s = Inr (Some (Recv c True), s)"
  by (auto simp: paired_def in_comm_def comm_get_own_recv_def run)

lemma peer_recv_run:
  "paired c a b s \<Longrightarrow> comm_get_peer_recv a s = Inr (Recv c True, s)"
  "paired c a b s \<Longrightarrow> comm_get_peer_recv b s = Inr (Recv c False, s)"
  by (auto simp: paired_def comm_get_peer_recv_def run comm_of_run)

text \<open>
  The peer of the peer is the socket itself, and what a socket receives is what its peer
  sends to: for two joined sockets, \<open>comm_get_peer\<close> leads from each to the other, and the
  receive side of each is the send side of the other.
\<close>

lemma peers_are_mutual:
  assumes "paired c a b s"
  shows "bnd (comm_get_peer a) (\<lambda>p. bnd (nonnull p) comm_get_peer) s = Inr (Some a, s) \<and>
    bnd (comm_get_peer b) (\<lambda>p. bnd (nonnull p) comm_get_peer) s = Inr (Some b, s) \<and>
    comm_get_own_recv a s = bnd (comm_get_peer_recv b) (\<lambda>r. ret (Some r)) s \<and>
    comm_get_own_recv b s = bnd (comm_get_peer_recv a) (\<lambda>r. ret (Some r)) s"
  using assms by (simp add: run get_peer_run [of c a b] own_recv_run [of c a b] peer_recv_run [of c a b])

section \<open>Queues of tasks\<close>

definition tasks_at :: "comm_ptr \<Rightarrow> bool \<Rightarrow> 'w st \<Rightarrow> task_comm_info list" where
  "tasks_at c second s = (case comms s c of None \<Rightarrow> [] | Some cc \<Rightarrow> recv_task (recv_at cc second))"

lemma paired_upd_comm:
  assumes "paired c a b s" "comms s c = Some cc"
    and "ci_socket (info0 (f cc)) = ci_socket (info0 cc)" "ci_socket (info1 (f cc)) = ci_socket (info1 cc)"
  shows "paired c a b (s\<lparr>comms := (comms s)(c \<mapsto> f cc)\<rparr>)"
  using assms by (auto simp: paired_def in_comm_def)

lemma set_recv_at_sockets [simp]:
  "ci_socket (info0 (set_recv_at w f cc)) = ci_socket (info0 cc)"
  "ci_socket (info1 (set_recv_at w f cc)) = ci_socket (info1 cc)"
  by (simp_all add: set_recv_at_def)

lemma recv_at_set [simp]:
  "recv_at (set_recv_at w f cc) w' = (if w = w' then f (recv_at cc w) else recv_at cc w')"
  by (simp add: recv_at_def set_recv_at_def)

lemma paired_comm: "paired c a b s \<Longrightarrow> \<exists>cc. comms s c = Some cc"
  by (auto simp: paired_def)

interpretation to_second: queue_in_state "comm_send_data a" "comm_get_send b" "tasks_at c True" "paired c a b"
  for a b c
proof
  fix s :: "'a st" and x
  assume p: "paired c a b s"
  then obtain cc where cc: "comms s c = Some cc" using paired_comm by blast
  show "\<exists>t. comm_send_data a x s = Inr ((), t) \<and> paired c a b t \<and> tasks_at c True t = tasks_at c True s @ [x]"
    using paired_upd_comm [OF p cc, of "set_recv_at True (\<lambda>r. r\<lparr>recv_task := recv_task r @ [x]\<rparr>)"] cc
    by (simp add: comm_send_data_def run peer_recv_run [OF p] tasks_at_def)
next
  fix s :: "'a st"
  assume p: "paired c a b s" and e: "tasks_at c True s = []"
  then show "comm_get_send b s = Inr (None, s)"
    by (auto simp: comm_get_send_def run own_recv_run [OF p] tasks_at_def dest: paired_comm)
next
  fix s :: "'a st" and x xs
  assume p: "paired c a b s" and e: "tasks_at c True s = x # xs"
  then obtain cc where cc: "comms s c = Some cc" using paired_comm by blast
  show "\<exists>t. comm_get_send b s = Inr (Some x, t) \<and> paired c a b t \<and> tasks_at c True t = xs"
    using paired_upd_comm [OF p cc, of "set_recv_at True (\<lambda>r. r\<lparr>recv_task := xs\<rparr>)"] cc e
    by (simp add: comm_get_send_def run own_recv_run [OF p] tasks_at_def)
qed

interpretation to_first: queue_in_state "comm_send_data b" "comm_get_send a" "tasks_at c False" "paired c a b"
  for a b c
proof
  fix s :: "'a st" and x
  assume p: "paired c a b s"
  then obtain cc where cc: "comms s c = Some cc" using paired_comm by blast
  show "\<exists>t. comm_send_data b x s = Inr ((), t) \<and> paired c a b t \<and> tasks_at c False t = tasks_at c False s @ [x]"
    using paired_upd_comm [OF p cc, of "set_recv_at False (\<lambda>r. r\<lparr>recv_task := recv_task r @ [x]\<rparr>)"] cc
    by (simp add: comm_send_data_def run peer_recv_run [OF p] tasks_at_def)
next
  fix s :: "'a st"
  assume p: "paired c a b s" and e: "tasks_at c False s = []"
  then show "comm_get_send a s = Inr (None, s)"
    by (auto simp: comm_get_send_def run own_recv_run [OF p] tasks_at_def dest: paired_comm)
next
  fix s :: "'a st" and x xs
  assume p: "paired c a b s" and e: "tasks_at c False s = x # xs"
  then obtain cc where cc: "comms s c = Some cc" using paired_comm by blast
  show "\<exists>t. comm_get_send a s = Inr (Some x, t) \<and> paired c a b t \<and> tasks_at c False t = xs"
    using paired_upd_comm [OF p cc, of "set_recv_at False (\<lambda>r. r\<lparr>recv_task := xs\<rparr>)"] cc e
    by (simp add: comm_get_send_def run own_recv_run [OF p] tasks_at_def)
qed

text \<open>
  C4. A communication is a pair of queues: whatever sequence of sends at one end and receives
  at the other end happens, the receives return exactly what a first-in first-out queue
  would return, and no step fails. This holds in both directions.
\<close>

theorem channel_is_queue:
  assumes "paired c a b s"
  shows "(\<exists>t. queue_run (comm_send_data a) (comm_get_send b) ops s =
        Inr (fst (queue_spec ops (tasks_at c True s)), t) \<and> paired c a b t \<and>
        tasks_at c True t = snd (queue_spec ops (tasks_at c True s))) \<and>
    (\<exists>t. queue_run (comm_send_data b) (comm_get_send a) ops s =
        Inr (fst (queue_spec ops (tasks_at c False s)), t) \<and> paired c a b t \<and>
        tasks_at c False t = snd (queue_spec ops (tasks_at c False s)))"
  using to_second.run_refines_spec [OF assms] to_first.run_refines_spec [OF assms] by blast

section \<open>Connecting and accepting\<close>

lemma comm_new_run:
  assumes "fds s a = Some f" "as_socket f = Some i"
  shows "comm_new a s = Inr (next_ptr s, s\<lparr>
    fds := (fds s)(a \<mapsto> f\<lparr>as_socket := Some (i\<lparr>is_comm := Some (next_ptr s), ref_nb := ref_nb i + 1\<rparr>)\<rparr>),
    comms := (comms s)(next_ptr s \<mapsto> zero_comm\<lparr>info0 := \<lparr>ci_socket = Some a, ci_recv = recv_information_new\<rparr>,
      comm_state := COMM_OPEN, comm_ref_nb := 1\<rparr>),
    next_ptr := Suc (next_ptr s), comm_list := comm_list s @ [next_ptr s]\<rparr>)"
  using assms by (simp add: comm_new_def run zero_comm_def)

text \<open>
  The address under which a connecting socket sees the listening socket \<open>il\<close>: the one
  it is bound to, and for a socket bound to all addresses the loopback inside one process and
  the address of the host \<open>hst\<close> otherwise.
\<close>

definition seen_address :: "infos_socket \<Rightarrow> bool \<Rightarrow> simterpose_host \<Rightarrow> u32" where
  "seen_address il same_proc hst =
     (if ip_local il \<noteq> 0 then ip_local il else if same_proc then loopback else host_ip hst)"

text \<open>
  C11. Asking for a connection to a bound socket creates an open communication between the
  asking socket and the listening one, which records the address and port it connected to, and
  puts it at the end of the queue of the listening socket; the result is the process that
  listens. With no bound socket the result is \<open>NULL\<close> and nothing changes.
\<close>

theorem ask_connect_spec:
  assumes look: "get_binding_socket_host E host port device s = Inr (conn, s)"
    and wf: "fds_wf s" "live_proc proc s" and a: "sock_at proc fd s = Some a" "fds s a = Some fa"
    and l: "\<And>l. conn = Some l \<Longrightarrow> l \<noteq> a \<and> fds s l = Some fl \<and> as_socket fl = Some il \<and>
      is_comm il = Some lc \<and> comms s lc = Some cl \<and> lc \<noteq> next_ptr s \<and>
      procs s (fd_proc fl) = Some pl \<and> p_host pl = Some ho \<and>
      list_host (global_data s) (MSG_host_get_name E ho) = Some hst"
  shows "case conn of
      None \<Rightarrow> comm_ask_connect E host port proc fd device s = Inr (None, s)
    | Some l \<Rightarrow> \<exists>c cc cl' t. comm_ask_connect E host port proc fd device s = Inr (Some (fd_proc fl), t) \<and>
        comms t c = Some cc \<and> comm_state cc = COMM_OPEN \<and> in_comm c a t \<and>
        ci_socket (info0 cc) = Some a \<and> ci_socket (info1 cc) = Some l \<and>
        remote_ip cc = seen_address il (fd_proc fl = fd_proc fa) hst \<and> remote_port cc = port_local il \<and>
        comms t lc = Some cl' \<and> conn_wait cl' = conn_wait cl @ [c]"
proof (cases conn)
  case None
  with look show ?thesis by (simp add: comm_ask_connect_def run)
next
  case (Some l)
  with l have l: "l \<noteq> a" "fds s l = Some fl" "as_socket fl = Some il" "is_comm il = Some lc"
    "comms s lc = Some cl" "lc \<noteq> next_ptr s" "procs s (fd_proc fl) = Some pl" "p_host pl = Some ho"
    "list_host (global_data s) (MSG_host_get_name E ho) = Some hst" by auto
  obtain fa' ia where fa: "fds s a = Some fa'" "fd_type fa' = FD_SOCKET" "as_socket fa' = Some ia"
    by (rule sock_at_as_socket [OF wf(1) a(1)])
  obtain pd where pd: "procs s proc = Some pd" "fd_map pd fd = Some a"
    using a(1) wf(2) by (auto simp: sock_at_def fd_lookup_def live_proc_def split: option.splits if_splits)
  show ?thesis
    using look Some l a fa pd
    by (simp add: comm_ask_connect_def run comm_new_run get_infos_socket_def comm_of_def in_comm_def
        zero_comm_def get_ip_of_host_def seen_address_def loopback_text)
qed

text \<open>
  C12. Accepting takes the first communication from the queue of the listening socket and joins
  the new socket with the socket that asked for the connection; the rest of the queue stays.
\<close>

theorem join_on_accept_spec:
  assumes wf: "fds_wf s" "live_proc proc s" and l: "sock_at proc fd_listen s = Some l" "in_comm lc l s"
    and queue: "comms s lc = Some cl" "conn_wait cl = c # rest" "c \<noteq> lc"
    and c: "comms s c = Some cc" "ci_socket (info0 cc) = Some a" "in_comm c a s"
    and b: "fds s b = Some fb" "as_socket fb = Some ib" "a \<noteq> b"
  shows "\<exists>t cl'. comm_join_on_accept b proc fd_listen s = Inr ((), t) \<and> paired c a b t \<and>
    comms t lc = Some cl' \<and> conn_wait cl' = rest"
proof -
  obtain fl il where "fds s l = Some fl" "as_socket fl = Some il" "is_comm il = Some lc"
    using l(2) by (auto simp: in_comm_def)
  moreover obtain fa ia where "fds s a = Some fa" "as_socket fa = Some ia" "is_comm ia = Some c"
    using c(3) by (auto simp: in_comm_def)
  ultimately show ?thesis
    using queue c(1,2) b get_infos_socket_run [OF wf, of fd_listen] l(1)
    by (simp add: comm_join_on_accept_def run paired_def in_comm_def)
qed

section \<open>The state of a socket\<close>

text \<open>
  \<open>comm_get_socket_state\<close> reports of a joined socket that it can be read when data or
  connections are waiting, that it is closed or shut down when its communication is, and that
  it can be written without blocking because it has a peer; the four answers are independent.
\<close>

lemma socket_state_spec:
  assumes p: "paired c a b s" and cc: "comms s c = Some cc"
  shows "\<exists>r. comm_get_socket_state a s = Inr (r, s) \<and>
    (r AND SOCKET_READ_OK \<noteq> 0 \<longleftrightarrow> data_fifo (recv_at cc False) \<noteq> [] \<or> conn_wait cc \<noteq> []) \<and>
    (r AND SOCKET_CLOSED \<noteq> 0 \<longleftrightarrow> comm_state cc = COMM_CLOSED) \<and>
    (r AND SOCKET_SHUT \<noteq> 0 \<longleftrightarrow> comm_state cc = COMM_SHUT) \<and>
    r AND SOCKET_WR_NBLK \<noteq> 0"
proof -
  obtain f i where "fds s a = Some f" "as_socket f = Some i" "is_comm i = Some c"
    using p by (auto simp: paired_def in_comm_def)
  then show ?thesis
    by (simp add: comm_get_socket_state_def own_recv_run [OF p] get_peer_run [OF p] run cc
        Let_def socket_bits comm_states)
qed

section \<open>Closing\<close>

text \<open>\<open>sock_is p fd a f i s\<close>: the descriptor refers to the live socket \<open>a\<close>, with its contents.\<close>

definition sock_is :: "proc_ptr \<Rightarrow> int \<Rightarrow> fd_ptr \<Rightarrow> fd_descriptor_t \<Rightarrow> infos_socket \<Rightarrow> 'w st \<Rightarrow> bool" where
  "sock_is p fd a f i s \<longleftrightarrow> (\<exists>d. procs s p = Some d \<and> fd_map d fd = Some a) \<and>
     fds s a = Some f \<and> fd_type f = FD_SOCKET \<and> as_socket f = Some i"

text \<open>
  C32. Closing one end of an open connection removes the descriptor, and the other end learns of
  it: the communication is closed, and the state of the peer has \<open>SOCKET_CLOSED\<close> set.
\<close>

theorem close_is_seen_by_peer:
  assumes p: "paired c a b s" and a: "sock_is proc fd a f i s" and net: "is_domain i = 2"
    and cc: "comms s c = Some cc" "comm_state cc = COMM_OPEN"
  shows "\<exists>t r. socket_close E proc fd s = Inr ((), t) \<and> fd_lookup proc t fd = None \<and>
    paired c a b t \<and> comm_get_socket_state b t = Inr (r, t) \<and> r AND SOCKET_CLOSED \<noteq> 0"
proof -
  obtain d where d: "procs s proc = Some d" "fd_map d fd = Some a" using a by (auto simp: sock_is_def)
  have ai: "fds s a = Some f" "fd_type f = FD_SOCKET" "as_socket f = Some i" using a by (auto simp: sock_is_def)
  have ic: "is_comm i = Some c" "a \<noteq> b" using p ai by (auto simp: paired_def in_comm_def)
  obtain fb ib where b: "fds s b = Some fb" "as_socket fb = Some ib" "is_comm ib = Some c"
    using p by (auto simp: paired_def in_comm_def)
  have ends: "ci_socket (info0 cc) = Some a" "ci_socket (info1 cc) = Some b"
    using p cc by (auto simp: paired_def)
  show ?thesis
    using d ai ic b ends net cc
    by (simp add: socket_close_def get_infos_socket_def socket_network_def socket_attribute_def comm_close_def
        comm_states run paired_def in_comm_def fd_lookup_def comm_get_socket_state_def comm_get_own_recv_def
        comm_get_peer_def comm_of_def Let_def socket_bits recv_at_def)
qed


section \<open>Witnesses\<close>

text \<open>
  A server on \<open>alice\<close> that listens on port 80 (socket 1, communication 6), and has made
  the socket 4 to accept with; a client on \<open>bob\<close> with the socket 2, which has asked for
  the connection 7 in the second state, and is joined with the socket 4 in the third.
\<close>

definition demo_sock :: "msg_host \<Rightarrow> comm_ptr option \<Rightarrow> proc_ptr \<Rightarrow> int \<Rightarrow> fd_descriptor_t" where
  "demo_sock h c p fd = (zero_desc p)\<lparr>fd_type := FD_SOCKET, fd_fd := fd,
     as_socket := Some (sample_socket\<lparr>is_host := Some h, is_comm := c\<rparr>)\<rparr>"

definition demo_listen :: "kernel st" where
  "demo_listen = sample_st\<lparr>
     procs := [0 \<mapsto> sample_proc\<lparr>fd_map := [3 \<mapsto> 1, 5 \<mapsto> 4]\<rparr>,
       3 \<mapsto> sample_proc\<lparr>p_pid := 101, p_host := Some 1, fd_map := [3 \<mapsto> 2]\<rparr>],
     fds := [1 \<mapsto> demo_sock 0 (Some 6) 0 3, 2 \<mapsto> demo_sock 1 None 3 3, 4 \<mapsto> demo_sock 0 None 0 5],
     comms := [6 \<mapsto> zero_comm\<lparr>comm_state := COMM_LISTEN, info0 := \<lparr>ci_socket = Some 1, ci_recv = recv_information_new\<rparr>\<rparr>],
     global_data := sample_globals\<lparr>list_host := [
       ''alice'' \<mapsto> \<lparr>host_ip = 1, host_port = [''80'' \<mapsto>
          sample_port\<lparr>port_option := PORT_BIND OR PORT_LOCAL OR PORT_REMOTE, bind_socket := Some 1\<rparr>]\<rparr>,
       ''bob'' \<mapsto> \<lparr>host_ip = 2, host_port = Map.empty\<rparr>]\<rparr>,
     next_ptr := 7\<rparr>"

definition demo_asked :: "kernel st" where
  "demo_asked = demo_listen\<lparr>
     fds := (fds demo_listen)(2 \<mapsto> demo_sock 1 (Some 7) 3 3),
     comms := [6 \<mapsto> zero_comm\<lparr>comm_state := COMM_LISTEN, info0 := \<lparr>ci_socket = Some 1, ci_recv = recv_information_new\<rparr>,
         conn_wait := [7]\<rparr>,
       7 \<mapsto> zero_comm\<lparr>comm_state := COMM_OPEN, info0 := \<lparr>ci_socket = Some 2, ci_recv = recv_information_new\<rparr>\<rparr>]\<rparr>"

definition demo_joined :: "kernel st" where
  "demo_joined = demo_asked\<lparr>
     fds := (fds demo_asked)(4 \<mapsto> demo_sock 0 (Some 7) 0 5),
     comms := (comms demo_asked)(7 \<mapsto> zero_comm\<lparr>comm_state := COMM_OPEN,
       info0 := \<lparr>ci_socket = Some 2, ci_recv = recv_information_new\<rparr>,
       info1 := \<lparr>ci_socket = Some 4, ci_recv = recv_information_new\<rparr>\<rparr>)\<rparr>"

lemma demo_paired: "paired 7 2 4 demo_joined"
  by (simp add: demo_joined_def demo_asked_def demo_listen_def demo_sock_def paired_def in_comm_def)

theorem channel_is_queue_witness:
  "\<exists>t. queue_run (comm_send_data 2) (comm_get_send 4)
     [Put \<lparr>tci_task = 8, sender_host = None\<rparr>, Put \<lparr>tci_task = 9, sender_host = None\<rparr>, Take, Take, Take] demo_joined =
     Inr ([Some \<lparr>tci_task = 8, sender_host = None\<rparr>, Some \<lparr>tci_task = 9, sender_host = None\<rparr>, None], t)"
proof -
  have "tasks_at 7 True demo_joined = []"
    by (simp add: tasks_at_def demo_joined_def recv_at_def recv_information_new_def)
  with channel_is_queue [OF demo_paired, of "[Put \<lparr>tci_task = 8, sender_host = None\<rparr>,
      Put \<lparr>tci_task = 9, sender_host = None\<rparr>, Take, Take, Take]"]
  show ?thesis by auto
qed

lemma demo_wf: "fds_wf demo_listen" "fds_wf demo_asked"
  by (auto simp: fds_wf_def demo_asked_def demo_listen_def demo_sock_def split: if_splits)

lemma demo_binding: "get_binding_socket_host sample_env 0 80 PORT_REMOTE demo_listen = Inr (Some 1, demo_listen)"
  by (simp add: get_binding_eq host_known_def sample_env_def demo_listen_def sample_fits port_entry_def sample_key
      sample_port_def port_bits)

theorem ask_connect_spec_witness:
  "\<exists>t c cc. comm_ask_connect sample_env 0 80 3 3 PORT_REMOTE demo_listen = Inr (Some 0, t) \<and>
     comms t c = Some cc \<and> ci_socket (info0 cc) = Some 2 \<and> ci_socket (info1 cc) = Some 1"
proof -
  have "case Some 1 of
      None \<Rightarrow> comm_ask_connect sample_env 0 80 3 3 PORT_REMOTE demo_listen = Inr (None, demo_listen)
    | Some l \<Rightarrow> \<exists>c cc cl' t. comm_ask_connect sample_env 0 80 3 3 PORT_REMOTE demo_listen =
          Inr (Some (fd_proc (demo_sock 0 (Some 6) 0 3)), t) \<and>
        comms t c = Some cc \<and> comm_state cc = COMM_OPEN \<and> in_comm c 2 t \<and>
        ci_socket (info0 cc) = Some 2 \<and> ci_socket (info1 cc) = Some l \<and>
        remote_ip cc = seen_address (sample_socket\<lparr>is_host := Some 0, is_comm := Some 6\<rparr>)
          (fd_proc (demo_sock 0 (Some 6) 0 3) = fd_proc (demo_sock 1 None 3 3)) \<lparr>host_ip = 1,
            host_port = [''80'' \<mapsto> sample_port\<lparr>port_option := PORT_BIND OR PORT_LOCAL OR PORT_REMOTE,
              bind_socket := Some 1\<rparr>]\<rparr> \<and>
        remote_port cc = port_local (sample_socket\<lparr>is_host := Some 0, is_comm := Some 6\<rparr>) \<and>
        comms t 6 = Some cl' \<and> conn_wait cl' = conn_wait (the (comms demo_listen 6)) @ [c]"
    by (rule ask_connect_spec [OF demo_binding demo_wf(1), where ho = 0 and pl = "sample_proc\<lparr>fd_map := [3 \<mapsto> 1, 5 \<mapsto> 4]\<rparr>"])
      (simp_all add: live_proc_def sock_at_def fd_lookup_def demo_listen_def demo_sock_def zero_desc_def
        sample_proc_def sample_env_def)
  then show ?thesis by (auto simp: demo_sock_def zero_desc_def)
qed

theorem join_on_accept_spec_witness:
  "\<exists>t. comm_join_on_accept 4 0 3 demo_asked = Inr ((), t) \<and> paired 7 2 4 t"
proof -
  have "\<exists>t cl'. comm_join_on_accept 4 0 3 demo_asked = Inr ((), t) \<and> paired 7 2 4 t \<and>
    comms t 6 = Some cl' \<and> conn_wait cl' = []"
    by (rule join_on_accept_spec [OF demo_wf(2), where l = 1 and cl = "the (comms demo_asked 6)"
          and cc = "the (comms demo_asked 7)" and fb = "demo_sock 0 None 0 5" and
          ib = "sample_socket\<lparr>is_host := Some 0, is_comm := None\<rparr>"])
      (simp_all add: live_proc_def sock_at_def fd_lookup_def in_comm_def demo_asked_def demo_listen_def demo_sock_def)
  then show ?thesis by blast
qed

theorem close_is_seen_by_peer_witness:
  "\<exists>t r. socket_close sample_env 3 3 demo_joined = Inr ((), t) \<and> fd_lookup 3 t 3 = None \<and>
    paired 7 2 4 t \<and> comm_get_socket_state 4 t = Inr (r, t) \<and> r AND SOCKET_CLOSED \<noteq> 0"
  by (rule close_is_seen_by_peer [OF demo_paired, where cc = "the (comms demo_joined 7)"
        and f = "demo_sock 1 (Some 7) 3 3" and i = "sample_socket\<lparr>is_host := Some 1, is_comm := Some 7\<rparr>"])
    (simp_all add: sock_is_def demo_joined_def demo_asked_def demo_listen_def demo_sock_def sample_socket_def)

definition demo_bound :: fd_descriptor_t where
  "demo_bound = (zero_desc 0)\<lparr>fd_type := FD_SOCKET, fd_fd := 3,
     as_socket := Some (sample_socket\<lparr>is_comm := Some 6, ref_nb := 3\<rparr>)\<rparr>"


end
