(* ===== verification/Network_Properties.thy ===== *)
theory Network_Properties
  imports Connections Process_Properties
begin

unbundle bit_operations_syntax

text \<open>
  What the handlers of the network calls do from the point of view of the traced process and
  of the tables of the simulation.
\<close>

section \<open>Common parts\<close>

lemma cpy_sockaddr:
  "tracee_memory E pid mem \<Longrightarrow> ptrace_cpy E pid sizeof_sockaddr_in addr (of_nat sizeof_sockaddr_in) s =
     Inr (read_bytes (mem (world s)) addr 16, peeked 2 s)"
  by (simp add: ptrace_cpy_eq words_def sizeof_sockaddr_in_def)

lemma port_store_store [simp]: "port_store E host port v' (port_store E host port v s) = port_store E host port v' s"
  by (auto simp: port_store_def run split: option.split)

lemma port_store_upd [simp]:
  "port_store E host port v (s\<lparr>fds := h\<rparr>) = (port_store E host port v s)\<lparr>fds := h\<rparr>"
  "port_store E host port v (s\<lparr>procs := ps\<rparr>) = (port_store E host port v s)\<lparr>procs := ps\<rparr>"
  by (auto simp: port_store_def run split: option.split)

lemma host_tables:
  assumes "list_host (global_data t) = list_host (global_data s)"
  shows "host_known E host t = host_known E host s" "port_entry E host t port = port_entry E host s port"
  using assms by (simp_all add: host_known_def port_entry_def)

lemma fits_port: "fits (port_of p)"
  using port_of_range [of p] by (intro valid_port_fits) (simp add: valid_port_def)

lemma restored_call:
  assumes "tracee_registers E pid regs" "tuxcall_fails E pid regs"
  shows "\<exists>w. ptrace_neutralize_syscall E pid s = Inr ((), counted 1 1 1 w s) \<and>
    (\<forall>t. world t = w \<longrightarrow> (\<exists>u. ptrace_restore_syscall E pid nr r t = Inr ((), counted 1 1 0 u t) \<and>
      regs u = (regs (world s))\<lparr>orig_rax := nr, rax := r\<rparr>))"
proof -
  obtain w where w: "ptrace_neutralize_syscall E pid s = Inr ((), counted 1 1 1 w s)"
    "regs w = (regs (world s))\<lparr>orig_rax := SYS_tuxcall, rax := - 38\<rparr>"
    by (rule neutralize_spec [OF assms])
  have restore: "\<exists>u. ptrace_restore_syscall E pid nr r t = Inr ((), counted 1 1 0 u t) \<and>
      regs u = (regs (world s))\<lparr>orig_rax := nr, rax := r\<rparr>" if t: "world t = w" for t
  proof -
    obtain u where "ptrace_restore_syscall E pid nr r t = Inr ((), counted 1 1 0 u t)"
      "regs u = (regs (world t))\<lparr>orig_rax := nr, rax := r\<rparr>"
      by (rule restore_spec [OF assms(1)])
    then show ?thesis using w(2) t by auto
  qed
  with w(1) show ?thesis by blast
qed

section \<open>bind\<close>

definition bound_socket :: "infos_socket \<Rightarrow> sockaddr_in \<Rightarrow> infos_socket" where
  "bound_socket i sai = i\<lparr>ref_nb := ref_nb i + 1, is_binded := 1, ip_local := s_addr sai, port_local := port_of (sin_port sai)\<rparr>"

lemma bind_network_free:
  assumes build: "\<not> address_translation E" "\<not> strace_option s"
    and p: "procs s proc = Some p" "p_host p = Some host" "host_known E host s"
    and sock: "fd_map p fd = Some a" "fds s a = Some f" "fd_type f = FD_SOCKET" "as_socket f = Some i"
    and k: "tracee_registers E (p_pid p) regs" "tuxcall_fails E (p_pid p) regs"
    and free: "port_entry E host s (port_of (sin_port sai)) = None"
  shows "\<exists>w. bind_network E reg proc fd sai s = Inr ((), counted 2 2 1 w
      ((port_store E host (port_of (sin_port sai)) (Some (bound (fresh_port (port_of (sin_port sai))) a (bind_device (s_addr sai)))) s)
       \<lparr>fds := (fds s)(a \<mapsto> f\<lparr>as_socket := Some (bound_socket i sai)\<rparr>), procs := (procs s)(proc \<mapsto> p\<lparr>in_syscall := False\<rparr>)\<rparr>)) \<and>
    regs w = (regs (world s))\<lparr>orig_rax := SYS_bind, rax := 0\<rparr>"
proof -
  let ?port = "port_of (sin_port sai)"
  define t where "t = (port_store E host ?port (Some (bound (fresh_port ?port) a (bind_device (s_addr sai)))) s)
    \<lparr>fds := (fds s)(a \<mapsto> f\<lparr>as_socket := Some (bound_socket i sai)\<rparr>)\<rparr>"
  obtain w where neutral: "ptrace_neutralize_syscall E (p_pid p) t = Inr ((), counted 1 1 1 w t)"
    and restore: "\<And>v. world v = w \<Longrightarrow> \<exists>u. ptrace_restore_syscall E (p_pid p) SYS_bind 0 v = Inr ((), counted 1 1 0 u v) \<and>
      regs u = (regs (world t))\<lparr>orig_rax := SYS_bind, rax := 0\<rparr>"
    using restored_call [OF k, of t SYS_bind 0] by blast
  have same: "world t = world s" "procs t = procs s" "strace_option t = strace_option s" by (simp_all add: t_def)
  obtain u where u: "ptrace_restore_syscall E (p_pid p) SYS_bind 0 (counted 1 1 1 w t) = Inr ((), counted 2 2 1 u t)"
    "regs u = (regs (world s))\<lparr>orig_rax := SYS_bind, rax := 0\<rparr>"
    using restore [of "counted 1 1 1 w t"] same by auto
  have "bind_network E reg proc fd sai s = block [ptrace_neutralize_syscall E (p_pid p),
      restore_int E (p_pid p) SYS_bind (set_ret 0 reg), proc_outside proc,
      if_strace (print_bind_syscall E (set_ret 0 reg) proc)] t"
    using build p sock free
    by (simp add: bind_network_def Let_def run proc_host_def is_port_in_use_eq fits_port register_port_eq registered_def
        sock_at_fd_def get_infos_socket_def set_port_on_binding_eq port_table.look_same set_localaddr_port_socket_def
        inet_addr_inet_ntoa bound_socket_def t_def split: sum.split)
  also have "\<dots> = Inr ((), (counted 2 2 1 u t)\<lparr>procs := (procs s)(proc \<mapsto> p\<lparr>in_syscall := False\<rparr>)\<rparr>)"
    using neutral u(1) p(1) same build(2) by (simp add: run restore_int_def set_ret_def of_c_int_def c_int_def counted_def)
  finally show ?thesis using u(2) by (intro exI [of _ u]) (simp add: counted_def t_def)
qed

lemma bind_network_used:
  assumes build: "\<not> strace_option s"
    and p: "procs s proc = Some p" "p_host p = Some host" "host_known E host s"
    and k: "tracee_registers E (p_pid p) regs" "tuxcall_fails E (p_pid p) regs"
    and used: "port_entry E host s (port_of (sin_port sai)) \<noteq> None"
  shows "\<exists>w. bind_network E reg proc fd sai s =
      Inr ((), counted 2 2 1 w (s\<lparr>procs := (procs s)(proc \<mapsto> p\<lparr>in_syscall := False\<rparr>)\<rparr>)) \<and>
    regs w = (regs (world s))\<lparr>orig_rax := SYS_bind, rax := - 98\<rparr>"
proof -
  let ?r = "of_c_int (c_int (of_c_int (- EADDRINUSE)))"
  have r: "?r = - 98" by (simp add: EADDRINUSE_def of_c_int_def c_int_def)
  obtain w where w: "sq (ptrace_neutralize_syscall E (p_pid p)) (ptrace_restore_syscall E (p_pid p) SYS_bind ?r) s = Inr ((), counted 2 2 1 w s)"
    "regs w = (regs (world s))\<lparr>orig_rax := SYS_bind, rax := ?r\<rparr>"
    using neutralize_restore_run [OF k] by blast
  have "bind_network E reg proc fd sai s = bnd (sq (ptrace_neutralize_syscall E (p_pid p)) (ptrace_restore_syscall E (p_pid p) SYS_bind ?r))
      (\<lambda>_. sq (proc_outside proc) (if_strace (print_bind_syscall E (set_ret (- EADDRINUSE) reg) proc))) s"
    using p used by (simp add: bind_network_def Let_def run proc_host_def is_port_in_use_eq fits_port restore_int_def set_ret_def
        split: sum.split)
  also have "\<dots> = Inr ((), counted 2 2 1 w (s\<lparr>procs := (procs s)(proc \<mapsto> p\<lparr>in_syscall := False\<rparr>)\<rparr>))"
    using w(1) p(1) build by (simp add: run_bnd run_sq [of "proc_outside proc"] run counted_def)
  finally show ?thesis using w(2) r by auto
qed

definition bind_result :: "'w env \<Rightarrow> msg_host \<Rightarrow> sockaddr_in \<Rightarrow> 'w st \<Rightarrow> u64" where
  "bind_result E host sai s = (if port_entry E host s (port_of (sin_port sai)) = None then 0 else - 98)"

text \<open>
  C7. The call \<open>bind\<close> of an internet socket in full mediation, from its entry to the result
  that the traced process sees. If the port in the address argument is free on the host of the
  process, the result is 0, the socket has the address and port, and from then on
  lookups of the port find it on the devices of the address. If the port is in use the result
  is \<open>-EADDRINUSE\<close>, and no socket and no port has changed. In both cases the kernel does not
  see the call, and the process is outside of it.
\<close>

theorem bind_spec:
  assumes build: "\<not> address_translation E" "\<not> strace_option s"
    and p: "procs s proc = Some p" "\<not> in_syscall p" "p_host p = Some host" "host_known E host s"
    and sock: "sock_is proc (c_int (arg0 reg)) a f i s" "is_domain i = 2"
    and k: "tracee_memory E (p_pid p) mem" "tracee_registers E (p_pid p) regs" "tuxcall_fails E (p_pid p) regs"
    and sai: "sai = decode_sockaddr_in (read_bytes (mem (world s)) (arg1 reg) 16)" "port = port_of (sin_port sai)"
  shows "\<exists>t. syscall_bind E reg proc s = Inr ((), t) \<and> procs t proc = Some (p\<lparr>in_syscall := False\<rparr>) \<and>
    regs (world t) = (regs (world s))\<lparr>orig_rax := SYS_bind, rax := bind_result E host sai s\<rparr> \<and>
    (if port_entry E host s port = None
     then fds t = (fds s)(a \<mapsto> f\<lparr>as_socket := Some (bound_socket i sai)\<rparr>) \<and>
       get_binding_socket_host E host port device t =
         Inr (if device AND (PORT_BIND OR bind_device (s_addr sai)) = 0 then None else Some a, t)
     else fds t = fds s \<and> list_host (global_data t) = list_host (global_data s))"
proof -
  let ?fd = "c_int (arg0 reg)"
  let ?reg = "if c_int (reg_ret reg) = - EINPROGRESS then set_ret 0 reg else reg"
  define v where "v = peeked 2 (s\<lparr>procs := (procs s)(proc \<mapsto> p\<lparr>in_syscall := True\<rparr>)\<rparr>)"
  have a: "fd_map p ?fd = Some a" "fds s a = Some f" "fd_type f = FD_SOCKET" "as_socket f = Some i"
    using sock p(1) by (auto simp: sock_is_def)
  have "copy_sockaddr E (p_pid p) 2 (arg1 reg) (s\<lparr>procs := h\<rparr>) = Inr (Some sai, peeked 2 (s\<lparr>procs := h\<rparr>))" for h
    using sai(1) by (simp add: copy_sockaddr_def run cpy_sockaddr [OF k(1)])
  then have start: "syscall_bind E reg proc s = bind_network E ?reg proc ?fd sai v"
    using p(1,2) a sock(2)
    by (simp add: syscall_bind_def syscall_bind_pre_def Let_def run get_domain_socket_def socket_attribute_def
        get_infos_socket_def socket_registered_def socket_network_def set_ret_def v_def peeked_def)
  have v: "\<not> strace_option v" "procs v proc = Some (p\<lparr>in_syscall := True\<rparr>)" "host_known E host v" "fds v = fds s"
    "port_entry E host v = port_entry E host s" "world v = world s"
    "list_host (global_data v) = list_host (global_data s)"
    using build p by (simp_all add: v_def peeked_def host_known_def port_entry_def fun_eq_iff)
  show ?thesis
  proof (cases "port_entry E host s port")
    case None
    then obtain w where w: "syscall_bind E reg proc s = Inr ((), counted 2 2 1 w
        ((port_store E host port (Some (bound (fresh_port port) a (bind_device (s_addr sai)))) v)
         \<lparr>fds := (fds v)(a \<mapsto> f\<lparr>as_socket := Some (bound_socket i sai)\<rparr>),
          procs := (procs v)(proc \<mapsto> p\<lparr>in_syscall := False\<rparr>)\<rparr>))"
      "regs w = (regs (world v))\<lparr>orig_rax := SYS_bind, rax := 0\<rparr>"
      using bind_network_free [OF build(1) v(1,2) _ v(3), of ?fd a f i regs sai ?reg] p(3) a k(2,3) sai(2) v(4,5) start by auto
    define t where "t = counted 2 2 1 w
        ((port_store E host port (Some (bound (fresh_port port) a (bind_device (s_addr sai)))) v)
         \<lparr>fds := (fds v)(a \<mapsto> f\<lparr>as_socket := Some (bound_socket i sai)\<rparr>),
          procs := (procs v)(proc \<mapsto> p\<lparr>in_syscall := False\<rparr>)\<rparr>)"
    have t: "host_known E host t" "port_entry E host t port = Some (bound (fresh_port port) a (bind_device (s_addr sai)))"
      using v(3) sai(2) host_tables [of t "port_store E host port (Some (bound (fresh_port port) a (bind_device (s_addr sai)))) v" E host]
      by (simp_all add: t_def port_table.look_same counted_def)
    have "(PORT_BIND OR z) AND PORT_BIND \<noteq> 0" for z :: u32
    proof -
      have "bit ((PORT_BIND OR z) AND PORT_BIND) 0" by (simp add: PORT_BIND_def bit_simps)
      then show ?thesis by auto
    qed
    then have "get_binding_socket_host E host port device t =
        Inr (if device AND (PORT_BIND OR bind_device (s_addr sai)) = 0 then None else Some a, t)"
      using t sai(2) by (simp add: get_binding_eq fits_port bound_def fresh_port_def)
    moreover have "syscall_bind E reg proc s = Inr ((), t)" using w(1) by (simp add: t_def)
    moreover have "procs t proc = Some (p\<lparr>in_syscall := False\<rparr>)" "world t = w"
      "fds t = (fds s)(a \<mapsto> f\<lparr>as_socket := Some (bound_socket i sai)\<rparr>)"
      using v(4) by (simp_all add: t_def counted_def)
    ultimately show ?thesis using None sai(2) v(6) w(2) by (intro exI [of _ t]) (simp add: bind_result_def)
  next
    case (Some d)
    then obtain w where w: "syscall_bind E reg proc s = Inr ((), counted 2 2 1 w (v\<lparr>procs := (procs v)(proc \<mapsto> p\<lparr>in_syscall := False\<rparr>)\<rparr>))"
      "regs w = (regs (world v))\<lparr>orig_rax := SYS_bind, rax := - 98\<rparr>"
      using bind_network_used [OF v(1,2) _ v(3), of regs sai ?reg ?fd] p(3) k(2,3) sai(2) v(5) start by auto
    then show ?thesis using Some sai(2) v by (simp add: counted_def bind_result_def)
  qed
qed

section \<open>Witnesses\<close>

theorem bind_spec_witness:
  "\<exists>t. syscall_bind sample_env (sample_reg\<lparr>arg0 := 3\<rparr>) 0 sample_st = Inr ((), t) \<and> rax (k_regs (world t)) = 0 \<and>
     get_binding_socket_host sample_env 0 0 PORT_REMOTE t = Inr (Some 1, t)"
proof -
  let ?sai = "decode_sockaddr_in (read_bytes (k_mem (world sample_st)) (arg1 (sample_reg\<lparr>arg0 := 3\<rparr>)) 16)"
  have bytes: "s_addr ?sai = 0" "sin_port ?sai = 0" by code_simp+
  have port: "port_of 0 = 0" by code_simp
  have "sprintf_d 0 = ''0''" by code_simp
  then have free: "port_entry sample_env 0 sample_st 0 = None" by (simp add: port_entry_def sample_simps)
  have "PORT_REMOTE AND (PORT_BIND OR bind_device 0) \<noteq> 0" by code_simp
  moreover have "\<exists>t. syscall_bind sample_env (sample_reg\<lparr>arg0 := 3\<rparr>) 0 sample_st = Inr ((), t) \<and>
      procs t 0 = Some (sample_proc\<lparr>in_syscall := False\<rparr>) \<and>
      k_regs (world t) = (k_regs (world sample_st))\<lparr>orig_rax := SYS_bind, rax := bind_result sample_env 0 ?sai sample_st\<rparr> \<and>
      (if port_entry sample_env 0 sample_st 0 = None
       then fds t = (fds sample_st)(1 \<mapsto> sample_fd\<lparr>as_socket := Some (bound_socket sample_socket ?sai)\<rparr>) \<and>
         get_binding_socket_host sample_env 0 0 PORT_REMOTE t =
           Inr (if PORT_REMOTE AND (PORT_BIND OR bind_device (s_addr ?sai)) = 0 then None else Some 1, t)
       else fds t = fds sample_st \<and> list_host (global_data t) = list_host (global_data sample_st))"
    by (rule bind_spec [where mem = k_mem])
      (use sample_known sample_memory sample_registers sample_tuxcall bytes port in
        \<open>simp_all add: sock_is_def sample_reg_def sample_simps c_int_def\<close>)
  ultimately show ?thesis using bytes port free by (auto simp: bind_result_def)
qed

end
