(* ===== verification/Descriptor_Properties.thy ===== *)
theory Descriptor_Properties
  imports File_Syscalls Sample_Platform
begin

text \<open>
  What the handlers of the system calls on descriptors do to the table of a process and to its
  pipes: opening, duplicating, closing, and the release of the whole table when a process ends.
\<close>

section \<open>Duplicating the ends of a pipe\<close>

definition other_end :: "int \<Rightarrow> proc_ptr \<Rightarrow> pipe_end_s \<Rightarrow> bool" where
  "other_end fd proc e \<longleftrightarrow> \<not> (end_fd e = fd \<and> end_proc e = proc)"

definition duplicate :: "int \<Rightarrow> int \<Rightarrow> proc_ptr \<Rightarrow> pipe_end_s list \<Rightarrow> pipe_end_s list" where
  "duplicate oldfd newfd proc ends =
     map (\<lambda>e. \<lparr>end_fd = newfd, end_proc = end_proc e\<rparr>) (filter (\<lambda>e. \<not> other_end oldfd proc e) ends)"

lemma duplicate_simps [simp]:
  "duplicate oldfd newfd proc [] = []"
  "duplicate oldfd newfd proc (e # ends) =
     (if other_end oldfd proc e then [] else [\<lparr>end_fd = newfd, end_proc = end_proc e\<rparr>]) @ duplicate oldfd newfd proc ends"
  "duplicate oldfd newfd proc (ends @ ends') = duplicate oldfd newfd proc ends @ duplicate oldfd newfd proc ends'"
  by (simp_all add: duplicate_def)

lemma dup_step:
  "dup_ends_from oldfd newfd proc (length xs) (xs @ e # ys) =
     dup_ends_from oldfd newfd proc (length (xs @ [e]))
       ((xs @ [e]) @ ys @ (if other_end oldfd proc e then [] else [\<lparr>end_fd = newfd, end_proc = end_proc e\<rparr>]))"
  by (subst dup_ends_from.simps) (simp add: other_end_def Let_def)

lemma dup_ends_from_others:
  "list_all (other_end oldfd proc) ys \<Longrightarrow> dup_ends_from oldfd newfd proc (length xs) (xs @ ys) = Some (xs @ ys)"
proof (induction ys arbitrary: xs)
  case Nil
  show ?case by (subst dup_ends_from.simps) simp
next
  case (Cons y ys)
  then have "list_all (other_end oldfd proc) ys" by simp
  from Cons.IH [OF this, of "xs @ [y]"] Cons.prems show ?case by (subst dup_step) simp
qed

lemma dup_ends_from_distinct:
  assumes "newfd \<noteq> oldfd"
  shows "dup_ends_from oldfd newfd proc (length xs) (xs @ ys @ duplicate oldfd newfd proc zs) =
    Some (xs @ ys @ duplicate oldfd newfd proc (zs @ ys))"
proof (induction ys arbitrary: xs zs)
  case Nil
  have "list_all (other_end oldfd proc) (duplicate oldfd newfd proc zs)"
    using assms by (auto simp: duplicate_def other_end_def list_all_iff)
  then show ?case using dup_ends_from_others [of oldfd proc] by simp
next
  case (Cons y ys)
  show ?case using Cons.IH [of "xs @ [y]" "zs @ [y]"]
    by (simp only: append_Cons dup_step) (simp split: if_splits)
qed

lemma dup_ends_from_same:
  assumes "dup_ends_from fd fd proc cpt ends = Some r"
  shows "list_all (other_end fd proc) (drop cpt ends)"
proof -
  have "oldfd = newfd \<longrightarrow> list_all (other_end oldfd proc) (drop cpt ends)"
    if "dup_ends_from oldfd newfd proc cpt ends = Some r" for oldfd newfd
  proof (rule dup_ends_from.raw_induct [where P = "\<lambda>oldfd newfd proc cpt ends r.
      oldfd = newfd \<longrightarrow> list_all (other_end oldfd proc) (drop cpt ends)", OF _ that])
    fix loop and oldfd newfd :: int and proc cpt ends and r :: "pipe_end_s list"
    assume IH: "\<And>oldfd newfd proc cpt ends r. loop oldfd newfd proc cpt ends = Some r \<Longrightarrow>
        oldfd = newfd \<longrightarrow> list_all (other_end oldfd proc) (drop cpt ends)"
      and step: "(if cpt < length ends then
          let e = ends ! cpt in
          if end_fd e = oldfd \<and> end_proc e = proc
          then loop oldfd newfd proc (Suc cpt) (ends @ [\<lparr>end_fd = newfd, end_proc = end_proc e\<rparr>])
          else loop oldfd newfd proc (Suc cpt) ends
        else Some ends) = Some r"
    show "oldfd = newfd \<longrightarrow> list_all (other_end oldfd proc) (drop cpt ends)"
    proof (cases "cpt < length ends")
      case True
      then show ?thesis
        using step by (auto dest!: IH simp: Let_def other_end_def Cons_nth_drop_Suc [symmetric] split: if_splits)
    qed simp
  qed
  with assms show ?thesis by blast
qed

text \<open>
  C33. The loop of \<open>dup\<close> and \<open>dup2\<close> over one end of a pipe, which appends to the list it
  runs over, ends whenever the new number differs from the old one, and has then added one
  entry for each entry of the old number. When the two numbers are equal, as in
  \<open>dup2(fd, fd)\<close>, it ends exactly if the pipe has no entry of this number.
\<close>

theorem dup_ends_spec:
  "dup_ends oldfd newfd proc ends s =
    (if newfd \<noteq> oldfd then Inr (ends @ duplicate oldfd newfd proc ends, s)
     else if list_all (other_end oldfd proc) ends then Inr (ends, s)
     else Inl Diverges)"
proof (cases "newfd = oldfd")
  case True
  show ?thesis
    using True dup_ends_from_same [of oldfd proc 0 ends] dup_ends_from_others [of oldfd proc ends newfd "[]"]
    by (auto simp: dup_ends_def run split: option.split)
next
  case False
  then show ?thesis using dup_ends_from_distinct [OF False, of proc "[]" ends "[]"]
    by (simp add: dup_ends_def run)
qed

section \<open>Closing an end of a pipe\<close>

text \<open>An entry of a pipe that belongs to the descriptor \<open>fd\<close> of the process with this id.\<close>

definition own_end :: "int \<Rightarrow> int \<Rightarrow> 'w st \<Rightarrow> pipe_end_s \<Rightarrow> bool" where
  "own_end fd pid s e \<longleftrightarrow> end_fd e = fd \<and> (case procs s (end_proc e) of None \<Rightarrow> False | Some p \<Rightarrow> p_pid p = pid)"

definition live_ends :: "'w st \<Rightarrow> pipe_end_s list \<Rightarrow> bool" where
  "live_ends s ends = list_all (\<lambda>e. live_proc (end_proc e) s) ends"

lemma remove_ends_run:
  "live_ends s ends \<Longrightarrow> remove_ends fd pid ends s = Inr (filter (\<lambda>e. \<not> own_end fd pid s e) ends, s)"
  by (induction ends) (auto simp: live_ends_def live_proc_def own_end_def run split: option.splits)

lemma close_pipe_end_run:
  assumes "procs s proc = Some p" "pipes s q = Some pp" "live_ends s (read_end pp)" "live_ends s (write_end pp)"
  shows "close_pipe_end proc fd (Some q) s =
    (let rd = filter (\<lambda>e. \<not> own_end fd (p_pid p) s e) (read_end pp);
         wr = filter (\<lambda>e. \<not> own_end fd (p_pid p) s e) (write_end pp)
     in Inr ((), s\<lparr>pipes := (pipes s)(q := if rd = [] \<and> wr = [] then None else Some (pp\<lparr>read_end := rd, write_end := wr\<rparr>))\<rparr>))"
proof -
  have "remove_ends fd (p_pid p) (write_end pp) (s\<lparr>pipes := h\<rparr>) =
      Inr (filter (\<lambda>e. \<not> own_end fd (p_pid p) s e) (write_end pp), s\<lparr>pipes := h\<rparr>)" for h
    using remove_ends_run [of "s\<lparr>pipes := h\<rparr>"] assms(4) by (simp add: live_ends_def live_proc_def own_end_def)
  then show ?thesis using assms by (simp add: close_pipe_end_def run remove_ends_run Let_def)
qed

lemma process_close_pipe_run:
  assumes "procs s proc = Some p" "fd_map p fd = Some a" "fds s a = Some d" "fd_type d = FD_PIPE" "fd_pipe d = Some q"
    and "pipes s q = Some pp" "live_ends s (read_end pp)" "live_ends s (write_end pp)"
  shows "process_close_call E proc fd s =
    (let rd = filter (\<lambda>e. \<not> own_end fd (p_pid p) s e) (read_end pp);
         wr = filter (\<lambda>e. \<not> own_end fd (p_pid p) s e) (write_end pp)
     in Inr ((), s\<lparr>procs := (procs s)(proc \<mapsto> p\<lparr>fd_map := (fd_map p)(fd := None)\<rparr>),
          pipes := (pipes s)(q := if rd = [] \<and> wr = [] then None else Some (pp\<lparr>read_end := rd, write_end := wr\<rparr>))\<rparr>))"
proof -
  define t where "t = s\<lparr>fds := (fds s)(a \<mapsto> d\<lparr>fd_refcount := fd_refcount d + 1\<rparr>)\<rparr>"
  define h where "h = (let rd = filter (\<lambda>e. \<not> own_end fd (p_pid p) s e) (read_end pp);
      wr = filter (\<lambda>e. \<not> own_end fd (p_pid p) s e) (write_end pp)
    in (pipes s)(q := if rd = [] \<and> wr = [] then None else Some (pp\<lparr>read_end := rd, write_end := wr\<rparr>)))"
  have "own_end fd (p_pid p) t = own_end fd (p_pid p) s" "live_ends t = live_ends s"
    by (simp_all add: fun_eq_iff own_end_def live_ends_def live_proc_def t_def)
  then have "close_pipe_end proc fd (Some q) t = Inr ((), t\<lparr>pipes := h\<rparr>)"
    using close_pipe_end_run [of t proc p q pp fd] assms by (simp add: t_def h_def Let_def)
  then have "process_close_call E proc fd s = Inr ((), s\<lparr>procs := (procs s)(proc \<mapsto> p\<lparr>fd_map := (fd_map p)(fd := None)\<rparr>),
      pipes := h\<rparr>)"
    using assms(1-5) by (simp add: process_close_call_def run fd_types t_def map_upd_triv)
  then show ?thesis by (simp add: h_def Let_def)
qed

text \<open>
  C25. A pipe lives exactly as long as one of its ends is open: closing a descriptor of a pipe
  removes it from the table and takes its entries, and no other, off both ends of the pipe,
  and the pipe is freed if and only if no entry is left.
\<close>

theorem close_pipe_spec:
  assumes "procs s proc = Some p" "fd_map p fd = Some a" "fds s a = Some d" "fd_type d = FD_PIPE" "fd_pipe d = Some q"
    and "pipes s q = Some pp" "live_ends s (read_end pp @ write_end pp)"
  shows "\<exists>t. process_close_call E proc fd s = Inr ((), t) \<and> fd_lookup proc t = (fd_lookup proc s)(fd := None) \<and>
    pipes t = (pipes s)(q :=
      if list_all (own_end fd (p_pid p) s) (read_end pp @ write_end pp) then None
      else Some (pp\<lparr>read_end := filter (\<lambda>e. \<not> own_end fd (p_pid p) s e) (read_end pp),
        write_end := filter (\<lambda>e. \<not> own_end fd (p_pid p) s e) (write_end pp)\<rparr>))"
  using process_close_pipe_run [OF assms(1-6), of E] assms(1,2,7)
  by (simp add: Let_def live_ends_def fd_lookup_def fun_eq_iff filter_empty_conv list_all_iff ball_Un bex_Un)

lemma dup_pipe_run:
  assumes "newfd \<noteq> oldfd" "pipes s q = Some pp"
  shows "dup_pipe oldfd newfd proc (Some q) s =
    Inr ((), s\<lparr>pipes := (pipes s)(q \<mapsto> pp\<lparr>read_end := read_end pp @ duplicate oldfd newfd proc (read_end pp),
      write_end := write_end pp @ duplicate oldfd newfd proc (write_end pp)\<rparr>)\<rparr>)"
  using assms dup_ends_from_distinct [OF assms(1), of proc "[]" _ "[]"] by (simp add: dup_pipe_def dup_ends_def run)

lemma filter_duplicate:
  assumes "procs s proc = Some p" "newfd \<notin> end_fd ` set ends"
  shows "filter (\<lambda>e. \<not> own_end newfd (p_pid p) s e) (ends @ duplicate oldfd newfd proc ends) = ends"
  using assms by (auto simp: duplicate_def own_end_def other_end_def filter_empty_conv filter_id_conv)

text \<open>
  C23. Closing undoes duplicating. A pipe descriptor that is duplicated to an unused number and
  closed again leaves the table of the process and the ends of the pipe as they were. The one
  trace in the whole state, apart from the process being outside of a system call, is the
  count of references to the descriptor, which \<open>dup\<close> increments and \<open>close\<close> does not decrement.
\<close>

theorem dup_then_close:
  assumes p: "procs s proc = Some p" "fd_map p (c_int (arg0 reg)) = Some a" "fd_map p (c_int (reg_ret reg)) = None"
    and d: "fds s a = Some d" "fd_type d = FD_PIPE" "fd_pipe d = Some q"
    and q: "pipes s q = Some pp" "live_ends s (read_end pp @ write_end pp)" "read_end pp @ write_end pp \<noteq> []"
      "c_int (reg_ret reg) \<notin> end_fd ` set (read_end pp @ write_end pp)"
  shows "sq (syscall_dup_post reg proc) (process_close_call E proc (c_int (reg_ret reg))) s =
    Inr ((), s\<lparr>procs := (procs s)(proc \<mapsto> p\<lparr>in_syscall := False\<rparr>),
      fds := (fds s)(a \<mapsto> d\<lparr>fd_refcount := fd_refcount d + 1\<rparr>)\<rparr>)"
proof -
  let ?old = "c_int (arg0 reg)" and ?new = "c_int (reg_ret reg)"
  let ?p = "p\<lparr>in_syscall := False, fd_map := (fd_map p)(?new \<mapsto> a)\<rparr>"
    and ?d = "d\<lparr>fd_refcount := fd_refcount d + 1\<rparr>"
  define pp' where "pp' = pp\<lparr>read_end := read_end pp @ duplicate ?old ?new proc (read_end pp),
      write_end := write_end pp @ duplicate ?old ?new proc (write_end pp)\<rparr>"
  define t where "t = s\<lparr>procs := (procs s)(proc \<mapsto> ?p), fds := (fds s)(a \<mapsto> ?d), pipes := (pipes s)(q \<mapsto> pp')\<rparr>"
  have t: "procs t proc = Some ?p" "fds t a = Some ?d" "pipes t q = Some pp'" by (simp_all add: t_def)
  have "?new \<noteq> ?old" using p by auto
  then have dup: "syscall_dup_post reg proc s = Inr ((), t)"
    using p d q(1) by (simp add: syscall_dup_post_def Let_def dup_pipe_run run t_def pp'_def)
  have ends: "filter (\<lambda>e. \<not> own_end ?new (p_pid ?p) t e) (read_end pp') = read_end pp"
    "filter (\<lambda>e. \<not> own_end ?new (p_pid ?p) t e) (write_end pp') = write_end pp"
    using filter_duplicate [OF t(1), of ?new "read_end pp" ?old] filter_duplicate [OF t(1), of ?new "write_end pp" ?old]
      q(4) by (simp_all add: image_Un pp'_def del: filter_append)
  have live: "live_ends t (read_end pp')" "live_ends t (write_end pp')"
    using q(2) p(1) by (auto simp: live_ends_def live_proc_def list_all_iff duplicate_def other_end_def t_def pp'_def)
  have some: "(read_end pp = [] \<and> write_end pp = []) = False" using q(3) by simp
  have "process_close_call E proc ?new t =
      Inr ((), t\<lparr>procs := (procs t)(proc \<mapsto> ?p\<lparr>fd_map := (fd_map ?p)(?new := None)\<rparr>),
        pipes := (pipes t)(q \<mapsto> pp'\<lparr>read_end := read_end pp, write_end := write_end pp\<rparr>)\<rparr>)"
    using process_close_pipe_run [OF t(1) _ t(2) _ _ t(3) live, of ?new E] d(2,3)
    unfolding ends Let_def some by simp
  moreover have "t\<lparr>procs := (procs t)(proc \<mapsto> ?p\<lparr>fd_map := (fd_map ?p)(?new := None)\<rparr>),
      pipes := (pipes t)(q \<mapsto> pp'\<lparr>read_end := read_end pp, write_end := write_end pp\<rparr>)\<rparr> =
    s\<lparr>procs := (procs s)(proc \<mapsto> p\<lparr>in_syscall := False\<rparr>), fds := (fds s)(a \<mapsto> ?d)\<rparr>"
    using p(3) q(1) by (simp add: t_def pp'_def map_upd_triv fun_upd_idem)
  ultimately show ?thesis using dup by (simp add: run_sq)
qed

section \<open>The life of a pipe\<close>

definition pipe_desc :: "proc_ptr \<Rightarrow> int \<Rightarrow> pipe_ptr \<Rightarrow> fd_descriptor_t" where
  "pipe_desc proc fd q = (zero_desc proc)\<lparr>fd_refcount := 1, fd_fd := fd, fd_type := FD_PIPE, fd_pipe := Some q\<rparr>"

definition piped :: "proc_ptr \<Rightarrow> int \<Rightarrow> process_descriptor \<Rightarrow> 'w st \<Rightarrow> 'w st" where
  "piped proc fd p s = (peeked 1 s)\<lparr>
     procs := (procs s)(proc \<mapsto> p\<lparr>in_syscall := False,
       fd_map := (fd_map p)(fd \<mapsto> Suc (next_ptr s), fd + 1 \<mapsto> Suc (Suc (next_ptr s)))\<rparr>),
     pipes := (pipes s)(next_ptr s \<mapsto>
       \<lparr>read_end = [\<lparr>end_fd = fd, end_proc = proc\<rparr>], write_end = [\<lparr>end_fd = fd + 1, end_proc = proc\<rparr>]\<rparr>),
     fds := (fds s)(Suc (next_ptr s) \<mapsto> pipe_desc proc fd (next_ptr s),
       Suc (Suc (next_ptr s)) \<mapsto> pipe_desc proc (fd + 1) (next_ptr s)),
     next_ptr := Suc (Suc (Suc (next_ptr s)))\<rparr>"

lemma pipe_post_run:
  assumes "procs s proc = Some p" "tracee_memory E (p_pid p) mem" "c_int (reg_ret reg) = 0"
  shows "syscall_pipe_post E reg proc s =
    Inr ((), piped proc (le_int (read_bytes (mem (world s)) (arg0 reg) 8)) p s)"
proof -
  have "words (unat (8 :: u64)) = 1" by (simp add: words_def)
  then show ?thesis using assms
    by (simp add: syscall_pipe_post_def run ptrace_cpy_eq Let_def peeked_def new_pipe_fd_def piped_def pipe_desc_def zero_desc_def)
qed


section \<open>The end of a process\<close>

lemma release_fds_run:
  assumes "procs s proc = Some p" "set keys \<subseteq> dom (fd_map p)" "distinct keys"
  shows "release_fds proc keys s =
    (if inj_on (fd_map p) (set keys) \<and> list_all (\<lambda>k. fds s (the (fd_map p k)) \<noteq> None) keys
     then Inr ((), s\<lparr>fds := fds s |` (- (\<lambda>k. the (fd_map p k)) ` set keys)\<rparr>) else Inl Dangling_ptr)"
  using assms
proof (induction keys arbitrary: s)
  case (Cons k keys)
  then obtain a where a: "fd_map p k = Some a" by auto
  let ?t = "s\<lparr>fds := (fds s)(a := None)\<rparr>"
  have inj: "inj_on (fd_map p) (set (k # keys)) \<longleftrightarrow> inj_on (fd_map p) (set keys) \<and> Some a \<notin> fd_map p ` set keys"
    using Cons.prems a by (auto simp: inj_on_insert)
  have others: "list_all (\<lambda>k. fds ?t (the (fd_map p k)) \<noteq> None) keys \<longleftrightarrow>
      list_all (\<lambda>k. fds s (the (fd_map p k)) \<noteq> None) keys \<and> Some a \<notin> fd_map p ` set keys"
    using Cons.prems by (force simp: list_all_iff)
  show ?case
  proof (cases "fds s a")
    case None
    then show ?thesis using Cons.prems a by (simp add: run)
  next
    case (Some d)
    then have "release_fds proc (k # keys) s = release_fds proc keys ?t" using Cons.prems(1) a
      by (simp add: run split: sum.split)
    also have "\<dots> = (if inj_on (fd_map p) (set keys) \<and> list_all (\<lambda>k. fds ?t (the (fd_map p k)) \<noteq> None) keys
        then Inr ((), ?t\<lparr>fds := fds ?t |` (- (\<lambda>k. the (fd_map p k)) ` set keys)\<rparr>) else Inl Dangling_ptr)"
      using Cons.IH [of ?t] Cons.prems by simp
    also have "?t\<lparr>fds := fds ?t |` (- (\<lambda>k. the (fd_map p k)) ` set keys)\<rparr> =
        s\<lparr>fds := fds s |` (- (\<lambda>k. the (fd_map p k)) ` set (k # keys))\<rparr>"
      using a by (auto intro!: st.equality simp: restrict_map_def fun_eq_iff)
    also have "(inj_on (fd_map p) (set keys) \<and> list_all (\<lambda>k. fds ?t (the (fd_map p k)) \<noteq> None) keys) =
        (inj_on (fd_map p) (set (k # keys)) \<and> list_all (\<lambda>k. fds s (the (fd_map p k)) \<noteq> None) (k # keys))"
      unfolding inj others using Some a by auto
    finally show ?thesis .
  qed
qed (simp add: run restrict_map_def)
text \<open>The order in which a dictionary is visited: each of its keys once.\<close>

definition visits :: "'w env \<Rightarrow> (int \<rightharpoonup> fd_ptr) \<Rightarrow> bool" where
  "visits E m \<longleftrightarrow> distinct (dict_order E m) \<and> set (dict_order E m) = dom m"

lemma destroy_run:
  assumes p: "procs s proc = Some p" and order: "visits E (fd_map p)"
  shows "process_descriptor_destroy E proc s =
    (if inj_on (fd_map p) (dom (fd_map p)) \<and> ran (fd_map p) \<subseteq> dom (fds s)
     then Inr ((), s\<lparr>fds := fds s |` (- ran (fd_map p)), procs := (procs s)(proc := None)\<rparr>)
     else Inl Dangling_ptr)"
proof -
  let ?keys = "dict_order E (fd_map p)"
  have keys: "set ?keys = dom (fd_map p)" "distinct ?keys" using order by (auto simp: visits_def)
  have ran: "ran (fd_map p) = (\<lambda>k. the (fd_map p k)) ` set ?keys"
    using keys(1) by (force simp: ran_def)
  have "list_all (\<lambda>k. fds s (the (fd_map p k)) \<noteq> None) ?keys \<longleftrightarrow> ran (fd_map p) \<subseteq> dom (fds s)"
    by (auto simp: list_all_iff ran)
  then show ?thesis
    using release_fds_run [of s proc p ?keys] p keys by (simp add: process_descriptor_destroy_def run ran)
qed

text \<open>
  C26. Releasing the descriptors of a process succeeds exactly when every entry of its table
  refers to a live descriptor and no two entries refer to the same one; then all of them and
  nothing else are freed. In particular a process that has called \<open>dup\<close> cannot be
  released: its shared descriptor would be used after it was freed.
\<close>

theorem process_descriptor_destroy_spec:
  assumes p: "procs s proc = Some p" and order: "visits E (fd_map p)"
  shows "process_descriptor_destroy E proc s =
    (if inj_on (fd_map p) (dom (fd_map p)) \<and> ran (fd_map p) \<subseteq> dom (fds s)
     then Inr ((), s\<lparr>fds := fds s |` (- ran (fd_map p)), procs := (procs s)(proc := None)\<rparr>)
     else Inl Dangling_ptr)"
  using assms by (rule destroy_run)

section \<open>The beginning of a process\<close>

text \<open>The numbers that the directory of open descriptors lists, without that of the directory itself.\<close>

definition listed_fds :: "int \<Rightarrow> string list \<Rightarrow> int list" where
  "listed_fds dir_fd entries = filter (\<lambda>fd. fd \<noteq> dir_fd) (map atoi (filter (\<lambda>d. d \<noteq> [] \<and> isdigit (hd d)) entries))"

text \<open>
  A table \<open>m\<close> of the numbers \<open>F\<close> whose descriptors are those at the addresses from
  \<open>n\<close> to below \<open>k\<close>, which is all that distinguishes the heap \<open>h\<close> from \<open>h0\<close>.
\<close>

definition fresh_table ::
    "nat \<Rightarrow> int set \<Rightarrow> (int \<rightharpoonup> fd_ptr) \<Rightarrow> (fd_ptr \<rightharpoonup> 'd) \<Rightarrow> (fd_ptr \<rightharpoonup> 'd) \<Rightarrow> nat \<Rightarrow> bool" where
  "fresh_table n F m h0 h k \<longleftrightarrow> dom m = F \<and> inj_on m F \<and> ran m = {n..<k} \<and> n \<le> k \<and>
     {n..<k} \<subseteq> dom h \<and> h |` (- {n..<k}) = h0 |` (- {n..<k})"

lemma fresh_table_insert:
  assumes "fresh_table n F m h0 h k" "fd \<notin> F"
  shows "fresh_table n (insert fd F) (m(fd \<mapsto> k)) h0 (h(k \<mapsto> d)) (Suc k)"
proof -
  have m: "dom m = F" "inj_on m F" "ran m = {n..<k}" "n \<le> k" "{n..<k} \<subseteq> dom h"
    and h: "\<And>a. a \<notin> {n..<k} \<Longrightarrow> h a = h0 a"
    using assms(1) by (auto simp: fresh_table_def restrict_map_def fun_eq_iff split: if_splits)
  have new: "m fd = None" using m(1) assms(2) by auto
  have "Some k \<notin> m ` F" using m(3) ranI [of m _ k] by force
  then have "inj_on (m(fd \<mapsto> k)) (insert fd F)"
    using inj_on_fun_updI [OF m(2)] assms(2) by (simp add: image_iff)
  moreover have "ran (m(fd \<mapsto> k)) = {n..<Suc k}" using m(3,4) new by auto
  moreover have "(h(k \<mapsto> d)) |` (- {n..<Suc k}) = h0 |` (- {n..<Suc k})"
    using h m(4) by (auto simp: restrict_map_def fun_eq_iff)
  moreover have "{n..<Suc k} \<subseteq> dom (h(k \<mapsto> d))" using m(5) by (auto simp: subset_iff less_Suc_eq)
  ultimately show ?thesis using m(1,4) by (auto simp: fresh_table_def)
qed

definition with_table ::
    "proc_ptr \<Rightarrow> process_descriptor \<Rightarrow> (int \<rightharpoonup> fd_ptr) \<Rightarrow> (fd_ptr \<rightharpoonup> fd_descriptor_t) \<Rightarrow> nat \<Rightarrow> 'w st \<Rightarrow> 'w st" where
  "with_table proc p m h k s = s\<lparr>procs := (procs s)(proc \<mapsto> p\<lparr>fd_map := m\<rparr>), fds := h, next_ptr := k\<rparr>"

lemma with_table_simps [simp]:
  "procs (with_table proc p m h k s) = (procs s)(proc \<mapsto> p\<lparr>fd_map := m\<rparr>)" "fds (with_table proc p m h k s) = h"
  "next_ptr (with_table proc p m h k s) = k" "strace_option (with_table proc p m h k s) = strace_option s"
  "with_table proc q m' h' k' (with_table proc p m h k s) = with_table proc q m' h' k' s"
  "with_table proc (p\<lparr>fd_map := m\<rparr>) m' h' k' s = with_table proc p m' h' k' s"
  by (simp_all add: with_table_def)

lemma with_table_same: "procs s proc = Some p \<Longrightarrow> with_table proc p (fd_map p) (fds s) (next_ptr s) s = s"
  by (simp add: with_table_def map_upd_triv)

lemma register_entries_run:
  assumes "fresh_table n F (fd_map p) h0 (fds s) (next_ptr s)" "procs s proc = Some p"
    and "distinct (listed_fds dir_fd entries)" "set (listed_fds dir_fd entries) \<inter> F = {}"
  shows "\<exists>m h k. register_entries proc dir_fd entries s = Inr ((), with_table proc p m h k s) \<and>
    fresh_table n (F \<union> set (listed_fds dir_fd entries)) m h0 h k"
  using assms
proof (induction entries arbitrary: s F p)
  case Nil
  then have "register_entries proc dir_fd [] s = Inr ((), with_table proc p (fd_map p) (fds s) (next_ptr s) s)"
    by (simp add: run with_table_same)
  moreover have "fresh_table n (F \<union> set (listed_fds dir_fd [])) (fd_map p) h0 (fds s) (next_ptr s)"
    using Nil.prems(1) by (simp add: listed_fds_def)
  ultimately show ?case by (intro exI conjI)
next
  case (Cons d entries)
  show ?case
  proof (cases "d = [] \<or> \<not> isdigit (hd d) \<or> atoi d = dir_fd")
    case True
    then have same: "listed_fds dir_fd (d # entries) = listed_fds dir_fd entries"
      "register_entries proc dir_fd (d # entries) s = register_entries proc dir_fd entries s"
      by (auto simp: listed_fds_def Let_def)
    show ?thesis unfolding same by (rule Cons.IH [OF Cons.prems(1,2) Cons.prems(3,4) [unfolded same]])
  next
    case False
    let ?fd = "atoi d" and ?k = "next_ptr s"
    let ?d = "(zero_desc proc)\<lparr>fd_refcount := 1, fd_type := initial_fd_type ?fd, fd_proc := proc, fd_fd := ?fd, fd_flags := 0\<rparr>"
    let ?m = "(fd_map p)(?fd \<mapsto> ?k)"
    let ?t = "with_table proc p ?m ((fds s)(?k \<mapsto> ?d)) (Suc ?k) s"
    have l: "listed_fds dir_fd (d # entries) = ?fd # listed_fds dir_fd entries"
      using False by (simp add: listed_fds_def)
    then have fd: "?fd \<notin> F" using Cons.prems(4) by auto
    have "register_file_descriptor proc ?fd (initial_fd_type ?fd) s = Inr ((), ?t)"
      using Cons.prems(2) by (simp add: register_file_descriptor_def run zero_desc_def with_table_def)
    then have entries: "register_entries proc dir_fd (d # entries) s = register_entries proc dir_fd entries ?t"
      using False by (simp add: Let_def run)
    have table: "fresh_table n (insert ?fd F) (fd_map (p\<lparr>fd_map := ?m\<rparr>)) h0 (fds ?t) (next_ptr ?t)"
      using fresh_table_insert [OF Cons.prems(1) fd, of ?d] by simp
    have fds: "distinct (listed_fds dir_fd entries)" "set (listed_fds dir_fd entries) \<inter> insert ?fd F = {}"
      using Cons.prems(3,4) l by auto
    have "procs ?t proc = Some (p\<lparr>fd_map := ?m\<rparr>)" by simp
    from Cons.IH [OF table this fds] obtain m h k where "register_entries proc dir_fd entries ?t =
        Inr ((), with_table proc (p\<lparr>fd_map := ?m\<rparr>) m h k ?t)"
      "fresh_table n (insert ?fd F \<union> set (listed_fds dir_fd entries)) m h0 h k" by (elim exE conjE)
    then have "register_entries proc dir_fd (d # entries) s = Inr ((), with_table proc p m h k s)"
      "fresh_table n (F \<union> set (listed_fds dir_fd (d # entries))) m h0 h k"
      unfolding entries l by simp_all
    then show ?thesis by (intro exI conjI)
  qed
qed
text \<open>No process or descriptor lies at an address that has not been allocated yet.\<close>

definition unallocated :: "'w st \<Rightarrow> bool" where
  "unallocated s \<longleftrightarrow> dom (procs s) \<subseteq> {..<next_ptr s} \<and> dom (fds s) \<subseteq> {..<next_ptr s}"

text \<open>
  C28. A new process has exactly the descriptors that \<open>/proc/self/fd\<close> lists, except for the one
  the directory itself is read through, each with a structure of its own; and releasing the
  process at once gives back all the memory that its creation took.
\<close>

theorem new_then_destroy:
  assumes s: "unallocated s" "\<not> strace_option s"
    and listed: "proc_self_fd E (world s) = (entries, dir_fd)" "distinct (listed_fds dir_fd entries)"
    and order: "\<And>m. dom m = set (listed_fds dir_fd entries) \<Longrightarrow> visits E m"
  shows "\<exists>proc t k. process_descriptor_new E name argv0 pid s = Inr (proc, t) \<and>
    dom (fd_lookup proc t) = set (listed_fds dir_fd entries) \<and>
    process_descriptor_destroy E proc t = Inr ((), s\<lparr>next_ptr := k\<rparr>)"
proof -
  let ?n = "next_ptr s"
  let ?p = "\<lparr>p_pid = pid, p_name = name, p_host = None, fd_map = Map.empty, p_status = 0,
    in_syscall = False, strace_out = None, curcol = 0\<rparr>"
  let ?s = "s\<lparr>procs := (procs s)(?n \<mapsto> ?p), next_ptr := Suc ?n\<rparr>"
  have "fresh_table (Suc ?n) {} (fd_map ?p) (fds s) (fds ?s) (next_ptr ?s)"
    by (simp add: fresh_table_def)
  from register_entries_run [OF this _ listed(2), of ?n] obtain m h k where
    entries: "register_entries ?n dir_fd entries ?s = Inr ((), with_table ?n ?p m h k ?s)"
    and table: "fresh_table (Suc ?n) (set (listed_fds dir_fd entries)) m (fds s) h k" by auto
  let ?q = "?p\<lparr>fd_map := m, p_host := MSG_get_host_by_name E name\<rparr>"
  let ?t = "s\<lparr>procs := (procs s)(?n \<mapsto> ?q), fds := h, next_ptr := k\<rparr>"
  have new: "process_descriptor_new E name argv0 pid s = Inr (?n, ?t)"
    using entries s(2) by (simp add: process_descriptor_new_def listed(1) run with_table_def)
  have m: "dom m = set (listed_fds dir_fd entries)" "inj_on m (dom m)" "ran m = {Suc ?n..<k}" "ran m \<subseteq> dom h"
    using table by (auto simp: fresh_table_def)
  have "fds s a = None" if "a \<ge> ?n" for a using s(1) that by (fastforce simp: unallocated_def)
  then have "h |` (- ran m) = fds s"
    using table by (auto simp: m(3) fresh_table_def restrict_map_def fun_eq_iff)
  moreover have "(procs s)(?n := None) = procs s"
    using s(1) by (intro fun_upd_idem) (auto simp: unallocated_def)
  moreover have "visits E m" using order m(1) by simp
  ultimately have "process_descriptor_destroy E ?n ?t = Inr ((), s\<lparr>next_ptr := k\<rparr>)"
    using destroy_run [of ?t ?n ?q E] m by simp
  with new m(1) show ?thesis by (intro exI [of _ ?n] exI [of _ ?t] exI [of _ k]) (simp add: fd_lookup_def fun_eq_iff dom_def)
qed

section \<open>Witnesses\<close>

lemma sample_filedes: "le_int (read_bytes (\<lambda>_. 0) 0 8) = 0"
  by code_simp

text \<open>The process \<open>0\<close> of the sample state has just made a pipe with the numbers 0 and 1.\<close>

definition piped_st :: "kernel st" where
  "piped_st = piped 0 0 sample_proc sample_st"

lemma piped_st:
  "procs piped_st 0 = Some (sample_proc\<lparr>in_syscall := False, fd_map := [3 \<mapsto> 1, 0 \<mapsto> 3, 1 \<mapsto> 4]\<rparr>)"
  "fds piped_st 3 = Some (pipe_desc 0 0 2)" "pipes piped_st = [2 \<mapsto>
     \<lparr>read_end = [\<lparr>end_fd = 0, end_proc = 0\<rparr>], write_end = [\<lparr>end_fd = 1, end_proc = 0\<rparr>]\<rparr>]"
  by (simp_all add: piped_st_def piped_def sample_st_def sample_proc_def peeked_def)

theorem close_pipe_spec_witness:
  "\<exists>t. process_close_call sample_env 0 0 piped_st = Inr ((), t) \<and> fd_lookup 0 t 0 = None \<and>
     pipes t 2 = Some \<lparr>read_end = [], write_end = [\<lparr>end_fd = 1, end_proc = 0\<rparr>]\<rparr>"
  using close_pipe_spec [OF piped_st(1) _ piped_st(2), of 0 2 _ sample_env] piped_st(3)
  by (auto simp: pipe_desc_def live_ends_def live_proc_def own_end_def piped_st)

theorem dup_then_close_witness:
  "\<exists>t. sq (syscall_dup_post (sample_reg\<lparr>reg_ret := 7\<rparr>) 0) (process_close_call sample_env 0 7) piped_st = Inr ((), t) \<and>
     pipes t = pipes piped_st"
  using dup_then_close [OF piped_st(1), of "sample_reg\<lparr>reg_ret := 7\<rparr>" 3 "pipe_desc 0 0 2" 2 _ sample_env] piped_st
  by (simp add: pipe_desc_def live_ends_def live_proc_def sample_reg_def c_int_def)


theorem process_descriptor_destroy_spec_witness:
  "process_descriptor_destroy sample_env 0 sample_st =
     Inr ((), sample_st\<lparr>fds := fds sample_st |` (- {1}), procs := (procs sample_st)(0 := None)\<rparr>) \<and>
   process_descriptor_destroy sample_env 0 (sample_st\<lparr>procs := [0 \<mapsto> sample_proc\<lparr>fd_map := [3 \<mapsto> 1, 4 \<mapsto> 1]\<rparr>]\<rparr>) = Inl Dangling_ptr"
proof -
  have "visits sample_env [3 \<mapsto> 1]" "visits sample_env [3 \<mapsto> 1, 4 \<mapsto> 1]"
    by (auto simp: visits_def sample_env_def upt_rec)
  then show ?thesis
    using process_descriptor_destroy_spec [of sample_st 0 sample_proc sample_env]
      process_descriptor_destroy_spec [of "sample_st\<lparr>procs := [0 \<mapsto> sample_proc\<lparr>fd_map := [3 \<mapsto> 1, 4 \<mapsto> 1]\<rparr>]\<rparr>" 0
        "sample_proc\<lparr>fd_map := [3 \<mapsto> 1, 4 \<mapsto> 1]\<rparr>" sample_env]
    by (simp add: sample_st_def sample_proc_def)
qed

theorem new_then_destroy_witness:
  "\<exists>proc t k. process_descriptor_new sample_env ''alice'' ''a'' 100 sample_st = Inr (proc, t) \<and>
    dom (fd_lookup proc t) = {0, 1, 2} \<and> process_descriptor_destroy sample_env proc t = Inr ((), sample_st\<lparr>next_ptr := k\<rparr>)"
proof -
  have listed: "listed_fds 3 [''.'', ''..'', ''0'', ''1'', ''2'', ''3''] = [0, 1, 2]" by code_simp
  have "visits sample_env m" if "dom m = {0, 1, 2}" for m
  proof -
    have "m k \<noteq> None \<longleftrightarrow> k \<in> {0, 1, 2}" for k using that by auto
    then show ?thesis using that by (auto simp: visits_def sample_env_def upt_rec)
  qed
  then show ?thesis
    using new_then_destroy [of sample_st sample_env _ 3 "''alice''" "''a''" 100] listed
    by (auto simp: sample_st_def sample_env_def unallocated_def)
qed

end
