(* ===== verification/Call_Properties.thy ===== *)
theory Call_Properties
  imports Network_Properties Descriptor_Properties
begin

unbundle bit_operations_syntax

text \<open>
  More of what the traced process sees: the translation of the addresses of \<open>connect\<close>, a
  refused connection, the data that \<open>read\<close> and \<open>recvfrom\<close> deliver, and the copies
  that \<open>fcntl\<close> makes.
\<close>

section \<open>Socket addresses in memory\<close>

lemma encode_decode_sockaddr_in:
  assumes "length bs = 16"
  shows "encode_sockaddr_in (decode_sockaddr_in bs) = bs"
proof -
  have num: "le_bytes n (le_val (take n (drop k bs))) = take n (drop k bs)" "le_val (take n (drop k bs)) < 256 ^ n"
    if "n + k \<le> 16" for n k
  proof -
    have "length (take n (drop k bs)) = n" using that assms by simp
    then show "le_bytes n (le_val (take n (drop k bs))) = take n (drop k bs)" "le_val (take n (drop k bs)) < 256 ^ n"
      using le_bytes_val [of "take n (drop k bs)"] le_val_bound [of "take n (drop k bs)"] by simp_all
  qed
  have "(take 2 bs @ take 2 (drop 2 bs) @ take 4 (drop 4 bs)) @ take 8 (drop 8 bs) = take 8 bs @ drop 8 bs"
    using assms take_add [of 2 2 bs] take_add [of 4 4 bs] by (intro arg_cong2 [where f = append]) simp_all
  then show ?thesis
    using num [of 2 0] num [of 2 2] num [of 4 4]
    by (simp add: encode_sockaddr_in_def decode_sockaddr_in_def unat_of_nat)
qed

lemma write_bytes_back:
  assumes "length bs = n" "n \<le> 2 ^ 64"
  shows "write_bytes a (read_bytes m a n) (write_bytes a bs m) = m"
  using assms by (auto simp: write_bytes_def read_bytes_def fun_eq_iff)

section \<open>connect with address translation\<close>

text \<open>The host that an address of \<open>connect\<close> means for a process.\<close>

definition destination :: "'w env \<Rightarrow> process_descriptor \<Rightarrow> u32 \<Rightarrow> 'w st \<Rightarrow> msg_host option" where
  "destination E p ip s = (if ip = loopback then p_host p
     else Option.bind (list_ip (global_data s) (inet_ntoa ip)) (MSG_get_host_by_name E))"

lemma get_real_port_run:
  assumes "procs s proc = Some p" "destination E p ip s = Some host" "port_entry E host s port = Some d" "fits port"
  shows "get_real_port E proc ip port s = Inr (real_port d, s)"
  using assms
  by (auto simp: get_real_port_def get_host_by_ip_def destination_def port_entry_def get_host_desc_def port_key_def fits_def run
    split: option.splits if_splits)

lemma poke_sockaddr:
  assumes "tracee_memory E pid mem" "length (sin_zero sai) = 8"
  obtains w where "ptrace_poke E pid a (encode_sockaddr_in sai) (of_nat sizeof_sockaddr_in) s = Inr ((), poked 2 w s)"
    "mem w = write_bytes a (encode_sockaddr_in sai) (mem (world s))"
  using ptrace_poke_spec [OF assms(1), of "of_nat sizeof_sockaddr_in" "encode_sockaddr_in sai" a s thesis]
    length_encode_sockaddr_in [OF assms(2)] that
  by (simp add: words_def sizeof_sockaddr_in_def)

lemma poked_simps [simp]:
  "procs (poked k w s) = procs s" "world (poked k w s) = w" "list_translate (global_data (poked k w s)) = list_translate (global_data s)"
  "procs (peeked k s) = procs s" "list_translate (global_data (peeked k s)) = list_translate (global_data s)"
  by (simp_all add: poked_def peeked_def)


section \<open>A refused connection\<close>

text \<open>
  Nobody listens at an address: no host has it, or the lookup of the port finds no socket on
  the device.
\<close>

definition nobody_listens :: "'w env \<Rightarrow> process_descriptor \<Rightarrow> sockaddr_in \<Rightarrow> 'w st \<Rightarrow> bool" where
  "nobody_listens E p sai s =
     (case destination E p (s_addr sai) s of
        None \<Rightarrow> True
      | Some h \<Rightarrow> get_binding_socket_host E h (port_of (sin_port sai)) (if s_addr sai = loopback then PORT_LOCAL else PORT_REMOTE) s =
          Inr (None, s))"

lemma refuse_connect_run:
  assumes p: "procs s proc = Some p" and k: "tracee_registers E (p_pid p) regs" "tuxcall_fails E (p_pid p) regs"
  shows "\<exists>w. refuse_connect E reg proc (p_pid p) s = Inr (False, counted 2 2 1 w (s\<lparr>procs := (procs s)(proc \<mapsto> p\<lparr>in_syscall := False\<rparr>)\<rparr>)) \<and>
    regs w = (regs (world s))\<lparr>orig_rax := SYS_connect, rax := - 111\<rparr>"
proof -
  have r: "of_c_int (c_int (of_c_int (- ECONNREFUSED))) = - 111" by (simp add: ECONNREFUSED_def of_c_int_def c_int_def)
  obtain w where neutral: "ptrace_neutralize_syscall E (p_pid p) s = Inr ((), counted 1 1 1 w s)"
    and restore: "\<And>v. world v = w \<Longrightarrow> \<exists>u. ptrace_restore_syscall E (p_pid p) SYS_connect (- 111) v = Inr ((), counted 1 1 0 u v) \<and>
      regs u = (regs (world s))\<lparr>orig_rax := SYS_connect, rax := - 111\<rparr>"
    using restored_call [OF k, of s SYS_connect "- 111"] by blast
  let ?v = "(counted 1 1 1 w s)\<lparr>procs := (procs s)(proc \<mapsto> p\<lparr>in_syscall := False\<rparr>)\<rparr>"
  obtain u where u: "ptrace_restore_syscall E (p_pid p) SYS_connect (- 111) ?v = Inr ((), counted 1 1 0 u ?v)"
      "regs u = (regs (world s))\<lparr>orig_rax := SYS_connect, rax := - 111\<rparr>"
    using restore [of ?v] by (auto simp: counted_def)
  have "counted 1 1 0 u ?v = counted 2 2 1 u (s\<lparr>procs := (procs s)(proc \<mapsto> p\<lparr>in_syscall := False\<rparr>)\<rparr>)"
    by (simp add: counted_def)
  with neutral u p show ?thesis
    by (intro exI [of _ u]) (simp add: refuse_connect_def restore_int_def set_ret_def r run counted_def)
qed

lemma nobody_listens_tables:
  assumes "list_host (global_data t) = list_host (global_data s)" "list_ip (global_data t) = list_ip (global_data s)"
  shows "destination E p ip t = destination E p ip s" "nobody_listens E p sai t = nobody_listens E p sai s"
  using assms host_tables [OF assms(1)]
  by (auto simp: destination_def nobody_listens_def get_binding_eq split: option.split)

lemma connect_host_run:
  assumes "p_host p = Some own" "host_known E own s"
  shows "\<exists>ip. connect_host E own sa s = Inr ((ip, if sa = loopback then PORT_LOCAL else PORT_REMOTE, destination E p sa s), s)"
  using assms
  by (auto simp: connect_host_def get_ip_of_host_def get_host_by_ip_def get_host_desc_def host_known_def destination_def run
    split: option.split)


section \<open>The data that recvfrom delivers\<close>

text \<open>Setting the registers of a traced process does not change its memory.\<close>

definition registers_apart :: "'w env \<Rightarrow> int \<Rightarrow> ('w \<Rightarrow> mem) \<Rightarrow> bool" where
  "registers_apart E pid mem \<longleftrightarrow> (\<forall>r w w'. PTRACE_SETREGS E pid r w = Some w' \<longrightarrow> mem w' = mem w)"

lemma restore_keeps_memory:
  assumes "tracee_registers E pid regs" "registers_apart E pid mem"
  obtains w where "ptrace_restore_syscall E pid nr r s = Inr ((), counted 1 1 0 w s)"
    "regs w = (regs (world s))\<lparr>orig_rax := nr, rax := r\<rparr>" "mem w = mem (world s)"
proof -
  let ?r = "(regs (world s))\<lparr>orig_rax := nr, rax := r\<rparr>"
  obtain w where w: "PTRACE_SETREGS E pid ?r (world s) = Some w" "regs w = ?r"
    using assms(1) unfolding tracee_registers_def by blast
  then have "ptrace_restore_syscall E pid nr r s = Inr ((), counted 1 1 0 w s)"
    by (simp add: ptrace_restore_syscall_def run getregs_spec [OF assms(1)] ptrace_setregs_def increment_nb_setregs_def counted_def)
  moreover have "mem w = mem (world s)" using w(1) assms(2) unfolding registers_apart_def by blast
  ultimately show thesis using that w(2) by blast
qed

lemma poke_beyond:
  assumes mem: "tracee_memory E pid mem" and "c < len" "length src < c + 8 * words (len - c)"
  shows "ptrace_poke_loop E pid dst src c len s = Inl Out_of_bounds"
  using assms(2-)
proof (induction "words (len - c)" arbitrary: c s)
  case 0
  then show ?case by (simp add: words_def)
next
  case (Suc k)
  from Suc.hyps(2) words_step [of "len - c"] Suc.prems have k: "k = words (len - (c + 8))" by simp
  show ?case
  proof (cases "c + 8 \<le> length src")
    case True
    obtain w where w: "PTRACE_POKEDATA E pid (dst + of_nat c) (word64 (take 8 (drop c src))) (world s) = Some w"
      using mem unfolding tracee_memory_def by blast
    have "k \<noteq> 0" using True Suc.prems(2) Suc.hyps(2) by (cases k) (simp_all flip: Suc.hyps(2))
    then have "c + 8 < len" using k by (auto simp: words_def)
    with True Suc w show ?thesis
      by (subst ptrace_poke_loop.simps) (simp add: run increment_nb_poke_def k flip: Suc.hyps(2))
  qed (use Suc.prems in \<open>simp add: ptrace_poke_loop.simps run\<close>)
qed

lemma read_written:
  assumes "n \<le> length bs" "length bs \<le> 2 ^ 64"
  shows "read_bytes (write_bytes a bs m) a n = take n bs"
proof -
  have "read_bytes (write_bytes a bs m) a n = take n (read_bytes (write_bytes a bs m) a (length bs))"
    using assms(1) by (simp add: read_bytes_def take_map)
  then show ?thesis using read_write_bytes [OF assms(2)] by simp
qed

lemma c_str_text:
  assumes "0 \<notin> set cs"
  shows "buffer_text (cs @ 0 # ds) s = Inr (map (\<lambda>b. char_of (unat b)) cs, s)"
  using assms by (induction cs) (auto simp: buffer_text_def run)

text \<open>
  A message that contains a zero byte is taken for a string: the traced process gets its bytes
  up to and including the first zero, or as many of them as its buffer can hold. The copy is
  made in whole words.
\<close>

lemma recvfrom_out_delivers:
  assumes p: "procs s proc = Some p" "\<not> strace_option s" and no_addr: "arg4 reg = 0"
    and k: "tracee_memory E (p_pid p) mem" "tracee_registers E (p_pid p) regs" "registers_apart E (p_pid p) mem"
    and bs: "bs = cs @ 0 # ds" "0 \<notin> set cs" "length bs < 2 ^ 63"
    and n: "n = min (length cs + 1) (unat (arg2 reg))"
  shows "if 8 * words n \<le> length bs
    then \<exists>t. process_recvfrom_out_call E reg proc (Buffer bs) s = Inr ((), t) \<and> rax (regs (world t)) = of_nat n \<and>
      mem (world t) = write_bytes (arg1 reg) (take (8 * words n) bs) (mem (world s)) \<and>
      read_bytes (mem (world t)) (arg1 reg) n = take n (cs @ [0]) \<and>
      fds t = fds s \<and> procs t = procs s \<and> comms t = comms s
    else process_recvfrom_out_call E reg proc (Buffer bs) s = Inl Out_of_bounds"
proof -
  define m where "m = (if of_nat (length cs) + 1 \<le> arg2 reg then of_nat (length cs) + 1 else arg2 reg)"
  have len: "unat (of_nat (length cs) + 1 :: u64) = length cs + 1"
    using bs(1,3) by (simp add: unat_of_nat unat_word_ariths flip: of_nat_Suc)
  then have m: "unat m = n" by (simp add: m_def n word_le_nat_alt min_def)
  then have m': "of_nat n = m" by auto
  have call: "process_recvfrom_out_call E reg proc (Buffer bs) s = block [poke_data E (p_pid p) (arg1 reg) (Buffer bs) m,
      ptrace_restore_syscall E (p_pid p) SYS_recvfrom m, print_recvfrom E (reg\<lparr>reg_ret := m\<rparr>) proc (Buffer bs)] s"
    using p no_addr
    by (simp add: process_recvfrom_out_call_def translate_recvfrom_def run data_text_def bs(1) Let_def m_def c_str_text [OF bs(2)] split: sum.split)
  show ?thesis
  proof (cases "8 * words n \<le> length bs")
    case True
    have "\<exists>w. poke_data E (p_pid p) (arg1 reg) (Buffer bs) m s = Inr ((), poked (words n) w s) \<and>
      mem w = write_bytes (arg1 reg) (take (8 * words n) bs) (mem (world s))"
    proof (cases "m = 0")
      case False
      have "8 * words (unat m) \<le> length bs" "length bs \<le> 2 ^ 64" using True bs(3) m by simp_all
      then obtain w where "ptrace_poke E (p_pid p) (arg1 reg) bs m s = Inr ((), poked (words (unat m)) w s)"
        "mem w = write_bytes (arg1 reg) (take (8 * words (unat m)) bs) (mem (world s))"
        by (rule ptrace_poke_spec [OF k(1)])
      then show ?thesis using False m by (intro exI [of _ w]) (simp add: poke_data_def)
    qed (use m in \<open>auto simp: poke_data_def run poked_def intro!: exI [of _ "world s"]\<close>)
    then obtain w where w: "poke_data E (p_pid p) (arg1 reg) (Buffer bs) m s = Inr ((), poked (words n) w s)"
      "mem w = write_bytes (arg1 reg) (take (8 * words n) bs) (mem (world s))" by blast
    obtain u where u: "ptrace_restore_syscall E (p_pid p) SYS_recvfrom m (poked (words n) w s) = Inr ((), counted 1 1 0 u (poked (words n) w s))"
      "rax (regs u) = m" "mem u = mem w"
      by (rule restore_keeps_memory [OF k(2,3), of SYS_recvfrom m "poked (words n) w s"]) simp
    have "read_bytes (mem w) (arg1 reg) n = take n (take (8 * words n) bs)"
      using True bs(3) words_le [of n] by (simp add: w(2) read_written)
    also have "\<dots> = take n (cs @ [0])" using words_le [of n] bs(1) n by (simp add: min_def)
    finally have "read_bytes (mem w) (arg1 reg) n = take n (cs @ [0])" .
    moreover have "process_recvfrom_out_call E reg proc (Buffer bs) s = Inr ((), counted 1 1 0 u (poked (words n) w s))"
      using w(1) u(1) p(2) by (simp add: call run print_recvfrom_def counted_def poked_def)
    ultimately show ?thesis using True w(2) u(2,3) m' by (simp add: counted_def poked_def)
  next
    case False
    then have "0 < n" by (cases n) simp_all
    then have "m \<noteq> 0" "0 < n" using m by auto
    then show ?thesis using False m poke_beyond [OF k(1), of 0 n bs "arg1 reg" s]
      by (simp add: call run poke_data_def ptrace_poke_def)
  qed
qed

section \<open>The data that read delivers\<close>

text \<open>
  A neutralised call does not change the memory of the traced process, and destroying a task
  of the engine changes neither its memory nor its registers.
\<close>

definition tuxcall_apart :: "'w env \<Rightarrow> int \<Rightarrow> ('w \<Rightarrow> user_regs) \<Rightarrow> ('w \<Rightarrow> mem) \<Rightarrow> bool" where
  "tuxcall_apart E pid regs mem \<longleftrightarrow>
     (\<forall>w w'. orig_rax (regs w) = SYS_tuxcall \<longrightarrow> PTRACE_SYSCALL E pid w = Some w' \<longrightarrow> mem (snd (sys_waitpid E pid w')) = mem w)"

definition tasks_apart :: "'w env \<Rightarrow> ('w \<Rightarrow> user_regs) \<Rightarrow> ('w \<Rightarrow> mem) \<Rightarrow> bool" where
  "tasks_apart E regs mem \<longleftrightarrow>
     (\<forall>task w. regs (MSG_task_destroy E task w) = regs w \<and> mem (MSG_task_destroy E task w) = mem w)"

lemma neutralize_keeps_memory:
  assumes "tracee_registers E pid regs" "tuxcall_fails E pid regs" "registers_apart E pid mem" "tuxcall_apart E pid regs mem"
  obtains w where "ptrace_neutralize_syscall E pid s = Inr ((), counted 1 1 1 w s)"
    "regs w = (regs (world s))\<lparr>orig_rax := SYS_tuxcall, rax := - 38\<rparr>" "mem w = mem (world s)"
proof -
  let ?r = "(regs (world s))\<lparr>orig_rax := SYS_tuxcall\<rparr>"
  obtain w1 where w1: "PTRACE_SETREGS E pid ?r (world s) = Some w1" "regs w1 = ?r"
    using assms(1) unfolding tracee_registers_def by blast
  then have tux: "orig_rax (regs w1) = SYS_tuxcall" by simp
  with assms(2) obtain w2 where w2: "PTRACE_SYSCALL E pid w1 = Some w2" "regs (snd (sys_waitpid E pid w2)) = (regs w1)\<lparr>rax := - 38\<rparr>"
    unfolding tuxcall_fails_def by blast
  have "ptrace_neutralize_syscall E pid s = Inr ((), counted 1 1 1 (snd (sys_waitpid E pid w2)) s)"
    using w1(1) w2(1)
    by (simp add: ptrace_neutralize_syscall_def run getregs_spec [OF assms(1)] ptrace_setregs_def increment_nb_setregs_def
      ptrace_resume_process_def waitpid_def increment_nb_syscall_def counted_def split: prod.split)
  moreover have "mem w1 = mem (world s)" using w1(1) assms(3) unfolding registers_apart_def by blast
  moreover have "mem (snd (sys_waitpid E pid w2)) = mem w1" using w2(1) tux assms(4) unfolding tuxcall_apart_def by blast
  ultimately show thesis using that w1(2) w2(2) by simp
qed

lemma read_out_run:
  assumes "procs s proc = Some p" "c_int (reg_ret reg) \<le> 0"
    and "tracee_registers E (p_pid p) regs" "registers_apart E (p_pid p) mem"
  obtains w where "process_read_out_call E reg proc data s = Inr ((), counted 1 1 0 w s)" "mem w = mem (world s)"
    "regs w = (regs (world s))\<lparr>orig_rax := SYS_read, rax := of_c_int (c_int (reg_ret reg))\<rparr>"
proof -
  obtain w where "ptrace_restore_syscall E (p_pid p) SYS_read (of_c_int (c_int (reg_ret reg))) s = Inr ((), counted 1 1 0 w s)"
    "regs w = (regs (world s))\<lparr>orig_rax := SYS_read, rax := of_c_int (c_int (reg_ret reg))\<rparr>" "mem w = mem (world s)"
    by (rule restore_keeps_memory [OF assms(3,4)])
  with assms(1,2) that show thesis by (simp add: process_read_out_call_def restore_int_def run)
qed

text \<open>
  C40. A \<open>read\<close> on a socket in full mediation delivers nothing. At the entry of the call
  the result register is not positive, and the handler, after it has received a message,
  restores this value instead of the size of the message: the traced process gets it back as
  the result, and its memory is what it was when the message came, whatever the message is.
\<close>

theorem read_delivers_nothing:
  assumes build: "\<not> address_translation E" and entry: "c_int (reg_ret reg) \<le> 0"
    and received: "bnd (choose_mailbox E file_desc) (receive_task E) s = Inr ((MSG_OK, task, amount, data), u)"
    and p: "procs u proc = Some p"
    and k: "tracee_registers E (p_pid p) regs" "tuxcall_fails E (p_pid p) regs" "registers_apart E (p_pid p) mem"
      "tuxcall_apart E (p_pid p) regs mem" "tasks_apart E regs mem"
  shows "\<exists>t. read_socket E reg proc fd file_desc s = Inr ((), t) \<and> mem (world t) = mem (world u) \<and>
    regs (world t) = (regs (world u))\<lparr>orig_rax := SYS_read, rax := of_c_int (c_int (reg_ret reg))\<rparr>"
proof -
  obtain w where w: "ptrace_neutralize_syscall E (p_pid p) u = Inr ((), counted 1 1 1 w u)"
    "regs w = (regs (world u))\<lparr>orig_rax := SYS_tuxcall, rax := - 38\<rparr>" "mem w = mem (world u)"
    by (rule neutralize_keeps_memory [OF k(1-4)])
  define v where "v = (counted 1 1 1 w u)\<lparr>procs := (procs u)(proc \<mapsto> p\<lparr>in_syscall := False\<rparr>)\<rparr>"
  have v: "procs v proc = Some (p\<lparr>in_syscall := False\<rparr>)" "world v = w" by (simp_all add: v_def counted_def)
  obtain x where x: "process_read_out_call E reg proc data v = Inr ((), counted 1 1 0 x v)" "mem x = mem w"
    "regs x = (regs w)\<lparr>orig_rax := SYS_read, rax := of_c_int (c_int (reg_ret reg))\<rparr>"
    using read_out_run [OF v(1) entry, of E regs mem data] k(1,3) v(2) by auto
  obtain mb y where "choose_mailbox E file_desc s = Inr (mb, y)" "receive_task E mb y = Inr ((MSG_OK, task, amount, data), u)"
    using received by (auto simp: run split: sum.splits)
  then have "read_socket E reg proc fd file_desc s =
      Inr ((), (counted 1 1 0 x v)\<lparr>world := MSG_task_destroy E task x\<rparr>)"
    using build p w(1) x(1) by (simp add: read_socket_def run v_def counted_def)
  then show ?thesis using k(5) x(2,3) w(2,3) unfolding tasks_apart_def by simp
qed

section \<open>The copies that fcntl makes\<close>

lemma cloexec_bits: "bit (O_CLOEXEC :: u32) n \<longleftrightarrow> n = 19" "bit (FD_CLOEXEC :: u32) n \<longleftrightarrow> n = 0"
proof -
  have flags: "O_CLOEXEC = (2 ^ 19 :: u32)" "FD_CLOEXEC = (2 ^ 0 :: u32)" by (simp_all add: O_CLOEXEC_def FD_CLOEXEC_def)
  show "bit (O_CLOEXEC :: u32) n \<longleftrightarrow> n = 19" "bit (FD_CLOEXEC :: u32) n \<longleftrightarrow> n = 0"
    unfolding flags bit_exp_iff by auto
qed

lemma dup_flags_cloexec: "fcntl_dup_flags flags AND O_CLOEXEC = 0"
proof (cases "bit flags 19")
  case True
  then have "flags AND O_CLOEXEC = O_CLOEXEC" by (intro bit_eqI) (auto simp: bit_and_iff cloexec_bits)
  then show ?thesis by (intro bit_eqI) (auto simp: fcntl_dup_flags_def bit_simps cloexec_bits)
next
  case False
  then show ?thesis by (intro bit_eqI) (auto simp: fcntl_dup_flags_def bit_simps cloexec_bits)
qed

text \<open>
  C27. The command \<open>F_DUPFD\<close> of \<open>fcntl\<close> gives the process a new descriptor under the
  number that the kernel returned, with the type, stream and pipe of the old one and without
  the flag \<open>O_CLOEXEC\<close>; the other entries of the table and the other descriptors stay.
  The new object is always allocated as a plain descriptor, so for a socket it is marked as
  one without being one, and closing it again accesses the socket fields outside of it.
\<close>

theorem fcntl_dup_spec:
  assumes p: "procs s proc = Some p" "in_syscall p" "\<not> strace_option s"
    and d: "fd_map p (c_int (arg0 reg)) = Some a" "fds s a = Some d" "a \<noteq> next_ptr s"
    and cmd: "c_int (arg1 reg) = F_DUPFD" "c_int (reg_ret reg) \<noteq> - 1"
  shows "\<exists>c t. syscall_fcntl E reg proc s = Inr ((), t) \<and>
    fd_lookup proc t = (fd_lookup proc s)(c_int (reg_ret reg) \<mapsto> next_ptr s) \<and> fds t = (fds s)(next_ptr s \<mapsto> c) \<and>
    fd_type c = fd_type d \<and> fd_stream c = fd_stream d \<and> fd_pipe c = fd_pipe d \<and> fd_flags c AND O_CLOEXEC = 0 \<and>
    (fd_type d = FD_SOCKET \<longrightarrow> process_close_call E proc (c_int (reg_ret reg)) t = Inl Out_of_bounds)"
proof -
  let ?new = "c_int (reg_ret reg)"
  define c where "c = (zero_desc proc)\<lparr>fd_type := fd_type d, fd_fd := ?new, fd_stream := fd_stream d,
    fd_pipe := fd_pipe d, fd_flags := fcntl_dup_flags (fd_flags d), fd_refcount := 1\<rparr>"
  define t where "t = s\<lparr>procs := (procs s)(proc \<mapsto> p\<lparr>in_syscall := False, fd_map := (fd_map p)(?new \<mapsto> next_ptr s)\<rparr>),
    fds := (fds s)(next_ptr s \<mapsto> c), next_ptr := next_ptr s + 1\<rparr>"
  have called: "syscall_fcntl E reg proc s = Inr ((), t)"
    using p d cmd
    by (simp add: syscall_fcntl_def process_fcntl_call_def fcntl_command_def fcntl_dup_def process_descriptor_set_fd_def
      Let_def run F_DUPFD_def F_GETLK_def F_SETLK_def F_SETLKW_def t_def c_def)
  have c: "as_socket c = None" "fd_type c = fd_type d" by (simp_all add: c_def zero_desc_def)
  have "process_close_call E proc ?new t = Inl Out_of_bounds" if "fd_type d = FD_SOCKET"
    using that c by (simp add: process_close_call_def refcount_incr_def socket_close_def get_infos_socket_def run t_def)
  with called c show ?thesis
    by (intro exI [of _ c] exI [of _ t]) (auto simp: t_def fd_lookup_def p(1) c_def dup_flags_cloexec)
qed

section \<open>Witnesses\<close>

text \<open>
  The process has the address of port 80 of \<open>alice\<close> in its memory, and the port 5000 of the
  loopback device stands for it.
\<close>

definition calling_st :: "kernel st" where
  "calling_st = sample_st\<lparr>global_data := sample_globals\<lparr>
       list_host := [''alice'' \<mapsto> \<lparr>host_ip = 1, host_port = [''80'' \<mapsto> sample_port\<lparr>real_port := 5000\<rparr>]\<rparr>],
       list_translate := [''5000'' \<mapsto> \<lparr>td_port_num = 80, td_ip = 1\<rparr>]\<rparr>,
     world := sample_kernel\<lparr>k_mem := write_bytes 4096 (encode_sockaddr_in (inet_sockaddr 1 80)) (\<lambda>_. 0)\<rparr>\<rparr>"

lemma calling_sai: "decode_sockaddr_in (read_bytes (k_mem (world calling_st)) 4096 16) = inet_sockaddr 1 80"
  using read_write_bytes [of "encode_sockaddr_in (inet_sockaddr 1 80)" 4096 "\<lambda>_. 0"]
    length_encode_sockaddr_in [of "inet_sockaddr 1 80"] decode_encode_sockaddr_in [of "inet_sockaddr 1 80"]
  by (simp add: calling_st_def inet_sockaddr_def sizeof_sockaddr_in_def)



lemma sample_apart: "registers_apart sample_env 100 k_mem"
  by (simp add: registers_apart_def sample_env_def)

text \<open>The socket 3 of the process has a stream of which the process is the client.\<close>

definition reading_st :: "kernel st" where
  "reading_st = sample_st\<lparr>fds := [1 \<mapsto> sample_fd\<lparr>fd_stream := Some 9\<rparr>], streams := [9 \<mapsto> \<lparr>sem_client = None, sem_server = None,
     client = Some 0, server = None, to_client = Some ''alice'', to_server = None\<rparr>]\<rparr>"

theorem read_delivers_nothing_witness:
  "\<exists>t. read_socket sample_env (sample_reg\<lparr>arg0 := 3, reg_ret := - 38\<rparr>) 0 3 1 reading_st = Inr ((), t) \<and>
    k_mem (world t) = k_mem (world reading_st) \<and> rax (k_regs (world t)) = - 38"
proof -
  have "bnd (choose_mailbox sample_env 1) (receive_task sample_env) reading_st = Inr ((MSG_OK, 0, 0, Null_data), reading_st)"
    by (simp add: choose_mailbox_def receive_task_def stream_of_def run reading_st_def sample_env_def sample_st_def sample_kernel_def)
  moreover have "tuxcall_apart sample_env 100 k_regs k_mem" "tasks_apart sample_env k_regs k_mem"
    by (auto simp: tuxcall_apart_def tasks_apart_def sample_env_def split: list.split)
  ultimately show ?thesis
    using read_delivers_nothing [of sample_env "sample_reg\<lparr>arg0 := 3, reg_ret := - 38\<rparr>" 1 reading_st 0 0 Null_data reading_st 0 sample_proc k_regs k_mem 3]
      sample_registers sample_tuxcall sample_apart
    by (auto simp: sample_reg_def reading_st_def sample_st_def sample_proc_def sample_env_def c_int_def of_c_int_def)
qed

theorem fcntl_dup_spec_witness:
  "\<exists>t. syscall_fcntl sample_env (sample_reg\<lparr>arg0 := 3, reg_ret := 4\<rparr>) 0 (sample_st\<lparr>procs := [0 \<mapsto> sample_proc\<lparr>in_syscall := True\<rparr>]\<rparr>) = Inr ((), t) \<and>
    fd_lookup 0 t 4 = Some 2 \<and> process_close_call sample_env 0 4 t = Inl Out_of_bounds"
  using fcntl_dup_spec [of "sample_st\<lparr>procs := [0 \<mapsto> sample_proc\<lparr>in_syscall := True\<rparr>]\<rparr>" 0 "sample_proc\<lparr>in_syscall := True\<rparr>"
      "sample_reg\<lparr>arg0 := 3, reg_ret := 4\<rparr>" 1 sample_fd sample_env]
  by (auto simp: sample_reg_def sample_st_def sample_proc_def sample_fd_def c_int_def F_DUPFD_def)

end
