(* ===== verification/Message_Properties.thy ===== *)
theory Message_Properties
  imports Call_Properties
begin

unbundle bit_operations_syntax

text \<open>
  Messages from one traced process to another in full mediation: what \<open>sendto\<close> hands to the
  engine, what \<open>recvfrom\<close> makes of what the engine hands over, and both together.
\<close>

section \<open>The outside\<close>

text \<open>What both handlers rely on of the kernel and of the engine for one traced process.\<close>

definition traced :: "'w env \<Rightarrow> int \<Rightarrow> ('w \<Rightarrow> mem) \<Rightarrow> ('w \<Rightarrow> user_regs) \<Rightarrow> bool" where
  "traced E pid mem regs \<longleftrightarrow> tracee_memory E pid mem \<and> tracee_registers E pid regs \<and> tuxcall_fails E pid regs \<and>
     registers_apart E pid mem \<and> tuxcall_apart E pid regs mem \<and> tasks_apart E regs mem"

lemma tracedD:
  assumes "traced E pid mem regs"
  shows "tracee_memory E pid mem" "tracee_registers E pid regs" "tuxcall_fails E pid regs"
    "registers_apart E pid mem" "tuxcall_apart E pid regs mem" "tasks_apart E regs mem"
  using assms by (simp_all add: traced_def)

section \<open>Receiving\<close>

text \<open>The mailbox that a process listens to on a stream.\<close>

definition own_mailbox :: "msg_process \<Rightarrow> stream_t \<Rightarrow> string option" where
  "own_mailbox self x = (if client x = Some self then to_client x else if server x = Some self then to_server x else None)"

text \<open>The state in which a process waits in \<open>recvfrom\<close> on the descriptor \<open>a\<close>.\<close>

definition waiting :: "proc_ptr \<Rightarrow> process_descriptor \<Rightarrow> fd_ptr \<Rightarrow> fd_descriptor_t \<Rightarrow> 'w st \<Rightarrow> 'w st" where
  "waiting proc p a f s = s\<lparr>procs := (procs s)(proc \<mapsto> p\<lparr>in_syscall := True\<rparr>),
     fds := (fds s)(a \<mapsto> f\<lparr>fd_refcount := fd_refcount f + 1\<rparr>)\<rparr>"

lemma mailbox_run:
  assumes "fds s a = Some f" "fd_stream f = Some st" "streams s st = Some x"
    and "own_mailbox (MSG_process_self E (world s)) x = Some m"
  shows "choose_mailbox E a s = Inr (Some m, s)"
  using assms by (auto simp: choose_mailbox_def stream_of_def own_mailbox_def run split: if_splits)

lemma receive_run:
  assumes "MSG_task_receive E m s = ((MSG_OK, Some task), v)"
  shows "receive_task E (Some m) s = Inr ((MSG_OK, task, MSG_task_get_bytes_amount E task (world v), MSG_task_get_data E task (world v)), v)"
  using assms by (simp add: receive_task_def run)

lemma recvfrom_run:
  assumes build: "\<not> address_translation E" and no_addr: "arg4 reg = 0"
    and p: "procs s proc = Some p" "\<not> in_syscall p"
    and sock: "sock_is proc (c_int (arg0 reg)) a f i s" "is_domain i \<noteq> 16"
    and stream: "fd_stream f = Some st" "streams s st = Some x" "own_mailbox (MSG_process_self E (world s)) x = Some m"
    and received: "MSG_task_receive E m (waiting proc p a f s) = ((MSG_OK, Some task), v)"
      "MSG_task_get_data E task (world v) = Buffer bs"
    and kept: "procs v proc = procs (waiting proc p a f s) proc" "fds v a \<noteq> None" "\<not> strace_option v"
    and tr: "traced E (p_pid p) mem regs"
    and bs: "bs = cs @ 0 # ds" "0 \<notin> set cs" "length bs < 2 ^ 63"
    and n: "n = min (length cs + 1) (unat (arg2 reg))"
  shows "if 8 * words n \<le> length bs
    then \<exists>t. syscall_recvfrom E reg proc s = Inr ((), t) \<and> procs t proc = Some (p\<lparr>in_syscall := False\<rparr>) \<and>
      rax (regs (world t)) = of_nat n \<and> read_bytes (mem (world t)) (arg1 reg) n = take n (cs @ [0]) \<and>
      mem (world t) = write_bytes (arg1 reg) (take (8 * words n) bs) (mem (world v)) \<and>
      comms t = comms v \<and> (\<exists>w. world t = MSG_task_destroy E task w)
    else syscall_recvfrom E reg proc s = Inl Out_of_bounds"
proof -
  note k = tracedD [OF tr]
  let ?u = "waiting proc p a f s" and ?fd = "c_int (arg0 reg)"
  let ?reg = "reg\<lparr>reg_ret := word_of_int (MSG_task_get_bytes_amount E task (world v))\<rparr>"
  have a: "fd_map p ?fd = Some a" "fds s a = Some f" "fd_type f = FD_SOCKET" "as_socket f = Some i"
    using sock p(1) by (auto simp: sock_is_def)
  have pv: "procs v proc = Some (p\<lparr>in_syscall := True\<rparr>)" using kept(1) by (simp add: waiting_def)
  obtain w where w: "ptrace_neutralize_syscall E (p_pid p) v = Inr ((), counted 1 1 1 w v)" "mem w = mem (world v)"
    by (rule neutralize_keeps_memory [OF k(2-5)])
  define v' where "v' = (counted 1 1 1 w v)\<lparr>procs := (procs v)(proc \<mapsto> p\<lparr>in_syscall := False\<rparr>)\<rparr>"
  have v': "procs v' proc = Some (p\<lparr>in_syscall := False\<rparr>)" "\<not> strace_option v'" "world v' = w" "fds v' = fds v" "comms v' = comms v"
    using kept(3) by (simp_all add: v'_def counted_def)
  have wait: "choose_mailbox E a ?u = Inr (Some m, ?u)"
    using stream by (intro mailbox_run [where f = "f\<lparr>fd_refcount := fd_refcount f + 1\<rparr>"]) (simp_all add: waiting_def)
  have socket: "recvfrom_socket E reg proc a ?u =
      sq (process_recvfrom_out_call E ?reg proc (Buffer bs)) (upd_world (MSG_task_destroy E task)) v'"
    using build w(1) pv received(2)
    by (simp add: recvfrom_socket_def run wait receive_run [OF received(1)] Let_def v'_def counted_def split: sum.split)
  have call: "syscall_recvfrom E reg proc s = sq (recvfrom_socket E reg proc a) (refcount_decr a) ?u"
    using p build a sock(2)
    by (simp add: syscall_recvfrom_def syscall_recvfrom_pre_def Let_def run socket_registered_def socket_netlink_def
      socket_attribute_def get_infos_socket_def refcount_incr_def waiting_def split: sum.split)
  note out = recvfrom_out_delivers [OF v'(1,2), of ?reg E mem regs bs cs ds n]
  show ?thesis
  proof (cases "8 * words n \<le> length bs")
    case True
    then obtain t where t: "process_recvfrom_out_call E ?reg proc (Buffer bs) v' = Inr ((), t)" "rax (regs (world t)) = of_nat n"
      "mem (world t) = write_bytes (arg1 reg) (take (8 * words n) bs) (mem w)"
      "read_bytes (mem (world t)) (arg1 reg) n = take n (cs @ [0])" "fds t = fds v" "procs t = procs v'" "comms t = comms v"
      using out no_addr k bs n v' by auto
    with kept(2) obtain g where g: "fds v a = Some g" by auto
    let ?t = "t\<lparr>world := MSG_task_destroy E task (world t), fds := (fds v)(a \<mapsto> g\<lparr>fd_refcount := fd_refcount g - 1\<rparr>)\<rparr>"
    have "syscall_recvfrom E reg proc s = Inr ((), ?t)"
      using t(1,5) g by (simp add: call run socket refcount_decr_def)
    then show ?thesis using True t v'(1) w(2) k(6) unfolding tasks_apart_def by (simp add: t(6)) blast
  next
    case False
    then have "process_recvfrom_out_call E ?reg proc (Buffer bs) v' = Inl Out_of_bounds"
      using out no_addr k bs n by auto
    then show ?thesis using False by (simp add: call run socket)
  qed
qed

text \<open>
  C10. The call \<open>recvfrom\<close> of a socket in full mediation, from its entry to what the traced
  process sees, when the caller asks for no address and the engine hands over a message that
  contains a zero byte. The message is taken for a string: the process gets the bytes up to and
  including the first zero, or as many of them as its buffer can hold, with this number as the
  result; the process is outside of the call, and the kernel does not see it. The copy is made in whole
  words, so that up to seven bytes behind the delivered ones are overwritten by what follows in
  the message; and if the message ends within the last word, the copy reads outside of it.
\<close>

theorem recvfrom_delivers:
  assumes build: "\<not> address_translation E" and no_addr: "arg4 reg = 0"
    and p: "procs s proc = Some p" "\<not> in_syscall p"
    and sock: "sock_is proc (c_int (arg0 reg)) a f i s" "is_domain i \<noteq> 16"
    and stream: "fd_stream f = Some st" "streams s st = Some x" "own_mailbox (MSG_process_self E (world s)) x = Some m"
    and received: "MSG_task_receive E m (waiting proc p a f s) = ((MSG_OK, Some task), v)"
      "MSG_task_get_data E task (world v) = Buffer bs"
    and kept: "procs v proc = procs (waiting proc p a f s) proc" "fds v a \<noteq> None" "\<not> strace_option v"
    and tr: "traced E (p_pid p) mem regs"
    and bs: "bs = cs @ 0 # ds" "0 \<notin> set cs" "length bs < 2 ^ 63"
    and n: "n = min (length cs + 1) (unat (arg2 reg))"
  shows "if 8 * words n \<le> length bs
    then \<exists>t. syscall_recvfrom E reg proc s = Inr ((), t) \<and> procs t proc = Some (p\<lparr>in_syscall := False\<rparr>) \<and>
      rax (regs (world t)) = of_nat n \<and> read_bytes (mem (world t)) (arg1 reg) n = take n (cs @ [0]) \<and>
      mem (world t) = write_bytes (arg1 reg) (take (8 * words n) bs) (mem (world v)) \<and>
      comms t = comms v \<and> (\<exists>w. world t = MSG_task_destroy E task w)
    else syscall_recvfrom E reg proc s = Inl Out_of_bounds"
  using assms by (rule recvfrom_run)

section \<open>Sending\<close>

text \<open>
  What the engine promises of tasks: a task has the data and the amount that it was given last,
  and creating and filling a task changes neither the memory nor the registers of the traced
  processes.
\<close>

definition task_laws :: "'w env \<Rightarrow> ('w \<Rightarrow> user_regs) \<Rightarrow> ('w \<Rightarrow> mem) \<Rightarrow> bool" where
  "task_laws E regs mem \<longleftrightarrow>
     (\<forall>t d n w. MSG_task_get_data E t (MSG_task_set_data E t d w) = d \<and>
        MSG_task_get_bytes_amount E t (MSG_task_set_data E t d (MSG_task_set_bytes_amount E t n w)) = n \<and>
        regs (MSG_task_set_data E t d w) = regs w \<and> mem (MSG_task_set_data E t d w) = mem w \<and>
        regs (MSG_task_set_bytes_amount E t n w) = regs w \<and> mem (MSG_task_set_bytes_amount E t n w) = mem w) \<and>
     (\<forall>x hs n pid w. regs (snd (MSG_parallel_task_create E x hs n pid w)) = regs w \<and>
        mem (snd (MSG_parallel_task_create E x hs n pid w)) = mem w)"

text \<open>The state in which \<open>process_send_call\<close> sends, with the new task.\<close>

definition ref_changed :: "int \<Rightarrow> fd_descriptor_t \<Rightarrow> fd_descriptor_t" where
  "ref_changed k f = f\<lparr>as_socket := map_option (\<lambda>i. i\<lparr>ref_nb := ref_nb i + k\<rparr>) (as_socket f)\<rparr>"

definition new_task :: "'w env \<Rightarrow> reg_s \<Rightarrow> process_descriptor \<Rightarrow> msg_host \<Rightarrow> 'w \<Rightarrow> msg_task \<times> 'w" where
  "new_task E reg p h = MSG_parallel_task_create E (p_name p @ '' send'') [p_host p, Some h] (c_int (arg2 reg)) (p_pid p)"

definition sending :: "'w env \<Rightarrow> reg_s \<Rightarrow> cdata \<Rightarrow> process_descriptor \<Rightarrow> msg_host \<Rightarrow> fd_ptr \<Rightarrow> fd_ptr \<Rightarrow> comm_ptr \<Rightarrow> 'w st \<Rightarrow> 'w st" where
  "sending E reg data p h a b c s =
     (let (task, w) = new_task E reg p h (world s); second = (ci_socket (info0 (the (comms s c))) = Some a) in
      s\<lparr>fds := (fds s)(a \<mapsto> ref_changed 1 (the (fds s a)), b \<mapsto> ref_changed 1 (the (fds s b))),
        comms := (comms s)(c \<mapsto> set_recv_at second (\<lambda>r. r\<lparr>data_fifo := data_fifo r @ [Data_send data (c_int (arg2 reg))],
          recv_task := recv_task r @ [\<lparr>tci_task = task, sender_host = p_host p\<rparr>]\<rparr>) (the (comms s c))),
        world := MSG_task_set_data E task data (MSG_task_set_bytes_amount E task (c_int (arg2 reg)) w)\<rparr>)"

lemma set_recv_at_twice: "set_recv_at w f (set_recv_at w g c) = set_recv_at w (\<lambda>r. f (g r)) c"
  by (simp add: set_recv_at_def)

lemma send_call_run:
  assumes build: "\<not> address_translation E" and p: "procs s proc = Some p" "length (p_name p) < 251"
    and a: "fd_map p (c_int (arg0 reg)) = Some a" "fds s a = Some fa" "fd_type fa = FD_SOCKET" "as_socket fa = Some ia"
      "is_domain ia \<noteq> 16" "is_comm ia = Some c"
    and b: "fds s b = Some fb" "as_socket fb = Some ib" "procs s (fd_proc fb) = Some pb" "p_host pb = Some h" "a \<noteq> b"
    and c: "comms s c = Some cc" "(if ci_socket (info0 cc) = Some a then ci_socket (info1 cc) else ci_socket (info0 cc)) = Some b"
  shows "process_send_call E reg proc data s =
    bnd (call_block (\<lambda>v. ((), MSG_task_send E (fst (new_task E reg p h (world s))) (MSG_host_get_name E h) v)))
      (\<lambda>_. block_ret (True, reg\<lparr>reg_ret := arg2 reg\<rparr>) [upd_sock a (\<lambda>i. i\<lparr>ref_nb := ref_nb i - 1\<rparr>),
        upd_sock b (\<lambda>i. i\<lparr>ref_nb := ref_nb i - 1\<rparr>)]) (sending E reg data p h a b c s)"
proof -
  obtain task w where t: "new_task E reg p h (world s) = (task, w)" by (cases "new_task E reg p h (world s)")
  then have create: "MSG_parallel_task_create E (p_name p @ '' send'') [p_host p, Some h] (c_int (arg2 reg)) (p_pid p) (world s) = (task, w)"
    by (simp add: new_task_def)
  show ?thesis
    using assms t create
    by (simp add: process_send_call_def Let_def run socket_registered_def socket_netlink_def socket_attribute_def get_infos_socket_def
      sock_at_fd_def comm_get_peer_def comm_of_def handle_new_send_def comm_get_peer_recv_def create_send_communication_task_def
      comm_send_data_def send_task_def sending_def ref_changed_def set_recv_at_twice
      split: option.split sum.split)
qed

lemma copy_data_run:
  assumes "tracee_memory E pid mem" "8 dvd unat n" "unat n < 2 ^ 63"
  shows "copy_data E pid addr n s = Inr (Buffer (read_bytes (mem (world s)) addr (unat n)), peeked (words (unat n)) s)"
  using assms(2,3) words_exact [OF assms(2)]
  by (simp add: copy_data_def xbt_malloc0_def run ptrace_cpy_eq [OF assms(1)] Let_def)

text \<open>
  A process that is about to send on a connected stream socket: \<open>a\<close> is its socket, \<open>b\<close>
  the peer, \<open>c\<close> their communication and \<open>h\<close> the host of the peer.
\<close>

definition connected :: "proc_ptr \<Rightarrow> int \<Rightarrow> process_descriptor \<Rightarrow> fd_ptr \<Rightarrow> fd_ptr \<Rightarrow> comm_ptr \<Rightarrow> msg_host \<Rightarrow> 'w st \<Rightarrow> bool" where
  "connected proc fd p a b c h s \<longleftrightarrow> procs s proc = Some p \<and> a \<noteq> b \<and>
     (\<exists>fa ia. sock_is proc fd a fa ia s \<and> is_type ia = SOCK_STREAM \<and> is_domain ia \<noteq> 16 \<and> is_comm ia = Some c) \<and>
     (\<exists>fb ib pb. fds s b = Some fb \<and> as_socket fb = Some ib \<and> procs s (fd_proc fb) = Some pb \<and> p_host pb = Some h) \<and>
     (\<exists>cc. comms s c = Some cc \<and> (if ci_socket (info0 cc) = Some a then ci_socket (info1 cc) else ci_socket (info0 cc)) = Some b)"

text \<open>
  While the sender is blocked, the other simulated processes leave its descriptor alone and
  free neither of the two sockets.
\<close>

definition is_socket :: "fd_ptr \<Rightarrow> 'w st \<Rightarrow> bool" where
  "is_socket x s \<longleftrightarrow> (\<exists>f i. fds s x = Some f \<and> as_socket f = Some i)"

definition patient :: "'w env \<Rightarrow> proc_ptr \<Rightarrow> fd_ptr set \<Rightarrow> bool" where
  "patient E proc xs \<longleftrightarrow> (\<forall>task m s. procs (MSG_task_send E task m s) proc = procs s proc \<and>
     strace_option (MSG_task_send E task m s) = strace_option s \<and>
     (\<forall>x\<in>xs. is_socket x s \<longrightarrow> is_socket x (MSG_task_send E task m s)))"

text \<open>The half of the communication that the peer of \<open>a\<close> receives from.\<close>

definition peer_side :: "comm_ptr \<Rightarrow> fd_ptr \<Rightarrow> 'w st \<Rightarrow> bool" where
  "peer_side c a s = (ci_socket (info0 (the (comms s c))) = Some a)"

lemma sending_simps:
  assumes "task_laws E regs mem" "connected proc fd p a b c h s" "task = fst (new_task E reg p h (world s))"
  shows "MSG_task_get_data E task (world (sending E reg data p h a b c s)) = data"
    "MSG_task_get_bytes_amount E task (world (sending E reg data p h a b c s)) = c_int (arg2 reg)"
    "regs (world (sending E reg data p h a b c s)) = regs (world s)"
    "mem (world (sending E reg data p h a b c s)) = mem (world s)"
    "procs (sending E reg data p h a b c s) = procs s" "strace_option (sending E reg data p h a b c s) = strace_option s"
    "is_socket a (sending E reg data p h a b c s)" "is_socket b (sending E reg data p h a b c s)"
    "tasks_at c (peer_side c a s) (sending E reg data p h a b c s) =
       tasks_at c (peer_side c a s) s @ [\<lparr>tci_task = task, sender_host = p_host p\<rparr>]"
proof -
  obtain w where n: "new_task E reg p h (world s) = (task, w)" using assms(3) by (cases "new_task E reg p h (world s)") simp
  have w: "regs w = regs (world s)" "mem w = mem (world s)"
    using assms(1) n unfolding task_laws_def new_task_def by (metis snd_conv)+
  show "MSG_task_get_data E task (world (sending E reg data p h a b c s)) = data"
    "MSG_task_get_bytes_amount E task (world (sending E reg data p h a b c s)) = c_int (arg2 reg)"
    "regs (world (sending E reg data p h a b c s)) = regs (world s)"
    "mem (world (sending E reg data p h a b c s)) = mem (world s)"
    using assms(1) w by (simp_all add: task_laws_def sending_def n Let_def)
  show "procs (sending E reg data p h a b c s) = procs s" "strace_option (sending E reg data p h a b c s) = strace_option s"
    by (simp_all add: sending_def n Let_def)
  show "is_socket a (sending E reg data p h a b c s)" "is_socket b (sending E reg data p h a b c s)"
    using assms(2) by (auto simp: is_socket_def connected_def sock_is_def sending_def n Let_def ref_changed_def)
  show "tasks_at c (peer_side c a s) (sending E reg data p h a b c s) =
       tasks_at c (peer_side c a s) s @ [\<lparr>tci_task = task, sender_host = p_host p\<rparr>]"
    using assms(2) by (auto simp: connected_def sending_def n Let_def tasks_at_def peer_side_def)
qed

lemma connected_frame:
  assumes "connected proc fd p a b c h s"
  shows "connected proc fd (p\<lparr>in_syscall := x\<rparr>) a b c h (peeked k (s\<lparr>procs := (procs s)(proc \<mapsto> p\<lparr>in_syscall := x\<rparr>)\<rparr>))"
  using assms by (auto simp: connected_def sock_is_def peeked_def)

lemma connected_send:
  assumes "connected proc (c_int (arg0 reg)) p a b c h s" "\<not> address_translation E" "length (p_name p) < 251"
  shows "process_send_call E reg proc data s =
    bnd (call_block (\<lambda>v. ((), MSG_task_send E (fst (new_task E reg p h (world s))) (MSG_host_get_name E h) v)))
      (\<lambda>_. block_ret (True, reg\<lparr>reg_ret := arg2 reg\<rparr>) [upd_sock a (\<lambda>i. i\<lparr>ref_nb := ref_nb i - 1\<rparr>),
        upd_sock b (\<lambda>i. i\<lparr>ref_nb := ref_nb i - 1\<rparr>)]) (sending E reg data p h a b c s)"
  using assms unfolding connected_def sock_is_def
  by (elim exE conjE, intro send_call_run) auto

lemma sockets_released:
  assumes "is_socket a v" "is_socket b v"
  shows "\<exists>h. block_ret r [upd_sock a (\<lambda>i. i\<lparr>ref_nb := ref_nb i - 1\<rparr>), upd_sock b (\<lambda>i. i\<lparr>ref_nb := ref_nb i - 1\<rparr>)] v =
    Inr (r, v\<lparr>fds := h\<rparr>)"
  using assms by (cases "a = b") (auto simp: is_socket_def run)

text \<open>
  The task that \<open>sendto\<close> sends and the state in which it does so: the message has been read
  from the memory of the traced process, and the task has been made and entered.
\<close>

definition send_point :: "'w env \<Rightarrow> ('w \<Rightarrow> mem) \<Rightarrow> reg_s \<Rightarrow> proc_ptr \<Rightarrow> process_descriptor \<Rightarrow> msg_host \<Rightarrow>
    fd_ptr \<Rightarrow> fd_ptr \<Rightarrow> comm_ptr \<Rightarrow> 'w st \<Rightarrow> msg_task \<times> 'w st" where
  "send_point E mem reg proc p h a b c s =
     (let p' = p\<lparr>in_syscall := True\<rparr>; n = unat (arg2 reg);
          v = peeked (words n) (s\<lparr>procs := (procs s)(proc \<mapsto> p')\<rparr>) in
      (fst (new_task E reg p' h (world s)), sending E reg (Buffer (read_bytes (mem (world s)) (arg1 reg) n)) p' h a b c v))"

lemma sendto_run:
  assumes build: "\<not> address_translation E" "\<not> strace_option s" and p: "\<not> in_syscall p" "length (p_name p) < 251"
    and conn: "connected proc (c_int (arg0 reg)) p a b c h s" and others: "patient E proc {a, b}"
    and len: "8 dvd unat (arg2 reg)" "unat (arg2 reg) < 2 ^ 63"
    and tr: "traced E (p_pid p) mem regs" "task_laws E regs mem"
    and pt: "send_point E mem reg proc p h a b c s = (task, u)"
  shows "\<exists>t. syscall_sendto E reg proc s = Inr (PROCESS_TASK_FOUND, t) \<and>
    MSG_task_get_data E task (world u) = Buffer (read_bytes (mem (world s)) (arg1 reg) (unat (arg2 reg))) \<and>
    MSG_task_get_bytes_amount E task (world u) = c_int (arg2 reg) \<and>
    tasks_at c (peer_side c a s) u = tasks_at c (peer_side c a s) s @ [\<lparr>tci_task = task, sender_host = p_host p\<rparr>] \<and>
    regs (world u) = regs (world s) \<and> mem (world u) = mem (world s) \<and>
    procs t proc = Some (p\<lparr>in_syscall := False\<rparr>) \<and>
    mem (world t) = mem (world (MSG_task_send E task (MSG_host_get_name E h) u)) \<and>
    regs (world t) = (regs (world (MSG_task_send E task (MSG_host_get_name E h) u)))
      \<lparr>orig_rax := SYS_sendto, rax := of_c_int (c_int (arg2 reg))\<rparr>"
proof -
  note k = tracedD [OF tr(1)]
  let ?p = "p\<lparr>in_syscall := True\<rparr>" and ?n = "unat (arg2 reg)" and ?m = "MSG_host_get_name E h"
  let ?data = "Buffer (read_bytes (mem (world s)) (arg1 reg) ?n)" and ?reg = "reg\<lparr>reg_ret := arg2 reg\<rparr>"
  define v where "v = peeked (words ?n) (s\<lparr>procs := (procs s)(proc \<mapsto> ?p)\<rparr>)"
  have v: "procs v proc = Some ?p" "world v = world s" "comms v = comms s" "strace_option v = strace_option s"
    by (simp_all add: v_def peeked_def)
  have conn': "connected proc (c_int (arg0 reg)) ?p a b c h v" using connected_frame [OF conn] by (simp add: v_def)
  have task_def: "task = fst (new_task E reg ?p h (world v))" and u_def: "u = sending E reg ?data ?p h a b c v"
    using pt by (simp_all add: send_point_def Let_def v_def)
  note u = sending_simps [OF tr(2) conn' task_def, where data = ?data, folded u_def]
  define z where "z = MSG_task_send E task ?m u"
  have z: "procs z proc = Some ?p" "strace_option z = strace_option s" "is_socket a z" "is_socket b z"
    using others u v by (auto simp: patient_def z_def)
  obtain g where g: "process_send_call E reg proc ?data v = Inr ((True, ?reg), z\<lparr>fds := g\<rparr>)"
    using sockets_released [OF z(3,4), of "(True, ?reg)"] connected_send [OF conn' build(1), of ?data] p(2)
    by (auto simp: run_bnd run_call_block z_def u_def task_def)
  obtain w where w: "ptrace_neutralize_syscall E (p_pid p) (z\<lparr>fds := g\<rparr>) = Inr ((), counted 1 1 1 w (z\<lparr>fds := g\<rparr>))"
    "regs w = (regs (world z))\<lparr>orig_rax := SYS_tuxcall, rax := - 38\<rparr>" "mem w = mem (world z)"
    using neutralize_keeps_memory [OF k(2-5), of "z\<lparr>fds := g\<rparr>"] by auto
  let ?z = "(counted 1 1 1 w (z\<lparr>fds := g\<rparr>))\<lparr>procs := (procs z)(proc \<mapsto> p\<lparr>in_syscall := False\<rparr>)\<rparr>"
  obtain x where x: "ptrace_restore_syscall E (p_pid p) SYS_sendto (of_c_int (c_int (arg2 reg))) ?z = Inr ((), counted 1 1 0 x ?z)"
    "regs x = (regs w)\<lparr>orig_rax := SYS_sendto, rax := of_c_int (c_int (arg2 reg))\<rparr>" "mem x = mem w"
    using restore_keeps_memory [OF k(2,4), of SYS_sendto "of_c_int (c_int (arg2 reg))" ?z] by (auto simp: counted_def)
  have copy: "copy_data E (p_pid p) (arg1 reg) (arg2 reg) (s\<lparr>procs := (procs s)(proc \<mapsto> ?p)\<rparr>) = Inr (?data, v)"
    using copy_data_run [OF k(1) len, of "arg1 reg" "s\<lparr>procs := (procs s)(proc \<mapsto> ?p)\<rparr>"] by (simp add: v_def)
  have stream: "connectionless proc (c_int (arg0 reg)) (s\<lparr>procs := (procs s)(proc \<mapsto> ?p)\<rparr>) =
      Inr (False, s\<lparr>procs := (procs s)(proc \<mapsto> ?p)\<rparr>)"
    using conn by (auto simp: connected_def sock_is_def connectionless_def get_type_socket_def socket_attribute_def get_infos_socket_def run)
  have "syscall_sendto E reg proc s = Inr (PROCESS_TASK_FOUND, counted 1 1 0 x ?z)"
    using conn p(1) build z(1,2) w(1) x(1)
    by (simp add: syscall_sendto_def syscall_sendto_pre_def Let_def run stream copy g print_sendto_def restore_int_def connected_def counted_def)
  then show ?thesis
    using u v w(2,3) x(2,3) by (intro exI [of _ "counted 1 1 0 x ?z"])
      (simp add: z_def counted_def tasks_at_def peer_side_def)
qed


section \<open>From one process to another\<close>

lemma send_point_frame:
  assumes "send_point E mem reg proc p h a b c s = (task, u)" "x \<noteq> proc"
  shows "procs u x = procs s x" "strace_option u = strace_option s" "fds s y \<noteq> None \<Longrightarrow> fds u y \<noteq> None"
  using assms by (auto simp: send_point_def sending_def peeked_def Let_def split: prod.splits)


section \<open>Witnesses\<close>

text \<open>
  The process 0 of \<open>alice\<close> has the message \<open>hi\<close> at the address 4096 and sends it on its
  descriptor 5 to the process 3 of \<open>bob\<close>, which has called \<open>recvfrom\<close> on its descriptor 3.
\<close>

definition bob_fd :: fd_descriptor_t where
  "bob_fd = (demo_sock 1 (Some 7) 3 3)\<lparr>fd_stream := Some 9\<rparr>"

definition bob :: process_descriptor where
  "bob = sample_proc\<lparr>p_pid := 101, p_host := Some 1, fd_map := [3 \<mapsto> 2]\<rparr>"

definition alice :: process_descriptor where
  "alice = sample_proc\<lparr>fd_map := [3 \<mapsto> 1, 5 \<mapsto> 4]\<rparr>"

definition entered_st :: "kernel st" where
  "entered_st = demo_joined\<lparr>procs := [0 \<mapsto> alice, 3 \<mapsto> bob],
     fds := (fds demo_joined)(2 \<mapsto> bob_fd),
     streams := [9 \<mapsto> \<lparr>sem_client = None, sem_server = None, client = Some 0, server = None, to_client = Some ''bob'', to_server = None\<rparr>],
     world := sample_kernel\<lparr>k_mem := write_bytes 4096 [104, 105, 0, 0, 0, 0, 0, 0] (\<lambda>_. 0)\<rparr>\<rparr>"

definition sending_st :: "kernel st" where
  "sending_st = entered_st\<lparr>procs := [0 \<mapsto> alice, 3 \<mapsto> bob\<lparr>in_syscall := True\<rparr>]\<rparr>"

definition send_reg :: reg_s where
  "send_reg = sample_reg\<lparr>arg0 := 5, arg1 := 4096, arg2 := 8\<rparr>"

definition recv_reg :: reg_s where
  "recv_reg = sample_reg\<lparr>arg0 := 3, arg1 := 8192, arg2 := 64\<rparr>"

text \<open>An engine that lets the receiver go on with the task of the sender.\<close>

definition mail_env :: "kernel env" where
  "mail_env = sample_env\<lparr>MSG_task_receive := (\<lambda>m v. let (task, u) = send_point sample_env k_mem send_reg 0 alice 1 4 2 7 sending_st
     in ((MSG_OK, Some task), u))\<rparr>"

lemma mail_traced: "traced mail_env pid k_mem k_regs" "task_laws mail_env k_regs k_mem" "patient mail_env proc xs"
  by (auto simp: traced_def tracee_memory_def tracee_registers_def tuxcall_fails_def registers_apart_def tuxcall_apart_def
    tasks_apart_def task_laws_def patient_def is_socket_def mail_env_def sample_env_def SYS_tuxcall_def split: list.split)

lemma mail_point: "send_point mail_env k_mem = send_point sample_env k_mem"
  by (intro ext) (simp add: send_point_def sending_def new_task_def mail_env_def)

lemma demo_simps: "c_int 5 = 5" "c_int 3 = 3" "c_int 8 = 8"
  by (simp_all add: c_int_def)

lemma sending_connected: "connected 0 (c_int (arg0 send_reg)) alice 4 2 7 1 sending_st"
  by (simp add: connected_def sending_st_def entered_st_def send_reg_def sample_reg_def demo_simps demo_joined_def demo_asked_def
    demo_listen_def demo_sock_def bob_fd_def alice_def bob_def sample_proc_def sock_is_def SOCK_STREAM_def sample_socket_def zero_desc_def)

lemma sending_message: "read_bytes (k_mem (world sending_st)) (arg1 send_reg) (unat (arg2 send_reg)) = [104, 105] @ 0 # [0, 0, 0, 0, 0]"
proof -
  have "length [104, 105, 0, 0, 0, 0, 0, 0 :: 8 word] = 8" by simp
  from read_write_bytes [of "[104, 105, 0, 0, 0, 0, 0, 0]" 4096 "\<lambda>_. 0", unfolded this] show ?thesis
    by (simp add: sending_st_def entered_st_def send_reg_def)
qed

lemma entered_receiver:
  "sock_is 3 (c_int (arg0 recv_reg)) 2 bob_fd (the (as_socket bob_fd)) entered_st" "is_domain (the (as_socket bob_fd)) \<noteq> 16"
  "fd_stream bob_fd = Some 9"
  by (simp_all add: sock_is_def entered_st_def recv_reg_def sample_reg_def demo_simps bob_fd_def bob_def demo_sock_def sample_proc_def sample_socket_def)

lemma sending_facts:
  "\<not> address_translation mail_env" "\<not> strace_option sending_st" "\<not> in_syscall alice" "length (p_name alice) < 251"
  "8 dvd unat (arg2 send_reg)" "unat (arg2 send_reg) < 2 ^ 63"
  by (simp_all add: mail_env_def sample_env_def sending_st_def entered_st_def demo_joined_def demo_asked_def demo_listen_def sample_st_def
    alice_def sample_proc_def send_reg_def)

lemma send_result: "of_c_int (c_int (arg2 send_reg)) = 8"
  by (simp add: send_reg_def demo_simps of_c_int_def)


lemma entered_facts:
  "procs entered_st 3 = Some bob" "\<not> in_syscall bob" "arg4 recv_reg = 0"
  "procs sending_st 3 = Some (bob\<lparr>in_syscall := True\<rparr>)" "fds sending_st 2 \<noteq> None" "MSG_process_self mail_env (world entered_st) = 0"
  "MSG_host_get_name mail_env 1 = ''bob''"
  by (simp_all add: entered_st_def sending_st_def bob_def sample_proc_def recv_reg_def sample_reg_def mail_env_def sample_env_def)

lemma entered_stream:
  "streams entered_st 9 = Some \<lparr>sem_client = None, sem_server = None, client = Some 0, server = None, to_client = Some ''bob'', to_server = None\<rparr>"
  by (simp add: entered_st_def)

lemma entered_mailbox:
  "own_mailbox (MSG_process_self mail_env (world entered_st))
     \<lparr>sem_client = None, sem_server = None, client = Some 0, server = None, to_client = Some ''bob'', to_server = None\<rparr> =
   Some (MSG_host_get_name mail_env 1)"
  unfolding entered_facts by (simp add: own_mailbox_def)

lemma met_point:
  "MSG_task_receive mail_env m v = ((MSG_OK, Some (fst (send_point mail_env k_mem send_reg 0 alice 1 4 2 7 sending_st))),
     snd (send_point mail_env k_mem send_reg 0 alice 1 4 2 7 sending_st))"
  unfolding mail_point by (simp add: mail_env_def split_beta)


text \<open>An engine that hands over the message \<open>hi\<close>.\<close>

definition box_env :: "kernel env" where
  "box_env = sample_env\<lparr>MSG_task_receive := (\<lambda>m v. ((MSG_OK, Some 0),
     v\<lparr>world := (world v)\<lparr>k_data := (\<lambda>_. Buffer [104, 105, 0, 0, 0, 0, 0, 0])\<rparr>\<rparr>))\<rparr>"

lemma box_traced: "traced box_env pid k_mem k_regs"
  by (auto simp: traced_def tracee_memory_def tracee_registers_def tuxcall_fails_def registers_apart_def tuxcall_apart_def
    tasks_apart_def box_env_def sample_env_def SYS_tuxcall_def split: list.split)

theorem recvfrom_delivers_witness:
  "\<exists>z. syscall_recvfrom box_env recv_reg 3 entered_st = Inr ((), z) \<and> procs z 3 = Some bob \<and>
    rax (k_regs (world z)) = 3 \<and> read_bytes (k_mem (world z)) 8192 3 = [104, 105, 0]"
proof -
  let ?v = "(waiting 3 bob 2 bob_fd entered_st)\<lparr>world := (world entered_st)\<lparr>k_data := (\<lambda>_. Buffer [104, 105, 0, 0, 0, 0, 0, 0])\<rparr>\<rparr>"
  have got: "MSG_task_receive box_env ''bob'' (waiting 3 bob 2 bob_fd entered_st) = ((MSG_OK, Some 0), ?v)"
    "MSG_task_get_data box_env 0 (world ?v) = Buffer [104, 105, 0, 0, 0, 0, 0, 0]"
    by (simp_all add: box_env_def sample_env_def waiting_def)
  have *: "\<not> address_translation box_env" "MSG_process_self box_env (world entered_st) = 0"
    "procs ?v 3 = procs (waiting 3 bob 2 bob_fd entered_st) 3" "fds ?v 2 \<noteq> None" "\<not> strace_option ?v"
    by (simp_all add: box_env_def sample_env_def waiting_def entered_st_def demo_joined_def demo_asked_def demo_listen_def sample_st_def)
  have **: "own_mailbox (MSG_process_self box_env (world entered_st))
      \<lparr>sem_client = None, sem_server = None, client = Some 0, server = None, to_client = Some ''bob'', to_server = None\<rparr> = Some ''bob''"
    by (simp add: own_mailbox_def *(2))
  have msg: "[104, 105, 0, 0, 0, 0, 0, 0 :: 8 word] = [104, 105] @ 0 # [0, 0, 0, 0, 0]" "(0 :: 8 word) \<notin> set [104, 105]"
    "length [104, 105, 0, 0, 0, 0, 0, 0 :: 8 word] < 2 ^ 63" "(3 :: nat) = min (length [104 :: 8 word, 105] + 1) (unat (arg2 recv_reg))"
    by (simp_all add: recv_reg_def)
  have "bob\<lparr>in_syscall := False\<rparr> = bob" "8 * words 3 \<le> length [104, 105, 0, 0, 0, 0, 0, 0 :: 8 word]" "arg1 recv_reg = 8192"
    by (simp_all add: bob_def sample_proc_def words_def recv_reg_def)
  then show ?thesis
    using recvfrom_delivers [OF *(1) entered_facts(3,1,2) entered_receiver entered_stream ** got *(3-5) box_traced msg] by auto
qed

end
