(* ===== verification/Time_Library.thy ===== *)
theory Time_Library
  imports Network_Properties
begin

text \<open>
  \<open>lib_time.c\<close>, the library that is loaded into the traced processes and replaces the time
  functions of the C library, and the system call by which it asks the simulator for the time.
\<close>

section \<open>The functions of the library\<close>

text \<open>
  A traced process as the library sees it: the bytes of its memory, \<open>None\<close> as long as they
  have not been written, and the file \<open>../file_log\<close>.
\<close>

record app =
  a_mem :: "u64 \<Rightarrow> u8 option"
  a_log :: string

text \<open>
  What the library runs on. \<open>malloc_double\<close> is the address of a new object of eight
  bytes, \<open>log_opens\<close> tells whether \<open>fopen\<close> succeeds, and \<open>tuxcall clock\<close> is the
  effect on the process of \<open>syscall(SYS_tuxcall, clock)\<close>. \<open>clock_now\<close> is the result of
  \<open>MSG_get_clock\<close> in the process itself. A \<open>double\<close> is the word of its representation;
  \<open>d_floor\<close>, \<open>d_sub\<close> and \<open>d_mul\<close> are the operations of the processor on them,
  \<open>d_int\<close> the conversion to an integer and \<open>d_of\<close> the one from an integer.
\<close>

record platform =
  malloc_double :: "app \<Rightarrow> u64 \<times> app"
  log_opens :: "app \<Rightarrow> bool"
  tuxcall :: "u64 \<Rightarrow> app \<Rightarrow> app"
  clock_now :: u64
  d_floor :: "u64 \<Rightarrow> u64"
  d_sub :: "u64 \<Rightarrow> u64 \<Rightarrow> u64"
  d_mul :: "u64 \<Rightarrow> u64 \<Rightarrow> u64"
  d_int :: "u64 \<Rightarrow> int"
  d_of :: "int \<Rightarrow> u64"

text \<open>\<open>fprintf\<close> to the \<open>NULL\<close> of a failed \<open>fopen\<close>.\<close>

definition LogWrap :: "platform \<Rightarrow> string \<Rightarrow> (app, unit) M" where
  "LogWrap P mess =
     bnd (gets (log_opens P)) (\<lambda>opened.
     if opened then modify (\<lambda>a. a\<lparr>a_log := a_log a @ mess\<rparr>) else fail Null_deref)"

definition load_double :: "u64 \<Rightarrow> (app, u64) M" where
  "load_double p =
     bnd (gets (\<lambda>a. map (\<lambda>i. a_mem a (p + of_nat i)) [0..<8])) (\<lambda>bs.
     if None \<in> set bs then fail Uninitialised else ret (word64 (map the bs)))"

definition new_double :: "platform \<Rightarrow> (app, u64) M" where
  "new_double P = (\<lambda>a. Inr (malloc_double P a))"

text \<open>The macro reads the value once more for its message.\<close>

definition get_simulation_time :: "platform \<Rightarrow> u64 \<Rightarrow> (app, unit) M" where
  "get_simulation_time P clock =
     sq (modify (tuxcall P clock)) (bnd (load_double clock) (\<lambda>sec. ret ()))"

record timeb =
  tb_time :: int
  tb_millitm :: int
  tb_timezone :: int
  tb_dstflag :: int

text \<open>\<open>ftime\<close>: the result and what it stores to \<open>*tp\<close>.\<close>

definition ftime :: "platform \<Rightarrow> (app, int \<times> timeb) M" where
  "ftime P =
     sq (LogWrap P ''ftime call\<newline>'')
     (bnd (new_double P) (\<lambda>sec.
      sq (get_simulation_time P sec)
      (bnd (load_double sec) (\<lambda>d.
       sq (LogWrap P ''ftime call done \<newline>'')
       (ret (0, \<lparr>tb_time = d_int P (d_floor P d),
          tb_millitm = d_int P (d_mul P (d_sub P d (d_floor P d)) (d_of P 1000)) mod 65536,
          tb_timezone = 0, tb_dstflag = 0\<rparr>))))))"

text \<open>\<open>t = (time_t *) sec\<close> assigns the parameter, so nothing is stored for the caller.\<close>

definition time :: "platform \<Rightarrow> u64 option \<Rightarrow> (app, int) M" where
  "time P t =
     sq (LogWrap P ''time call\<newline>'')
     (bnd (new_double P) (\<lambda>sec.
      sq (get_simulation_time P sec)
      (sq (LogWrap P ''time call done \<newline>'')
      (bnd (load_double sec) (\<lambda>d. ret (d_int P d))))))"

definition CLOCK_REALTIME :: int where "CLOCK_REALTIME = 0"

definition clock_gettime :: "platform \<Rightarrow> int \<Rightarrow> (app, int \<times> int \<times> int) M" where
  "clock_gettime P clk_id =
     (if clk_id = CLOCK_REALTIME then
        sq (LogWrap P ''clock_gettime call\<newline>'')
        (let sec = clock_now P in
         sq (LogWrap P ''clock_gettime done call\<newline>'')
         (ret (0, d_int P (d_floor P sec), d_int P (d_mul P (d_sub P sec (d_floor P sec)) (d_of P (10 ^ 9))))))
      else fail (Exit_program (- 1)))"

text \<open>The functions that only stop the process.\<close>

definition gettimeofday :: "(app, int) M" where "gettimeofday = fail (Exit_program (- 1))"
definition localtime :: "(app, u64) M" where "localtime = fail (Exit_program (- 1))"
definition mktime :: "(app, int) M" where "mktime = fail (Exit_program (- 1))"
definition clock_getres :: "(app, int) M" where "clock_getres = fail (Exit_program (- 1))"
definition clock_settime :: "(app, int) M" where "clock_settime = fail (Exit_program (- 1))"

section \<open>The system call\<close>

lemma tuxcall_run:
  assumes "procs s proc = Some p" "in_syscall p" "\<not> strace_option s" "tracee_memory E (p_pid p) mem"
  shows "\<exists>t. syscall_tuxcall E reg proc s = Inr ((), t) \<and> procs t = (procs s)(proc \<mapsto> p\<lparr>in_syscall := False\<rparr>) \<and>
    mem (world t) = write_bytes (arg1 reg) (bytes64 (MSG_get_clock E (world s))) (mem (world s))"
proof -
  let ?s = "s\<lparr>procs := (procs s)(proc \<mapsto> p\<lparr>in_syscall := False\<rparr>)\<rparr>" and ?v = "bytes64 (MSG_get_clock E (world s))"
  have "8 * words (unat (8 :: u64)) \<le> length ?v" "length ?v \<le> 2 ^ 64" by (simp_all add: words_def bytes64_def)
  then obtain w where "ptrace_poke E (p_pid p) (arg1 reg) ?v 8 ?s = Inr ((), poked (words (unat (8 :: u64))) w ?s)"
    "mem w = write_bytes (arg1 reg) (take (8 * words (unat (8 :: u64))) ?v) (mem (world ?s))"
    by (rule ptrace_poke_spec [OF assms(4)])
  with assms show ?thesis
    by (simp add: syscall_tuxcall_def syscall_tuxcall_post_def run poked_def words_def bytes64_def)
qed

text \<open>
  What the simulator does to the process by \<open>tuxcall\<close>: the eight bytes of the clock are
  stored at the address in the second argument register.
\<close>

definition store_double :: "u64 \<Rightarrow> u64 \<Rightarrow> app \<Rightarrow> app" where
  "store_double x v a = a\<lparr>a_mem := (\<lambda>y. if unat (y - x) < 8 then Some (bytes64 v ! unat (y - x)) else a_mem a y)\<rparr>"

lemma load_stored: "load_double x (store_double x v a) = Inr (v, store_double x v a)"
proof -
  have "map (\<lambda>i. a_mem (store_double x v a) (x + of_nat i)) [0..<8] = map Some (bytes64 v)"
    by (rule nth_equalityI) (auto simp: store_double_def bytes64_def unat_of_nat)
  then show ?thesis by (simp add: load_double_def run word64_bytes64)
qed

lemma load_elsewhere:
  assumes "c \<noteq> x" "\<And>i. i < 8 \<Longrightarrow> a_mem a (c + of_nat i) = None"
  shows "load_double c (store_double x v a) = Inl Uninitialised"
proof -
  have "\<exists>i<8. \<not> unat (c + of_nat i - x) < 8"
  proof (cases "unat (c - x) < 8")
    case True
    have "0 < unat (c - x)" using assms(1) by (simp add: unat_gt_0)
    moreover have "c + of_nat (8 - unat (c - x)) - x = of_nat (unat (c - x) + (8 - unat (c - x)))" by (simp add: algebra_simps)
    ultimately show ?thesis using True by (intro exI [of _ "8 - unat (c - x)"]) simp
  qed (intro exI [of _ 0], simp)
  then have "None \<in> set (map (\<lambda>i. a_mem (store_double x v a) (c + of_nat i)) [0..<8])"
    using assms(2) by (force simp: store_double_def)
  then show ?thesis by (simp add: load_double_def run)
qed

text \<open>
  C39. How the simulated time reaches a process. At the exit of \<open>tuxcall\<close> the simulator
  stores the clock of the simulation in the memory of the process, at the address in the second
  argument register, and changes no other byte. The library passes the address of its variable
  as the first argument: \<open>time\<close> returns the simulated time if the second register happens to
  hold the same address, and otherwise reads a variable that was never written.
\<close>

theorem time_spec:
  assumes p: "procs s proc = Some p" "in_syscall p" "\<not> strace_option s" "tracee_memory E (p_pid p) mem"
    and lib: "\<And>a. log_opens P a" "tuxcall P = (\<lambda>c. store_double (arg1 reg) (MSG_get_clock E (world s)))"
    and fresh: "malloc_double P (a\<lparr>a_log := a_log a @ ''time call\<newline>''\<rparr>) = (arg0 reg, b)"
      "\<And>i. i < 8 \<Longrightarrow> a_mem b (arg0 reg + of_nat i) = None"
  shows "(\<exists>t. syscall_tuxcall E reg proc s = Inr ((), t) \<and> procs t = (procs s)(proc \<mapsto> p\<lparr>in_syscall := False\<rparr>) \<and>
      mem (world t) = write_bytes (arg1 reg) (bytes64 (MSG_get_clock E (world s))) (mem (world s))) \<and>
    map_sum id fst (time P tloc a) =
      (if arg0 reg = arg1 reg then Inr (d_int P (MSG_get_clock E (world s))) else Inl Uninitialised)"
proof -
  let ?v = "MSG_get_clock E (world s)"
  have log: "store_double x v (b\<lparr>a_log := l\<rparr>) = (store_double x v b)\<lparr>a_log := l\<rparr>" for x v b l
    by (cases b) (auto simp: store_double_def fun_eq_iff)
  have "map_sum id fst (time P tloc a) = (if arg0 reg = arg1 reg then Inr (d_int P ?v) else Inl Uninitialised)"
  proof (cases "arg0 reg = arg1 reg")
    case True
    with lib fresh(1) show ?thesis
      by (simp add: time_def LogWrap_def new_double_def get_simulation_time_def run load_stored)
        (simp add: load_stored run flip: log)
  next
    case False
    with lib fresh show ?thesis
      by (simp add: time_def LogWrap_def new_double_def get_simulation_time_def run load_elsewhere)
  qed
  then show ?thesis using tuxcall_run [OF p] by blast
qed

section \<open>Witnesses\<close>

text \<open>A process whose variable is at the address 4096, while the second argument register holds 8192.\<close>

definition sample_platform :: platform where
  "sample_platform = \<lparr>malloc_double = (\<lambda>a. (4096, a)), log_opens = (\<lambda>_. True), tuxcall = (\<lambda>_. store_double 8192 0), clock_now = 0,
     d_floor = (\<lambda>x. x), d_sub = (\<lambda>x y. 0), d_mul = (\<lambda>x y. 0), d_int = (\<lambda>x. 0), d_of = (\<lambda>i. 0)\<rparr>"

theorem time_spec_witness:
  "map_sum id fst (time sample_platform None \<lparr>a_mem = \<lambda>_. None, a_log = []\<rparr>) = Inl Uninitialised"
  using time_spec [of "sample_st\<lparr>procs := [0 \<mapsto> sample_proc\<lparr>in_syscall := True\<rparr>]\<rparr>" 0 "sample_proc\<lparr>in_syscall := True\<rparr>" sample_env k_mem
      sample_platform "sample_reg\<lparr>arg0 := 4096, arg1 := 8192\<rparr>" "\<lparr>a_mem = \<lambda>_. None, a_log = []\<rparr>"
      "\<lparr>a_mem = \<lambda>_. None, a_log = ''time call\<newline>''\<rparr>" None] sample_memory
  by (simp add: sample_platform_def sample_st_def sample_proc_def sample_reg_def sample_env_def)

end
