(* ===== verification/Cputimer.thy ===== *)
theory Cputimer
  imports Heap Sample_Platform
begin

text \<open>
  \<open>cputimer.c\<close>: the processor time of a thread, asked from the kernel over a netlink socket.
  A request is the header of a message followed by one attribute; the answer of the kernel is
  a tree of attributes that the code walks through byte by byte.

  The calls of the kernel are the fields of \<open>netlink\<close>, together with the offsets of the two
  fields of \<open>struct taskstats\<close> that the code reads.
\<close>

section \<open>Kernel headers\<close>

record 'w netlink =
  nl_getpid :: "'w \<Rightarrow> int"
  nl_socket :: "int \<Rightarrow> int \<Rightarrow> int \<Rightarrow> 'w \<Rightarrow> int \<times> 'w"
  nl_bind :: "int \<Rightarrow> 'w \<Rightarrow> int \<times> 'w"
  nl_close :: "int \<Rightarrow> 'w \<Rightarrow> 'w"
  nl_sendto :: "int \<Rightarrow> u8 list \<Rightarrow> 'w \<Rightarrow> (int \<times> int) \<times> 'w"
  nl_recv :: "int \<Rightarrow> nat \<Rightarrow> 'w \<Rightarrow> (int \<times> u8 list) \<times> 'w"
  offset_utime :: nat
  offset_stime :: nat

definition AF_NETLINK :: int where "AF_NETLINK = 16"
definition SOCK_RAW :: int where "SOCK_RAW = 3"
definition NETLINK_GENERIC :: int where "NETLINK_GENERIC = 16"
definition NLM_F_REQUEST :: u16 where "NLM_F_REQUEST = 1"
definition NLMSG_ERROR :: u16 where "NLMSG_ERROR = 2"
definition NLMSG_HDRLEN :: nat where "NLMSG_HDRLEN = 16"
definition GENL_HDRLEN :: nat where "GENL_HDRLEN = 4"
definition NLA_HDRLEN :: nat where "NLA_HDRLEN = 4"
definition GENL_ID_CTRL :: u16 where "GENL_ID_CTRL = 16"
definition CTRL_CMD_GETFAMILY :: u8 where "CTRL_CMD_GETFAMILY = 3"
definition CTRL_ATTR_FAMILY_ID :: u16 where "CTRL_ATTR_FAMILY_ID = 1"
definition CTRL_ATTR_FAMILY_NAME :: u16 where "CTRL_ATTR_FAMILY_NAME = 2"
definition TASKSTATS_CMD_GET :: u8 where "TASKSTATS_CMD_GET = 1"
definition TASKSTATS_CMD_ATTR_PID :: u16 where "TASKSTATS_CMD_ATTR_PID = 1"
definition TASKSTATS_TYPE_PID :: u16 where "TASKSTATS_TYPE_PID = 1"
definition TASKSTATS_TYPE_STATS :: u16 where "TASKSTATS_TYPE_STATS = 3"
definition TASKSTATS_TYPE_AGGR_PID :: u16 where "TASKSTATS_TYPE_AGGR_PID = 4"
definition EAGAIN :: int where "EAGAIN = 11"
definition MAX_MSG_SIZE :: nat where "MAX_MSG_SIZE = 1024"

definition TASKSTATS_GENL_NAME :: "u8 list" where
  "TASKSTATS_GENL_NAME = map of_char ''TASKSTATS''"

lemmas nl_sizes = NLMSG_HDRLEN_def GENL_HDRLEN_def NLA_HDRLEN_def MAX_MSG_SIZE_def

text \<open>\<open>NLMSG_ALIGN\<close> and \<open>NLA_ALIGN\<close>.\<close>

definition nl_align :: "nat \<Rightarrow> nat" where
  "nl_align n = (n + 3) div 4 * 4"

text \<open>The bytes of a message in memory, and the start of its buffer (\<open>GENLMSG_DATA\<close>).\<close>

definition msg_bytes :: "msgtemplate \<Rightarrow> u8 list" where
  "msg_bytes m = le_bytes 4 (unat (nlmsg_len (msg_n m))) @ le_bytes 2 (unat (nlmsg_type (msg_n m))) @
     le_bytes 2 (unat (nlmsg_flags (msg_n m))) @ le_bytes 4 (unat (nlmsg_seq (msg_n m))) @
     le_bytes 4 (unat (nlmsg_pid (msg_n m))) @
     [genl_cmd (msg_g m), genl_version (msg_g m)] @ le_bytes 2 (unat (genl_reserved (msg_g m))) @ msg_buf m"

definition GENLMSG_DATA :: nat where
  "GENLMSG_DATA = NLMSG_HDRLEN + GENL_HDRLEN"

definition zero_msg :: msgtemplate where
  "zero_msg = \<lparr>msg_n = \<lparr>nlmsg_len = 0, nlmsg_type = 0, nlmsg_flags = 0, nlmsg_seq = 0, nlmsg_pid = 0\<rparr>,
     msg_g = \<lparr>genl_cmd = 0, genl_version = 0, genl_reserved = 0\<rparr>, msg_buf = replicate MAX_MSG_SIZE 0\<rparr>"

section \<open>Sending\<close>

definition netlink_sock_new :: "'w netlink \<Rightarrow> int \<Rightarrow> ('w st, int) M" where
  "netlink_sock_new N protocol =
     bnd (call_world (nl_socket N AF_NETLINK SOCK_RAW protocol)) (\<lambda>fd.
     if fd < 0 then ret (- 1)
     else bnd (call_world (nl_bind N fd)) (\<lambda>r.
       if 0 \<le> r then ret fd else sq (upd_world (nl_close N fd)) (ret (- 1))))"

text \<open>One attribute at the start of the buffer: its header and \<open>memcpy\<close> of its data.\<close>

definition put_attr :: "u16 \<Rightarrow> u8 list \<Rightarrow> nat \<Rightarrow> u8 list \<Rightarrow> u8 list" where
  "put_attr nla_type nla_data nla_len buf =
     le_bytes 2 (nla_len + 1 + NLA_HDRLEN) @ le_bytes 2 (unat nla_type) @ take nla_len nla_data @
     drop (NLA_HDRLEN + nla_len) buf"

definition make_request :: "u16 \<Rightarrow> u8 \<Rightarrow> u16 \<Rightarrow> u8 list \<Rightarrow> nat \<Rightarrow> s_xbt_cpu_timer \<Rightarrow> msgtemplate" where
  "make_request type cmd nla_type nla_data nla_len timer =
     (let attr_len = (of_nat (nla_len + 1 + NLA_HDRLEN) :: u16) in
      (timer_msg timer)\<lparr>
        msg_n := \<lparr>nlmsg_len = of_nat (NLMSG_HDRLEN + GENL_HDRLEN) + of_nat (nl_align (unat attr_len)),
          nlmsg_type = type, nlmsg_flags = NLM_F_REQUEST, nlmsg_seq = 0,
          nlmsg_pid = word_of_int (timer_pid timer)\<rparr>,
        msg_g := (msg_g (timer_msg timer))\<lparr>genl_cmd := cmd, genl_version := 1\<rparr>,
        msg_buf := put_attr nla_type nla_data nla_len (msg_buf (timer_msg timer))\<rparr>)"

text \<open>The loop around \<open>sendto\<close>; the local variables are \<open>buf\<close> and \<open>buflen\<close>.\<close>

definition send_step :: "'w netlink \<Rightarrow> int \<Rightarrow> u8 list \<times> int \<Rightarrow> ('w st, u8 list \<times> int + unit) M" where
  "send_step N sd = (\<lambda>(buf, buflen).
     bnd (call_world (nl_sendto N sd (take (nat buflen) buf))) (\<lambda>(r, errno).
     if r < buflen then
       if 0 < r then ret (Inl (drop (nat r) buf, buflen - r))
       else if errno \<noteq> EAGAIN then fail Xbt_die
       else ret (Inl (buf, buflen))
     else ret (Inr ())))"

definition netlink_sock_send ::
    "'w netlink \<Rightarrow> u16 \<Rightarrow> u8 \<Rightarrow> u16 \<Rightarrow> u8 list \<Rightarrow> nat \<Rightarrow> timer_ptr \<Rightarrow> ('w st, unit) M" where
  "netlink_sock_send N type cmd nla_type nla_data nla_len timer =
     bnd (get_timer timer) (\<lambda>tm.
     if length nla_data < nla_len \<or> MAX_MSG_SIZE < NLA_HDRLEN + nla_len then fail Out_of_bounds
     else let msg = make_request type cmd nla_type nla_data nla_len tm in
       loopM (send_step N (nl_sd tm)) (msg_bytes msg, sint (nlmsg_len (msg_n msg))))"

section \<open>Receiving\<close>

text \<open>
  A read of \<open>n\<close> bytes at offset \<open>off\<close> of a structure of \<open>sz\<close> bytes of which \<open>recv\<close>
  has stored the first ones.
\<close>

definition read_at :: "nat \<Rightarrow> u8 list \<Rightarrow> nat \<Rightarrow> nat \<Rightarrow> ('s, nat) M" where
  "read_at sz bytes off n =
     (if off + n \<le> length bytes then ret (le_val (take n (drop off bytes)))
      else if off + n \<le> sz then fail Uninitialised else fail Out_of_bounds)"

definition nla_len_at :: "nat \<Rightarrow> u8 list \<Rightarrow> nat \<Rightarrow> ('s, nat) M" where
  "nla_len_at sz bytes na = read_at sz bytes na 2"

definition nla_type_at :: "nat \<Rightarrow> u8 list \<Rightarrow> nat \<Rightarrow> ('s, nat) M" where
  "nla_type_at sz bytes na = read_at sz bytes (na + 2) 2"

text \<open>The assertions on an answer: no negative length, no error message, \<open>NLMSG_OK\<close>.\<close>

definition check_answer :: "nat \<Rightarrow> u8 list \<Rightarrow> int \<Rightarrow> ('s, unit) M" where
  "check_answer sz bytes rep_len =
     (if rep_len < 0 then fail Xbt_assert
      else bnd (read_at sz bytes 4 2) (\<lambda>type.
       if type = unat NLMSG_ERROR \<or> rep_len < int NLMSG_HDRLEN then fail Xbt_assert
       else bnd (read_at sz bytes 0 4) (\<lambda>len.
         if NLMSG_HDRLEN \<le> len \<and> int len \<le> rep_len then ret () else fail Xbt_assert)))"

definition sizeof_ans :: nat where
  "sizeof_ans = NLMSG_HDRLEN + GENL_HDRLEN + 256"

definition sizeof_msgtemplate :: nat where
  "sizeof_msgtemplate = NLMSG_HDRLEN + GENL_HDRLEN + MAX_MSG_SIZE"

definition get_family_id :: "'w netlink \<Rightarrow> timer_ptr \<Rightarrow> ('w st, int) M" where
  "get_family_id N timer =
     bnd (get_timer timer) (\<lambda>tm.
     sq (netlink_sock_send N GENL_ID_CTRL CTRL_CMD_GETFAMILY CTRL_ATTR_FAMILY_NAME
          (TASKSTATS_GENL_NAME @ [0]) (length TASKSTATS_GENL_NAME + 1) timer)
     (bnd (call_world (nl_recv N (nl_sd tm) sizeof_ans)) (\<lambda>(rep_len, ans).
      sq (check_answer sizeof_ans ans rep_len)
      (bnd (nla_len_at sizeof_ans ans GENLMSG_DATA) (\<lambda>len.
       let na = GENLMSG_DATA + nl_align len in
       bnd (nla_type_at sizeof_ans ans na) (\<lambda>type.
       if type = unat CTRL_ATTR_FAMILY_ID
       then bnd (read_at sizeof_ans ans (na + NLA_HDRLEN) 2) (\<lambda>id. ret (int id))
       else ret 0))))))"

section \<open>The timer\<close>

definition cputimer_new :: "('w st, timer_ptr) M" where
  "cputimer_new = new_timer \<lparr>timer_pid = 0, timer_msg = zero_msg, nl_sd = 0, timer_id = 0\<rparr>"

definition cputimer_init :: "'w netlink \<Rightarrow> timer_ptr \<Rightarrow> ('w st, unit) M" where
  "cputimer_init N timer =
     bnd (get_world (nl_getpid N)) (\<lambda>pid.
     sq (upd_timer timer (\<lambda>t. t\<lparr>timer_pid := pid\<rparr>))
     (bnd (netlink_sock_new N NETLINK_GENERIC) (\<lambda>sd.
      sq (upd_timer timer (\<lambda>t. t\<lparr>nl_sd := sd\<rparr>))
      (if sd < 0 then fail Xbt_assert
       else bnd (get_family_id N timer) (\<lambda>id.
         sq (upd_timer timer (\<lambda>t. t\<lparr>timer_id := word_of_int id\<rparr>))
         (if (word_of_int id :: u16) = 0 then fail Xbt_assert
          else upd_timer timer (\<lambda>t. t\<lparr>timer_msg := zero_msg\<rparr>)))))))"

definition cputimer_exit :: "'w netlink \<Rightarrow> timer_ptr \<Rightarrow> ('w st, unit) M" where
  "cputimer_exit N timer =
     bnd (get_timer timer) (\<lambda>t. sq (upd_world (nl_close N (nl_sd t))) (free_timer timer))"

text \<open>\<open>times[i] = v\<close> in the array of the caller.\<close>

definition put_time :: "nat \<Rightarrow> nat \<Rightarrow> int option list \<Rightarrow> ('s, int option list) M" where
  "put_time i v ts =
     (if i < length ts then ret (ts[i := Some (sint (of_nat v :: u64))]) else fail Out_of_bounds)"

text \<open>
  One nested attribute. After it \<open>na\<close> moves on by \<open>len2\<close>, the length of all nested
  attributes so far.
\<close>

definition nested_step ::
    "'w netlink \<Rightarrow> u8 list \<Rightarrow> int \<Rightarrow> int \<times> nat \<times> int option list \<Rightarrow>
      ('w st, int \<times> nat \<times> int option list + int option list) M" where
  "nested_step N msg aggr_len = (\<lambda>(len2, na, ts).
     if len2 < aggr_len then
       bnd (nla_type_at sizeof_msgtemplate msg na) (\<lambda>type.
       bnd (if type = unat TASKSTATS_TYPE_STATS
            then bnd (read_at sizeof_msgtemplate msg (na + NLA_HDRLEN + offset_utime N) 8) (\<lambda>utime.
                 bnd (put_time 1 utime ts) (\<lambda>ts.
                 bnd (read_at sizeof_msgtemplate msg (na + NLA_HDRLEN + offset_stime N) 8) (\<lambda>stime.
                 put_time 2 stime ts)))
            else ret ts) (\<lambda>ts.
       bnd (nla_len_at sizeof_msgtemplate msg na) (\<lambda>l.
       let len2 = len2 + int (nl_align l) in ret (Inl (len2, na + nat len2, ts)))))
     else ret (Inr ts))"

definition attr_step ::
    "'w netlink \<Rightarrow> u8 list \<Rightarrow> int \<Rightarrow> int \<times> nat \<times> int option list \<Rightarrow>
      ('w st, int \<times> nat \<times> int option list + int option list) M" where
  "attr_step N msg rep_len = (\<lambda>(len, na, ts).
     if len < rep_len then
       bnd (nla_len_at sizeof_msgtemplate msg na) (\<lambda>l.
       let len = len + int (nl_align l) in
       bnd (nla_type_at sizeof_msgtemplate msg na) (\<lambda>type.
       bnd (if type = unat TASKSTATS_TYPE_AGGR_PID
            then loopM (nested_step N msg (int l - int NLA_HDRLEN)) (0, na + NLA_HDRLEN, ts)
            else ret ts) (\<lambda>ts.
       ret (Inl (len, GENLMSG_DATA + nat len, ts)))))
     else ret (Inr ts))"

definition cputimer_get :: "'w netlink \<Rightarrow> int \<Rightarrow> int option list \<Rightarrow> timer_ptr \<Rightarrow> ('w st, int option list) M" where
  "cputimer_get N tid ts timer =
     bnd (get_timer timer) (\<lambda>tm.
     sq (netlink_sock_send N (timer_id tm) TASKSTATS_CMD_GET TASKSTATS_CMD_ATTR_PID
          (le_bytes 4 (unat (word_of_int tid :: u32))) 4 timer)
     (bnd (call_world (nl_recv N (nl_sd tm) sizeof_msgtemplate)) (\<lambda>(rep_len, msg).
      sq (check_answer sizeof_msgtemplate msg rep_len)
      (bnd (read_at sizeof_msgtemplate msg 0 4) (\<lambda>len.
       let rep_len = sint (of_nat len - of_nat NLMSG_HDRLEN - of_nat GENL_HDRLEN :: u32) in
       loopM (attr_step N msg rep_len) (0, GENLMSG_DATA, ts))))))"

end
