(* ===== verification/Main_Program.thy ===== *)
theory Main_Program
  imports Syscall_Process Cputimer
begin

text \<open>
  \<open>main\<close> of \<open>simterpose.c\<close> with its options, the benchmark of \<open>data_utils.c\<close>, the
  handlers of signals, the part of \<open>simterpose_process_runner\<close> that runs in the forked child,
  and the log appender of \<open>xbt_log_strace.c\<close>. The functions of SimGrid that only they call
  are the fields of \<open>engine\<close>.
\<close>

record 'w engine =
  MSG_init :: "string list \<Rightarrow> string list"
  MSG_create_environment :: "string option \<Rightarrow> 'w \<Rightarrow> 'w"
  MSG_launch_application :: "string option \<Rightarrow> 'w \<Rightarrow> 'w"
  MSG_main :: "'w st \<Rightarrow> msg_error \<times> 'w st"
  MSG_process_killall :: "'w \<Rightarrow> 'w"
  MSG_processes_data :: "'w \<Rightarrow> proc_ptr option list"
  MSG_self_data :: "'w \<Rightarrow> proc_ptr option"
  PTRACE_TRACEME :: "'w \<Rightarrow> 'w option"
  personality_no_randomize :: "'w \<Rightarrow> 'w"
  kill_self_stop :: "'w \<Rightarrow> 'w"
  execv :: "string list \<Rightarrow> 'w \<Rightarrow> bool \<times> 'w"

section \<open>strtof\<close>

text \<open>
  What \<open>strtof\<close> leaves of a text behind the longest number at its start: a decimal or
  hexadecimal number with an optional exponent, an infinity or a NaN, after white space and a
  sign. Without a number it is the whole text.
\<close>

definition drop_sign :: "string \<Rightarrow> string" where
  "drop_sign s = (if s \<noteq> [] \<and> hd s \<in> {CHR ''+'', CHR ''-''} then tl s else s)"

definition lower :: "char \<Rightarrow> char" where
  "lower c = (if 65 \<le> (of_char c :: nat) \<and> (of_char c :: nat) \<le> 90 then char_of (of_char c + 32 :: nat) else c)"

definition mantissa_rest :: "(char \<Rightarrow> bool) \<Rightarrow> string \<Rightarrow> string option" where
  "mantissa_rest digit s =
     (let a = takeWhile digit s; r = dropWhile digit s in
      if r \<noteq> [] \<and> hd r = CHR ''.'' then
        if a = [] \<and> takeWhile digit (tl r) = [] then None else Some (dropWhile digit (tl r))
      else if a = [] then None else Some r)"

definition exponent_rest :: "char \<Rightarrow> string \<Rightarrow> string" where
  "exponent_rest e s =
     (if s \<noteq> [] \<and> lower (hd s) = e \<and> drop_sign (tl s) \<noteq> [] \<and> isdigit (hd (drop_sign (tl s)))
      then dropWhile isdigit (drop_sign (tl s)) else s)"

definition nan_rest :: "string \<Rightarrow> string" where
  "nan_rest s =
     (if s \<noteq> [] \<and> hd s = CHR ''('' then
        let r = dropWhile (\<lambda>c. isdigit c \<or> c = CHR ''_'' \<or> 97 \<le> (of_char (lower c) :: nat) \<and> (of_char (lower c) :: nat) \<le> 122) (tl s) in
        if r \<noteq> [] \<and> hd r = CHR '')'' then tl r else s
      else s)"

definition strtof_rest :: "string \<Rightarrow> string" where
  "strtof_rest s =
     (let t = drop_sign (dropWhile isspace s); l = map lower t in
      if take 8 l = ''infinity'' then drop 8 t
      else if take 3 l = ''inf'' then drop 3 t
      else if take 3 l = ''nan'' then nan_rest (drop 3 t)
      else case (if take 2 l = ''0x'' then mantissa_rest isxdigit (drop 2 t) else None) of
        Some r \<Rightarrow> exponent_rest (CHR ''p'') r
      | None \<Rightarrow> (case mantissa_rest isdigit t of Some r \<Rightarrow> exponent_rest (CHR ''e'') r | None \<Rightarrow> s))"

text \<open>
  The value is only used for \<open>msec_per_flop\<close>, which \<open>simterpose_globals_init\<close> ignores, and
  is left out.
\<close>

definition str_to_double :: "string \<Rightarrow> ('s, unit) M" where
  "str_to_double string = (if strtof_rest string = [] then ret () else fail Xbt_assert)"

section \<open>Options\<close>

datatype opt = Opt_s | Opt_p string | Opt_other

text \<open>
  \<open>getopt\<close> with the options \<open>"s+p:"\<close>: the options in their order and the operands, which
  \<open>getopt\<close> moves to the end of the arguments. The first argument is what is left of the
  current element. Unknown options, \<open>p\<close> without an argument and the option \<open>+\<close> all lead
  to the default case of the switch.
\<close>

function getopt :: "string \<Rightarrow> string list \<Rightarrow> opt list \<times> string list" where
  "getopt (c # cs) args =
     (if c = CHR ''s'' then apfst (Cons Opt_s) (getopt cs args)
      else if c = CHR ''p'' then
        if cs \<noteq> [] then apfst (Cons (Opt_p cs)) (getopt [] args)
        else (case args of
            [] \<Rightarrow> ([Opt_other], [])
          | a # as \<Rightarrow> apfst (Cons (Opt_p a)) (getopt [] as))
      else apfst (Cons Opt_other) (getopt cs args))"
| "getopt [] [] = ([], [])"
| "getopt [] (a # as) =
     (if a = ''--'' then ([], as)
      else if length a > 1 \<and> hd a = CHR ''-'' then getopt (tl a) as
      else apsnd (Cons a) (getopt [] as))"
  by pat_completeness auto

termination
  by (relation "measure (\<lambda>(cs, as). length cs + sum_list (map (\<lambda>a. Suc (length a)) as))") auto

definition usage :: "int \<Rightarrow> ('w st, 'a) M" where
  "usage retcode = fail (Exit_program retcode)"

text \<open>The loop over the options; the result is \<open>flop_option\<close>.\<close>

fun parse_options :: "opt list \<Rightarrow> bool \<Rightarrow> ('w st, bool) M" where
  "parse_options [] flop_option = ret flop_option"
| "parse_options (Opt_s # os) flop_option =
     sq (modify (\<lambda>s. s\<lparr>strace_option := True\<rparr>)) (parse_options os flop_option)"
| "parse_options (Opt_p optarg # os) flop_option = sq (str_to_double optarg) (parse_options os True)"
| "parse_options (Opt_other # os) flop_option = usage 0"

section \<open>The benchmark\<close>

definition sum_times :: "int option list \<Rightarrow> ('s, int) M" where
  "sum_times ts =
     (case (ts ! 1, ts ! 2) of (Some utime, Some stime) \<Rightarrow> ret (utime + stime) | _ \<Rightarrow> fail Uninitialised)"

text \<open>
  The measured time; the product of the matrices in between only takes time. The quotient
  that the code makes of it is \<open>msec_per_flop\<close>.
\<close>

definition benchmark_matrix_product :: "'w netlink \<Rightarrow> ('w st, int) M" where
  "benchmark_matrix_product N =
     bnd (get_world (nl_getpid N)) (\<lambda>pid.
     bnd cputimer_new (\<lambda>timer_benchmark.
     sq (cputimer_init N timer_benchmark)
     (bnd (cputimer_get N pid [None, None, None] timer_benchmark) (\<lambda>ts.
      bnd (sum_times ts) (\<lambda>initialTime.
      bnd (cputimer_get N pid ts timer_benchmark) (\<lambda>ts.
      bnd (sum_times ts) (\<lambda>final.
      sq (cputimer_exit N timer_benchmark) (ret (final - initialTime)))))))))"

section \<open>main\<close>

text \<open>The call \<open>cputimer_exit(global_timer)\<close>.\<close>

definition exit_global_timer :: "'w netlink \<Rightarrow> ('w st, unit) M" where
  "exit_global_timer N = bnd (gets global_timer) (\<lambda>t. bnd (nonnull t) (cputimer_exit N))"

text \<open>\<open>argv[optind]\<close> and \<open>argv[optind + 1]\<close>; the element behind the last argument is \<open>NULL\<close>.\<close>

definition file_arguments :: "string list \<Rightarrow> ('s, string option \<times> string option) M" where
  "file_arguments operands =
     (case operands of
        [] \<Rightarrow> fail Out_of_bounds
      | [p] \<Rightarrow> ret (Some p, None)
      | p # a # _ \<Rightarrow> ret (Some p, Some a))"

text \<open>\<open>main\<close> up to the call of \<open>MSG_main\<close>.\<close>

definition main_setup :: "'w engine \<Rightarrow> 'w env \<Rightarrow> 'w netlink \<Rightarrow> string list \<Rightarrow> ('w st, unit) M" where
  "main_setup G E N argv =
     (if length argv < 3 then usage 1
      else let (opts, operands) = getopt [] (tl argv) in
        bnd (parse_options opts False) (\<lambda>flop_option.
        block [
          whenM (\<not> flop_option) (bnd (benchmark_matrix_product N) (\<lambda>_. ret ())),
          simterpose_globals_init,
          init_socket_gestion,
          comm_init,
          bnd cputimer_new (\<lambda>t. sq (modify (\<lambda>s. s\<lparr>global_timer := Some t\<rparr>)) (cputimer_init N t)),
          bnd (file_arguments operands) (\<lambda>(platform_file, application_file).
            block [
              upd_world (MSG_create_environment G platform_file),
              init_host_list E,
              upd_world (MSG_launch_application G application_file)])]))"

definition main_exit :: "'w engine \<Rightarrow> 'w netlink \<Rightarrow> ('w st, unit) M" where
  "main_exit G N =
     block [comm_exit, socket_exit, exit_global_timer N, simterpose_globals_exit, upd_world (MSG_process_killall G)]"

definition main :: "'w engine \<Rightarrow> 'w env \<Rightarrow> 'w netlink \<Rightarrow> string list \<Rightarrow> ('w st, int) M" where
  "main G E N argv =
     sq (main_setup G E N (MSG_init G argv))
     (bnd (call_block (MSG_main G)) (\<lambda>res.
      sq (main_exit G N) (ret (if res = MSG_OK then 0 else 1))))"

text \<open>The handlers for \<open>SIGINT\<close> and \<open>SIGSEGV\<close>; they differ in the messages.\<close>

definition sigint_handler :: "'w engine \<Rightarrow> 'w netlink \<Rightarrow> ('w st, unit) M" where
  "sigint_handler G N =
     block [upd_world (MSG_process_killall G), comm_exit, socket_exit, exit_global_timer N, simterpose_globals_exit, fail Xbt_die]"

definition sigsegv_handler :: "'w engine \<Rightarrow> 'w netlink \<Rightarrow> ('w st, unit) M" where
  "sigsegv_handler G N =
     block [upd_world (MSG_process_killall G), comm_exit, socket_exit, exit_global_timer N, simterpose_globals_exit, fail Xbt_die]"

section \<open>The forked child\<close>

text \<open>Closing the logs of the processes that were started before.\<close>

fun close_logs :: "proc_ptr option list \<Rightarrow> ('w st, unit) M" where
  "close_logs [] = ret ()"
| "close_logs (None # ps) = close_logs ps"
| "close_logs (Some a # ps) =
     sq (bnd (get_proc a) (\<lambda>p. case strace_out p of
          None \<Rightarrow> fail Null_deref
        | Some _ \<Rightarrow> upd_proc a (\<lambda>p. p\<lparr>strace_out := None\<rparr>)))
     (close_logs ps)"

text \<open>The child, on its copy of the memory, until the program of the arguments takes its place.\<close>

definition runner_child :: "'w engine \<Rightarrow> 'w netlink \<Rightarrow> string list \<Rightarrow> ('w st, unit) M" where
  "runner_child G N argv =
     block [
       exit_global_timer N,
       bnd (gets strace_option) (\<lambda>strace. whenM strace (bnd (get_world (MSG_processes_data G)) close_logs)),
       bnd (get_world (PTRACE_TRACEME G)) (\<lambda>r. case r of None \<Rightarrow> fail Xbt_die | Some w \<Rightarrow> upd_world (\<lambda>_. w)),
       upd_world (personality_no_randomize G),
       upd_world (kill_self_stop G),
       bnd (call_world (execv G argv)) (\<lambda>ok. if ok then ret () else fail Xbt_die)]"

section \<open>xbt\_log\_strace.c\<close>

text \<open>A message of the logs goes to the log of the current process, besides standard error.\<close>

definition append_file :: "'w engine \<Rightarrow> string \<Rightarrow> ('w st, unit) M" where
  "append_file G str =
     bnd (get_world (MSG_self_data G)) (\<lambda>proc.
     case proc of
       None \<Rightarrow> ret ()
     | Some a \<Rightarrow> bnd (get_proc a) (\<lambda>p. whenM (strace_out p \<noteq> None) (fprintf a str)))"

end
