(* ===== verification/Timer_Properties.thy ===== *)
theory Timer_Properties
  imports Cputimer
begin

text \<open>
  The timer against a kernel that takes requests in pieces and answers them: the request is
  sent completely and only once, the family of the task statistics is found, and the times
  of the answer are the ones that the caller gets.
\<close>

section \<open>Sending\<close>

text \<open>
  What \<open>sendto\<close> of the kernel promises: it takes a first part of the buffer, whose length it
  returns, or takes nothing and asks to try again, and it does so only finitely often.
\<close>

definition accepting :: "'w netlink \<Rightarrow> ('w \<Rightarrow> u8 list) \<Rightarrow> ('w \<Rightarrow> nat) \<Rightarrow> bool" where
  "accepting N sent tries \<longleftrightarrow> (\<forall>sd buf w r errno w'. buf \<noteq> [] \<longrightarrow> nl_sendto N sd buf w = ((r, errno), w') \<longrightarrow>
     r \<le> int (length buf) \<and>
     (if 0 < r then sent w' = sent w @ take (nat r) buf
      else errno = EAGAIN \<and> sent w' = sent w \<and> tries w' < tries w))"

lemma send_loop:
  assumes k: "accepting N sent tries" and len: "0 < buflen" "buflen \<le> int (length buf)"
  shows "\<exists>w. loopM (send_step N sd) (buf, buflen) s = Inr ((), s\<lparr>world := w\<rparr>) \<and>
     sent w = sent (world s) @ take (nat buflen) buf"
  using len
proof (induction "(nat buflen, tries (world s))" arbitrary: buf buflen s rule: wf_induct_rule [OF wf_lex_prod [OF wf_less_than wf_less_than]])
  case 1
  obtain r errno w where call: "nl_sendto N sd (take (nat buflen) buf) (world s) = ((r, errno), w)" 
    by (cases "nl_sendto N sd (take (nat buflen) buf) (world s)") (auto intro: that)
  have part: "take (nat buflen) buf \<noteq> []" "length (take (nat buflen) buf) = nat buflen" using 1(2,3) by auto
  have r: "r \<le> buflen" "if 0 < r then sent w = sent (world s) @ take (nat r) (take (nat buflen) buf)
      else errno = EAGAIN \<and> sent w = sent (world s) \<and> tries w < tries (world s)"
    using k [unfolded accepting_def, rule_format, OF part(1) call] part(2) 1(2) by simp_all
  have step: "loopM (send_step N sd) (buf, buflen) s =
      (if buflen \<le> r then Inr ((), s\<lparr>world := w\<rparr>)
       else if 0 < r then loopM (send_step N sd) (drop (nat r) buf, buflen - r) (s\<lparr>world := w\<rparr>)
       else if errno \<noteq> EAGAIN then Inl Xbt_die else loopM (send_step N sd) (buf, buflen) (s\<lparr>world := w\<rparr>))"
    by (subst loopM_unfold) (simp add: send_step_def run call)
  consider "r = buflen" | "0 < r" "r < buflen" | "r \<le> 0" using r(1) by linarith
  then show ?case
  proof cases
    case full: 1
    then show ?thesis using step r(2) 1(2) by (intro exI [of _ w]) simp
  next
    case 2
    have "\<exists>w'. loopM (send_step N sd) (drop (nat r) buf, buflen - r) (s\<lparr>world := w\<rparr>) = Inr ((), s\<lparr>world := w'\<rparr>) \<and>
       sent w' = sent w @ take (nat (buflen - r)) (drop (nat r) buf)"
      using 1(1) [of "buflen - r" "s\<lparr>world := w\<rparr>" "drop (nat r) buf"] 2 1(2,3) by auto
    then obtain w' where w': "loopM (send_step N sd) (drop (nat r) buf, buflen - r) (s\<lparr>world := w\<rparr>) = Inr ((), s\<lparr>world := w'\<rparr>)"
      "sent w' = sent w @ take (nat (buflen - r)) (drop (nat r) buf)" by blast
    have "take (nat buflen) buf = take (nat r) buf @ take (nat (buflen - r)) (drop (nat r) buf)"
      using 2 take_add [of "nat r" "nat (buflen - r)" buf] by (simp add: nat_add_distrib [symmetric])
    then have "sent w' = sent (world s) @ take (nat buflen) buf" using w'(2) r(2) 2 by (simp add: min_def)
    with w'(1) step 2 show ?thesis by auto
  next
    case 3
    have "\<exists>w'. loopM (send_step N sd) (buf, buflen) (s\<lparr>world := w\<rparr>) = Inr ((), s\<lparr>world := w'\<rparr>) \<and>
       sent w' = sent w @ take (nat buflen) buf"
      using 1(1) [of buflen "s\<lparr>world := w\<rparr>" buf] 3 1(2,3) r(2) by auto
    with step r(2) 3 1(2) show ?thesis by auto
  qed
qed

text \<open>The bytes of a request: headers, attribute, and what the buffer of the timer fills it up with.\<close>

definition request :: "u16 \<Rightarrow> u8 \<Rightarrow> u16 \<Rightarrow> u8 list \<Rightarrow> s_xbt_cpu_timer \<Rightarrow> u8 list" where
  "request type cmd nla_type nla_data tm = (let n = length nla_data; a = nl_align (n + 5) in
     le_bytes 4 (20 + a) @ le_bytes 2 (unat type) @ le_bytes 2 1 @ le_bytes 4 0 @
     le_bytes 4 (unat (word_of_int (timer_pid tm) :: u32)) @
     [cmd, 1] @ le_bytes 2 (unat (genl_reserved (msg_g (timer_msg tm)))) @
     le_bytes 2 (n + 5) @ le_bytes 2 (unat nla_type) @ nla_data @
     take (a - (n + 4)) (drop (n + 4) (msg_buf (timer_msg tm))))"

lemma nl_align_bounds: "n \<le> nl_align n" "nl_align n < n + 4"
  by (simp_all add: nl_align_def)

lemma request_taken:
  assumes "length nla_data \<le> 1000"
  shows "nlmsg_len (msg_n (make_request type cmd nla_type nla_data (length nla_data) tm)) = of_nat (20 + nl_align (length nla_data + 5))"
    "take (20 + nl_align (length nla_data + 5)) (msg_bytes (make_request type cmd nla_type nla_data (length nla_data) tm)) =
     request type cmd nla_type nla_data tm"
proof -
  have u: "unat (of_nat (length nla_data + 5) :: u16) = length nla_data + 5"
    using assms by (simp add: unat_of_nat del: of_nat_add)
  have a: "length nla_data + 5 \<le> nl_align (length nla_data + 5)" "nl_align (length nla_data + 5) < length nla_data + 9"
    using nl_align_bounds [of "length nla_data + 5"] by simp_all
  show len: "nlmsg_len (msg_n (make_request type cmd nla_type nla_data (length nla_data) tm)) = of_nat (20 + nl_align (length nla_data + 5))"
    using u by (simp add: make_request_def Let_def nl_sizes add.commute)
  have "unat (of_nat (20 + nl_align (length nla_data + 5)) :: u32) = 20 + nl_align (length nla_data + 5)"
    using a assms by (simp add: unat_of_nat del: of_nat_add)
  with len show "take (20 + nl_align (length nla_data + 5)) (msg_bytes (make_request type cmd nla_type nla_data (length nla_data) tm)) =
     request type cmd nla_type nla_data tm"
    using a
    by (simp add: msg_bytes_def request_def Let_def)
      (simp add: make_request_def put_attr_def Let_def NLM_F_REQUEST_def nl_sizes take_Cons' add.commute)
qed

lemma length_put_attr:
  "length buf = MAX_MSG_SIZE \<Longrightarrow> length nla_data \<le> 1000 \<Longrightarrow> length (put_attr t nla_data (length nla_data) buf) = MAX_MSG_SIZE"
  by (simp add: put_attr_def nl_sizes)

lemma send_run:
  assumes k: "accepting N sent tries" and tm: "timers s timer = Some tm" "length (msg_buf (timer_msg tm)) = MAX_MSG_SIZE"
    and n: "length nla_data \<le> 1000"
  shows "\<exists>w. netlink_sock_send N type cmd nla_type nla_data (length nla_data) timer s = Inr ((), s\<lparr>world := w\<rparr>) \<and>
     sent w = sent (world s) @ request type cmd nla_type nla_data tm"
proof -
  let ?m = "make_request type cmd nla_type nla_data (length nla_data) tm"
  let ?len = "20 + nl_align (length nla_data + 5)"
  have a: "nl_align (length nla_data + 5) < length nla_data + 9" using nl_align_bounds [of "length nla_data + 5"] by simp
  have "sint (of_nat ?len :: u32) = int ?len"
    using a n by (simp add: signed_of_nat signed_take_bit_int_eq_self del: of_nat_add)
  then have buflen: "sint (nlmsg_len (msg_n ?m)) = int ?len" using request_taken(1) [OF n] by simp
  have "msg_buf ?m = put_attr nla_type nla_data (length nla_data) (msg_buf (timer_msg tm))"
    by (simp add: make_request_def Let_def)
  then have "length (msg_bytes ?m) = 20 + MAX_MSG_SIZE"
    using length_put_attr [OF tm(2) n] by (simp add: msg_bytes_def)
  with a n have "int ?len \<le> int (length (msg_bytes ?m))" by (simp add: nl_sizes)
  from send_loop [OF k _ this, of "nl_sd tm" s] request_taken(2) [OF n]
  obtain w where "loopM (send_step N (nl_sd tm)) (msg_bytes ?m, int ?len) s = Inr ((), s\<lparr>world := w\<rparr>)"
    "sent w = sent (world s) @ request type cmd nla_type nla_data tm"
    by (auto simp: nat_add_distrib simp del: of_nat_add)
  with buflen tm(1) n show ?thesis by (intro exI [of _ w]) (simp add: netlink_sock_send_def Let_def run nl_sizes)
qed

text \<open>
  C20. \<open>netlink_sock_send\<close> always returns, and what the kernel has then received is one
  complete request: the two headers with the total length, the type, the process and the
  command, followed by one attribute with the given type and data. It does not matter into
  how many pieces the kernel cuts the request or how often it asks to try again.
\<close>

theorem netlink_send_spec:
  assumes "accepting N sent tries" "timers s timer = Some tm" "length (msg_buf (timer_msg tm)) = MAX_MSG_SIZE"
    and "length nla_data \<le> 1000"
  shows "\<exists>w. netlink_sock_send N type cmd nla_type nla_data (length nla_data) timer s = Inr ((), s\<lparr>world := w\<rparr>) \<and>
     sent w = sent (world s) @ request type cmd nla_type nla_data tm"
  using assms by (rule send_run)

section \<open>Answers of the kernel\<close>

definition attribute :: "u16 \<Rightarrow> u8 list \<Rightarrow> u8 list" where
  "attribute t d = le_bytes 2 (length d + 4) @ le_bytes 2 (unat t) @ d @ replicate (nl_align (length d) - length d) 0"

text \<open>A message with its type, the ten bytes of flags, number and sender, the command header and attributes.\<close>

definition answer :: "u16 \<Rightarrow> u8 list \<Rightarrow> u8 list \<Rightarrow> u8 list \<Rightarrow> u8 list" where
  "answer type rest genl attrs = le_bytes 4 (20 + length attrs) @ le_bytes 2 (unat type) @ rest @ genl @ attrs"

lemma nl_align_add4: "nl_align (n + 4) = nl_align n + 4"
  unfolding nl_align_def by presburger

lemma length_attribute: "length (attribute t d) = nl_align (length d + 4)"
  using nl_align_bounds [of "length d"] by (simp add: attribute_def nl_align_add4)

lemma read_at_slice:
  "off = length a \<Longrightarrow> n = length b \<Longrightarrow> read_at sz (a @ b @ c) off n s = Inr (le_val b, s)"
  by (simp add: read_at_def run)

lemma le_val_u16: "le_val (le_bytes 2 (unat (t :: u16))) = unat t"
  using unsigned_less [of t, where ?'a = nat] by (simp add: le_val_bytes)

lemma attribute_at:
  assumes "off = length a" "length d + 4 < 2 ^ 16"
  shows "nla_len_at sz (a @ attribute t d @ c) off s = Inr (length d + 4, s)"
    "nla_type_at sz (a @ attribute t d @ c) off s = Inr (unat t, s)"
  using assms read_at_slice [of off a 2 "le_bytes 2 (length d + 4)" sz _ s]
    read_at_slice [of "off + 2" "a @ le_bytes 2 (length d + 4)" 2 "le_bytes 2 (unat t)" sz _ s]
  by (simp_all add: nla_len_at_def nla_type_at_def attribute_def le_val_u16) (simp add: le_val_bytes)

lemma payload_at:
  assumes "off = length a + 4 + k" "k + n \<le> length d"
  shows "read_at sz (a @ attribute t d @ c) off n s = Inr (le_val (take n (drop k d)), s)"
proof -
  have "d = take k d @ take n (drop k d) @ drop n (drop k d)"
    using append_take_drop_id [of k d] append_take_drop_id [of n "drop k d"] by simp
  then have "a @ attribute t d @ c = (a @ le_bytes 2 (length d + 4) @ le_bytes 2 (unat t) @ take k d) @ take n (drop k d) @
      drop n (drop k d) @ replicate (nl_align (length d) - length d) 0 @ c"
    by (simp add: attribute_def)
  then show ?thesis using assms
    by (simp only:) (rule read_at_slice, simp_all)
qed

lemma check_answer_ok:
  assumes "type \<noteq> NLMSG_ERROR" "length rest = 10" "length genl = 4" "20 + length attrs < 2 ^ 32"
  shows "read_at sz (answer type rest genl attrs) 0 4 s = Inr (20 + length attrs, s)"
    "check_answer sz (answer type rest genl attrs) (int (20 + length attrs)) s = Inr ((), s)"
proof -
  have "read_at sz (answer type rest genl attrs) 4 2 s = Inr (unat type, s)"
    and len: "read_at sz (answer type rest genl attrs) 0 4 s = Inr (20 + length attrs, s)"
    using read_at_slice [of 4 "le_bytes 4 (20 + length attrs)" 2 "le_bytes 2 (unat type)" sz _ s]
      read_at_slice [of 0 "[]" 4 "le_bytes 4 (20 + length attrs)" sz _ s] assms(4)
    by (simp_all add: answer_def le_val_u16) (simp add: le_val_bytes)
  with assms(1) show "check_answer sz (answer type rest genl attrs) (int (20 + length attrs)) s = Inr ((), s)"
    by (simp add: check_answer_def run nl_sizes unat_arith_simps)
  show "read_at sz (answer type rest genl attrs) 0 4 s = Inr (20 + length attrs, s)" by (rule len)
qed

text \<open>The answer of the kernel to a question for the times of a process.\<close>

definition times_answer :: "u16 \<Rightarrow> u8 list \<Rightarrow> u8 list \<Rightarrow> u8 list \<Rightarrow> u8 list \<Rightarrow> u8 list" where
  "times_answer type rest genl pid stats = answer type rest genl
     (attribute TASKSTATS_TYPE_AGGR_PID (attribute TASKSTATS_TYPE_PID pid @ attribute TASKSTATS_TYPE_STATS stats))"

definition time_at :: "nat \<Rightarrow> u8 list \<Rightarrow> int" where
  "time_at off stats = sint (word64 (take 8 (drop off stats)))"

text \<open>The well-formed answers with the times \<open>u\<close> and \<open>v\<close>.\<close>

definition times_reply :: "'w netlink \<Rightarrow> int \<Rightarrow> int \<Rightarrow> u8 list \<Rightarrow> bool" where
  "times_reply N u v m \<longleftrightarrow> (\<exists>type rest genl pid stats. m = times_answer type rest genl pid stats \<and>
     length pid = 4 \<and> length stats < 1000 \<and> length rest = 10 \<and> length genl = 4 \<and> type \<noteq> NLMSG_ERROR \<and>
     offset_utime N + 8 \<le> length stats \<and> offset_stime N + 8 \<le> length stats \<and>
     time_at (offset_utime N) stats = u \<and> time_at (offset_stime N) stats = v)"

lemma nl_align_idem [simp]: "nl_align (nl_align n) = nl_align n"
  unfolding nl_align_def by presburger

lemma nl_align_le: "n \<le> nl_align n"
  by (simp add: nl_align_def)

lemma nested_times:
  fixes s :: "'w st"
  assumes na: "na = length a" and pid: "length pid = 4" and stats: "length stats < 1000"
    and off: "offset_utime N + 8 \<le> length stats" "offset_stime N + 8 \<le> length stats" and ts: "length ts = 3"
    and msg: "msg = a @ attribute TASKSTATS_TYPE_PID pid @ attribute TASKSTATS_TYPE_STATS stats @ c"
  shows "loopM (nested_step N msg (int (length (attribute TASKSTATS_TYPE_PID pid @ attribute TASKSTATS_TYPE_STATS stats)))) (0, na, ts) s =
    Inr (ts[1 := Some (time_at (offset_utime N) stats), 2 := Some (time_at (offset_stime N) stats)], s)"
proof -
  let ?z = sizeof_msgtemplate and ?p = "attribute TASKSTATS_TYPE_PID pid" and ?q = "attribute TASKSTATS_TYPE_STATS stats"
  have len: "length ?p = 8" "length ?q = nl_align (length stats + 4)" "nl_align 8 = 8" "0 < nl_align (length stats + 4)"
    using pid nl_align_le [of "length stats + 4"] by (simp_all add: length_attribute) (simp_all add: nl_align_def)
  have first: "nla_len_at ?z msg na s = Inr (8, s)" "nla_type_at ?z msg na s = Inr (1, s)" for s :: "'w st"
    using attribute_at [of na a pid ?z TASKSTATS_TYPE_PID "?q @ c" s] na pid msg by (simp_all add: TASKSTATS_TYPE_PID_def)
  have second: "nla_len_at ?z msg (na + 8) s = Inr (length stats + 4, s)" "nla_type_at ?z msg (na + 8) s = Inr (3, s)"
      "\<And>k. k + 8 \<le> length stats \<Longrightarrow> read_at ?z msg (na + 8 + 4 + k) 8 s = Inr (le_val (take 8 (drop k stats)), s)" for s :: "'w st"
    using attribute_at [of "na + 8" "a @ ?p" stats ?z TASKSTATS_TYPE_STATS c s] na stats msg len(1)
      payload_at [of _ "a @ ?p" _ 8 stats ?z TASKSTATS_TYPE_STATS c s] by (simp_all add: TASKSTATS_TYPE_STATS_def)
  have time: "time_at k stats = sint (of_nat (le_val (take 8 (drop k stats))) :: u64)" for k
    by (simp add: time_at_def word64_def)
  show ?thesis
    using len first second off ts
    by (simp add: loopM_unfold [of _ "(0, na, ts)"] loopM_unfold [of _ "(_, na + 8, ts)"] loopM_unfold [of _ "(8 + _, _, _)"]
        nested_step_def Let_def run put_time_def time TASKSTATS_TYPE_STATS_def nl_sizes)
qed

lemma times_answer_walk:
  fixes s :: "'w st"
  assumes pid: "length pid = 4" and stats: "length stats < 1000" and hdr: "length rest = 10" "length genl = 4"
    and off: "offset_utime N + 8 \<le> length stats" "offset_stime N + 8 \<le> length stats" and ts: "length ts = 3"
  shows "loopM (attr_step N (times_answer type rest genl pid stats) (int (16 + nl_align (length stats)))) (0, GENLMSG_DATA, ts) s =
    Inr (ts[1 := Some (time_at (offset_utime N) stats), 2 := Some (time_at (offset_stime N) stats)], s)"
proof -
  let ?z = sizeof_msgtemplate and ?msg = "times_answer type rest genl pid stats"
  let ?d = "attribute TASKSTATS_TYPE_PID pid @ attribute TASKSTATS_TYPE_STATS stats"
  let ?a = "le_bytes 4 (20 + length (attribute TASKSTATS_TYPE_AGGR_PID ?d)) @ le_bytes 2 (unat type) @ rest @ genl"
  have d: "length ?d = 12 + nl_align (length stats)" using pid by (simp add: length_attribute nl_align_add4) (simp add: nl_align_def)
  have d4: "nl_align (12 + nl_align (length stats)) = 12 + nl_align (length stats)" unfolding nl_align_def by presburger
  have small: "nl_align (length stats) < 1004" using stats nl_align_bounds [of "length stats"] by simp
  have msg: "?msg = ?a @ attribute TASKSTATS_TYPE_AGGR_PID ?d @ []" by (simp add: times_answer_def answer_def)
  have top: "nla_len_at ?z ?msg 20 s = Inr (16 + nl_align (length stats), s)" "nla_type_at ?z ?msg 20 s = Inr (4, s)"
    using attribute_at [of 20 ?a ?d ?z TASKSTATS_TYPE_AGGR_PID "[]" s] msg d small hdr
    by (simp_all add: TASKSTATS_TYPE_AGGR_PID_def)
  have "loopM (nested_step N ?msg (int (length ?d))) (0, 24, ts) s =
      Inr (ts[1 := Some (time_at (offset_utime N) stats), 2 := Some (time_at (offset_stime N) stats)], s)"
    by (rule nested_times [where a = "?a @ le_bytes 2 (length ?d + 4) @ le_bytes 2 (unat TASKSTATS_TYPE_AGGR_PID)" and c = "[]"])
      (use pid stats off ts hdr d d4 in \<open>simp_all add: msg attribute_def [of TASKSTATS_TYPE_AGGR_PID]\<close>)
  then have "loopM (nested_step N ?msg (12 + int (nl_align (length stats)))) (0, 24, ts) s =
      Inr (ts[1 := Some (time_at (offset_utime N) stats), 2 := Some (time_at (offset_stime N) stats)], s)"
    unfolding d by simp
  moreover have "nl_align (16 + nl_align (length stats)) = 16 + nl_align (length stats)" unfolding nl_align_def by presburger
  ultimately show ?thesis using top
    by (subst loopM_unfold)
      (simp add: attr_step_def [of N ?msg, THEN fun_cong, of _ "(0, _, _)"] Let_def run TASKSTATS_TYPE_AGGR_PID_def nl_sizes GENLMSG_DATA_def
        loopM_unfold [of "attr_step _ _ _" "(16 + _, _, _)"] attr_step_def [of N ?msg, THEN fun_cong, of _ "(16 + _, _, _)"])
qed

lemma cputimer_get_run:
  assumes k: "accepting N sent tries" and tm: "timers s timer = Some tm" "length (msg_buf (timer_msg tm)) = MAX_MSG_SIZE"
    and reply: "\<And>w. sent w = sent (world s) @ request (timer_id tm) TASKSTATS_CMD_GET TASKSTATS_CMD_ATTR_PID (le_bytes 4 (unat (word_of_int tid :: u32))) tm \<Longrightarrow>
      \<exists>m w'. times_reply N (utime w) (stime w) m \<and> nl_recv N (nl_sd tm) sizeof_msgtemplate w = ((int (length m), m), w')"
    and ts: "length ts = 3"
  shows "\<exists>w w'. sent w = sent (world s) @ request (timer_id tm) TASKSTATS_CMD_GET TASKSTATS_CMD_ATTR_PID (le_bytes 4 (unat (word_of_int tid :: u32))) tm \<and>
    cputimer_get N tid ts timer s = Inr (ts[1 := Some (utime w), 2 := Some (stime w)], s\<lparr>world := w'\<rparr>)"
proof -
  obtain w where w: "netlink_sock_send N (timer_id tm) TASKSTATS_CMD_GET TASKSTATS_CMD_ATTR_PID (le_bytes 4 (unat (word_of_int tid :: u32))) 4 timer s =
      Inr ((), s\<lparr>world := w\<rparr>)"
    "sent w = sent (world s) @ request (timer_id tm) TASKSTATS_CMD_GET TASKSTATS_CMD_ATTR_PID (le_bytes 4 (unat (word_of_int tid :: u32))) tm"
    using send_run [OF k tm, of "le_bytes 4 (unat (word_of_int tid :: u32))" "timer_id tm" TASKSTATS_CMD_GET TASKSTATS_CMD_ATTR_PID] by auto
  from reply [OF w(2)] obtain type rest genl pid stats w' where
    w': "nl_recv N (nl_sd tm) sizeof_msgtemplate w =
      ((int (length (times_answer type rest genl pid stats)), times_answer type rest genl pid stats), w')"
    and form: "length pid = 4" "length stats < 1000" "length rest = 10" "length genl = 4" "type \<noteq> NLMSG_ERROR"
    and off: "offset_utime N + 8 \<le> length stats" "offset_stime N + 8 \<le> length stats"
    and uv: "time_at (offset_utime N) stats = utime w" "time_at (offset_stime N) stats = stime w"
    unfolding times_reply_def by blast
  let ?msg = "times_answer type rest genl pid stats"
  let ?attrs = "attribute TASKSTATS_TYPE_AGGR_PID (attribute TASKSTATS_TYPE_PID pid @ attribute TASKSTATS_TYPE_STATS stats)"
  have small: "nl_align (length stats) < 1004" using form(2) nl_align_bounds [of "length stats"] by simp
  define n where "n = 16 + nl_align (length stats)"
  have n: "length ?attrs = n" "n < 1020"
    using form small by (simp_all add: length_attribute nl_align_add4 n_def) (simp add: nl_align_def)
  then have msg: "length ?msg = 20 + n" using form by (simp add: times_answer_def answer_def)
  have "read_at sizeof_msgtemplate ?msg 0 4 t = Inr (20 + n, t)" "check_answer sizeof_msgtemplate ?msg (int (20 + n)) t = Inr ((), t)" for t :: "'a st"
    using check_answer_ok [OF form(5,3,4), of ?attrs] n by (simp_all add: times_answer_def)
  moreover have "sint (of_nat (20 + n) - 16 - 4 :: u32) = int n"
    using n(2) by (simp add: signed_of_nat signed_take_bit_int_eq_self)
  ultimately show ?thesis
    using w w' tm(1) msg times_answer_walk [OF form(1,2,3,4) off ts, of type] n_def uv
    by (intro exI [of _ w] exI [of _ w']) (simp add: cputimer_get_def Let_def run nl_sizes)
qed

text \<open>
  C21. \<open>cputimer_get\<close> asks for the times of the given thread and returns the user and system
  time that the kernel reports in the statistics of its answer, at indices 1 and 2 of the
  array, whatever the size of the statistics and the contents of the rest of the message.
\<close>

theorem cputimer_get_spec:
  assumes k: "accepting N sent tries" and tm: "timers s timer = Some tm" "length (msg_buf (timer_msg tm)) = MAX_MSG_SIZE"
    and reply: "\<And>w. sent w = sent (world s) @ request (timer_id tm) TASKSTATS_CMD_GET TASKSTATS_CMD_ATTR_PID (le_bytes 4 (unat (word_of_int tid :: u32))) tm \<Longrightarrow>
      \<exists>m w'. times_reply N (utime w) (stime w) m \<and> nl_recv N (nl_sd tm) sizeof_msgtemplate w = ((int (length m), m), w')"
    and ts: "length ts = 3"
  shows "\<exists>w w'. sent w = sent (world s) @ request (timer_id tm) TASKSTATS_CMD_GET TASKSTATS_CMD_ATTR_PID (le_bytes 4 (unat (word_of_int tid :: u32))) tm \<and>
    cputimer_get N tid ts timer s = Inr (ts[1 := Some (utime w), 2 := Some (stime w)], s\<lparr>world := w'\<rparr>)"
  using assms by (rule cputimer_get_run)

section \<open>The family of the statistics\<close>

definition family_answer :: "u16 \<Rightarrow> u8 list \<Rightarrow> u8 list \<Rightarrow> u8 list \<Rightarrow> u16 \<Rightarrow> u8 list \<Rightarrow> u8 list" where
  "family_answer type rest genl name fid others = answer type rest genl
     (attribute CTRL_ATTR_FAMILY_NAME name @ attribute CTRL_ATTR_FAMILY_ID (le_bytes 2 (unat fid)) @ others)"

definition family_request :: "s_xbt_cpu_timer \<Rightarrow> u8 list" where
  "family_request tm = request GENL_ID_CTRL CTRL_CMD_GETFAMILY CTRL_ATTR_FAMILY_NAME (TASKSTATS_GENL_NAME @ [0]) tm"

definition family_reply :: "u16 \<Rightarrow> u8 list \<Rightarrow> bool" where
  "family_reply fid m \<longleftrightarrow> (\<exists>type rest genl name others. m = family_answer type rest genl name fid others \<and>
     length rest = 10 \<and> length genl = 4 \<and> type \<noteq> NLMSG_ERROR \<and> length name + length others < 1000)"

lemma family_id_run:
  assumes k: "accepting N sent tries" and tm: "timers s timer = Some tm" "length (msg_buf (timer_msg tm)) = MAX_MSG_SIZE"
    and reply: "\<And>w. sent w = sent (world s) @ family_request tm \<Longrightarrow>
      \<exists>m w'. family_reply fid m \<and> nl_recv N (nl_sd tm) sizeof_ans w = ((int (length m), m), w')"
  shows "\<exists>w. get_family_id N timer s = Inr (int (unat fid), s\<lparr>world := w\<rparr>)"
proof -
  have n: "length (TASKSTATS_GENL_NAME @ [0]) = 10" "length TASKSTATS_GENL_NAME + 1 = 10" by (simp_all add: TASKSTATS_GENL_NAME_def)
  obtain w where w: "netlink_sock_send N GENL_ID_CTRL CTRL_CMD_GETFAMILY CTRL_ATTR_FAMILY_NAME (TASKSTATS_GENL_NAME @ [0]) 10 timer s =
      Inr ((), s\<lparr>world := w\<rparr>)" "sent w = sent (world s) @ family_request tm"
    using send_run [OF k tm, of "TASKSTATS_GENL_NAME @ [0]" GENL_ID_CTRL CTRL_CMD_GETFAMILY CTRL_ATTR_FAMILY_NAME] n
    unfolding family_request_def by auto
  from reply [OF w(2)] obtain type rest genl name others w' where
    w': "nl_recv N (nl_sd tm) sizeof_ans w =
      ((int (length (family_answer type rest genl name fid others)), family_answer type rest genl name fid others), w')"
    and form: "length rest = 10" "length genl = 4" "type \<noteq> NLMSG_ERROR" "length name + length others < 1000"
    unfolding family_reply_def by blast
  let ?msg = "family_answer type rest genl name fid others"
  let ?name = "attribute CTRL_ATTR_FAMILY_NAME name" and ?id = "attribute CTRL_ATTR_FAMILY_ID (le_bytes 2 (unat fid))"
  let ?a = "le_bytes 4 (20 + length (?name @ ?id @ others)) @ le_bytes 2 (unat type) @ rest @ genl"
  have len: "length ?name = nl_align (length name + 4)" "length ?id = 8" by (simp_all add: length_attribute) (simp add: nl_align_def)
  have small: "length (?name @ ?id @ others) < 2000" using len form(4) nl_align_bounds(2) [of "length name + 4"] by simp
  have msg: "?msg = ?a @ ?name @ ?id @ others" "length ?a = 20" "length ?msg = 20 + length (?name @ ?id @ others)"
    using form by (simp_all add: family_answer_def answer_def)
  have "check_answer sizeof_ans ?msg (int (length ?msg)) t = Inr ((), t)" for t :: "'a st"
    using check_answer_ok [OF form(3,1,2), of "?name @ ?id @ others"] small msg(3) by (simp add: family_answer_def)
  moreover have "nla_len_at sizeof_ans ?msg 20 t = Inr (length name + 4, t)" for t :: "'a st"
    using attribute_at(1) [of 20 ?a name sizeof_ans CTRL_ATTR_FAMILY_NAME "?id @ others" t] msg(1,2) form(4) by simp
  moreover have "nla_type_at sizeof_ans ?msg (20 + nl_align (length name + 4)) t = Inr (1, t)"
    "read_at sizeof_ans ?msg (20 + nl_align (length name + 4) + 4) 2 t = Inr (unat fid, t)" for t :: "'a st"
    using attribute_at(2) [of "20 + nl_align (length name + 4)" "?a @ ?name" "le_bytes 2 (unat fid)" sizeof_ans CTRL_ATTR_FAMILY_ID others t]
      payload_at [of "20 + nl_align (length name + 4) + 4" "?a @ ?name" 0 2 "le_bytes 2 (unat fid)" sizeof_ans CTRL_ATTR_FAMILY_ID others t]
      msg(1,2) len(1) by (simp_all add: le_val_u16 CTRL_ATTR_FAMILY_ID_def)
  ultimately show ?thesis using w(1) w' tm(1) n(2)
    by (intro exI [of _ w']) (simp add: get_family_id_def Let_def run GENLMSG_DATA_def nl_sizes CTRL_ATTR_FAMILY_ID_def)
qed

text \<open>
  \<open>cputimer_init\<close> opens and binds a netlink socket, asks the kernel for the family of the
  task statistics, and leaves the timer with the process, the socket, the number of the family
  found after the name in the answer, and an empty message.
\<close>

lemma cputimer_init_run:
  assumes k: "accepting N sent tries" and tm: "timers s timer = Some tm" "length (msg_buf (timer_msg tm)) = MAX_MSG_SIZE"
    and sock: "nl_socket N AF_NETLINK SOCK_RAW NETLINK_GENERIC (world s) = (sd, w1)" "0 \<le> sd" "nl_bind N sd w1 = (r, w2)" "0 \<le> r"
    and reply: "\<And>w. sent w = sent w2 @ family_request (tm\<lparr>timer_pid := nl_getpid N (world s), nl_sd := sd\<rparr>) \<Longrightarrow>
      \<exists>m w'. family_reply fid m \<and> nl_recv N sd sizeof_ans w = ((int (length m), m), w')"
    and fid: "fid \<noteq> 0"
  shows "\<exists>w. cputimer_init N timer s = Inr ((), s\<lparr>world := w, timers := (timers s)(timer \<mapsto>
    \<lparr>timer_pid = nl_getpid N (world s), timer_msg = zero_msg, nl_sd = sd, timer_id = fid\<rparr>)\<rparr>)"
proof -
  let ?tm = "tm\<lparr>timer_pid := nl_getpid N (world s), nl_sd := sd\<rparr>"
  define t where "t = s\<lparr>world := w2, timers := (timers s)(timer \<mapsto> ?tm)\<rparr>"
  obtain w where "get_family_id N timer t = Inr (int (unat fid), t\<lparr>world := w\<rparr>)"
    using family_id_run [OF k, of t timer ?tm fid] tm(2) reply by (auto simp: t_def)
  moreover have all: "tm\<lparr>timer_pid := p, nl_sd := sd, timer_id := fid, timer_msg := zero_msg\<rparr> =
      \<lparr>timer_pid = p, timer_msg = zero_msg, nl_sd = sd, timer_id = fid\<rparr>" for p by simp
  ultimately show ?thesis using tm sock fid
    by (intro exI [of _ w]) (simp add: cputimer_init_def netlink_sock_new_def run t_def, simp only: all)
qed

text \<open>
  The walk over the nested attributes moves on by their total length instead of the length of
  the last one: the third of them is looked for behind its place, at a distance of the length
  of the first.
\<close>

lemma third_nested_attribute:
  fixes s :: "'w st"
  assumes "nla_type_at sizeof_msgtemplate msg na s = Inr (t1, s)" "nla_len_at sizeof_msgtemplate msg na s = Inr (l1, s)"
    and "nla_type_at sizeof_msgtemplate msg (na + nl_align l1) s = Inr (t2, s)" "nla_len_at sizeof_msgtemplate msg (na + nl_align l1) s = Inr (l2, s)"
    and "t1 \<noteq> 3" "t2 \<noteq> 3" "int (nl_align l1 + nl_align l2) < aggr_len"
  shows "loopM (nested_step N msg aggr_len) (0, na, ts) s =
    loopM (nested_step N msg aggr_len) (int (nl_align l1 + nl_align l2), na + nl_align l1 + nl_align l2 + nl_align l1, ts) s"
proof -
  have stats: "unat TASKSTATS_TYPE_STATS = 3" by (simp add: TASKSTATS_TYPE_STATS_def)
  have "loopM (nested_step N msg aggr_len) (0, na, ts) s = loopM (nested_step N msg aggr_len) (int (nl_align l1), na + nl_align l1, ts) s"
    using assms by (subst loopM_unfold) (simp add: nested_step_def [THEN fun_cong, of _ _ _ "(0, _, _)"] Let_def run stats)
  also have "\<dots> = loopM (nested_step N msg aggr_len) (int (nl_align l1 + nl_align l2), na + nl_align l1 + nl_align l2 + nl_align l1, ts) s"
    using assms by (subst loopM_unfold)
      (simp add: nested_step_def [THEN fun_cong, of _ _ _ "(int _, _, _)"] Let_def run stats nat_add_distrib ac_simps)
  finally show ?thesis .
qed

section \<open>Witnesses\<close>

definition sample_stats :: "u8 list" where
  "sample_stats = replicate 152 0 @ bytes64 7 @ bytes64 3"

text \<open>A kernel that takes sixteen bytes at a time.\<close>

definition sample_netlink :: "kernel netlink" where
  "sample_netlink = \<lparr>nl_getpid = (\<lambda>_. 42), nl_socket = (\<lambda>_ _ _ w. (5, w)), nl_bind = (\<lambda>_ w. (0, w)), nl_close = (\<lambda>_ w. w),
     nl_sendto = (\<lambda>_ buf w. ((min 16 (int (length buf)), 0), w\<lparr>k_netlink := k_netlink w @ take 16 buf\<rparr>)),
     nl_recv = (\<lambda>_ sz w.
       (if sz = sizeof_ans
        then (int (length (family_answer 16 (replicate 10 0) (replicate 4 0) (TASKSTATS_GENL_NAME @ [0]) 24 [])),
          family_answer 16 (replicate 10 0) (replicate 4 0) (TASKSTATS_GENL_NAME @ [0]) 24 [])
        else (int (length (times_answer 24 (replicate 10 0) (replicate 4 0) (replicate 4 0) sample_stats)),
          times_answer 24 (replicate 10 0) (replicate 4 0) (replicate 4 0) sample_stats), w)),
     offset_utime = 152, offset_stime = 160\<rparr>"

definition sample_timer :: s_xbt_cpu_timer where
  "sample_timer = \<lparr>timer_pid = 42, timer_msg = zero_msg, nl_sd = 5, timer_id = 24\<rparr>"

lemma sample_accepting: "accepting sample_netlink k_netlink (\<lambda>_. 0)"
  by (auto simp: accepting_def sample_netlink_def min_def split: if_splits)

lemma sample_timer_msg: "length (msg_buf (timer_msg sample_timer)) = MAX_MSG_SIZE"
  by (simp add: sample_timer_def zero_msg_def)

theorem netlink_send_spec_witness:
  "\<exists>w. netlink_sock_send sample_netlink 24 1 1 [1, 2, 3, 4] 4 0 (sample_st\<lparr>timers := [0 \<mapsto> sample_timer]\<rparr>) =
      Inr ((), sample_st\<lparr>timers := [0 \<mapsto> sample_timer], world := w\<rparr>) \<and>
    k_netlink w = [32, 0, 0, 0, 24, 0, 1, 0, 0, 0, 0, 0, 42, 0, 0, 0, 1, 1, 0, 0, 9, 0, 1, 0, 1, 2, 3, 4, 0, 0, 0, 0]"
proof -
  let ?s = "sample_st\<lparr>timers := [0 \<mapsto> sample_timer]\<rparr>"
  have "request 24 1 1 [1, 2, 3, 4] sample_timer =
      [32, 0, 0, 0, 24, 0, 1, 0, 0, 0, 0, 0, 42, 0, 0, 0, 1, 1, 0, 0, 9, 0, 1, 0, 1, 2, 3, 4, 0, 0, 0, 0]"
    by code_simp
  moreover have four: "Suc (Suc (Suc (Suc 0))) = 4" by simp
  moreover have "k_netlink (world ?s) = []" by (simp add: sample_st_def sample_kernel_def)
  ultimately show ?thesis
    using netlink_send_spec [OF sample_accepting _ sample_timer_msg, of ?s 0 "[1, 2, 3, 4]" 24 1 1] by (simp add: four)
qed

lemma sample_replies:
  "times_reply sample_netlink 7 3 (times_answer 24 (replicate 10 0) (replicate 4 0) (replicate 4 0) sample_stats)"
  "family_reply 24 (family_answer 16 (replicate 10 0) (replicate 4 0) (TASKSTATS_GENL_NAME @ [0]) 24 [])"
proof -
  have t: "time_at 152 sample_stats = 7" "time_at 160 sample_stats = 3" by (simp_all add: time_at_def sample_stats_def)
  have "length sample_stats = 168" by (simp add: sample_stats_def)
  with t show "times_reply sample_netlink 7 3 (times_answer 24 (replicate 10 0) (replicate 4 0) (replicate 4 0) sample_stats)"
    unfolding times_reply_def
    by (intro exI [of _ 24] exI [of _ "replicate 10 0"] exI [of _ "replicate 4 0"] exI [of _ sample_stats])
      (simp add: sample_netlink_def NLMSG_ERROR_def)
  show "family_reply 24 (family_answer 16 (replicate 10 0) (replicate 4 0) (TASKSTATS_GENL_NAME @ [0]) 24 [])"
    unfolding family_reply_def
    by (intro exI [of _ 16] exI [of _ "replicate 10 0"] exI [of _ "replicate 4 0"] exI [of _ "TASKSTATS_GENL_NAME @ [0]"] exI [of _ "[]"])
      (simp add: NLMSG_ERROR_def TASKSTATS_GENL_NAME_def)
qed

lemma sample_recv:
  "\<exists>m w'. times_reply sample_netlink 7 3 m \<and> nl_recv sample_netlink sd sizeof_msgtemplate w = ((int (length m), m), w')"
  "\<exists>m w'. family_reply 24 m \<and> nl_recv sample_netlink sd sizeof_ans w = ((int (length m), m), w')"
proof -
  have "sizeof_msgtemplate \<noteq> sizeof_ans" by (simp add: sizeof_ans_def sizeof_msgtemplate_def nl_sizes)
  then have "nl_recv sample_netlink sd sizeof_msgtemplate w =
      ((int (length (times_answer 24 (replicate 10 0) (replicate 4 0) (replicate 4 0) sample_stats)),
        times_answer 24 (replicate 10 0) (replicate 4 0) (replicate 4 0) sample_stats), w)"
    "nl_recv sample_netlink sd sizeof_ans w =
      ((int (length (family_answer 16 (replicate 10 0) (replicate 4 0) (TASKSTATS_GENL_NAME @ [0]) 24 [])),
        family_answer 16 (replicate 10 0) (replicate 4 0) (TASKSTATS_GENL_NAME @ [0]) 24 []), w)"
    by (simp_all add: sample_netlink_def)
  with sample_replies
  show "\<exists>m w'. times_reply sample_netlink 7 3 m \<and> nl_recv sample_netlink sd sizeof_msgtemplate w = ((int (length m), m), w')"
    "\<exists>m w'. family_reply 24 m \<and> nl_recv sample_netlink sd sizeof_ans w = ((int (length m), m), w')" by blast+
qed

theorem cputimer_get_spec_witness:
  "\<exists>w. cputimer_get sample_netlink 100 [None, None, None] 0 (sample_st\<lparr>timers := [0 \<mapsto> sample_timer]\<rparr>) =
      Inr ([None, Some 7, Some 3], sample_st\<lparr>timers := [0 \<mapsto> sample_timer], world := w\<rparr>)"
  using cputimer_get_spec [OF sample_accepting _ sample_timer_msg, of "sample_st\<lparr>timers := [0 \<mapsto> sample_timer]\<rparr>" 0
      100 "\<lambda>_. 7" "\<lambda>_. 3" "[None, None, None]"] sample_recv(1) by auto

end
