(* ===== verification/Main_Properties.thy ===== *)
theory Main_Properties
  imports Main_Program Timer_Properties Hosts_And_Ports
begin

text \<open>
  The start and the end of the program: from any arguments that name the two files, \<open>main\<close>
  hands a consistent state over to the simulation.
\<close>

section \<open>The timers during the start\<close>

text \<open>A kernel that gives out sockets and answers every request for the family or the times.\<close>

definition serves :: "'w netlink \<Rightarrow> u16 \<Rightarrow> ('w \<Rightarrow> int) \<Rightarrow> ('w \<Rightarrow> int) \<Rightarrow> bool" where
  "serves N fid utime stime \<longleftrightarrow> fid \<noteq> 0 \<and>
     (\<forall>w. \<exists>sd w1 r w2. nl_socket N AF_NETLINK SOCK_RAW NETLINK_GENERIC w = (sd, w1) \<and> 0 \<le> sd \<and> nl_bind N sd w1 = (r, w2) \<and> 0 \<le> r) \<and>
     (\<forall>sd w. \<exists>m w'. family_reply fid m \<and> nl_recv N sd sizeof_ans w = ((int (length m), m), w')) \<and>
     (\<forall>sd w. \<exists>m w'. times_reply N (utime w) (stime w) m \<and> nl_recv N sd sizeof_msgtemplate w = ((int (length m), m), w'))"

lemma init_served:
  assumes k: "accepting N sent tries" "serves N fid utime stime"
    and tm: "timers s timer = Some tm" "length (msg_buf (timer_msg tm)) = MAX_MSG_SIZE"
  shows "\<exists>w sd. cputimer_init N timer s = Inr ((), s\<lparr>world := w, timers := (timers s)(timer \<mapsto>
    \<lparr>timer_pid = nl_getpid N (world s), timer_msg = zero_msg, nl_sd = sd, timer_id = fid\<rparr>)\<rparr>)"
proof -
  obtain sd w1 r w2 where sock: "nl_socket N AF_NETLINK SOCK_RAW NETLINK_GENERIC (world s) = (sd, w1)" "0 \<le> sd" "nl_bind N sd w1 = (r, w2)" "0 \<le> r"
    using k(2) unfolding serves_def by blast
  have "\<exists>m w'. family_reply fid m \<and> nl_recv N sd sizeof_ans w = ((int (length m), m), w')" for w
    using k(2) unfolding serves_def by blast
  moreover have "fid \<noteq> 0" using k(2) by (simp add: serves_def)
  ultimately show ?thesis using cputimer_init_run [OF k(1) tm sock] by blast
qed

lemma zero_msg_size [simp]: "length (msg_buf zero_msg) = MAX_MSG_SIZE"
  by (simp add: zero_msg_def)

lemma get_served:
  assumes k: "accepting N sent tries" "serves N fid utime stime"
    and tm: "timers s timer = Some tm" "length (msg_buf (timer_msg tm)) = MAX_MSG_SIZE" and ts: "length ts = 3"
  shows "\<exists>w w'. cputimer_get N tid ts timer s = Inr (ts[1 := Some (utime w), 2 := Some (stime w)], s\<lparr>world := w'\<rparr>)"
proof -
  have "\<exists>m w'. times_reply N (utime w) (stime w) m \<and> nl_recv N sd sizeof_msgtemplate w = ((int (length m), m), w')" for sd w
    using k(2) unfolding serves_def by blast
  from cputimer_get_run [OF k(1) tm this ts, of tid] show ?thesis by blast
qed

lemma benchmark_run:
  assumes k: "accepting N sent tries" "serves N fid utime stime" and fresh: "timers s (next_ptr s) = None"
  shows "\<exists>r w. benchmark_matrix_product N s = Inr (r, s\<lparr>world := w, next_ptr := Suc (next_ptr s)\<rparr>)"
proof -
  let ?a = "next_ptr s"
  define new where "new tm w = s\<lparr>next_ptr := Suc ?a, world := w, timers := (timers s)(?a \<mapsto> tm)\<rparr>" for tm w
  let ?zero = "\<lparr>timer_pid = 0, timer_msg = zero_msg, nl_sd = 0, timer_id = 0\<rparr>"
  obtain w1 sd where 1: "cputimer_init N ?a (new ?zero (world s)) =
      Inr ((), new \<lparr>timer_pid = nl_getpid N (world s), timer_msg = zero_msg, nl_sd = sd, timer_id = fid\<rparr> w1)"
    (is "_ = Inr ((), new ?tm _)")
    using init_served [OF k, of "new ?zero (world s)" ?a ?zero] by (auto simp: new_def)
  have get: "\<exists>u v w'. cputimer_get N pid ts ?a (new ?tm w) = Inr (ts[1 := Some u, 2 := Some v], new ?tm w')" if "length ts = 3" for pid ts w
  proof -
    have new: "(new ?tm w)\<lparr>world := w'\<rparr> = new ?tm w'" "timers (new ?tm w) ?a = Some ?tm" for w' by (simp_all add: new_def)
    show ?thesis using get_served [OF k new(2) _ that, of pid] unfolding new(1) by (simp, blast)
  qed
  obtain u v w2 where 2: "cputimer_get N (nl_getpid N (world s)) [None, None, None] ?a (new ?tm w1) =
      Inr ([None, Some u, Some v], new ?tm w2)"
    using get [of "[None, None, None]" "nl_getpid N (world s)" w1] by auto
  obtain u' v' w3 where 3: "cputimer_get N (nl_getpid N (world s)) [None, Some u, Some v] ?a (new ?tm w2) =
      Inr ([None, Some u', Some v'], new ?tm w3)"
    using get [of "[None, Some u, Some v]" "nl_getpid N (world s)" w2] by auto
  have "cputimer_exit N ?a (new ?tm w3) = Inr ((), s\<lparr>world := nl_close N sd w3, next_ptr := Suc ?a\<rparr>)"
    using fresh by (simp add: cputimer_exit_def run new_def fun_upd_idem)
  moreover have "cputimer_new s = Inr (?a, new ?zero (world s))" by (simp add: cputimer_new_def run new_def)
  ultimately show ?thesis using 1 2 3
    by (intro exI [of _ "u' + v' - (u + v)"] exI [of _ "nl_close N sd w3"])
      (simp add: benchmark_matrix_product_def run sum_times_def)
qed

section \<open>Options and hosts\<close>

definition valid_option :: "opt \<Rightarrow> bool" where
  "valid_option o1 = (case o1 of Opt_s \<Rightarrow> True | Opt_p a \<Rightarrow> strtof_rest a = [] | Opt_other \<Rightarrow> False)"

lemma parse_options_run:
  assumes "list_all valid_option os"
  shows "parse_options os b s = Inr (b \<or> (\<exists>p. Opt_p p \<in> set os), s\<lparr>strace_option := strace_option s \<or> Opt_s \<in> set os\<rparr>)"
  using assms by (induction os b arbitrary: s rule: parse_options.induct) (auto simp: run valid_option_def str_to_double_def)

lemma keeps_hosts_with_ip:
  "(\<And>h ip p. keeps I (upd_globals (\<lambda>g. g\<lparr>list_host := (list_host g)(MSG_host_get_name E h \<mapsto> \<lparr>host_ip = ip, host_port = Map.empty\<rparr>),
     list_ip := (list_ip g)(p \<mapsto> MSG_host_get_name E h)\<rparr>))) \<Longrightarrow> keeps I (hosts_with_ip E hosts ip_list no)"
  by (induction E hosts ip_list no rule: hosts_with_ip.induct) (auto intro!: keep split: option.split)

lemma keeps_hosts_without_ip:
  "(\<And>h ip p. keeps I (upd_globals (\<lambda>g. g\<lparr>list_host := (list_host g)(MSG_host_get_name E h \<mapsto> \<lparr>host_ip = ip, host_port = Map.empty\<rparr>),
     list_ip := (list_ip g)(p \<mapsto> MSG_host_get_name E h)\<rparr>))) \<Longrightarrow> keeps I (hosts_without_ip E hosts ip_list ip)"
  by (induction E hosts ip_list ip rule: hosts_without_ip.induct) (auto intro!: keep split: option.split)

lemma keeps_init_host_list:
  "(\<And>h ip p. keeps I (upd_globals (\<lambda>g. g\<lparr>list_host := (list_host g)(MSG_host_get_name E h \<mapsto> \<lparr>host_ip = ip, host_port = Map.empty\<rparr>),
     list_ip := (list_ip g)(p \<mapsto> MSG_host_get_name E h)\<rparr>))) \<Longrightarrow> keeps I (init_host_list E)"
  unfolding init_host_list_def
  by (intro keeps_bnd keeps_prod keeps_hosts_with_ip keeps_hosts_without_ip)

lemma init_host_list_effect:
  assumes "init_host_list E s = Inr ((), t)"
  shows "\<exists>g. t = s\<lparr>global_data := g\<rparr>" "ports_wf s \<Longrightarrow> ports_wf t"
proof -
  have "keeps (\<lambda>u. \<exists>g. u = s\<lparr>global_data := g\<rparr>) (init_host_list E)"
    by (rule keeps_init_host_list) (auto simp: keeps_def upd_globals_def run)
  moreover have "s = s\<lparr>global_data := global_data s\<rparr>" by simp
  ultimately show "\<exists>g. t = s\<lparr>global_data := g\<rparr>" using assms unfolding keeps_def by blast
  have "keeps ports_wf (init_host_list E)"
    by (rule keeps_init_host_list) (auto simp: keeps_def upd_globals_def run ports_wf_def)
  from keepsD [OF this _ assms] show "ports_wf s \<Longrightarrow> ports_wf t" by blast
qed

section \<open>From the start to the end\<close>

text \<open>
  A platform of fewer than \<open>2 ^ 32\<close> hosts with different names that SimGrid resolves, where
  the addresses given in the platform file are different and written as \<open>inet_ntoa\<close> does.
\<close>

definition platform_ok :: "'w env \<Rightarrow> bool" where
  "platform_ok E \<longleftrightarrow> length (MSG_hosts_as_dynar E) < 2 ^ 32 \<and>
     distinct (map (MSG_host_get_name E) (MSG_hosts_as_dynar E)) \<and>
     (\<forall>h \<in> set (MSG_hosts_as_dynar E). MSG_get_host_by_name E (MSG_host_get_name E h) = Some h \<and>
        (\<forall>p. MSG_host_get_property_ip E h = Some p \<longrightarrow> p = inet_ntoa (inet_addr p))) \<and>
     distinct (map inet_addr (List.map_filter (MSG_host_get_property_ip E) (MSG_hosts_as_dynar E)))"

lemma main_setup_run:
  assumes kernel: "accepting N sent tries" "serves N fid utime stime"
    and args: "2 \<le> length as" "getopt [] as = (opts, platform # application # rest)" "list_all valid_option opts"
    and platform: "platform_ok E"
    and fresh: "timers s = Map.empty"
  shows "\<exists>A t timer tm. main_setup G E N (program # as) s = Inr ((), t) \<and> addressed E A t \<and> fst ` set A = set (MSG_hosts_as_dynar E) \<and>
    ports_wf t \<and> all_sockets t = [] \<and> comm_list t = [] \<and> strace_option t = (strace_option s \<or> Opt_s \<in> set opts) \<and>
    procs t = procs s \<and> global_timer t = Some timer \<and> timers t = [timer \<mapsto> tm] \<and> timer_id tm = fid"
proof -
  define flop where "flop = (\<exists>p. Opt_p p \<in> set opts)"
  define s1 where "s1 = s\<lparr>strace_option := strace_option s \<or> Opt_s \<in> set opts\<rparr>"
  have 1: "parse_options opts False s = Inr (flop, s1)" using parse_options_run [OF args(3), of False s] by (simp add: flop_def s1_def)
  have "\<exists>r w. benchmark_matrix_product N s1 = Inr (r, s1\<lparr>world := w, next_ptr := Suc (next_ptr s1)\<rparr>)"
    by (rule benchmark_run [OF kernel]) (simp add: s1_def fresh)
  then obtain r w where "benchmark_matrix_product N s1 = Inr (r, s1\<lparr>world := w, next_ptr := Suc (next_ptr s1)\<rparr>)" by blast
  then have "whenM (\<not> flop) (bnd (benchmark_matrix_product N) (\<lambda>_. ret ())) s1 =
      Inr ((), s1\<lparr>world := if flop then world s1 else w, next_ptr := if flop then next_ptr s1 else Suc (next_ptr s1)\<rparr>)"
    by (simp add: run)
  then obtain w2 n2 where 2: "whenM (\<not> flop) (bnd (benchmark_matrix_product N) (\<lambda>_. ret ())) s1 = Inr ((), s1\<lparr>world := w2, next_ptr := n2\<rparr>)"
    by blast
  let ?zero = "\<lparr>timer_pid = 0, timer_msg = zero_msg, nl_sd = 0, timer_id = 0\<rparr>"
  define g where "g = \<lparr>list_host = Map.empty, list_ip = Map.empty, list_translate = Map.empty,
      nb_peek = 0, nb_poke = 0, nb_getregs = 0, nb_setregs = 0, nb_syscall = 0,
      nb_setoptions = 0, nb_detach = 0, nb_geteventmsg = 0\<rparr>"
  define s3 where "s3 = s1\<lparr>world := w2, global_data := g, all_sockets := [], comm_list := [],
    timers := [n2 \<mapsto> ?zero], next_ptr := Suc n2, global_timer := Some n2\<rparr>"
  obtain w4 tm where 4: "cputimer_init N n2 s3 = Inr ((), s3\<lparr>world := w4, timers := [n2 \<mapsto> tm]\<rparr>)" "timer_id tm = fid"
    using init_served [OF kernel, of s3 n2 ?zero] by (auto simp: s3_def intro: that)
  define s5 where "s5 = s3\<lparr>timers := [n2 \<mapsto> tm], world := MSG_create_environment G (Some platform) w4\<rparr>"
  obtain A t where A: "init_host_list E s5 = Inr ((), t)" "addressed E A t" "fst ` set A = set (MSG_hosts_as_dynar E)"
  proof (rule init_host_list_addressed [where s = s5])
    show "length (MSG_hosts_as_dynar E) < 2 ^ 32" "distinct (map (MSG_host_get_name E) (MSG_hosts_as_dynar E))"
      "distinct (map inet_addr (List.map_filter (MSG_host_get_property_ip E) (MSG_hosts_as_dynar E)))"
      "h \<in> set (MSG_hosts_as_dynar E) \<Longrightarrow> MSG_host_get_property_ip E h = Some p \<Longrightarrow> p = inet_ntoa (inet_addr p)" for h p
      using platform unfolding platform_ok_def by blast+
  qed (rule that)
  obtain g' where g': "t = s5\<lparr>global_data := g'\<rparr>" using init_host_list_effect(1) [OF A(1)] ..
  have wf: "ports_wf t" using init_host_list_effect(2) [OF A(1)] by (simp add: s5_def s3_def g_def ports_wf_def)
  let ?t = "t\<lparr>world := MSG_launch_application G (Some application) (world t)\<rparr>"
  have "main_setup G E N (program # as) s = Inr ((), ?t)"
    using args(1,2) 1 2 4(1) A(1) fresh
    by (simp add: main_setup_def Let_def run simterpose_globals_init_def init_socket_gestion_def comm_init_def cputimer_new_def
        file_arguments_def s1_def s3_def s5_def g_def)
  moreover have "addressed E A ?t" "ports_wf ?t" using A(2) wf by (simp_all add: addressed_def ports_wf_def)
  ultimately show ?thesis using A(3) 4(2)
    by (intro exI [of _ A] exI [of _ ?t] exI [of _ n2] exI [of _ tm]) (simp add: g' s5_def s3_def s1_def)
qed

text \<open>
  C6. From the start to the exit code. If the arguments name a platform and an application
  after valid options, \<open>main\<close> sets everything up and starts the simulation in a state in which
  no socket and no communication exists, the tables of ports are well formed, the timer knows its family,
  and every host of the platform has an address by which it is found, with all of its ports
  free. When the simulation ends, and has kept the timer, \<open>main\<close> releases it and the tables
  and returns 0 if the simulation succeeded and 1 otherwise.
\<close>

theorem main_spec:
  assumes kernel: "accepting N sent tries" "serves N fid utime stime"
    and args: "MSG_init G argv = program # as" "2 \<le> length as" "getopt [] as = (opts, platform # application # rest)" "list_all valid_option opts"
    and platform: "platform_ok E"
    and fresh: "timers s = Map.empty"
  shows "\<exists>s0 timer tm. main_setup G E N (MSG_init G argv) s = Inr ((), s0) \<and>
    ports_wf s0 \<and> all_sockets s0 = [] \<and> comm_list s0 = [] \<and> strace_option s0 = (strace_option s \<or> Opt_s \<in> set opts) \<and>
    global_timer s0 = Some timer \<and> timers s0 = [timer \<mapsto> tm] \<and> timer_id tm = fid \<and>
    (\<forall>h \<in> set (MSG_hosts_as_dynar E). port_entry E h s0 = Map.empty \<and>
       (\<exists>ip. get_ip_of_host E h s0 = Inr (ip, s0) \<and> get_host_by_ip E ip s0 = Inr (Some h, s0))) \<and>
    (\<forall>res t. MSG_main G s0 = (res, t) \<longrightarrow> global_timer t = Some timer \<longrightarrow> timers t timer \<noteq> None \<longrightarrow>
       (\<exists>u. main G E N argv s = Inr (if res = MSG_OK then 0 else 1, u) \<and> timers u timer = None \<and>
          list_host (global_data u) = Map.empty \<and> all_sockets u = [] \<and> comm_list u = []))"
proof -
  obtain A s0 timer tm where s0: "main_setup G E N (program # as) s = Inr ((), s0)" "addressed E A s0"
    "fst ` set A = set (MSG_hosts_as_dynar E)" "ports_wf s0" "all_sockets s0 = []" "comm_list s0 = []"
    "strace_option s0 = (strace_option s \<or> Opt_s \<in> set opts)" "global_timer s0 = Some timer" "timers s0 = [timer \<mapsto> tm]" "timer_id tm = fid"
    using main_setup_run [OF kernel args(2-4) platform fresh, of G program] by blast
  have "port_entry E h s0 = Map.empty \<and> (\<exists>ip. get_ip_of_host E h s0 = Inr (ip, s0) \<and> get_host_by_ip E ip s0 = Inr (Some h, s0))"
    if h: "h \<in> set (MSG_hosts_as_dynar E)" for h
  proof -
    from h obtain ip where "(h, ip) \<in> set A" by (auto simp: s0(3) [symmetric])
    moreover have "MSG_get_host_by_name E (MSG_host_get_name E h) = Some h" using platform h by (simp add: platform_ok_def)
    ultimately show ?thesis using s0(2)
      by (auto simp: addressed_def get_ip_of_host_def get_host_by_ip_def port_entry_def run fun_eq_iff intro!: exI [of _ ip])
  qed
  moreover have "\<exists>u. main G E N argv s = Inr (if res = MSG_OK then 0 else 1, u) \<and> timers u timer = None \<and>
      list_host (global_data u) = Map.empty \<and> all_sockets u = [] \<and> comm_list u = []"
    if "MSG_main G s0 = (res, t)" "global_timer t = Some timer" "timers t timer \<noteq> None" for res t
    using that s0(1) args(1)
    by (auto simp: main_def main_exit_def exit_global_timer_def cputimer_exit_def comm_exit_def socket_exit_def
        simterpose_globals_exit_def run)
  ultimately show ?thesis using s0 args(1)
    by (intro exI [of _ s0] exI [of _ timer] exI [of _ tm]) simp
qed

section \<open>Witness\<close>

definition sample_engine :: "kernel engine" where
  "sample_engine = \<lparr>MSG_init = (\<lambda>a. a), MSG_create_environment = (\<lambda>_ w. w), MSG_launch_application = (\<lambda>_ w. w),
     MSG_main = (\<lambda>s. (MSG_OK, s)), MSG_process_killall = (\<lambda>w. w), MSG_processes_data = (\<lambda>_. []), MSG_self_data = (\<lambda>_. None),
     PTRACE_TRACEME = Some, personality_no_randomize = (\<lambda>w. w), kill_self_stop = (\<lambda>w. w), execv = (\<lambda>_ w. (True, w))\<rparr>"

lemma sample_serves: "serves sample_netlink 24 (\<lambda>_. 7) (\<lambda>_. 3)"
  using sample_recv by (simp add: serves_def) (simp add: sample_netlink_def)

theorem main_spec_witness:
  "\<exists>u. main sample_engine sample_env sample_netlink [''simterpose'', ''-s'', ''-p'', ''1e9'', ''p.xml'', ''d.xml''] sample_st = Inr (0, u) \<and>
     list_host (global_data u) = Map.empty"
proof -
  have args: "getopt [] [''-s'', ''-p'', ''1e9'', ''p.xml'', ''d.xml''] = ([Opt_s, Opt_p ''1e9''], [''p.xml'', ''d.xml''])"
    "list_all valid_option [Opt_s, Opt_p ''1e9'']"
    by (code_simp, code_simp)
  have "inet_ntoa 1 = ''1.0.0.0''"
    by (simp add: inet_ntoa_def le_bytes4 digits.simps digit_char_def)
  then have "inet_ntoa (inet_addr ''1.0.0.0'') = ''1.0.0.0''" using inet_addr_inet_ntoa [of 1] by simp
  then have platform: "platform_ok sample_env"
    by (simp add: platform_ok_def sample_env_def List.map_filter_simps)
  have "timers sample_st = Map.empty" by (simp add: sample_st_def)
  from main_spec [OF sample_accepting sample_serves _ _ args platform this, of sample_engine
      "[''simterpose'', ''-s'', ''-p'', ''1e9'', ''p.xml'', ''d.xml'']" "''simterpose''"]
  show ?thesis by (auto simp: sample_engine_def)
qed

end
