(* ===== verification/Timetravel.thy ===== *)
theory Timetravel
  imports Ptrace_Utils
begin

unbundle bit_operations_syntax

text \<open>
  \<open>timetravel.c\<close>, the experiment that the interception of time started from: a program that
  runs another one under \<open>ptrace\<close> and multiplies the times that it is told by a factor. The
  requests to the kernel are those of the simulator, and a few of its own.
\<close>

section \<open>The program\<close>

record 'w tracer =
  TRACEME :: "'w \<Rightarrow> 'w option"
  PEEKUSER :: "int \<Rightarrow> u64 \<Rightarrow> 'w \<Rightarrow> u64 option"
  stop_self :: "'w \<Rightarrow> 'w"
  exec_path :: "string \<Rightarrow> string list \<Rightarrow> 'w \<Rightarrow> bool \<times> 'w"
  errno_text :: "'w \<Rightarrow> string"

text \<open>The kernel and what has been written to standard error.\<close>

record 'w tt =
  tt_world :: 'w
  tt_err :: string

text \<open>The program returns, or another one has taken its place.\<close>

datatype ending = Returned int | Replaced

definition SYSCALL_NUM :: u64 where "SYSCALL_NUM = 15"
definition SYSCALL_RET :: u64 where "SYSCALL_RET = 10"
definition SYS_gettimeofday :: u64 where "SYS_gettimeofday = 96"
definition SYS_clock_gettime :: u64 where "SYS_clock_gettime = 228"

definition WIFEXITED :: "u32 \<Rightarrow> bool" where
  "WIFEXITED status \<longleftrightarrow> status AND 0x7F = 0"

definition eprint :: "string \<Rightarrow> ('w tt, unit) M" where
  "eprint x = modify (\<lambda>s. s\<lparr>tt_err := tt_err s @ x\<rparr>)"

definition perror :: "'w tracer \<Rightarrow> string \<Rightarrow> ('w tt, unit) M" where
  "perror K x = modify (\<lambda>s. s\<lparr>tt_err := tt_err s @ x @ '': '' @ errno_text K (tt_world s) @ ''\<newline>''\<rparr>)"

text \<open>A request that fails returns \<open>-1\<close>, which the program takes for the value.\<close>

definition peek_user :: "'w tracer \<Rightarrow> int \<Rightarrow> u64 \<Rightarrow> ('w tt, u64) M" where
  "peek_user K pid off = gets (\<lambda>s. case PEEKUSER K pid off (tt_world s) of Some v \<Rightarrow> v | None \<Rightarrow> - 1)"

definition peek_word :: "'w env \<Rightarrow> int \<Rightarrow> u64 \<Rightarrow> ('w tt, u64) M" where
  "peek_word E pid a = gets (\<lambda>s. case PTRACE_PEEKDATA E pid a (tt_world s) of Some v \<Rightarrow> v | None \<Rightarrow> - 1)"

definition poke_word :: "'w env \<Rightarrow> int \<Rightarrow> u64 \<Rightarrow> u64 \<Rightarrow> ('w tt, unit) M" where
  "poke_word E pid a v = modify (\<lambda>s. case PTRACE_POKEDATA E pid a v (tt_world s) of Some w \<Rightarrow> s\<lparr>tt_world := w\<rparr> | None \<Rightarrow> s)"

text \<open>The local variables that one round of the loop leaves to the next.\<close>

record locals =
  lv_insyscall :: int
  lv_status :: "u32 option"
  lv_regs :: "user_regs option"

text \<open>\<open>PTRACE_GETREGS\<close> that fails leaves \<open>regs\<close> as it is.\<close>

definition get_regs :: "'w env \<Rightarrow> int \<Rightarrow> user_regs option \<Rightarrow> ('w tt, user_regs) M" where
  "get_regs E pid old =
     bnd (gets (\<lambda>s. PTRACE_GETREGS E pid (tt_world s))) (\<lambda>new.
     case (if new = None then old else new) of Some r \<Rightarrow> ret r | None \<Rightarrow> fail Uninitialised)"

text \<open>The line of the debugging output; the products wrap around as on the processor.\<close>

definition report :: "string \<Rightarrow> string \<Rightarrow> u64 \<Rightarrow> u64 \<Rightarrow> int \<Rightarrow> ('w tt, unit) M" where
  "report name part sec frac factor =
     eprint (name @ '': sec='' @ sprintf_d (sint sec) @ '', '' @ part @ ''='' @ sprintf_d (sint frac) @ '' --> '' @
       sprintf_d (sint (sec * word_of_int factor)) @ '', '' @ sprintf_d (sint (frac * word_of_int factor)) @ '' \<newline>'')"

definition gettimeofday_stop :: "'w env \<Rightarrow> 'w tracer \<Rightarrow> int \<Rightarrow> int \<Rightarrow> locals \<Rightarrow> ('w tt, locals) M" where
  "gettimeofday_stop E K pid factor l =
     (if lv_insyscall l = 0 then ret (l\<lparr>lv_insyscall := 1\<rparr>)
      else
        bnd (get_regs E pid (lv_regs l)) (\<lambda>regs.
        bnd (peek_word E pid (rdi regs)) (\<lambda>sec.
        bnd (peek_word E pid (rdi regs + 8)) (\<lambda>usec.
        bnd (peek_user K pid (8 * SYSCALL_RET)) (\<lambda>retval.
        block_ret (l\<lparr>lv_insyscall := 0, lv_regs := Some regs\<rparr>) [
          report ''gettimeofday'' ''usec'' sec usec factor,
          poke_word E pid (rdi regs) (sec * word_of_int factor),
          poke_word E pid (rdi regs + 8) (usec * word_of_int factor)])))))"

definition clock_gettime_stop :: "'w env \<Rightarrow> 'w tracer \<Rightarrow> int \<Rightarrow> int \<Rightarrow> locals \<Rightarrow> ('w tt, locals) M" where
  "clock_gettime_stop E K pid factor l =
     (if lv_insyscall l = 0 then ret (l\<lparr>lv_insyscall := 1\<rparr>)
      else
        bnd (get_regs E pid (lv_regs l)) (\<lambda>regs.
        bnd (peek_word E pid (rsi regs)) (\<lambda>sec.
        bnd (peek_word E pid (rsi regs + 8)) (\<lambda>nsec.
        bnd (peek_user K pid (8 * SYSCALL_RET)) (\<lambda>retval.
        block_ret (l\<lparr>lv_insyscall := 0, lv_regs := Some regs\<rparr>) [
          report ''clock_gettime'' ''nsec'' sec nsec factor,
          poke_word E pid (rsi regs) (sec * word_of_int factor),
          poke_word E pid (rsi regs + 8) (nsec * word_of_int factor)])))))"

text \<open>\<open>waitpid\<close> that fails leaves \<open>status\<close> as it is.\<close>

definition wait_stop :: "'w env \<Rightarrow> int \<Rightarrow> u32 option \<Rightarrow> ('w tt, u32) M" where
  "wait_stop E pid old = (\<lambda>s.
     let ((r, status), w) = sys_waitpid E pid (tt_world s) in
     case (if r = - 1 then old else Some status) of
       Some x \<Rightarrow> Inr (x, s\<lparr>tt_world := w\<rparr>)
     | None \<Rightarrow> Inl Uninitialised)"

text \<open>One round: \<open>Inr True\<close> leaves the loop by \<open>break\<close>, \<open>Inr False\<close> by \<open>return\<close>.\<close>

definition trace_step :: "'w env \<Rightarrow> 'w tracer \<Rightarrow> int \<Rightarrow> int \<Rightarrow> locals \<Rightarrow> ('w tt, locals + bool) M" where
  "trace_step E K pid factor l =
     bnd (wait_stop E pid (lv_status l)) (\<lambda>status.
     if WIFEXITED status then ret (Inr True)
     else
       bnd (peek_user K pid (8 * SYSCALL_NUM)) (\<lambda>syscallno.
       bnd (let l' = l\<lparr>lv_status := Some status\<rparr> in
            if syscallno = SYS_gettimeofday then gettimeofday_stop E K pid factor l'
            else if syscallno = SYS_clock_gettime then clock_gettime_stop E K pid factor l'
            else ret l') (\<lambda>l'.
       bnd (gets (\<lambda>s. PTRACE_SYSCALL E pid (tt_world s))) (\<lambda>resumed.
       case resumed of
         None \<Rightarrow> sq (perror K ''resume: ptrace(PTRACE_SYSCALL, ...)'') (ret (Inr False))
       | Some w \<Rightarrow> sq (modify (\<lambda>s. s\<lparr>tt_world := w\<rparr>)) (ret (Inl l'))))))"

definition EXIT_SUCCESS :: int where "EXIT_SUCCESS = 0"
definition EXIT_FAILURE :: int where "EXIT_FAILURE = 1"

definition trace_parent :: "'w env \<Rightarrow> 'w tracer \<Rightarrow> int \<Rightarrow> int \<Rightarrow> ('w tt, ending) M" where
  "trace_parent E K pid factor =
     bnd (loopM (trace_step E K pid factor) \<lparr>lv_insyscall = 0, lv_status = None, lv_regs = None\<rparr>) (\<lambda>exited.
     if exited then
       sq (modify (\<lambda>s. case PTRACE_DETACH E pid (tt_world s) of Some w \<Rightarrow> s\<lparr>tt_world := w\<rparr> | None \<Rightarrow> s))
         (ret (Returned EXIT_SUCCESS))
     else ret (Returned EXIT_FAILURE))"

definition trace_child :: "'w tracer \<Rightarrow> string \<Rightarrow> string list \<Rightarrow> ('w tt, ending) M" where
  "trace_child K executable args =
     bnd (gets (\<lambda>s. TRACEME K (tt_world s))) (\<lambda>r.
     case r of
       None \<Rightarrow> sq (perror K ''ptrace(PTRACE_TRACEME, ...)'') (ret (Returned EXIT_FAILURE))
     | Some w \<Rightarrow>
         sq (modify (\<lambda>s. s\<lparr>tt_world := stop_self K w\<rparr>))
         (bnd (\<lambda>s. let (ok, w) = exec_path K executable args (tt_world s) in Inr (ok, s\<lparr>tt_world := w\<rparr>)) (\<lambda>ok.
          if ok then ret Replaced else sq (perror K executable) (fail (Exit_program 1)))))"

definition timetravel :: "'w env \<Rightarrow> 'w tracer \<Rightarrow> string list \<Rightarrow> ('w tt, ending) M" where
  "timetravel E K argv =
     (if length argv < 3 then
        sq (eprint (''usage: '' @ (if argv = [] then ''(null)'' else hd argv) @ '' factor executable\<newline>'')) (ret (Returned EXIT_FAILURE))
      else
        let factor = atoi (argv ! 1); executable = argv ! 2 in
        sq (eprint (''Multiplying gettimeofday and clock_gettime syscalls by '' @ sprintf_d factor @ '' \<newline>\<newline>''))
        (bnd (\<lambda>s. let (pid, w) = sys_fork E (tt_world s) in Inr (pid, s\<lparr>tt_world := w\<rparr>)) (\<lambda>pid.
         if pid = - 1 then sq (perror K ''couldn't fork'') (ret (Returned EXIT_FAILURE))
         else if pid = 0 then trace_child K executable (drop 3 argv)
         else trace_parent E K pid factor)))"

section \<open>What the traced program is told\<close>

text \<open>
  The stops of the traced program, as the kernel knows them: at the entry and at the exit of a
  system call, for a signal, and the end.
\<close>

datatype stop = Entry | Exit | Signal | Gone

definition time_call :: "user_regs \<Rightarrow> bool" where
  "time_call r \<longleftrightarrow> orig_rax r = SYS_gettimeofday \<or> orig_rax r = SYS_clock_gettime"

text \<open>Where a call has stored the time.\<close>

definition time_address :: "user_regs \<Rightarrow> u64" where
  "time_address r = (if orig_rax r = SYS_gettimeofday then rdi r else rsi r)"

definition next_stop :: "'w env \<Rightarrow> int \<Rightarrow> 'w \<Rightarrow> 'w" where
  "next_stop E pid w = snd (sys_waitpid E pid w)"

text \<open>
  The kernel. Memory and registers of the traced program can be read, \<open>waitpid\<close> tells its
  end, storing to the memory changes neither the registers nor the kind of the stop, and the
  program can be resumed at each stop. After the entry of one of the two calls comes its exit (or
  the end), and no other stop looks like the exit of one of them; in particular, no signal
  arrives between two system calls the first of which has asked for the time.
\<close>

definition orderly :: "'w env \<Rightarrow> 'w tracer \<Rightarrow> int \<Rightarrow> ('w \<Rightarrow> mem) \<Rightarrow> ('w \<Rightarrow> user_regs) \<Rightarrow> ('w \<Rightarrow> stop) \<Rightarrow> bool" where
  "orderly E K pid mem regs kind \<longleftrightarrow> tracee_memory E pid mem \<and>
     (\<forall>w. PTRACE_GETREGS E pid w = Some (regs w)) \<and>
     (\<forall>w. PEEKUSER K pid (8 * SYSCALL_NUM) w = Some (orig_rax (regs w))) \<and>
     (\<forall>a v w w'. PTRACE_POKEDATA E pid a v w = Some w' \<longrightarrow> regs w' = regs w \<and> kind w' = kind w) \<and>
     (\<forall>w r x w'. sys_waitpid E pid w = ((r, x), w') \<longrightarrow> r \<noteq> - 1 \<and> (WIFEXITED x \<longleftrightarrow> kind w' = Gone)) \<and>
     (\<forall>w. kind w \<noteq> Gone \<longrightarrow> (\<exists>v. PTRACE_SYSCALL E pid w = Some v \<and>
        (let w' = next_stop E pid v in kind w' = Gone \<or>
         (if kind w = Entry \<and> time_call (regs w) then kind w' = Exit \<and> orig_rax (regs w') = orig_rax (regs w)
          else kind w' = Entry \<or> \<not> time_call (regs w')))))"

text \<open>At the exit of a call both words of the time are multiplied; then the program goes on to its next stop.\<close>

definition poke_world :: "'w env \<Rightarrow> int \<Rightarrow> u64 \<Rightarrow> u64 \<Rightarrow> 'w \<Rightarrow> 'w" where
  "poke_world E pid a v w = (case PTRACE_POKEDATA E pid a v w of Some w' \<Rightarrow> w' | None \<Rightarrow> w)"

definition time_exit :: "('w \<Rightarrow> user_regs) \<Rightarrow> ('w \<Rightarrow> stop) \<Rightarrow> 'w \<Rightarrow> bool" where
  "time_exit regs kind w \<longleftrightarrow> kind w = Exit \<and> time_call (regs w)"

definition told :: "'w env \<Rightarrow> int \<Rightarrow> int \<Rightarrow> ('w \<Rightarrow> mem) \<Rightarrow> ('w \<Rightarrow> user_regs) \<Rightarrow> ('w \<Rightarrow> stop) \<Rightarrow> 'w \<Rightarrow> 'w" where
  "told E pid factor mem regs kind w =
     (if time_exit regs kind w then
        let a = time_address (regs w) in
        poke_world E pid (a + 8) (peek_mem (mem w) (a + 8) * word_of_int factor)
          (poke_world E pid a (peek_mem (mem w) a * word_of_int factor) w)
      else w)"

definition goes_on :: "'w env \<Rightarrow> int \<Rightarrow> int \<Rightarrow> ('w \<Rightarrow> mem) \<Rightarrow> ('w \<Rightarrow> user_regs) \<Rightarrow> ('w \<Rightarrow> stop) \<Rightarrow> 'w \<Rightarrow> 'w" where
  "goes_on E pid factor mem regs kind w = next_stop E pid (the (PTRACE_SYSCALL E pid (told E pid factor mem regs kind w)))"

lemma orderly_poke:
  assumes "orderly E K pid mem regs kind"
  shows "PTRACE_POKEDATA E pid a v w = Some (poke_world E pid a v w)" "mem (poke_world E pid a v w) = poke_mem a v (mem w)"
    "regs (poke_world E pid a v w) = regs w" "kind (poke_world E pid a v w) = kind w"
proof -
  from assms obtain w' where w: "PTRACE_POKEDATA E pid a v w = Some w'" "mem w' = poke_mem a v (mem w)"
    unfolding orderly_def tracee_memory_def by blast
  then show "PTRACE_POKEDATA E pid a v w = Some (poke_world E pid a v w)" "mem (poke_world E pid a v w) = poke_mem a v (mem w)"
    by (simp_all add: poke_world_def)
  then show "regs (poke_world E pid a v w) = regs w" "kind (poke_world E pid a v w) = kind w"
    using assms unfolding orderly_def by blast+
qed

lemma told_keeps:
  assumes "orderly E K pid mem regs kind"
  shows "regs (told E pid factor mem regs kind w) = regs w" "kind (told E pid factor mem regs kind w) = kind w"
  by (simp_all add: told_def Let_def orderly_poke [OF assms])

lemma told_memory:
  assumes "orderly E K pid mem regs kind" "time_exit regs kind w" "a = time_address (regs w)"
  shows "mem (told E pid factor mem regs kind w) =
    write_bytes a (bytes64 (peek_mem (mem w) a * word_of_int factor) @ bytes64 (peek_mem (mem w) (a + 8) * word_of_int factor)) (mem w)"
  using assms(2,3) write_bytes_append [of "bytes64 x" "bytes64 y" a "mem w" for x y]
  by (simp add: told_def Let_def orderly_poke [OF assms(1)] poke_mem_def)

text \<open>What the variable \<open>insyscall\<close> means at a stop.\<close>

definition in_step :: "('w \<Rightarrow> user_regs) \<Rightarrow> ('w \<Rightarrow> stop) \<Rightarrow> int \<Rightarrow> 'w \<Rightarrow> bool" where
  "in_step regs kind n w \<longleftrightarrow> kind w = Gone \<or> n = 1 \<and> time_exit regs kind w \<or> n = 0 \<and> (kind w = Entry \<or> \<not> time_call (regs w))"

lemma goes_on_in_step:
  assumes ok: "orderly E K pid mem regs kind" and "kind w \<noteq> Gone"
  shows "PTRACE_SYSCALL E pid (told E pid factor mem regs kind w) = Some (the (PTRACE_SYSCALL E pid (told E pid factor mem regs kind w)))"
    "in_step regs kind (if kind w = Entry \<and> time_call (regs w) then 1 else 0) (goes_on E pid factor mem regs kind w)"
proof -
  let ?w = "told E pid factor mem regs kind w"
  have "kind ?w \<noteq> Gone" using assms told_keeps [OF ok] by simp
  then obtain v where v: "PTRACE_SYSCALL E pid ?w = Some v" "let w' = next_stop E pid v in kind w' = Gone \<or>
     (if kind ?w = Entry \<and> time_call (regs ?w) then kind w' = Exit \<and> orig_rax (regs w') = orig_rax (regs ?w)
      else kind w' = Entry \<or> \<not> time_call (regs w'))"
    using ok unfolding orderly_def by blast
  then show "PTRACE_SYSCALL E pid ?w = Some (the (PTRACE_SYSCALL E pid ?w))"
    "in_step regs kind (if kind w = Entry \<and> time_call (regs w) then 1 else 0) (goes_on E pid factor mem regs kind w)"
    by (auto simp: Let_def told_keeps [OF ok] goes_on_def in_step_def time_exit_def time_call_def split: if_splits)
qed

text \<open>One of the two calls at a stop.\<close>

definition time_stop :: "'w env \<Rightarrow> 'w tracer \<Rightarrow> int \<Rightarrow> int \<Rightarrow> locals \<Rightarrow> u64 \<Rightarrow> ('w tt, locals) M" where
  "time_stop E K pid factor l n =
     (if n = SYS_gettimeofday then gettimeofday_stop E K pid factor l
      else if n = SYS_clock_gettime then clock_gettime_stop E K pid factor l else ret l)"

lemma time_stop_run:
  assumes ok: "orderly E K pid mem regs kind" and k: "kind (tt_world s) \<noteq> Gone" "in_step regs kind (lv_insyscall l) (tt_world s)"
  shows "\<exists>l' t. time_stop E K pid factor l (orig_rax (regs (tt_world s))) s = Inr (l', t) \<and>
    lv_insyscall l' = (if kind (tt_world s) = Entry \<and> time_call (regs (tt_world s)) then 1 else 0) \<and>
    tt_world t = told E pid factor mem regs kind (tt_world s)"
proof -
  have get: "PTRACE_GETREGS E pid w = Some (regs w)" "PTRACE_PEEKDATA E pid a w = Some (peek_mem (mem w) a)" for a w
    using ok by (simp_all add: orderly_def tracee_memory_def)
  have apart: "SYS_clock_gettime \<noteq> SYS_gettimeofday" by (simp add: SYS_clock_gettime_def SYS_gettimeofday_def)
  from k consider "lv_insyscall l = 1" "time_exit regs kind (tt_world s)"
    | "lv_insyscall l = 0" "kind (tt_world s) = Entry" | "lv_insyscall l = 0" "\<not> time_call (regs (tt_world s))"
    by (auto simp: in_step_def)
  then show ?thesis
  proof cases
    case 1
    then show ?thesis
      using apart by (auto simp: time_stop_def gettimeofday_stop_def clock_gettime_stop_def get_regs_def peek_word_def peek_user_def
        poke_word_def report_def eprint_def run get orderly_poke [OF ok] told_def time_address_def Let_def time_exit_def time_call_def)
  next
    case 2
    then show ?thesis
      using apart by (auto simp: time_stop_def gettimeofday_stop_def clock_gettime_stop_def run told_def time_exit_def time_call_def)
  next
    case 3
    then show ?thesis by (auto simp: time_stop_def run told_def time_exit_def time_call_def)
  qed
qed

lemma trace_step_run:
  assumes ok: "orderly E K pid mem regs kind" and w: "w = next_stop E pid (tt_world s)" and l: "in_step regs kind (lv_insyscall l) w"
  shows "kind w = Gone \<Longrightarrow> \<exists>t. trace_step E K pid factor l s = Inr (Inr True, t) \<and> tt_world t = w"
    "kind w \<noteq> Gone \<Longrightarrow> \<exists>l' t. trace_step E K pid factor l s = Inr (Inl l', t) \<and>
      next_stop E pid (tt_world t) = goes_on E pid factor mem regs kind w \<and>
      in_step regs kind (lv_insyscall l') (goes_on E pid factor mem regs kind w)"
proof -
  obtain r x where wait: "sys_waitpid E pid (tt_world s) = ((r, x), w)" using w by (metis next_stop_def prod.collapse)
  then have x: "r \<noteq> - 1" "WIFEXITED x \<longleftrightarrow> kind w = Gone" using ok unfolding orderly_def by blast+
  then have status: "wait_stop E pid old s = Inr (x, s\<lparr>tt_world := w\<rparr>)" for old
    by (simp add: wait_stop_def wait)
  then show "\<exists>t. trace_step E K pid factor l s = Inr (Inr True, t) \<and> tt_world t = w" if "kind w = Gone"
    using x that by (simp add: trace_step_def run)
  assume k: "kind w \<noteq> Gone"
  have no: "PEEKUSER K pid (8 * SYSCALL_NUM) w = Some (orig_rax (regs w))" using ok by (simp add: orderly_def)
  obtain l' t where t: "time_stop E K pid factor (l\<lparr>lv_status := Some x\<rparr>) (orig_rax (regs w)) (s\<lparr>tt_world := w\<rparr>) = Inr (l', t)"
    "lv_insyscall l' = (if kind w = Entry \<and> time_call (regs w) then 1 else 0)" "tt_world t = told E pid factor mem regs kind w"
    using time_stop_run [OF ok, of "s\<lparr>tt_world := w\<rparr>" "l\<lparr>lv_status := Some x\<rparr>" factor] k l by auto
  note on = goes_on_in_step [OF ok k, of factor]
  then obtain v where v: "PTRACE_SYSCALL E pid (tt_world t) = Some v" using t(3) by auto
  have "trace_step E K pid factor l s = Inr (Inl l', t\<lparr>tt_world := v\<rparr>)"
    using x(2) k t(1) v
    by (simp add: trace_step_def run status peek_user_def no time_stop_def [symmetric] Let_def)
  then show "\<exists>l' t. trace_step E K pid factor l s = Inr (Inl l', t) \<and>
      next_stop E pid (tt_world t) = goes_on E pid factor mem regs kind w \<and>
      in_step regs kind (lv_insyscall l') (goes_on E pid factor mem regs kind w)"
    using on(2) t(2,3) v by (auto simp: goes_on_def)
qed

lemma trace_loop_run:
  assumes ok: "orderly E K pid mem regs kind"
    and w: "w = next_stop E pid (tt_world s)" "in_step regs kind (lv_insyscall l) w"
    and k: "kind ((goes_on E pid factor mem regs kind ^^ k) w) = Gone" "\<forall>j<k. kind ((goes_on E pid factor mem regs kind ^^ j) w) \<noteq> Gone"
  shows "\<exists>t. loopM (trace_step E K pid factor) l s = Inr (True, t) \<and> tt_world t = (goes_on E pid factor mem regs kind ^^ k) w"
  using w k
proof (induction k arbitrary: l s w)
  case 0
  then show ?case using trace_step_run(1) [OF ok 0(1,2), of factor] by (subst loopM_unfold) auto
next
  case (Suc k)
  have "kind w \<noteq> Gone" using Suc.prems(4) by (metis funpow_0 zero_less_Suc)
  from trace_step_run(2) [OF ok Suc.prems(1,2) this, of factor] obtain l' t where t:
      "trace_step E K pid factor l s = Inr (Inl l', t)" "goes_on E pid factor mem regs kind w = next_stop E pid (tt_world t)"
      "in_step regs kind (lv_insyscall l') (goes_on E pid factor mem regs kind w)"
    by auto
  have "\<forall>j<k. kind ((goes_on E pid factor mem regs kind ^^ j) (goes_on E pid factor mem regs kind w)) \<noteq> Gone"
    using Suc.prems(4) by (metis Suc_less_eq comp_apply funpow_Suc_right)
  moreover have "kind ((goes_on E pid factor mem regs kind ^^ k) (goes_on E pid factor mem regs kind w)) = Gone"
    using Suc.prems(3) by (simp add: funpow_swap1)
  ultimately show ?case
    using Suc.IH [OF t(2,3)] t(1) by (subst loopM_unfold) (simp add: funpow_swap1)
qed

text \<open>
  C22. The whole program. When the kernel gives the stops of the traced program in order and
  the program ends after \<open>k\<close> of them, \<open>timetravel\<close> returns with success. At every exit of
  \<open>gettimeofday\<close> or \<open>clock_gettime\<close> before, and nowhere else, it has multiplied both words of
  the time by the factor, and changed no other byte of the memory. The smaller unit is
  multiplied without a carry into the seconds.
\<close>

theorem timetravel_spec:
  assumes argv: "3 \<le> length argv" "factor = atoi (argv ! 1)"
    and fork: "sys_fork E (tt_world s) = (pid, w)" "pid \<noteq> - 1" "pid \<noteq> 0"
    and ok: "orderly E K pid mem regs kind"
    and first: "first = next_stop E pid w" "\<not> time_call (regs first)"
    and stops: "\<And>j. stop_at j = (goes_on E pid factor mem regs kind ^^ j) first"
    and k: "kind (stop_at k) = Gone" "\<forall>j<k. kind (stop_at j) \<noteq> Gone"
  shows "(\<exists>t. timetravel E K argv s = Inr (Returned EXIT_SUCCESS, t) \<and>
      tt_world t = (case PTRACE_DETACH E pid (stop_at k) of Some u \<Rightarrow> u | None \<Rightarrow> stop_at k)) \<and>
    (\<forall>j<k. let u = stop_at j; v = told E pid factor mem regs kind u; a = time_address (regs u) in
      stop_at (Suc j) = next_stop E pid (the (PTRACE_SYSCALL E pid v)) \<and>
      (if kind u = Exit \<and> time_call (regs u) then
         mem v = write_bytes a (bytes64 (peek_mem (mem u) a * word_of_int factor) @
           bytes64 (peek_mem (mem u) (a + 8) * word_of_int factor)) (mem u)
       else v = u))"
proof (rule conjI)
  let ?s = "s\<lparr>tt_err := tt_err s @ ''Multiplying gettimeofday and clock_gettime syscalls by '' @ sprintf_d factor @ '' \<newline>\<newline>'', tt_world := w\<rparr>"
  obtain t where t: "loopM (trace_step E K pid factor) \<lparr>lv_insyscall = 0, lv_status = None, lv_regs = None\<rparr> ?s = Inr (True, t)"
      "tt_world t = stop_at k"
    using trace_loop_run [OF ok, where w = first and s = ?s and l = "\<lparr>lv_insyscall = 0, lv_status = None, lv_regs = None\<rparr>"
        and factor = factor and k = k] first k
    by (auto simp: in_step_def stops)
  then show "\<exists>t. timetravel E K argv s = Inr (Returned EXIT_SUCCESS, t) \<and>
      tt_world t = (case PTRACE_DETACH E pid (stop_at k) of Some u \<Rightarrow> u | None \<Rightarrow> stop_at k)"
    using argv fork by (auto simp: timetravel_def eprint_def run trace_parent_def Let_def split: option.split)
  show "\<forall>j<k. let u = stop_at j; v = told E pid factor mem regs kind u; a = time_address (regs u) in
      stop_at (Suc j) = next_stop E pid (the (PTRACE_SYSCALL E pid v)) \<and>
      (if kind u = Exit \<and> time_call (regs u) then
         mem v = write_bytes a (bytes64 (peek_mem (mem u) a * word_of_int factor) @
           bytes64 (peek_mem (mem u) (a + 8) * word_of_int factor)) (mem u)
       else v = u)"
    using told_memory [OF ok] by (auto simp: Let_def stops goes_on_def time_exit_def told_def)
qed

section \<open>A traced program\<close>

text \<open>
  A program that asks for the time once, with the structure at the address 4096, and ends: it
  has been resumed \<open>n\<close> times at the stop number \<open>n\<close>.
\<close>

definition demo_kind :: "kernel \<Rightarrow> stop" where
  "demo_kind w = (if length (k_running w) = 0 then Signal else if length (k_running w) = 1 then Entry
     else if length (k_running w) = 2 then Exit else Gone)"

definition demo_regs :: "kernel \<Rightarrow> user_regs" where
  "demo_regs w = sample_regs\<lparr>orig_rax := (if length (k_running w) = 0 then 62 else SYS_gettimeofday), rdi := 4096\<rparr>"

definition demo_env :: "kernel env" where
  "demo_env = sample_env\<lparr>PTRACE_GETREGS := (\<lambda>_ w. Some (demo_regs w)),
     PTRACE_SYSCALL := (\<lambda>pid w. Some (w\<lparr>k_running := pid # k_running w\<rparr>)),
     sys_waitpid := (\<lambda>pid w. ((pid, if demo_kind w = Gone then 0 else 0x57F), w)), sys_fork := (\<lambda>w. (100, w))\<rparr>"

definition demo_tracer :: "kernel tracer" where
  "demo_tracer = \<lparr>TRACEME = Some, PEEKUSER = (\<lambda>_ off w. Some (if off = 8 * SYSCALL_NUM then orig_rax (demo_regs w) else 0)),
     stop_self = (\<lambda>w. w), exec_path = (\<lambda>_ _ w. (False, w)), errno_text = (\<lambda>_. ''Success'')\<rparr>"

definition demo_tt :: "kernel tt" where
  "demo_tt = \<lparr>tt_world = sample_kernel\<lparr>k_running := [], k_mem := poke_mem 4096 5 (\<lambda>_. 0)\<rparr>, tt_err = []\<rparr>"

lemma demo_orderly: "orderly demo_env demo_tracer 100 k_mem demo_regs demo_kind"
  unfolding orderly_def tracee_memory_def
  by (auto simp: demo_env_def demo_tracer_def sample_env_def demo_regs_def demo_kind_def next_stop_def WIFEXITED_def Let_def
    time_call_def SYS_gettimeofday_def SYS_clock_gettime_def split: if_splits)

lemma peek_write_bytes:
  assumes "length bs + 8 \<le> 2 ^ 64"
  shows "peek_mem (write_bytes a (bytes64 v @ bs) m) a = v"
proof -
  have "read_bytes (write_bytes a (bytes64 v @ bs) m) a (8 + length bs) = bytes64 v @ bs"
    using read_write_bytes [of "bytes64 v @ bs" a m] assms by (simp add: add.commute)
  then show ?thesis by (simp add: read_bytes_add peek_mem_def)
qed

lemma demo_steps:
  "length (k_running (goes_on demo_env 100 3 k_mem demo_regs demo_kind w)) = Suc (length (k_running w))"
  "k_mem (goes_on demo_env 100 3 k_mem demo_regs demo_kind w) = k_mem (told demo_env 100 3 k_mem demo_regs demo_kind w)"
  by (simp_all add: goes_on_def demo_env_def next_stop_def told_def poke_world_def sample_env_def Let_def)

theorem timetravel_spec_witness:
  "\<exists>t. timetravel demo_env demo_tracer [''timetravel'', ''3'', ''temps''] demo_tt = Inr (Returned EXIT_SUCCESS, t) \<and>
    peek_mem (k_mem (tt_world t)) 4096 = 15"
proof -
  let ?at = "\<lambda>j. (goes_on demo_env 100 3 k_mem demo_regs demo_kind ^^ j) (tt_world demo_tt)"
  have len: "length (k_running (?at j)) = j" for j
    by (induction j) (simp_all add: demo_steps, simp add: demo_tt_def)
  have kind: "demo_kind (?at j) = (if j = 0 then Signal else if j = 1 then Entry else if j = 2 then Exit else Gone)" for j
    by (simp add: demo_kind_def len del: length_0_conv)
  have regs: "demo_regs (?at 2) = sample_regs\<lparr>orig_rax := SYS_gettimeofday, rdi := 4096\<rparr>"
    by (simp add: demo_regs_def len del: length_0_conv)
  have mem: "k_mem (?at 2) = poke_mem 4096 5 (\<lambda>_. 0)"
    using kind [of 0] kind [of 1] by (simp add: numeral_2_eq_2 demo_steps told_def time_exit_def) (simp add: demo_tt_def)
  have pre: "3 \<le> length [''timetravel'', ''3'', ''temps'']" "3 = atoi ([''timetravel'', ''3'', ''temps''] ! 1)"
    "sys_fork demo_env (tt_world demo_tt) = (100, tt_world demo_tt)" "(100 :: int) \<noteq> - 1" "(100 :: int) \<noteq> 0"
    "tt_world demo_tt = next_stop demo_env 100 (tt_world demo_tt)" "\<not> time_call (demo_regs (tt_world demo_tt))"
    "demo_kind (?at 3) = Gone" "\<forall>j<3. demo_kind (?at j) \<noteq> Gone"
    using len [of 0] by (simp_all add: kind) (simp_all add: demo_env_def next_stop_def time_call_def demo_regs_def SYS_gettimeofday_def
      SYS_clock_gettime_def atoi_def strtol10_def isspace_def isdigit_def num_val_def dval_def)
  from timetravel_spec [OF pre(1-5) demo_orderly pre(6,7) refl pre(8,9)]
  obtain t where t: "timetravel demo_env demo_tracer [''timetravel'', ''3'', ''temps''] demo_tt = Inr (Returned EXIT_SUCCESS, t)"
      "tt_world t = ?at 3" "k_mem (told demo_env 100 3 k_mem demo_regs demo_kind (?at 2)) =
        write_bytes 4096 (bytes64 (peek_mem (k_mem (?at 2)) 4096 * 3) @ bytes64 (peek_mem (k_mem (?at 2)) (4096 + 8) * 3)) (k_mem (?at 2))"
    using kind [of 2] regs by (auto simp: demo_env_def sample_env_def Let_def time_call_def time_address_def SYS_gettimeofday_def)
  have "k_mem (?at 3) = k_mem (told demo_env 100 3 k_mem demo_regs demo_kind (?at 2))"
    by (simp add: numeral_3_eq_3 numeral_2_eq_2 demo_steps)
  then show ?thesis using t mem peek_write_bytes [of "[]" 4096 5 "\<lambda>_. 0"] by (simp add: peek_write_bytes poke_mem_def)
qed

end
