(* ===== verification/Pthread_Preload.thy ===== *)
theory Pthread_Preload
  imports C_Library
begin

unbundle bit_operations_syntax

text \<open>
  \<open>mdfpthread.c\<close>, the experiment with interception by a library that is loaded before the C
  library: six functions of the threads library are replaced by wrappers, which announce the
  call and hand it on to the function that they have replaced.
\<close>

section \<open>The wrappers\<close>

text \<open>
  What the dynamic linker finds behind the library under a name (\<open>dlsym(RTLD_NEXT, ...)\<close>), and
  what a call of a function by its address returns and does to the process.
\<close>

record 'w linked =
  dlsym_next :: "string \<Rightarrow> u64 option"
  call_create :: "u64 \<Rightarrow> u64 \<Rightarrow> u64 \<Rightarrow> u64 \<Rightarrow> u64 \<Rightarrow> 'w \<Rightarrow> int \<times> 'w"
  call_mutex :: "u64 \<Rightarrow> u64 \<Rightarrow> 'w \<Rightarrow> int \<times> 'w"
  call_init :: "u64 \<Rightarrow> u64 \<Rightarrow> u64 \<Rightarrow> 'w \<Rightarrow> int \<times> 'w"

text \<open>The static variables of the wrappers, \<open>None\<close> for \<open>NULL\<close>, the standard streams, and the process.\<close>

record 'w loaded =
  real_pthread_create :: "u64 option"
  real_pthread_mutex_destroy :: "u64 option"
  real_pthread_mutex_lock :: "u64 option"
  real_pthread_mutex_trylock :: "u64 option"
  real_pthread_mutex_unlock :: "u64 option"
  real_pthread_mutex_init :: "u64 option"
  l_out :: string
  l_err :: string
  l_world :: 'w

definition print_out :: "string \<Rightarrow> ('w loaded, unit) M" where
  "print_out x = modify (\<lambda>s. s\<lparr>l_out := l_out s @ x\<rparr>)"

definition print_err :: "string \<Rightarrow> ('w loaded, unit) M" where
  "print_err x = modify (\<lambda>s. s\<lparr>l_err := l_err s @ x\<rparr>)"

text \<open>A call of a function by its address.\<close>

definition call_real :: "('w \<Rightarrow> int \<times> 'w) \<Rightarrow> ('w loaded, int) M" where
  "call_real f = (\<lambda>s. let (r, w) = f (l_world s) in Inr (r, s\<lparr>l_world := w\<rparr>))"

record real_args =
  ra_arg :: u64
  ra_fn :: u64

definition pthread_create :: "'w linked \<Rightarrow> u64 \<Rightarrow> u64 \<Rightarrow> u64 \<Rightarrow> u64 \<Rightarrow> ('w loaded, int) M" where
  "pthread_create C thread attr start_routine arg =
     sq (print_out ''Intercepted pthread_create\<newline>'')
     (let args = \<lparr>ra_arg = arg, ra_fn = start_routine\<rparr> in
      sq (bnd (gets real_pthread_create) (\<lambda>real. whenM (real = None)
            (case dlsym_next C ''pthread_create'' of
               None \<Rightarrow> sq (print_err ''dlsym(pthread_create) failed\<newline>'') (fail (Exit_program 1))
             | Some f \<Rightarrow> modify (\<lambda>s. s\<lparr>real_pthread_create := Some f\<rparr>))))
      (bnd (bnd (gets real_pthread_create) nonnull) (\<lambda>f.
       call_real (call_create C f thread attr (ra_fn args) (ra_arg args)))))"

definition pthread_mutex_destroy :: "'w linked \<Rightarrow> u64 \<Rightarrow> ('w loaded, int) M" where
  "pthread_mutex_destroy C mutex =
     sq (print_out ''Intercepted pthread_mutex_destroy\<newline>'')
     (sq (bnd (gets real_pthread_mutex_destroy) (\<lambda>real. whenM (real = None)
            (case dlsym_next C ''pthread_mutex_destroy'' of
               None \<Rightarrow> sq (print_err ''dlsym(pthread_mutex_destroy) failed\<newline>'') (fail (Exit_program 1))
             | Some f \<Rightarrow> modify (\<lambda>s. s\<lparr>real_pthread_mutex_destroy := Some f\<rparr>))))
      (bnd (bnd (gets real_pthread_mutex_destroy) nonnull) (\<lambda>f.
       call_real (call_mutex C f mutex))))"

definition pthread_mutex_lock :: "'w linked \<Rightarrow> u64 \<Rightarrow> ('w loaded, int) M" where
  "pthread_mutex_lock C mutex =
     sq (print_out ''Intercepted pthread_mutex_lock\<newline>'')
     (sq (bnd (gets real_pthread_mutex_lock) (\<lambda>real. whenM (real = None)
            (case dlsym_next C ''pthread_mutex_lock'' of
               None \<Rightarrow> sq (print_err ''dlsym(pthread_mutex_lock) failed\<newline>'') (fail (Exit_program 1))
             | Some f \<Rightarrow> modify (\<lambda>s. s\<lparr>real_pthread_mutex_lock := Some f\<rparr>))))
      (bnd (bnd (gets real_pthread_mutex_lock) nonnull) (\<lambda>f.
       call_real (call_mutex C f mutex))))"

definition pthread_mutex_trylock :: "'w linked \<Rightarrow> u64 \<Rightarrow> ('w loaded, int) M" where
  "pthread_mutex_trylock C mutex =
     sq (print_out ''Intercepted pthread_mutex_trylock\<newline>'')
     (sq (bnd (gets real_pthread_mutex_trylock) (\<lambda>real. whenM (real = None)
            (case dlsym_next C ''pthread_mutex_trylock'' of
               None \<Rightarrow> sq (print_err ''dlsym(pthread_mutex_trylock) failed\<newline>'') (fail (Exit_program 1))
             | Some f \<Rightarrow> modify (\<lambda>s. s\<lparr>real_pthread_mutex_trylock := Some f\<rparr>))))
      (bnd (bnd (gets real_pthread_mutex_trylock) nonnull) (\<lambda>f.
       call_real (call_mutex C f mutex))))"

definition pthread_mutex_unlock :: "'w linked \<Rightarrow> u64 \<Rightarrow> ('w loaded, int) M" where
  "pthread_mutex_unlock C mutex =
     sq (print_out ''Intercepted pthread_mutex_unlock\<newline>'')
     (sq (bnd (gets real_pthread_mutex_unlock) (\<lambda>real. whenM (real = None)
            (case dlsym_next C ''pthread_mutex_unlock'' of
               None \<Rightarrow> sq (print_err ''dlsym(pthread_mutex_unlock) failed\<newline>'') (fail (Exit_program 1))
             | Some f \<Rightarrow> modify (\<lambda>s. s\<lparr>real_pthread_mutex_unlock := Some f\<rparr>))))
      (bnd (bnd (gets real_pthread_mutex_unlock) nonnull) (\<lambda>f.
       call_real (call_mutex C f mutex))))"

definition pthread_mutex_init :: "'w linked \<Rightarrow> u64 \<Rightarrow> u64 \<Rightarrow> ('w loaded, int) M" where
  "pthread_mutex_init C mutex attr =
     sq (print_out ''Intercepted pthread_mutex_init\<newline>'')
     (sq (bnd (gets real_pthread_mutex_init) (\<lambda>real. whenM (real = None)
            (case dlsym_next C ''pthread_mutex_init'' of
               None \<Rightarrow> sq (print_err ''dlsym(pthread_mutex_init) failed\<newline>'') (fail (Exit_program 1))
             | Some f \<Rightarrow> modify (\<lambda>s. s\<lparr>real_pthread_mutex_init := Some f\<rparr>))))
      (bnd (bnd (gets real_pthread_mutex_init) nonnull) (\<lambda>f.
       call_real (call_init C f mutex attr))))"

section \<open>The contract of a wrapper\<close>

text \<open>The calls that are intercepted, the functions that they are meant for, and the calls of these.\<close>

datatype pcall = Create u64 u64 u64 u64 | Destroy u64 | Lock u64 | Trylock u64 | Unlock u64 | Init u64 u64

fun symbol :: "pcall \<Rightarrow> string" where
  "symbol (Create t a f x) = ''pthread_create''"
| "symbol (Destroy m) = ''pthread_mutex_destroy''"
| "symbol (Lock m) = ''pthread_mutex_lock''"
| "symbol (Trylock m) = ''pthread_mutex_trylock''"
| "symbol (Unlock m) = ''pthread_mutex_unlock''"
| "symbol (Init m a) = ''pthread_mutex_init''"

fun invoke :: "'w linked \<Rightarrow> pcall \<Rightarrow> u64 \<Rightarrow> 'w \<Rightarrow> int \<times> 'w" where
  "invoke C (Create t a f x) real = call_create C real t a f x"
| "invoke C (Destroy m) real = call_mutex C real m"
| "invoke C (Lock m) real = call_mutex C real m"
| "invoke C (Trylock m) real = call_mutex C real m"
| "invoke C (Unlock m) real = call_mutex C real m"
| "invoke C (Init m a) real = call_init C real m a"

definition message :: "pcall \<Rightarrow> string" where
  "message c = ''Intercepted '' @ symbol c @ ''\<newline>''"

text \<open>A static variable is \<open>NULL\<close> or holds what the linker finds.\<close>

definition statics_ok :: "'w linked \<Rightarrow> 'w loaded \<Rightarrow> bool" where
  "statics_ok C s \<longleftrightarrow>
     real_pthread_create s \<in> {None, dlsym_next C ''pthread_create''} \<and>
     real_pthread_mutex_destroy s \<in> {None, dlsym_next C ''pthread_mutex_destroy''} \<and>
     real_pthread_mutex_lock s \<in> {None, dlsym_next C ''pthread_mutex_lock''} \<and>
     real_pthread_mutex_trylock s \<in> {None, dlsym_next C ''pthread_mutex_trylock''} \<and>
     real_pthread_mutex_unlock s \<in> {None, dlsym_next C ''pthread_mutex_unlock''} \<and>
     real_pthread_mutex_init s \<in> {None, dlsym_next C ''pthread_mutex_init''}"

text \<open>
  A wrapper with the static variable \<open>cached\<close>, which \<open>fill\<close> sets: it announces the call;
  it looks the function up if it has not done so before, and stops the process if there is
  none; and it calls the function.
\<close>

locale interposed =
  fixes C :: "'w linked" and c :: pcall and wrapper :: "('w loaded, int) M"
    and cached :: "'w loaded \<Rightarrow> u64 option" and fill :: "u64 \<Rightarrow> 'w loaded \<Rightarrow> 'w loaded"
  assumes again: "cached s = Some f \<Longrightarrow> wrapper s = call_real (invoke C c f) (s\<lparr>l_out := l_out s @ message c\<rparr>)"
    and at_first: "cached s = None \<Longrightarrow> dlsym_next C (symbol c) = Some f \<Longrightarrow>
      wrapper s = call_real (invoke C c f) (fill f (s\<lparr>l_out := l_out s @ message c\<rparr>))"
    and missing: "cached s = None \<Longrightarrow> dlsym_next C (symbol c) = None \<Longrightarrow> wrapper s = Inl (Exit_program 1)"
    and found: "statics_ok C s \<Longrightarrow> cached s \<in> {None, dlsym_next C (symbol c)}"
    and filled: "statics_ok C s \<Longrightarrow> dlsym_next C (symbol c) = Some f \<Longrightarrow> statics_ok C (fill f s)"
      "l_world (fill f s) = l_world s" "l_out (fill f s) = l_out s" "l_err (fill f s) = l_err s"
begin

lemma forwards:
  assumes "statics_ok C s" "dlsym_next C (symbol c) = Some f"
  shows "\<exists>t. wrapper s = Inr (fst (invoke C c f (l_world s)), t) \<and> l_world t = snd (invoke C c f (l_world s)) \<and>
    l_out t = l_out s @ message c \<and> l_err t = l_err s \<and> statics_ok C t"
proof (cases "cached s")
  case None
  have "statics_ok C (s\<lparr>l_out := l_out s @ message c\<rparr>)" using assms(1) by (simp add: statics_ok_def)
  then show ?thesis
    using at_first [OF None assms(2)] filled assms(2)
    by (auto simp: call_real_def split_beta statics_ok_def)
next
  case (Some g)
  then have "g = f" using found [OF assms(1)] assms(2) by auto
  then show ?thesis using again [OF Some] assms(1) by (auto simp: call_real_def split_beta statics_ok_def)
qed

lemma gives_up:
  assumes "statics_ok C s" "dlsym_next C (symbol c) = None"
  shows "wrapper s = Inl (Exit_program 1)"
  using found [OF assms(1)] assms(2) by (intro missing) auto

end

lemmas wrapper_simps = run print_out_def print_err_def message_def statics_ok_def
  pthread_create_def pthread_mutex_destroy_def pthread_mutex_lock_def pthread_mutex_trylock_def pthread_mutex_unlock_def pthread_mutex_init_def

interpretation create: interposed C "Create t a f x" "pthread_create C t a f x" real_pthread_create
    "\<lambda>g s. s\<lparr>real_pthread_create := Some g\<rparr>" for C t a f x
  by unfold_locales (auto simp: wrapper_simps Let_def)

interpretation destroy: interposed C "Destroy m" "pthread_mutex_destroy C m" real_pthread_mutex_destroy
    "\<lambda>g s. s\<lparr>real_pthread_mutex_destroy := Some g\<rparr>" for C m
  by unfold_locales (auto simp: wrapper_simps Let_def)

interpretation lock: interposed C "Lock m" "pthread_mutex_lock C m" real_pthread_mutex_lock
    "\<lambda>g s. s\<lparr>real_pthread_mutex_lock := Some g\<rparr>" for C m
  by unfold_locales (auto simp: wrapper_simps Let_def)

interpretation trylock: interposed C "Trylock m" "pthread_mutex_trylock C m" real_pthread_mutex_trylock
    "\<lambda>g s. s\<lparr>real_pthread_mutex_trylock := Some g\<rparr>" for C m
  by unfold_locales (auto simp: wrapper_simps Let_def)

interpretation unlock: interposed C "Unlock m" "pthread_mutex_unlock C m" real_pthread_mutex_unlock
    "\<lambda>g s. s\<lparr>real_pthread_mutex_unlock := Some g\<rparr>" for C m
  by unfold_locales (auto simp: wrapper_simps Let_def)

interpretation init: interposed C "Init m a" "pthread_mutex_init C m a" real_pthread_mutex_init
    "\<lambda>g s. s\<lparr>real_pthread_mutex_init := Some g\<rparr>" for C m a
  by unfold_locales (auto simp: wrapper_simps Let_def)

section \<open>Calls one after another\<close>

fun intercept :: "'w linked \<Rightarrow> pcall \<Rightarrow> ('w loaded, int) M" where
  "intercept C (Create t a f x) = pthread_create C t a f x"
| "intercept C (Destroy m) = pthread_mutex_destroy C m"
| "intercept C (Lock m) = pthread_mutex_lock C m"
| "intercept C (Trylock m) = pthread_mutex_trylock C m"
| "intercept C (Unlock m) = pthread_mutex_unlock C m"
| "intercept C (Init m a) = pthread_mutex_init C m a"

fun run_intercepted :: "'w linked \<Rightarrow> pcall list \<Rightarrow> ('w loaded, int list) M" where
  "run_intercepted C [] = ret []"
| "run_intercepted C (c # cs) = bnd (intercept C c) (\<lambda>r. bnd (run_intercepted C cs) (\<lambda>rs. ret (r # rs)))"

text \<open>The same calls in a process without the library.\<close>

fun run_direct :: "'w linked \<Rightarrow> pcall list \<Rightarrow> 'w \<Rightarrow> int list \<times> 'w" where
  "run_direct C [] w = ([], w)"
| "run_direct C (c # cs) w =
     (let (r, v) = invoke C c (the (dlsym_next C (symbol c))) w; (rs, u) = run_direct C cs v in (r # rs, u))"

lemma intercept_forwards:
  assumes "statics_ok C s" "dlsym_next C (symbol c) = Some f"
  shows "\<exists>t. intercept C c s = Inr (fst (invoke C c f (l_world s)), t) \<and> l_world t = snd (invoke C c f (l_world s)) \<and>
    l_out t = l_out s @ message c \<and> l_err t = l_err s \<and> statics_ok C t"
  using assms create.forwards destroy.forwards lock.forwards trylock.forwards unlock.forwards init.forwards
  by (cases c) (simp_all only: intercept.simps)

lemma intercept_gives_up:
  assumes "statics_ok C s" "dlsym_next C (symbol c) = None"
  shows "intercept C c s = Inl (Exit_program 1)"
  using assms create.gives_up destroy.gives_up lock.gives_up trylock.gives_up unlock.gives_up init.gives_up
  by (cases c) (simp_all only: intercept.simps)

text \<open>
  C31. The library is transparent. When the linker finds the functions of a sequence of calls, the
  calls return through the wrappers what they return without the library and do the same to
  the process; the announcements are written in the order of the calls. If it does not find
  one of them, the process is stopped with the status 1.
\<close>

theorem preload_transparent:
  assumes "statics_ok C s"
  shows "if \<forall>c\<in>set cs. dlsym_next C (symbol c) \<noteq> None
    then \<exists>t. run_intercepted C cs s = Inr (fst (run_direct C cs (l_world s)), t) \<and> l_world t = snd (run_direct C cs (l_world s)) \<and>
      l_out t = l_out s @ concat (map message cs) \<and> l_err t = l_err s \<and> statics_ok C t
    else run_intercepted C cs s = Inl (Exit_program 1)"
  using assms
proof (induction cs arbitrary: s)
  case Nil
  then show ?case by (simp add: run)
next
  case (Cons c cs)
  show ?case
  proof (cases "dlsym_next C (symbol c)")
    case None
    then show ?thesis using intercept_gives_up [OF Cons.prems] by (simp add: run)
  next
    case (Some f)
    from intercept_forwards [OF Cons.prems Some] obtain t where t: "intercept C c s = Inr (fst (invoke C c f (l_world s)), t)"
        "l_world t = snd (invoke C c f (l_world s))" "l_out t = l_out s @ message c" "l_err t = l_err s" "statics_ok C t"
      by blast
    show ?thesis using Cons.IH [OF t(5)] t(1-4) Some by (auto simp: run split_beta split: if_splits)
  qed
qed

definition demo_linked :: "u64 linked" where
  "demo_linked = \<lparr>dlsym_next = (\<lambda>x. if x = ''pthread_mutex_lock'' then Some 1 else if x = ''pthread_mutex_unlock'' then Some 2 else None),
     call_create = (\<lambda>_ _ _ _ _ w. (0, w)), call_mutex = (\<lambda>f m w. if f = 1 then (0, w OR m) else (0, w AND NOT m)), call_init = (\<lambda>_ _ _ w. (0, w))\<rparr>"

definition demo_loaded :: "u64 loaded" where
  "demo_loaded = \<lparr>real_pthread_create = None, real_pthread_mutex_destroy = None, real_pthread_mutex_lock = None, real_pthread_mutex_trylock = None,
     real_pthread_mutex_unlock = None, real_pthread_mutex_init = None, l_out = [], l_err = [], l_world = 0\<rparr>"

theorem preload_transparent_witness:
  "(\<exists>t. run_intercepted demo_linked [Lock 4, Lock 8, Unlock 4] demo_loaded = Inr ([0, 0, 0], t) \<and> l_world t = 8) \<and>
   run_intercepted demo_linked [Lock 4, Trylock 4] demo_loaded = Inl (Exit_program 1)"
proof -
  have "statics_ok demo_linked demo_loaded" by (simp add: statics_ok_def demo_loaded_def)
  from preload_transparent [OF this, of "[Lock 4, Lock 8, Unlock 4]"] preload_transparent [OF this, of "[Lock 4, Trylock 4]"]
  show ?thesis by (auto simp: demo_linked_def demo_loaded_def)
qed

end
